(* ===== verification/Prelude.thy ===== *)
theory Prelude
  imports Main
begin

text \<open>
  The shared vocabulary of the development.

  A Go function that talks to the outside is a state transformer \<open>('s, 'a) run\<close>: it changes a state
  and its outcome is the value the Go function returns or a run-time panic (a nil dereference). For
  the API client the state is the outside world. For a controller it is a record \<open>st\<close> that holds the world outside the
  process (\<open>'w\<close>: the Kubernetes API server and the Latitude.sh API), the object under
  reconciliation that the code reaches through one pointer (\<open>'o\<close>), the events recorded so far
  and a trace of the calls made to the Latitude.sh client and to the patch helper (\<open>'c\<close>).

  The proof vocabulary: \<open>costs p n m\<close> says that \<open>m\<close> appends to the trace at most \<open>n\<close> calls
  that satisfy \<open>p\<close>, \<open>keeps P m\<close> that \<open>m\<close> preserves \<open>P\<close>, and \<open>wp m Q\<close> is the weakest
  precondition of \<open>m\<close> for \<open>Q\<close>.
\<close>

section \<open>Outcomes, events and the state of one reconciliation\<close>

datatype 'a outcome = Ok 'a | Panic

record k8s_event =
  Event_Type :: string
  Event_Reason :: string
  Event_Message :: string

record ('w, 'o, 'c) st =
  world :: 'w
  object :: 'o
  events :: "k8s_event list"
  calls :: "'c list"

type_synonym ('s, 'a) run = "'s \<Rightarrow> 'a outcome \<times> 's"

type_synonym ('w, 'o, 'c, 'a) go = "(('w, 'o, 'c) st, 'a) run"

named_theorems go_defs "unfolding rules of the primitive operations"
named_theorems cost_rules "bounds on the calls an operation appends to the trace"
named_theorems keep_rules "preservation rules"
named_theorems wp_rules "weakest preconditions of the primitive operations"

definition go_return :: "'a \<Rightarrow> ('s, 'a) run" where
  "go_return x = (\<lambda>s. (Ok x, s))"

definition go_panic :: "('s, 'a) run" where
  "go_panic = (\<lambda>s. (Panic, s))"

definition go_bind :: "('s, 'a) run \<Rightarrow> ('a \<Rightarrow> ('s, 'b) run) \<Rightarrow> ('s, 'b) run" where
  "go_bind m f = (\<lambda>s. case m s of (Ok x, t) \<Rightarrow> f x t | (Panic, t) \<Rightarrow> (Panic, t))"

definition go_then :: "('s, 'a) run \<Rightarrow> ('s, 'b) run \<Rightarrow> ('s, 'b) run" where
  "go_then m n = go_bind m (\<lambda>_. n)"

text \<open>A function that returns a plain result, run on the state it acts on.\<close>

definition lift_run :: "('s \<Rightarrow> 'a \<times> 's) \<Rightarrow> ('s, 'a) run" where
  "lift_run f = (\<lambda>s. case f s of (r, t) \<Rightarrow> (Ok r, t))"

text \<open>Reading and writing the object behind the pointer.\<close>

definition get_object :: "('w, 'o, 'c, 'o) go" where
  "get_object = (\<lambda>s. (Ok (object s), s))"

definition set_object :: "('o \<Rightarrow> 'o) \<Rightarrow> ('w, 'o, 'c, unit) go" where
  "set_object f = (\<lambda>s. (Ok (), s\<lparr>object := f (object s)\<rparr>))"

text \<open>A call that only reads the outside (it may still see the world move on).\<close>

definition query :: "('w \<Rightarrow> 'a \<times> 'w) \<Rightarrow> ('w, 'o, 'c, 'a) go" where
  "query f = (\<lambda>s. case f (world s) of (r, w) \<Rightarrow> (Ok r, s\<lparr>world := w\<rparr>))"

text \<open>A call that may change the outside: it is recorded in the trace and it may panic.\<close>

definition call :: "'c \<Rightarrow> ('w \<Rightarrow> 'a outcome \<times> 'w) \<Rightarrow> ('w, 'o, 'c, 'a) go" where
  "call c f = (\<lambda>s. case f (world s) of (r, w) \<Rightarrow> (r, s\<lparr>world := w, calls := calls s @ [c]\<rparr>))"

definition emit :: "string \<Rightarrow> string \<Rightarrow> string \<Rightarrow> ('w, 'o, 'c, unit) go" where
  "emit ty reason msg = (\<lambda>s. (Ok (), s\<lparr>events := events s @
     [\<lparr>Event_Type = ty, Event_Reason = reason, Event_Message = msg\<rparr>]\<rparr>))"

lemmas go_prim_defs [go_defs] =
  go_return_def go_panic_def go_bind_def go_then_def lift_run_def get_object_def set_object_def
  query_def call_def emit_def

lemma go_bind_assoc: "go_bind (go_bind m f) g = go_bind m (\<lambda>x. go_bind (f x) g)"
  by (rule ext) (simp add: go_bind_def split: prod.split outcome.split)

lemma go_bind_return: "go_bind (go_return x) f = f x"
  by (rule ext) (simp add: go_bind_def go_return_def)

section \<open>Weakest preconditions\<close>

definition wp :: "('s, 'a) run \<Rightarrow> ('a outcome \<Rightarrow> 's \<Rightarrow> bool) \<Rightarrow> 's \<Rightarrow> bool" where
  "wp m Q s = (case m s of (r, t) \<Rightarrow> Q r t)"

lemma wp_return [wp_rules]: "wp (go_return x) Q s = Q (Ok x) s"
  by (simp add: wp_def go_defs)

lemma wp_panic [wp_rules]: "wp go_panic Q s = Q Panic s"
  by (simp add: wp_def go_defs)

lemma wp_bind [wp_rules]:
  "wp (go_bind m f) Q s = wp m (\<lambda>r t. case r of Ok x \<Rightarrow> wp (f x) Q t | Panic \<Rightarrow> Q Panic t) s"
  by (auto simp: wp_def go_bind_def split: prod.splits outcome.splits)

lemma wp_then [wp_rules]:
  "wp (go_then m n) Q s = wp m (\<lambda>r t. case r of Ok x \<Rightarrow> wp n Q t | Panic \<Rightarrow> Q Panic t) s"
  by (simp add: go_then_def wp_bind)

lemma wp_lift_run [wp_rules]: "wp (lift_run f) Q s = Q (Ok (fst (f s))) (snd (f s))"
  by (simp add: wp_def go_defs split: prod.splits)

lemma wp_get_object [wp_rules]: "wp get_object Q s = Q (Ok (object s)) s"
  by (simp add: wp_def go_defs)

lemma wp_set_object [wp_rules]: "wp (set_object f) Q s = Q (Ok ()) (s\<lparr>object := f (object s)\<rparr>)"
  by (simp add: wp_def go_defs)

lemma wp_emit [wp_rules]:
  "wp (emit ty re ms) Q s = Q (Ok ()) (s\<lparr>events := events s @
     [\<lparr>Event_Type = ty, Event_Reason = re, Event_Message = ms\<rparr>]\<rparr>)"
  by (simp add: wp_def go_defs)

lemma wp_query [wp_rules]:
  "wp (query f) Q s = Q (Ok (fst (f (world s)))) (s\<lparr>world := snd (f (world s))\<rparr>)"
  by (simp add: wp_def go_defs split: prod.splits)

lemma wp_call [wp_rules]:
  "wp (call c f) Q s =
     Q (fst (f (world s))) (s\<lparr>world := snd (f (world s)), calls := calls s @ [c]\<rparr>)"
  by (simp add: wp_def go_defs split: prod.splits)

lemma wp_mono: "wp m P s \<Longrightarrow> (\<And>r t. P r t \<Longrightarrow> Q r t) \<Longrightarrow> wp m Q s"
  by (auto simp: wp_def split: prod.splits)

lemma wp_conj: "wp m P s \<Longrightarrow> wp m Q s \<Longrightarrow> wp m (\<lambda>r t. P r t \<and> Q r t) s"
  by (auto simp: wp_def split: prod.splits)

lemma wpD: "wp m Q s \<Longrightarrow> m s = (r, t) \<Longrightarrow> Q r t"
  by (simp add: wp_def)

lemma wpI: "(\<And>r t. m s = (r, t) \<Longrightarrow> Q r t) \<Longrightarrow> wp m Q s"
  by (auto simp: wp_def split: prod.splits)

section \<open>Preservation\<close>

definition keeps :: "('s \<Rightarrow> bool) \<Rightarrow> ('s, 'a) run \<Rightarrow> bool" where
  "keeps P m \<longleftrightarrow> (\<forall>s. P s \<longrightarrow> P (snd (m s)))"

lemma keepsI: "(\<And>s. P s \<Longrightarrow> P (snd (m s))) \<Longrightarrow> keeps P m"
  by (simp add: keeps_def)

lemma keepsD: "keeps P m \<Longrightarrow> P s \<Longrightarrow> m s = (r, t) \<Longrightarrow> P t"
  by (auto simp: keeps_def dest: spec [where x = s])

lemma keeps_return [keep_rules]: "keeps P (go_return x)"
  by (simp add: keeps_def go_defs)

lemma keeps_panic [keep_rules]: "keeps P go_panic"
  by (simp add: keeps_def go_defs)

lemma keeps_get_object [keep_rules]: "keeps P get_object"
  by (simp add: keeps_def go_defs)

lemma keeps_bind [keep_rules]:
  assumes m: "keeps P m" and f: "\<And>x. keeps P (f x)"
  shows "keeps P (go_bind m f)"
proof (rule keepsI)
  fix s
  assume "P s"
  obtain r t where ms: "m s = (r, t)" by fastforce
  from m \<open>P s\<close> ms have "P t" by (rule keepsD)
  then show "P (snd (go_bind m f s))"
    using ms f by (cases r) (auto simp: go_bind_def keeps_def)
qed

lemma keeps_then [keep_rules]: "keeps P m \<Longrightarrow> keeps P n \<Longrightarrow> keeps P (go_then m n)"
  unfolding go_then_def by (rule keeps_bind)

lemma keeps_if [keep_rules]: "keeps P m \<Longrightarrow> keeps P n \<Longrightarrow> keeps P (if b then m else n)"
  by simp

lemma keeps_option [keep_rules]:
  "keeps P m \<Longrightarrow> (\<And>x. keeps P (f x)) \<Longrightarrow> keeps P (case v of None \<Rightarrow> m | Some x \<Rightarrow> f x)"
  by (cases v) simp_all

lemma keeps_sum [keep_rules]:
  "(\<And>x. keeps P (f x)) \<Longrightarrow> (\<And>y. keeps P (g y)) \<Longrightarrow> keeps P (case v of Inl x \<Rightarrow> f x | Inr y \<Rightarrow> g y)"
  by (cases v) simp_all

lemma keeps_bool [keep_rules]:
  "keeps P m \<Longrightarrow> keeps P n \<Longrightarrow> keeps P (case b of True \<Rightarrow> m | False \<Rightarrow> n)"
  by (cases b) simp_all

lemma keeps_prod [keep_rules]:
  "(\<And>x y. keeps P (f x y)) \<Longrightarrow> keeps P (case v of (x, y) \<Rightarrow> f x y)"
  by (cases v) simp_all

section \<open>Counting calls\<close>

definition costs :: "('c \<Rightarrow> bool) \<Rightarrow> nat \<Rightarrow> ('w, 'o, 'c, 'a) go \<Rightarrow> bool" where
  "costs p n m \<longleftrightarrow>
     (\<forall>s. \<exists>cs. calls (snd (m s)) = calls s @ cs \<and> length (filter p cs) \<le> n)"

lemma costsI: "(\<And>s. \<exists>cs. calls (snd (m s)) = calls s @ cs \<and> length (filter p cs) \<le> n) \<Longrightarrow> costs p n m"
  by (simp add: costs_def)

lemma costsD:
  assumes "costs p n m" and "m s = (r, t)"
  obtains cs where "calls t = calls s @ cs" and "length (filter p cs) \<le> n"
  using assms unfolding costs_def by (metis snd_conv)

lemma costs_mono: "costs p n m \<Longrightarrow> n \<le> k \<Longrightarrow> costs p k m"
  unfolding costs_def by (meson order_trans)

lemma costs_return [cost_rules]: "costs p 0 (go_return x)"
  by (simp add: costs_def go_defs)

lemma costs_panic [cost_rules]: "costs p 0 go_panic"
  by (simp add: costs_def go_defs)

lemma costs_get_object [cost_rules]: "costs p 0 get_object"
  by (simp add: costs_def go_defs)

lemma costs_set_object [cost_rules]: "costs p 0 (set_object f)"
  by (simp add: costs_def go_defs)

lemma costs_emit [cost_rules]: "costs p 0 (emit ty re ms)"
  by (simp add: costs_def go_defs)

lemma costs_query [cost_rules]: "costs p 0 (query f)"
  by (auto simp: costs_def go_defs split: prod.splits)

lemma costs_call: "costs p (if p c then 1 else 0) (call c f)"
  by (auto simp: costs_def go_defs split: prod.splits)

lemma costs_call_other [cost_rules]: "\<not> p c \<Longrightarrow> costs p 0 (call c f)"
  using costs_call [of p c f] by simp

lemma costs_bind_result:
  assumes m: "costs p a m" and f: "\<And>s x t. m s = (Ok x, t) \<Longrightarrow> costs p b (f x)"
  shows "costs p (a + b) (go_bind m f)"
proof (rule costsI)
  fix s
  obtain r t where ms: "m s = (r, t)" by fastforce
  from costsD [OF m ms] obtain cs where cs: "calls t = calls s @ cs" "length (filter p cs) \<le> a" .
  show "\<exists>cs. calls (snd (go_bind m f s)) = calls s @ cs \<and> length (filter p cs) \<le> a + b"
  proof (cases r)
    case (Ok x)
    obtain r' t' where fs: "f x t = (r', t')" by fastforce
    from costsD [OF f [OF ms [unfolded Ok]] fs] obtain ds
      where ds: "calls t' = calls t @ ds" "length (filter p ds) \<le> b" .
    have "calls (snd (go_bind m f s)) = calls s @ (cs @ ds) \<and> length (filter p (cs @ ds)) \<le> a + b"
      using ms Ok fs cs ds by (simp add: go_bind_def)
    then show ?thesis by blast
  next
    case Panic
    with ms cs show ?thesis by (auto simp: go_bind_def intro!: exI [of _ cs])
  qed
qed

lemma costs_bind_known:
  "costs p 0 m \<Longrightarrow> (\<And>s x t. m s = (Ok x, t) \<Longrightarrow> costs p n (f x)) \<Longrightarrow> costs p n (go_bind m f)"
  using costs_bind_result [of p 0 m n f] by simp

lemma costs_bind: "costs p a m \<Longrightarrow> (\<And>x. costs p b (f x)) \<Longrightarrow> costs p (a + b) (go_bind m f)"
  by (rule costs_bind_result)

lemma costs_then: "costs p a m \<Longrightarrow> costs p b n \<Longrightarrow> costs p (a + b) (go_then m n)"
  unfolding go_then_def by (rule costs_bind)

lemma costs_bind_free [cost_rules]:
  "costs p 0 m \<Longrightarrow> (\<And>x. costs p n (f x)) \<Longrightarrow> costs p n (go_bind m f)"
  using costs_bind [of p 0 m n f] by simp

lemma costs_then_free [cost_rules]: "costs p 0 m \<Longrightarrow> costs p n k \<Longrightarrow> costs p n (go_then m k)"
  using costs_then [of p 0 m n k] by simp

lemma costs_bind_last: "costs p n m \<Longrightarrow> (\<And>x. costs p 0 (f x)) \<Longrightarrow> costs p n (go_bind m f)"
  using costs_bind [of p n m 0 f] by simp

lemma costs_free: "costs p 0 m \<Longrightarrow> costs p n m"
  by (erule costs_mono) simp

lemma costs_return_any: "costs p n (go_return x)"
  by (rule costs_free [OF costs_return])

lemma costs_if [cost_rules]: "costs p k m \<Longrightarrow> costs p k n \<Longrightarrow> costs p k (if b then m else n)"
  by simp

lemma costs_option [cost_rules]:
  "costs p k m \<Longrightarrow> (\<And>x. costs p k (f x)) \<Longrightarrow> costs p k (case v of None \<Rightarrow> m | Some x \<Rightarrow> f x)"
  by (cases v) simp_all

lemma costs_sum [cost_rules]:
  "(\<And>x. costs p k (f x)) \<Longrightarrow> (\<And>y. costs p k (g y)) \<Longrightarrow>
   costs p k (case v of Inl x \<Rightarrow> f x | Inr y \<Rightarrow> g y)"
  by (cases v) simp_all

lemma costs_bool [cost_rules]:
  "costs p n f \<Longrightarrow> costs p n g \<Longrightarrow> costs p n (case b of True \<Rightarrow> f | False \<Rightarrow> g)"
  by (cases b) simp_all

lemma costs_prod [cost_rules]:
  "(\<And>x y. costs p k (f x y)) \<Longrightarrow> costs p k (case v of (x, y) \<Rightarrow> f x y)"
  by (cases v) simp_all

lemma costs_zero_no_call:
  assumes "costs p 0 m" and "m s = (r, t)" and "c \<in> set (calls t)" and "p c"
  shows "c \<in> set (calls s)"
proof -
  from costsD [OF assms(1,2)] obtain cs
    where cs: "calls t = calls s @ cs" and "length (filter p cs) \<le> 0" .
  then have "filter p cs = []" by simp
  then have "\<forall>x \<in> set cs. \<not> p x" by (simp add: filter_empty_conv)
  with cs assms(3,4) show ?thesis by auto
qed

section \<open>Operations that only read\<close>

text \<open>\<open>reader m\<close>: \<open>m\<close> leaves the object, the events and the trace alone; only the world may move on.\<close>

named_theorems reader_rules "operations that only read"

definition reader :: "('w, 'o, 'c, 'a) go \<Rightarrow> bool" where
  "reader m \<longleftrightarrow> (\<forall>s. \<exists>r w. m s = (r, s\<lparr>world := w\<rparr>))"

lemma readerI: "(\<And>s. \<exists>r w. m s = (r, s\<lparr>world := w\<rparr>)) \<Longrightarrow> reader m"
  by (simp add: reader_def)

lemma readerE:
  assumes "reader m"
  obtains r w where "m s = (r, s\<lparr>world := w\<rparr>)"
  using assms unfolding reader_def by blast

lemma same_world: "\<exists>w. s = s\<lparr>world := w\<rparr>"
  by (rule exI [of _ "world s"]) simp

lemma readerD:
  assumes "reader m" and "m s = (r, t)"
  shows "object t = object s" and "calls t = calls s" and "events t = events s"
  using assms by (auto elim!: readerE [where s = s])

lemma reader_return [reader_rules]: "reader (go_return x)"
  by (simp add: reader_def go_defs same_world)

lemma reader_panic [reader_rules]: "reader go_panic"
  by (simp add: reader_def go_defs same_world)

lemma reader_get_object [reader_rules]: "reader get_object"
  by (simp add: reader_def go_defs same_world)

lemma reader_query [reader_rules]: "reader (query f)"
  by (auto simp: reader_def go_defs split: prod.splits)

lemma reader_bind [reader_rules]:
  assumes m: "reader m" and f: "\<And>x. reader (f x)"
  shows "reader (go_bind m f)"
proof (rule readerI)
  fix s
  obtain r w where ms: "m s = (r, s\<lparr>world := w\<rparr>)" by (rule readerE [OF m])
  show "\<exists>r w. go_bind m f s = (r, s\<lparr>world := w\<rparr>)"
  proof (cases r)
    case (Ok x)
    obtain r' w' where "f x (s\<lparr>world := w\<rparr>) = (r', s\<lparr>world := w, world := w'\<rparr>)"
      by (rule readerE [OF f])
    with ms Ok show ?thesis by (auto simp: go_bind_def)
  next
    case Panic
    with ms show ?thesis by (auto simp: go_bind_def)
  qed
qed

lemma reader_if [reader_rules]: "reader m \<Longrightarrow> reader n \<Longrightarrow> reader (if b then m else n)"
  by simp

lemma reader_option [reader_rules]:
  "reader m \<Longrightarrow> (\<And>x. reader (f x)) \<Longrightarrow> reader (case v of None \<Rightarrow> m | Some x \<Rightarrow> f x)"
  by (cases v) simp_all

lemma reader_sum [reader_rules]:
  "(\<And>x. reader (f x)) \<Longrightarrow> (\<And>y. reader (g y)) \<Longrightarrow> reader (case v of Inl x \<Rightarrow> f x | Inr y \<Rightarrow> g y)"
  by (cases v) simp_all

lemma reader_prod [reader_rules]:
  "(\<And>x y. reader (f x y)) \<Longrightarrow> reader (case v of (x, y) \<Rightarrow> f x y)"
  by (cases v) simp_all

text \<open>A reader makes no call, and a property that does not look at the world survives it.\<close>

lemma reader_costs: "reader m \<Longrightarrow> costs p 0 m"
  unfolding reader_def costs_def
proof
  fix s
  assume "\<forall>s. \<exists>r w. m s = (r, s\<lparr>world := w\<rparr>)"
  then obtain r w where "m s = (r, s\<lparr>world := w\<rparr>)" by blast
  then show "\<exists>cs. calls (snd (m s)) = calls s @ cs \<and> length (filter p cs) \<le> 0" by simp
qed

lemma reader_keeps: "reader m \<Longrightarrow> (\<And>s w. P (s\<lparr>world := w\<rparr>) = P s) \<Longrightarrow> keeps P m"
  unfolding keeps_def by (metis readerE snd_conv)

lemma reader_wp:
  "reader m \<Longrightarrow> (\<And>r w. m s = (r, s\<lparr>world := w\<rparr>) \<Longrightarrow> Q r (s\<lparr>world := w\<rparr>)) \<Longrightarrow> wp m Q s"
  unfolding wp_def by (metis case_prod_conv readerE)

section \<open>Lists\<close>

lemma find_SomeD: "find P xs = Some x \<Longrightarrow> x \<in> set xs \<and> P x"
  by (auto simp: find_Some_iff)

lemma find_NoneD: "find P xs = None \<Longrightarrow> x \<in> set xs \<Longrightarrow> \<not> P x"
  by (auto simp: find_None_iff)

end
