(* ===== verification/Go_Strings.thy ===== *)
theory Go_Strings
  imports Main "HOL-Library.Sublist"
begin

text \<open>
  The part of Go's standard library for strings that the provider uses. A Go string is a
  sequence of bytes, so it is an Isabelle \<open>string\<close> (a list of 8-bit characters); \<open>len\<close>, indexing
  and slicing count bytes. Where Go works on runes (\<open>range\<close>, \<open>strings.TrimSpace\<close>,
  \<open>strings.EqualFold\<close>) the UTF-8 decoder is written out. Two limits: \<open>equal_fold\<close> folds exactly
  when one of its arguments is ASCII (every comparison of the provider is with an ASCII constant
  or a status word), and \<open>to_lower\<close> lowers ASCII letters only (its one use is a site slug).
\<close>

section \<open>Bytes and UTF-8\<close>

definition byte_of :: "char \<Rightarrow> nat" where
  "byte_of c = of_char c"

lemma byte_of_less [simp]: "byte_of c < 256"
  by (simp add: byte_of_def)

lemma byte_of_inject [simp]: "byte_of c = byte_of d \<longleftrightarrow> c = d"
  by (simp add: byte_of_def)

lemma byte_of_char_of [simp]: "n < 256 \<Longrightarrow> byte_of (char_of n) = n"
  by (simp add: byte_of_def)

lemma char_of_byte_of [simp]: "char_of (byte_of c) = c"
  by (simp add: byte_of_def)

definition newline :: char where "newline = CHR 0x0A"
definition quote1 :: char where "quote1 = CHR 0x27"
definition quote2 :: char where "quote2 = CHR 0x22"
definition backslash :: char where "backslash = CHR 0x5C"

lemmas char_defs = newline_def quote1_def quote2_def backslash_def

definition in_range :: "nat \<Rightarrow> nat \<Rightarrow> char \<Rightarrow> bool" where
  "in_range lo hi c \<longleftrightarrow> lo \<le> byte_of c \<and> byte_of c \<le> hi"

definition rune_error :: nat where "rune_error = 65533"

text \<open>
  \<open>utf8.DecodeRuneInString\<close>: the rune and the number of bytes it takes. An ill-formed sequence
  is the error rune of width one.
\<close>

definition low6 :: "char \<Rightarrow> nat" where
  "low6 c = byte_of c - 128"

fun decode_rune :: "string \<Rightarrow> nat \<times> nat" where
  "decode_rune [] = (rune_error, 0)"
| "decode_rune (c # cs) =
    (let b = byte_of c in
     if b < 128 then (b, 1)
     else if 194 \<le> b \<and> b \<le> 223 then
       (case cs of c1 # _ \<Rightarrow>
          if in_range 128 191 c1 then ((b - 192) * 64 + low6 c1, 2) else (rune_error, 1)
        | [] \<Rightarrow> (rune_error, 1))
     else if 224 \<le> b \<and> b \<le> 239 then
       (case cs of c1 # c2 # _ \<Rightarrow>
          if in_range (if b = 224 then 160 else 128) (if b = 237 then 159 else 191) c1 \<and>
             in_range 128 191 c2
          then ((b - 224) * 4096 + low6 c1 * 64 + low6 c2, 3) else (rune_error, 1)
        | _ \<Rightarrow> (rune_error, 1))
     else if 240 \<le> b \<and> b \<le> 244 then
       (case cs of c1 # c2 # c3 # _ \<Rightarrow>
          if in_range (if b = 240 then 144 else 128) (if b = 244 then 143 else 191) c1 \<and>
             in_range 128 191 c2 \<and> in_range 128 191 c3
          then ((b - 240) * 262144 + low6 c1 * 4096 + low6 c2 * 64 + low6 c3, 4)
          else (rune_error, 1)
        | _ \<Rightarrow> (rune_error, 1))
     else (rune_error, 1))"

lemma decode_rune_width: "s \<noteq> [] \<Longrightarrow> 0 < snd (decode_rune s)"
  by (cases s) (auto simp: Let_def split: list.split)

text \<open>The runes of a string, each with the bytes it came from.\<close>

function utf8_chunks :: "string \<Rightarrow> (nat \<times> string) list" where
  "utf8_chunks s =
     (if s = [] then []
      else let (r, n) = decode_rune s in (r, take n s) # utf8_chunks (drop n s))"
  by pat_completeness auto
termination
proof (relation "measure length")
  fix s p r n
  assume "s \<noteq> []" and "p = decode_rune s" and "(r, n) = p"
  then have "0 < n" using decode_rune_width [of s] by (metis snd_conv)
  with \<open>s \<noteq> []\<close> show "(drop n s, s) \<in> measure length" by simp
qed simp

declare utf8_chunks.simps [simp del]

lemma utf8_chunks_Nil [simp]: "utf8_chunks [] = []"
  by (subst utf8_chunks.simps) simp

definition runes :: "string \<Rightarrow> nat list" where
  "runes s = map fst (utf8_chunks s)"

lemma concat_utf8_chunks: "concat (map snd (utf8_chunks s)) = s"
proof (induction s rule: utf8_chunks.induct)
  case (1 s)
  show ?case
  proof (cases "s = []")
    case False
    obtain r n where d: "decode_rune s = (r, n)" by fastforce
    with False "1.IH" have "concat (map snd (utf8_chunks (drop n s))) = drop n s" by simp
    with False d show ?thesis by (subst utf8_chunks.simps) simp
  qed simp
qed

definition is_ascii :: "string \<Rightarrow> bool" where
  "is_ascii s \<longleftrightarrow> list_all (\<lambda>c. byte_of c < 128) s"

lemma utf8_chunks_ascii_Cons:
  "byte_of c < 128 \<Longrightarrow> utf8_chunks (c # cs) = (byte_of c, [c]) # utf8_chunks cs"
  by (subst utf8_chunks.simps) (simp add: Let_def)

lemma runes_ascii: "is_ascii s \<Longrightarrow> runes s = map byte_of s"
  by (induction s) (simp_all add: runes_def is_ascii_def utf8_chunks_ascii_Cons)

section \<open>Searching, splitting and joining\<close>

text \<open>\<open>strings.Index\<close>: the first position of a substring, \<open>None\<close> for Go's -1.\<close>

fun str_index :: "string \<Rightarrow> string \<Rightarrow> nat option" where
  "str_index [] sub = (if sub = [] then Some 0 else None)"
| "str_index (c # cs) sub =
     (if prefix sub (c # cs) then Some 0 else map_option Suc (str_index cs sub))"

definition str_contains :: "string \<Rightarrow> string \<Rightarrow> bool" where
  "str_contains s sub \<longleftrightarrow> str_index s sub \<noteq> None"

lemma str_index_Some:
  "str_index s sub = Some i \<Longrightarrow>
     i \<le> length s \<and> prefix sub (drop i s) \<and> (\<forall>j < i. \<not> prefix sub (drop j s))"
proof (induction s sub arbitrary: i rule: str_index.induct)
  case (1 sub)
  then show ?case by (simp split: if_splits)
next
  case (2 c cs sub)
  show ?case
  proof (cases "prefix sub (c # cs)")
    case True
    with "2.prems" show ?thesis by simp
  next
    case False
    with "2.prems" obtain k where k: "str_index cs sub = Some k" "i = Suc k" by auto
    with "2.IH" False have "k \<le> length cs \<and> prefix sub (drop k cs) \<and> (\<forall>j < k. \<not> prefix sub (drop j cs))"
      by blast
    with k False show ?thesis by (auto simp: less_Suc_eq_0_disj)
  qed
qed

lemma str_index_None: "str_index s sub = None \<Longrightarrow> \<not> prefix sub (drop j s)"
proof (induction s sub arbitrary: j rule: str_index.induct)
  case (1 sub)
  then show ?case by (simp split: if_splits)
next
  case (2 c cs sub)
  then show ?case by (cases j) (auto split: if_splits)
qed

lemma str_contains_sublist: "str_contains s sub \<longleftrightarrow> sublist sub s"
proof
  assume "str_contains s sub"
  then obtain i where "str_index s sub = Some i" by (auto simp: str_contains_def)
  then have "prefix sub (drop i s)" by (simp add: str_index_Some)
  then obtain ss where "drop i s = sub @ ss" by (auto simp: prefix_def)
  then have "s = take i s @ sub @ ss" by (metis append_take_drop_id)
  then show "sublist sub s" unfolding sublist_def by blast
next
  assume "sublist sub s"
  then obtain ps ss where s: "s = ps @ sub @ ss" by (auto simp: sublist_def)
  then have "prefix sub (drop (length ps) s)" by simp
  then show "str_contains s sub" using str_index_None by (auto simp: str_contains_def)
qed

text \<open>\<open>strings.Split\<close> at a one-byte separator, and \<open>strings.Join\<close>.\<close>

fun str_split :: "char \<Rightarrow> string \<Rightarrow> string list" where
  "str_split sep [] = [[]]"
| "str_split sep (c # cs) =
     (if c = sep then [] # str_split sep cs
      else (case str_split sep cs of [] \<Rightarrow> [[c]] | p # ps \<Rightarrow> (c # p) # ps))"

fun str_join :: "string \<Rightarrow> string list \<Rightarrow> string" where
  "str_join sep [] = []"
| "str_join sep [x] = x"
| "str_join sep (x # y # ys) = x @ sep @ str_join sep (y # ys)"

lemma str_split_not_Nil [simp]: "str_split sep s \<noteq> []"
  by (cases s) (auto split: list.split)

lemma str_join_Cons: "xs \<noteq> [] \<Longrightarrow> str_join sep (x # xs) = x @ sep @ str_join sep xs"
  by (cases xs) simp_all

lemma str_join_split: "str_join [sep] (str_split sep s) = s"
proof (induction s)
  case Nil
  then show ?case by simp
next
  case (Cons c cs)
  obtain p ps where ps: "str_split sep cs = p # ps"
    by (cases "str_split sep cs") auto
  with Cons show ?case by (cases ps) (auto simp: str_join_Cons)
qed

lemma str_split_no_sep: "p \<in> set (str_split sep s) \<Longrightarrow> sep \<notin> set p"
proof (induction s arbitrary: p)
  case Nil
  then show ?case by simp
next
  case (Cons c cs)
  then show ?case by (cases "str_split sep cs") (auto split: if_splits)
qed

lemma str_split_plain [simp]: "sep \<notin> set x \<Longrightarrow> str_split sep x = [x]"
  by (induction x) auto

lemma str_split_append: "sep \<notin> set x \<Longrightarrow> str_split sep (x @ sep # ys) = x # str_split sep ys"
  by (induction x) auto

lemma str_split_join:
  "xs \<noteq> [] \<Longrightarrow> \<forall>x \<in> set xs. sep \<notin> set x \<Longrightarrow> str_split sep (str_join [sep] xs) = xs"
  by (induction "[sep]" xs rule: str_join.induct) (auto simp: str_split_append)

text \<open>\<open>strings.ReplaceAll\<close> of a one-byte string.\<close>

definition replace_char :: "char \<Rightarrow> string \<Rightarrow> string \<Rightarrow> string" where
  "replace_char old new s = concat (map (\<lambda>c. if c = old then new else [c]) s)"

lemma replace_char_Nil [simp]: "replace_char old new [] = []"
  by (simp add: replace_char_def)

lemma replace_char_Cons [simp]:
  "replace_char old new (c # cs) = (if c = old then new else [c]) @ replace_char old new cs"
  by (simp add: replace_char_def)

section \<open>White space and letter case\<close>

text \<open>\<open>unicode.IsSpace\<close>.\<close>

definition is_space :: "nat \<Rightarrow> bool" where
  "is_space r \<longleftrightarrow> r \<in> set [9, 10, 11, 12, 13, 32, 133, 160, 5760, 8232, 8233, 8239, 8287, 12288]
     \<or> (8192 \<le> r \<and> r \<le> 8202)"

text \<open>
  \<open>strings.TrimSpace\<close>: UTF-8 is self-synchronising, so dropping space runes from the end of the
  string is dropping them from the end of its rune list.
\<close>

definition trim_space :: "string \<Rightarrow> string" where
  "trim_space s = concat (map snd
     (rev (dropWhile (is_space \<circ> fst) (rev (dropWhile (is_space \<circ> fst) (utf8_chunks s))))))"

lemma trim_space_Nil [simp]: "trim_space [] = []"
  by (simp add: trim_space_def)

lemma trim_space_sublist: "sublist (trim_space s) s"
proof -
  let ?ch = "utf8_chunks s" and ?sp = "is_space \<circ> fst :: nat \<times> string \<Rightarrow> bool"
  let ?mid = "dropWhile ?sp ?ch"
  have "?ch = takeWhile ?sp ?ch @ rev (dropWhile ?sp (rev ?mid)) @ rev (takeWhile ?sp (rev ?mid))"
    by (metis rev_append rev_rev_ident takeWhile_dropWhile_id)
  then have "s = concat (map snd (takeWhile ?sp ?ch)) @ trim_space s @
      concat (map snd (rev (takeWhile ?sp (rev ?mid))))"
    using concat_utf8_chunks [of s] unfolding trim_space_def
    by (metis concat_append map_append)
  then show ?thesis unfolding sublist_def by blast
qed

lemma dropWhile_all_false: "list_all (\<lambda>x. \<not> P x) xs \<Longrightarrow> dropWhile P xs = xs"
  by (cases xs) auto

lemma utf8_chunks_ascii: "is_ascii s \<Longrightarrow> utf8_chunks s = map (\<lambda>c. (byte_of c, [c])) s"
  by (induction s) (simp_all add: is_ascii_def utf8_chunks_ascii_Cons)

lemma trim_space_id:
  "is_ascii s \<Longrightarrow> list_all (\<lambda>c. \<not> is_space (byte_of c)) s \<Longrightarrow> trim_space s = s"
proof -
  assume a: "is_ascii s" and n: "list_all (\<lambda>c. \<not> is_space (byte_of c)) s"
  have "list_all (\<lambda>x. \<not> (is_space \<circ> fst) x) (utf8_chunks s)"
    using a n by (simp add: utf8_chunks_ascii list_all_iff)
  moreover from this have "list_all (\<lambda>x. \<not> (is_space \<circ> fst) x) (rev (utf8_chunks s))"
    by (simp add: list_all_iff)
  ultimately show ?thesis
    using concat_utf8_chunks [of s] by (simp add: trim_space_def dropWhile_all_false)
qed

text \<open>On ASCII strings \<open>trim_space\<close> drops white bytes at both ends.\<close>

definition white :: "char \<Rightarrow> bool" where
  "white c \<longleftrightarrow> is_space (byte_of c)"

lemma is_ascii_append [simp]: "is_ascii (s @ t) \<longleftrightarrow> is_ascii s \<and> is_ascii t"
  by (simp add: is_ascii_def)

lemma trim_space_ascii: "is_ascii s \<Longrightarrow> trim_space s = rev (dropWhile white (rev (dropWhile white s)))"
proof -
  assume a: "is_ascii s"
  have w: "(is_space \<circ> fst) \<circ> (\<lambda>c. (byte_of c, [c])) = white"
    by (auto simp: white_def)
  have c: "concat (map (snd \<circ> (\<lambda>c. (byte_of c, [c]))) xs) = xs" for xs
    by (induction xs) simp_all
  show ?thesis
    by (simp add: trim_space_def utf8_chunks_ascii [OF a] dropWhile_map w rev_map c)
qed

lemma trim_space_prepend:
  "is_ascii (p @ x) \<Longrightarrow> list_all white p \<Longrightarrow> trim_space (p @ x) = trim_space x"
  by (simp add: trim_space_ascii list_all_iff dropWhile_append2)

lemma trim_space_append:
  assumes "is_ascii (x @ q)" and "list_all white q"
  shows "trim_space (x @ q) = trim_space x"
proof (cases "\<exists>c \<in> set x. \<not> white c")
  case True
  then have "dropWhile white (x @ q) = dropWhile white x @ q" by (meson dropWhile_append1)
  moreover have "dropWhile white (rev q @ z) = dropWhile white z" for z
    using assms(2) by (intro dropWhile_append2) (simp add: list_all_iff)
  ultimately show ?thesis using assms(1) by (simp add: trim_space_ascii)
next
  case False
  then have e: "dropWhile white (x @ q) = []" "dropWhile white x = []"
    using assms(2) by (auto simp: list_all_iff)
  from assms(1) have "is_ascii x" by simp
  then show ?thesis by (simp only: trim_space_ascii [OF assms(1)] trim_space_ascii e)
qed

lemma trim_space_decompose:
  assumes "is_ascii s"
  obtains p q where "s = p @ trim_space s @ q" "list_all white p" "list_all white q"
proof
  let ?m = "dropWhile white s"
  have "rev (takeWhile white (rev ?m)) = rev (takeWhile white (rev ?m))" by simp
  show "s = takeWhile white s @ trim_space s @ rev (takeWhile white (rev ?m))"
    using takeWhile_dropWhile_id [of white s] takeWhile_dropWhile_id [of white "rev ?m"]
    by (metis assms rev_append rev_rev_ident trim_space_ascii)
  show "list_all white (takeWhile white s)" "list_all white (rev (takeWhile white (rev ?m)))"
    by (auto simp: list_all_iff dest: set_takeWhileD)
qed

lemma str_split_prepend:
  "sep \<notin> set p \<Longrightarrow> str_split sep (p @ s) = (p @ hd (str_split sep s)) # tl (str_split sep s)"
  by (induction p) auto

lemma str_split_append_end:
  "sep \<notin> set q \<Longrightarrow> str_split sep (s @ q) = butlast (str_split sep s) @ [last (str_split sep s) @ q]"
proof (induction s)
  case (Cons c s)
  then show ?case by (cases "str_split sep s") auto
qed simp

lemma str_split_ascii: "is_ascii s \<Longrightarrow> p \<in> set (str_split sep s) \<Longrightarrow> is_ascii p"
  by (induction s arbitrary: p) (auto simp: is_ascii_def split: if_splits list.splits)

text \<open>Trimming a list as a whole makes no difference once its entries are trimmed.\<close>

lemma map_trim_split:
  assumes a: "is_ascii (p @ s @ q)" and p: "list_all white p" "sep \<notin> set p"
    and q: "list_all white q" "sep \<notin> set q"
  shows "map trim_space (str_split sep (p @ s @ q)) = map trim_space (str_split sep s)"
proof -
  have app: "map trim_space (str_split sep (s @ q)) = map trim_space (str_split sep s)"
  proof -
    have "is_ascii (last (str_split sep s) @ q)"
      using a str_split_ascii [of s "last (str_split sep s)" sep] by simp
    then have "trim_space (last (str_split sep s) @ q) = trim_space (last (str_split sep s))"
      using q(1) by (rule trim_space_append)
    then show ?thesis
      by (simp add: str_split_append_end [OF q(2)])
        (metis append_butlast_last_id list.simps(8,9) map_append str_split_not_Nil)
  qed
  have "is_ascii (p @ hd (str_split sep (s @ q)))"
    using a str_split_ascii [of "s @ q" "hd (str_split sep (s @ q))" sep] by simp
  then have "trim_space (p @ hd (str_split sep (s @ q))) = trim_space (hd (str_split sep (s @ q)))"
    using p(1) by (rule trim_space_prepend)
  then show ?thesis
    using app by (simp add: str_split_prepend [OF p(2)]) (metis list.collapse list.simps(9) str_split_not_Nil)
qed

lemma comma_not_white: "list_all white p \<Longrightarrow> CHR '','' \<notin> set p"
  by (auto simp: list_all_iff white_def is_space_def byte_of_def)

text \<open>
  \<open>strings.EqualFold\<close>: runes are compared up to simple case folding. The folding orbits of the
  ASCII letters hold two runes beyond ASCII, the Kelvin sign and the long s.
\<close>

definition fold_rune :: "nat \<Rightarrow> nat" where
  "fold_rune r = (if 65 \<le> r \<and> r \<le> 90 then r + 32
     else if r = 8490 then 107 else if r = 383 then 115 else r)"

definition equal_fold :: "string \<Rightarrow> string \<Rightarrow> bool" where
  "equal_fold s t \<longleftrightarrow> map fold_rune (runes s) = map fold_rune (runes t)"

lemma equal_fold_refl [simp]: "equal_fold s s"
  by (simp add: equal_fold_def)

text \<open>\<open>strings.ToLower\<close> on ASCII letters.\<close>

definition to_lower :: "string \<Rightarrow> string" where
  "to_lower s = map (\<lambda>c. if 65 \<le> byte_of c \<and> byte_of c \<le> 90 then char_of (byte_of c + 32) else c) s"

lemma to_lower_idem: "to_lower (to_lower s) = to_lower s"
  by (simp add: to_lower_def)

section \<open>Numbers in decimal\<close>

definition digit_char :: "nat \<Rightarrow> char" where
  "digit_char d = char_of (48 + d)"

lemma byte_of_digit [simp]: "d < 10 \<Longrightarrow> byte_of (digit_char d) = 48 + d"
  by (simp add: digit_char_def)

text \<open>The verb \<open>%d\<close>, for a natural number and for a Go \<open>int\<close>.\<close>

fun itoa :: "nat \<Rightarrow> string" where
  "itoa n = (if n < 10 then [] else itoa (n div 10)) @ [digit_char (n mod 10)]"

declare itoa.simps [simp del]

definition itoa_int :: "int \<Rightarrow> string" where
  "itoa_int i = (if i < 0 then CHR ''-'' # itoa (nat (- i)) else itoa (nat i))"

definition is_digit :: "char \<Rightarrow> bool" where
  "is_digit c \<longleftrightarrow> 48 \<le> byte_of c \<and> byte_of c \<le> 57"

definition digit_val :: "char \<Rightarrow> nat" where
  "digit_val c = byte_of c - 48"

lemma digit_char_digit [simp]: "d < 10 \<Longrightarrow> is_digit (digit_char d)" "d < 10 \<Longrightarrow> digit_val (digit_char d) = d"
  by (simp_all add: is_digit_def digit_val_def)

lemma itoa_not_Nil [simp]: "itoa n \<noteq> []"
  by (subst itoa.simps) simp

lemma itoa_digits: "list_all is_digit (itoa n)"
proof (induction n rule: itoa.induct)
  case (1 n)
  then show ?case by (subst itoa.simps) simp
qed

definition digits_value :: "string \<Rightarrow> nat" where
  "digits_value s = foldl (\<lambda>n c. n * 10 + digit_val c) 0 s"

lemma digits_value_itoa: "digits_value (itoa n) = n"
proof (induction n rule: itoa.induct)
  case (1 n)
  show ?case
  proof (cases "n < 10")
    case True
    then show ?thesis by (subst itoa.simps) (simp add: digits_value_def)
  next
    case False
    with 1 have "digits_value (itoa (n div 10)) = n div 10" by blast
    with False show ?thesis by (subst itoa.simps) (simp add: digits_value_def)
  qed
qed

lemma itoa_inject: "itoa m = itoa n \<longleftrightarrow> m = n"
  by (metis digits_value_itoa)

end
