(* ===== verification/Go_Encoding.thy ===== *)
theory Go_Encoding
  imports Go_Strings
begin

text \<open>
  Go's error values and \<open>base64.StdEncoding\<close>.

  An error is what the provider can see of one: its text, the chain \<open>fmt.Errorf\<close> builds with
  \<open>%w\<close>, whether \<open>apierrors.IsNotFound\<close> holds of it, and whether it is the sentinel
  \<open>scope.ErrBootstrapDataNotReady\<close>. Errors of the SDK and of the Kubernetes client are values of
  the same type, with any text.
\<close>

section \<open>Errors\<close>

datatype go_error =
    Err string
  | Wrapf string go_error
  | NotFoundErr string
  | BootstrapDataNotReady

text \<open>\<open>err.Error()\<close>; \<open>Wrapf p e\<close> is \<open>fmt.Errorf("p: %w", e)\<close>.\<close>

fun error_text :: "go_error \<Rightarrow> string" where
  "error_text (Err t) = t"
| "error_text (Wrapf p e) = p @ '': '' @ error_text e"
| "error_text (NotFoundErr t) = t"
| "error_text BootstrapDataNotReady = ''bootstrap data secret is not ready''"

text \<open>\<open>apierrors.IsNotFound\<close> and \<open>errors.Is(err, ErrBootstrapDataNotReady)\<close> look through wrapping.\<close>

fun is_not_found :: "go_error \<Rightarrow> bool" where
  "is_not_found (Err t) = False"
| "is_not_found (Wrapf p e) = is_not_found e"
| "is_not_found (NotFoundErr t) = True"
| "is_not_found BootstrapDataNotReady = False"

fun is_bootstrap_not_ready :: "go_error \<Rightarrow> bool" where
  "is_bootstrap_not_ready (Err t) = False"
| "is_bootstrap_not_ready (Wrapf p e) = is_bootstrap_not_ready e"
| "is_bootstrap_not_ready (NotFoundErr t) = False"
| "is_bootstrap_not_ready BootstrapDataNotReady = True"

lemma error_text_Wrapf_contains:
  assumes "str_contains (error_text e) sub"
  shows "str_contains (error_text (Wrapf p e)) sub"
proof -
  from assms obtain ps ss where "error_text e = ps @ sub @ ss"
    unfolding str_contains_sublist sublist_def by blast
  then have "error_text (Wrapf p e) = (p @ '': '' @ ps) @ sub @ ss" by simp
  then show ?thesis unfolding str_contains_sublist sublist_def by blast
qed

section \<open>Base64\<close>

definition b64_char :: "nat \<Rightarrow> char" where
  "b64_char n = char_of (if n < 26 then n + 65 else if n < 52 then n + 71
     else if n < 62 then n - 4 else if n = 62 then 43 else 47)"

definition b64_pad :: char where "b64_pad = CHR ''=''"

fun b64_encode :: "string \<Rightarrow> string" where
  "b64_encode [] = []"
| "b64_encode [a] =
     [b64_char (byte_of a div 4), b64_char (byte_of a mod 4 * 16), b64_pad, b64_pad]"
| "b64_encode [a, b] =
     [b64_char (byte_of a div 4), b64_char (byte_of a mod 4 * 16 + byte_of b div 16),
      b64_char (byte_of b mod 16 * 4), b64_pad]"
| "b64_encode (a # b # c # cs) =
     b64_char (byte_of a div 4) #
     b64_char (byte_of a mod 4 * 16 + byte_of b div 16) #
     b64_char (byte_of b mod 16 * 4 + byte_of c div 64) #
     b64_char (byte_of c mod 64) # b64_encode cs"

text \<open>The standard decoder, as the receiver of the user data applies it.\<close>

definition b64_val :: "char \<Rightarrow> nat option" where
  "b64_val c = (let n = byte_of c in
     if 65 \<le> n \<and> n \<le> 90 then Some (n - 65)
     else if 97 \<le> n \<and> n \<le> 122 then Some (n - 71)
     else if 48 \<le> n \<and> n \<le> 57 then Some (n + 4)
     else if n = 43 then Some 62 else if n = 47 then Some 63 else None)"

lemma b64_val_char [simp]: "n < 64 \<Longrightarrow> b64_val (b64_char n) = Some n"
  by (auto simp: b64_val_def b64_char_def Let_def)

lemma b64_char_not_pad [simp]: "n < 64 \<Longrightarrow> b64_char n \<noteq> b64_pad"
proof
  assume "n < 64" and "b64_char n = b64_pad"
  then have "b64_val b64_pad = Some n" by (metis b64_val_char)
  then show False by (simp add: b64_val_def b64_pad_def byte_of_def)
qed

fun b64_decode :: "string \<Rightarrow> string option" where
  "b64_decode [] = Some []"
| "b64_decode (p # q # r # s # rest) =
     (case (b64_val p, b64_val q) of
        (Some w, Some x) \<Rightarrow>
          if r = b64_pad then
            (if s = b64_pad \<and> rest = [] then Some [char_of (w * 4 + x div 16)] else None)
          else (case b64_val r of None \<Rightarrow> None | Some y \<Rightarrow>
            if s = b64_pad then
              (if rest = [] then Some [char_of (w * 4 + x div 16), char_of (x mod 16 * 16 + y div 4)]
               else None)
            else (case b64_val s of None \<Rightarrow> None | Some z \<Rightarrow>
              map_option (\<lambda>t. char_of (w * 4 + x div 16) # char_of (x mod 16 * 16 + y div 4) #
                char_of (y mod 4 * 64 + z) # t) (b64_decode rest)))
      | _ \<Rightarrow> None)"
| "b64_decode _ = None"

lemma b64_bounds [simp]:
  "byte_of a div 4 < 64"
  "byte_of a mod 4 * 16 < 64"
  "byte_of a mod 4 * 16 + byte_of b div 16 < 64"
  "byte_of b mod 16 * 4 < 64"
  "byte_of b mod 16 * 4 + byte_of c div 64 < 64"
  using byte_of_less [of a] byte_of_less [of b] byte_of_less [of c] by linarith+

lemma b64_join [simp]:
  "byte_of b div 16 div 16 = 0"
  "byte_of b div 16 mod 16 = byte_of b div 16"
  "byte_of c div 64 div 4 = 0"
  "byte_of c div 64 mod 4 = byte_of c div 64"
  using byte_of_less [of b] byte_of_less [of c]
  by (simp_all add: div_mult2_eq [symmetric] div_less mod_less less_mult_imp_div_less)

lemma b64_decode_encode: "b64_decode (b64_encode s) = Some s"
  by (induction s rule: b64_encode.induct) simp_all

end
