(* ===== verification/Api_Types.thy ===== *)
theory Api_Types
  imports Prelude Go_Encoding
begin

text \<open>
  The custom resources of \<open>api/v1beta1\<close> and the shapes of the Kubernetes and Cluster API objects
  the provider reads. A pointer field is an \<open>option\<close>, an optional string without a pointer is a
  string whose unset value is the empty one, a Go \<open>map\<close> is a partial map (nil and empty maps
  answer every lookup alike). Every field is named after its struct. Of an object's metadata the
  fields the provider or its libraries read are kept.
\<close>

section \<open>Kubernetes metadata and conditions\<close>

record OwnerReference =
  OwnerReference_Kind :: string
  OwnerReference_Name :: string

record ObjectMeta =
  ObjectMeta_Name :: string
  ObjectMeta_Namespace :: string
  ObjectMeta_UID :: string
  ObjectMeta_Generation :: int
  ObjectMeta_Annotations :: "string \<rightharpoonup> string"
  ObjectMeta_Labels :: "string \<rightharpoonup> string"
  ObjectMeta_Finalizers :: "string list"
  ObjectMeta_DeletionTimestamp :: "int option"
  ObjectMeta_OwnerReferences :: "OwnerReference list"

record ObjectKey =
  ObjectKey_Namespace :: string
  ObjectKey_Name :: string

datatype ConditionStatus = ConditionTrue | ConditionFalse | ConditionUnknown

record Condition =
  Condition_Type :: string
  Condition_Status :: ConditionStatus
  Condition_Reason :: string
  Condition_Message :: string
  Condition_ObservedGeneration :: int
  Condition_LastTransitionTime :: int

section \<open>Cluster API objects\<close>

record ObjectReference =
  ObjectReference_Name :: string
  ObjectReference_Namespace :: string

record Machine =
  Machine_ObjectMeta :: ObjectMeta
  Machine_FailureDomain :: "string option"
  Machine_DataSecretName :: "string option"
  Machine_InfrastructureRef :: ObjectReference

record Cluster =
  Cluster_ObjectMeta :: ObjectMeta
  Cluster_InfrastructureRef :: "ObjectReference option"

record MachineAddress =
  MachineAddress_Type :: string
  MachineAddress_Address :: string

definition MachineExternalIP :: string where "MachineExternalIP = ''ExternalIP''"
definition MachineInternalIP :: string where "MachineInternalIP = ''InternalIP''"
definition MachineHostName :: string where "MachineHostName = ''Hostname''"

section \<open>LatitudeCluster (latitudecluster\_types.go)\<close>

record APIEndpoint =
  APIEndpoint_Host :: string
  APIEndpoint_Port :: int

record ProjectRef =
  ProjectRef_ProjectID :: string

record VLANConfig =
  VLANConfig_Subnet :: string
  VLANConfig_VID :: "int option"
  VLANConfig_ExistingVLANID :: "string option"
  VLANConfig_NetworkInterface :: string

record LatitudeClusterSpec =
  ClusterSpec_Location :: string
  ClusterSpec_ProjectRef :: "ProjectRef option"
  ClusterSpec_ControlPlaneEndpoint :: APIEndpoint
  ClusterSpec_VLANConfig :: "VLANConfig option"

record LatitudeClusterStatus =
  ClusterStatus_Ready :: bool
  ClusterStatus_ControlPlaneEndpoint :: APIEndpoint
  ClusterStatus_VLANID :: "string option"
  ClusterStatus_VLANVID :: "int option"
  ClusterStatus_Conditions :: "Condition list"

record LatitudeCluster =
  LatitudeCluster_ObjectMeta :: ObjectMeta
  LatitudeCluster_Spec :: LatitudeClusterSpec
  LatitudeCluster_Status :: LatitudeClusterStatus

definition cluster_GetConditions :: "LatitudeCluster \<Rightarrow> Condition list" where
  "cluster_GetConditions c = ClusterStatus_Conditions (LatitudeCluster_Status c)"

definition cluster_SetConditions :: "LatitudeCluster \<Rightarrow> Condition list \<Rightarrow> LatitudeCluster" where
  "cluster_SetConditions c conds =
     c\<lparr>LatitudeCluster_Status := (LatitudeCluster_Status c)\<lparr>ClusterStatus_Conditions := conds\<rparr>\<rparr>"

section \<open>LatitudeMachine (latitudemachine\_types.go)\<close>

record SecretReference =
  SecretReference_Name :: string
  SecretReference_Namespace :: string

record LatitudeMachineSpec =
  MachineSpec_ProviderID :: "string option"
  MachineSpec_OperatingSystem :: string
  MachineSpec_Plan :: string
  MachineSpec_SSHKeySecretRef :: "SecretReference option"

record LatitudeMachineStatus =
  MachineStatus_Ready :: bool
  MachineStatus_ProviderID :: string
  MachineStatus_ServerID :: string
  MachineStatus_UserDataID :: string
  MachineStatus_Addresses :: "MachineAddress list"
  MachineStatus_FailureReason :: "string option"
  MachineStatus_FailureMessage :: "string option"
  MachineStatus_Conditions :: "Condition list"

record LatitudeMachine =
  LatitudeMachine_ObjectMeta :: ObjectMeta
  LatitudeMachine_Spec :: LatitudeMachineSpec
  LatitudeMachine_Status :: LatitudeMachineStatus

definition machine_GetConditions :: "LatitudeMachine \<Rightarrow> Condition list" where
  "machine_GetConditions m = MachineStatus_Conditions (LatitudeMachine_Status m)"

definition machine_SetConditions :: "LatitudeMachine \<Rightarrow> Condition list \<Rightarrow> LatitudeMachine" where
  "machine_SetConditions m conds =
     m\<lparr>LatitudeMachine_Status := (LatitudeMachine_Status m)\<lparr>MachineStatus_Conditions := conds\<rparr>\<rparr>"

definition InstanceReadyCondition :: string where
  "InstanceReadyCondition = ''InstanceReady''"
definition InstanceProvisionFailedReason :: string where
  "InstanceProvisionFailedReason = ''InstanceProvisionFailed''"
definition InstanceNotReadyReason :: string where
  "InstanceNotReadyReason = ''InstanceNotReady''"
definition InstanceDeletionFailedReason :: string where
  "InstanceDeletionFailedReason = ''InstanceDeletionFailed''"

section \<open>LatitudeMachineTemplate (latitudemachinetemplate\_types.go) and lists\<close>

record TypeMeta =
  TypeMeta_Kind :: string
  TypeMeta_APIVersion :: string

record ListMeta =
  ListMeta_ResourceVersion :: string
  ListMeta_Continue :: string
  ListMeta_RemainingItemCount :: "int option"

record LatitudeMachineTemplateResource =
  TemplateResource_Spec :: LatitudeMachineSpec

record LatitudeMachineTemplateSpec =
  TemplateSpec_Template :: LatitudeMachineTemplateResource

record LatitudeMachineTemplate =
  LatitudeMachineTemplate_ObjectMeta :: ObjectMeta
  LatitudeMachineTemplate_Spec :: LatitudeMachineTemplateSpec

record LatitudeClusterList =
  LatitudeClusterList_ListMeta :: ListMeta
  LatitudeClusterList_Items :: "(TypeMeta \<times> LatitudeCluster) list"

record LatitudeMachineList =
  LatitudeMachineList_ListMeta :: ListMeta
  LatitudeMachineList_Items :: "(TypeMeta \<times> LatitudeMachine) list"

record LatitudeMachineTemplateList =
  LatitudeMachineTemplateList_ListMeta :: ListMeta
  LatitudeMachineTemplateList_Items :: "(TypeMeta \<times> LatitudeMachineTemplate) list"

text \<open>Paths into the two resources, and updates of a machine's spec and status.\<close>

abbreviation lm_meta :: "LatitudeMachine \<Rightarrow> ObjectMeta" where
  "lm_meta \<equiv> LatitudeMachine_ObjectMeta"
abbreviation lm_status :: "LatitudeMachine \<Rightarrow> LatitudeMachineStatus" where
  "lm_status \<equiv> LatitudeMachine_Status"
abbreviation lm_spec :: "LatitudeMachine \<Rightarrow> LatitudeMachineSpec" where
  "lm_spec \<equiv> LatitudeMachine_Spec"
abbreviation lc_meta :: "LatitudeCluster \<Rightarrow> ObjectMeta" where
  "lc_meta \<equiv> LatitudeCluster_ObjectMeta"
abbreviation lc_status :: "LatitudeCluster \<Rightarrow> LatitudeClusterStatus" where
  "lc_status \<equiv> LatitudeCluster_Status"
abbreviation lc_spec :: "LatitudeCluster \<Rightarrow> LatitudeClusterSpec" where
  "lc_spec \<equiv> LatitudeCluster_Spec"

definition upd_lm_status ::
  "(LatitudeMachineStatus \<Rightarrow> LatitudeMachineStatus) \<Rightarrow> LatitudeMachine \<Rightarrow> LatitudeMachine" where
  "upd_lm_status f m = m\<lparr>LatitudeMachine_Status := f (LatitudeMachine_Status m)\<rparr>"

definition upd_lc_status ::
  "(LatitudeClusterStatus \<Rightarrow> LatitudeClusterStatus) \<Rightarrow> LatitudeCluster \<Rightarrow> LatitudeCluster" where
  "upd_lc_status f c = c\<lparr>LatitudeCluster_Status := f (LatitudeCluster_Status c)\<rparr>"

definition upd_lm_finalizers :: "(string list \<Rightarrow> string list) \<Rightarrow> LatitudeMachine \<Rightarrow> LatitudeMachine" where
  "upd_lm_finalizers f m = m\<lparr>LatitudeMachine_ObjectMeta := (LatitudeMachine_ObjectMeta m)
     \<lparr>ObjectMeta_Finalizers := f (ObjectMeta_Finalizers (LatitudeMachine_ObjectMeta m))\<rparr>\<rparr>"

definition upd_lc_finalizers :: "(string list \<Rightarrow> string list) \<Rightarrow> LatitudeCluster \<Rightarrow> LatitudeCluster" where
  "upd_lc_finalizers f c = c\<lparr>LatitudeCluster_ObjectMeta := (LatitudeCluster_ObjectMeta c)
     \<lparr>ObjectMeta_Finalizers := f (ObjectMeta_Finalizers (LatitudeCluster_ObjectMeta c))\<rparr>\<rparr>"

lemma upd_lm_status_simps [simp]:
  "lm_status (upd_lm_status f m) = f (lm_status m)"
  "lm_spec (upd_lm_status f m) = lm_spec m"
  "lm_meta (upd_lm_status f m) = lm_meta m"
  by (simp_all add: upd_lm_status_def)

lemma upd_lc_status_simps [simp]:
  "lc_status (upd_lc_status f c) = f (lc_status c)"
  "lc_spec (upd_lc_status f c) = lc_spec c"
  "lc_meta (upd_lc_status f c) = lc_meta c"
  by (simp_all add: upd_lc_status_def)

lemma upd_finalizers_simps [simp]:
  "lm_status (upd_lm_finalizers g m) = lm_status m"
  "lm_spec (upd_lm_finalizers g m) = lm_spec m"
  "ObjectMeta_Finalizers (lm_meta (upd_lm_finalizers g m)) = g (ObjectMeta_Finalizers (lm_meta m))"
  "lc_status (upd_lc_finalizers g c) = lc_status c"
  "lc_spec (upd_lc_finalizers g c) = lc_spec c"
  "ObjectMeta_Finalizers (lc_meta (upd_lc_finalizers g c)) = g (ObjectMeta_Finalizers (lc_meta c))"
  by (simp_all add: upd_lm_finalizers_def upd_lc_finalizers_def)

lemma SetConditions_simps [simp]:
  "machine_GetConditions (machine_SetConditions m cs) = cs"
  "cluster_GetConditions (cluster_SetConditions c cs) = cs"
  "lm_spec (machine_SetConditions m cs) = lm_spec m"
  "lm_meta (machine_SetConditions m cs) = lm_meta m"
  "lc_spec (cluster_SetConditions c cs) = lc_spec c"
  "lc_meta (cluster_SetConditions c cs) = lc_meta c"
  by (simp_all add: machine_GetConditions_def machine_SetConditions_def
      cluster_GetConditions_def cluster_SetConditions_def)

lemma machine_SetConditions_status [simp]:
  "MachineStatus_Ready (lm_status (machine_SetConditions m cs)) = MachineStatus_Ready (lm_status m)"
  "MachineStatus_ProviderID (lm_status (machine_SetConditions m cs)) = MachineStatus_ProviderID (lm_status m)"
  "MachineStatus_ServerID (lm_status (machine_SetConditions m cs)) = MachineStatus_ServerID (lm_status m)"
  "MachineStatus_UserDataID (lm_status (machine_SetConditions m cs)) = MachineStatus_UserDataID (lm_status m)"
  "MachineStatus_Addresses (lm_status (machine_SetConditions m cs)) = MachineStatus_Addresses (lm_status m)"
  "MachineStatus_FailureReason (lm_status (machine_SetConditions m cs)) = MachineStatus_FailureReason (lm_status m)"
  "MachineStatus_FailureMessage (lm_status (machine_SetConditions m cs)) = MachineStatus_FailureMessage (lm_status m)"
  by (simp_all add: machine_SetConditions_def)

lemma cluster_SetConditions_status [simp]:
  "ClusterStatus_Ready (lc_status (cluster_SetConditions c cs)) = ClusterStatus_Ready (lc_status c)"
  "ClusterStatus_ControlPlaneEndpoint (lc_status (cluster_SetConditions c cs)) =
     ClusterStatus_ControlPlaneEndpoint (lc_status c)"
  "ClusterStatus_VLANID (lc_status (cluster_SetConditions c cs)) = ClusterStatus_VLANID (lc_status c)"
  "ClusterStatus_VLANVID (lc_status (cluster_SetConditions c cs)) = ClusterStatus_VLANVID (lc_status c)"
  by (simp_all add: cluster_SetConditions_def)

end
