(* ===== verification/Kube_Env.thy ===== *)
theory Kube_Env
  imports Api_Types
begin

text \<open>
  The code outside \<open>src/\<close> that the controllers call on the Kubernetes side, as one record of
  functions every handler takes as an argument: the controller-runtime client (\<open>Get\<close>, \<open>List\<close>),
  the Cluster API utilities, the patch helper, the finalizer helpers and the clock. \<open>'w\<close> is the
  outside world, which any call may find changed, and \<open>'h\<close> is the patch helper's own state (the
  snapshot it took of the object). Nothing is assumed of these functions here; a theorem that needs
  their documented behaviour names it as a hypothesis (\<open>finalizer_laws\<close>).
\<close>

record ('w, 'h) kube =
  Get_LatitudeMachine :: "ObjectKey \<Rightarrow> 'w \<Rightarrow> (go_error + LatitudeMachine) \<times> 'w"
  Get_LatitudeCluster :: "ObjectKey \<Rightarrow> 'w \<Rightarrow> (go_error + LatitudeCluster) \<times> 'w"
  Get_Secret :: "ObjectKey \<Rightarrow> 'w \<Rightarrow> (go_error + (string \<rightharpoonup> string)) \<times> 'w"
  List_LatitudeMachines :: "string \<Rightarrow> 'w \<Rightarrow> (go_error + LatitudeMachine list) \<times> 'w"
  List_Machines :: "string \<Rightarrow> string \<Rightarrow> 'w \<Rightarrow> (go_error + Machine list) \<times> 'w"
  GetOwnerMachine :: "ObjectMeta \<Rightarrow> 'w \<Rightarrow> (go_error + Machine option) \<times> 'w"
  GetClusterFromMetadata :: "ObjectMeta \<Rightarrow> 'w \<Rightarrow> (go_error + Cluster option) \<times> 'w"
  GetOwnerCluster :: "ObjectMeta \<Rightarrow> 'w \<Rightarrow> (go_error + Cluster option) \<times> 'w"
  IsControlPlaneMachine :: "Machine \<Rightarrow> bool"
  NewHelper_LatitudeMachine :: "LatitudeMachine \<Rightarrow> go_error + 'h"
  NewHelper_LatitudeCluster :: "LatitudeCluster \<Rightarrow> go_error + 'h"
  Patch_LatitudeMachine :: "'h \<Rightarrow> LatitudeMachine \<Rightarrow> 'w \<Rightarrow> go_error option \<times> 'w"
  Patch_LatitudeCluster :: "'h \<Rightarrow> LatitudeCluster \<Rightarrow> 'w \<Rightarrow> go_error option \<times> 'w"
  ContainsFinalizer :: "string list \<Rightarrow> string \<Rightarrow> bool"
  AddFinalizer :: "string list \<Rightarrow> string \<Rightarrow> string list"
  RemoveFinalizer :: "string list \<Rightarrow> string \<Rightarrow> string list"
  Now :: "'w \<Rightarrow> int"

text \<open>
  The documented behaviour of \<open>controllerutil\<close>: a finalizer added is present, one removed is
  absent, and the others are left alone.
\<close>

definition finalizer_laws :: "('w, 'h) kube \<Rightarrow> bool" where
  "finalizer_laws k \<longleftrightarrow>
     (\<forall>fs f g. ContainsFinalizer k (AddFinalizer k fs f) g \<longleftrightarrow> g = f \<or> ContainsFinalizer k fs g) \<and>
     (\<forall>fs f g. ContainsFinalizer k (RemoveFinalizer k fs f) g \<longleftrightarrow> g \<noteq> f \<and> ContainsFinalizer k fs g)"

text \<open>The result of a reconcile request: \<open>ctrl.Result\<close> (seconds, 0 for the zero value) and the error.\<close>

record Result =
  RequeueAfter :: nat

definition done_result :: Result where "done_result = \<lparr>RequeueAfter = 0\<rparr>"

definition requeue_after :: "nat \<Rightarrow> Result" where "requeue_after n = \<lparr>RequeueAfter = n\<rparr>"

type_synonym reconcile_result = "Result \<times> go_error option"

text \<open>\<open>metav1.Now()\<close> inside a handler.\<close>

definition now :: "('w, 'h) kube \<Rightarrow> ('w, 'o, 'c, int) go" where
  "now k = (\<lambda>s. (Ok (Now k (world s)), s))"

lemma wp_now [wp_rules]: "wp (now k) Q s = Q (Ok (Now k (world s))) s"
  by (simp add: wp_def now_def)

lemma costs_now [cost_rules]: "costs p 0 (now k)"
  by (simp add: costs_def now_def)

lemma keeps_now [keep_rules]: "keeps P (now k)"
  by (simp add: keeps_def now_def)

text \<open>Event types.\<close>

definition EventTypeNormal :: string where "EventTypeNormal = ''Normal''"
definition EventTypeWarning :: string where "EventTypeWarning = ''Warning''"

end
