(* ===== verification/Latitude_Client.thy ===== *)
theory Latitude_Client
  imports Prelude Go_Encoding
begin

text \<open>
  \<open>internal/latitude/client.go\<close>: the interface \<open>ClientInterface\<close> the controllers program against
  and its implementation \<open>Client\<close> over the Latitude.sh SDK. The SDK is code outside \<open>src/\<close>: a record
  \<open>sdk\<close> of functions on the outside world \<open>'w\<close>, with the pointers of its responses as options. A
  method returns \<open>Inl\<close> of its error or \<open>Inr\<close> of its value, and panics where the code dereferences
  a nil pointer.
\<close>

section \<open>The data of the client\<close>

record ServerSpec =
  ServerSpec_Project :: string
  ServerSpec_Plan :: string
  ServerSpec_OperatingSystem :: string
  ServerSpec_Site :: string
  ServerSpec_Hostname :: string
  ServerSpec_SSHKeys :: "string list"
  ServerSpec_UserData :: string

record Server =
  Server_ID :: string
  Server_Status :: string
  Server_Hostname :: string
  Server_IPAddress :: "string list"

record VLAN =
  VLAN_ID :: string
  VLAN_VID :: int
  VLAN_Subnet :: string
  VLAN_Project :: string

record CreateVLANRequest =
  CreateVLANRequest_ProjectID :: string
  CreateVLANRequest_Site :: string
  CreateVLANRequest_Subnet :: string
  CreateVLANRequest_VID :: "int option"

record CreateUserDataRequest =
  CreateUserDataRequest_Name :: string
  CreateUserDataRequest_Content :: string

text \<open>\<open>ClientInterface\<close>; durations are in seconds.\<close>

record 'w ClientInterface =
  CreateServer :: "ServerSpec \<Rightarrow> ('w, go_error + Server) run"
  GetServer :: "string \<Rightarrow> ('w, go_error + Server) run"
  DeleteServer :: "string \<Rightarrow> ('w, go_error option) run"
  WaitForServer :: "string \<Rightarrow> string \<Rightarrow> nat \<Rightarrow> ('w, go_error + Server) run"
  GetAvailablePlans :: "('w, go_error + string list) run"
  GetAvailableRegions :: "('w, go_error + string list) run"
  CreateUserData :: "CreateUserDataRequest \<Rightarrow> ('w, go_error + string) run"
  DeleteUserData :: "string \<Rightarrow> ('w, go_error option) run"
  CreateVLAN :: "CreateVLANRequest \<Rightarrow> ('w, go_error + VLAN) run"
  GetVLAN :: "string \<Rightarrow> ('w, go_error + VLAN) run"
  ListVLANs :: "string \<Rightarrow> ('w, go_error + VLAN list) run"
  DeleteVLAN :: "string \<Rightarrow> ('w, go_error option) run"
  AttachServerToVLAN :: "string \<Rightarrow> string \<Rightarrow> ('w, go_error option) run"
  DetachServerFromVLAN :: "string \<Rightarrow> string \<Rightarrow> ('w, go_error option) run"

section \<open>The SDK\<close>

record SDK_CreateServerAttributes =
  SDKCreate_Project :: string
  SDKCreate_Plan :: string
  SDKCreate_OperatingSystem :: string
  SDKCreate_Site :: string
  SDKCreate_Hostname :: string
  SDKCreate_SSHKeys :: "string list"
  SDKCreate_Billing :: string
  SDKCreate_UserData :: "string option"

record SDK_ServerAttributes =
  SDKServer_Hostname :: "string option"
  SDKServer_Status :: "string option"
  SDKServer_PrimaryIpv4 :: "string option"

record SDK_ServerData =
  SDKServerData_ID :: "string option"
  SDKServerData_Attributes :: "SDK_ServerAttributes option"

record SDK_VLANAttributes =
  SDKVLAN_Description :: "string option"
  SDKVLAN_Vid :: "int option"

record SDK_VLANData =
  SDKVLANData_ID :: "string option"
  SDKVLANData_Attributes :: "SDK_VLANAttributes option"

record SDK_CreateVLANAttributes =
  SDKCreateVLAN_Project :: string
  SDKCreateVLAN_Site :: string
  SDKCreateVLAN_Description :: string

text \<open>
  Nested pointers of a response are nested options, outermost first: \<open>Servers_Create\<close> and
  \<open>Servers_Get\<close> return \<open>result.Server\<close> and its \<open>.Data\<close>, \<open>PrivateNetworks_Get\<close> returns
  \<open>res.Object\<close>, its \<open>.Data\<close> and its \<open>.Data.Data\<close>. An element of \<open>Plans_List\<close> and \<open>Regions_Get\<close>
  is \<open>.Attributes\<close> and its \<open>.Slug\<close>. \<open>Timer_Ticks t\<close> is the number of 30-second ticks the loop of
  \<open>WaitForServer\<close> gets to serve before a context of \<open>t\<close> seconds is done.
\<close>

record 'w sdk =
  UserData_CreateNew :: "string \<Rightarrow> string \<Rightarrow> 'w \<Rightarrow> (go_error + string option option) \<times> 'w"
  UserData_Delete :: "string \<Rightarrow> 'w \<Rightarrow> go_error option \<times> 'w"
  Servers_Create :: "SDK_CreateServerAttributes \<Rightarrow> 'w \<Rightarrow> (go_error + SDK_ServerData option option) \<times> 'w"
  Servers_Get :: "string \<Rightarrow> 'w \<Rightarrow> (go_error + SDK_ServerData option option) \<times> 'w"
  Servers_Delete :: "string \<Rightarrow> 'w \<Rightarrow> go_error option \<times> 'w"
  Plans_List :: "'w \<Rightarrow> (go_error + string option option list option) \<times> 'w"
  Regions_Get :: "'w \<Rightarrow> (go_error + string option option list option) \<times> 'w"
  PrivateNetworks_Create :: "SDK_CreateVLANAttributes \<Rightarrow> 'w \<Rightarrow> (go_error + SDK_VLANData option option) \<times> 'w"
  PrivateNetworks_Get :: "string \<Rightarrow> 'w \<Rightarrow> (go_error + SDK_VLANData option option option) \<times> 'w"
  PrivateNetworks_List :: "'w \<Rightarrow> (go_error + SDK_VLANData list option) \<times> 'w"
  VirtualNetworks_Delete :: "string \<Rightarrow> 'w \<Rightarrow> go_error option \<times> 'w"
  PrivateNetworks_Assign :: "string \<Rightarrow> string \<Rightarrow> 'w \<Rightarrow> go_error option \<times> 'w"
  PrivateNetworks_DeleteAssignment :: "string \<Rightarrow> 'w \<Rightarrow> go_error option \<times> 'w"
  Timer_Ticks :: "nat \<Rightarrow> nat"

section \<open>User data and servers\<close>

definition client_CreateUserData :: "'w sdk \<Rightarrow> CreateUserDataRequest \<Rightarrow> ('w, go_error + string) run" where
  "client_CreateUserData sdk req =
     go_bind (lift_run (UserData_CreateNew sdk (CreateUserDataRequest_Name req)
                (CreateUserDataRequest_Content req))) (\<lambda>res.
     case res of
       Inl err \<Rightarrow> go_return (Inl err)
     | Inr (Some (Some i)) \<Rightarrow> go_return (Inr i)
     | Inr (Some None) \<Rightarrow> go_panic
     | Inr None \<Rightarrow> go_return (Inr []))"

definition client_DeleteUserData :: "'w sdk \<Rightarrow> string \<Rightarrow> ('w, go_error option) run" where
  "client_DeleteUserData sdk i =
     go_bind (lift_run (UserData_Delete sdk i)) (\<lambda>res.
     case res of
       Some err \<Rightarrow> go_return (Some (Wrapf ''failed to delete user data'' err))
     | None \<Rightarrow> go_return None)"

definition validateServerSpec :: "ServerSpec \<Rightarrow> go_error option" where
  "validateServerSpec spec =
     (if ServerSpec_Project spec = [] then Some (Err ''project is required'')
      else if ServerSpec_Plan spec = [] then Some (Err ''plan is required'')
      else if ServerSpec_OperatingSystem spec = [] then Some (Err ''operatingSystem is required'')
      else if ServerSpec_Site spec = [] then Some (Err ''site is required'')
      else None)"

definition server_create_attributes :: "ServerSpec \<Rightarrow> SDK_CreateServerAttributes" where
  "server_create_attributes spec =
     \<lparr>SDKCreate_Project = ServerSpec_Project spec,
      SDKCreate_Plan = ServerSpec_Plan spec,
      SDKCreate_OperatingSystem = ServerSpec_OperatingSystem spec,
      SDKCreate_Site = ServerSpec_Site spec,
      SDKCreate_Hostname = ServerSpec_Hostname spec,
      SDKCreate_SSHKeys = ServerSpec_SSHKeys spec,
      SDKCreate_Billing = ''monthly'',
      SDKCreate_UserData = (if ServerSpec_UserData spec \<noteq> [] then Some (ServerSpec_UserData spec) else None)\<rparr>"

definition client_CreateServer :: "'w sdk \<Rightarrow> ServerSpec \<Rightarrow> ('w, go_error + Server) run" where
  "client_CreateServer sdk spec =
     (case validateServerSpec spec of
        Some err \<Rightarrow> go_return (Inl (Wrapf ''invalid server spec'' err))
      | None \<Rightarrow>
          go_bind (lift_run (Servers_Create sdk (server_create_attributes spec))) (\<lambda>result.
          case result of
            Inl err \<Rightarrow> go_return (Inl (Wrapf ''failed to create server'' err))
          | Inr (Some (Some data)) \<Rightarrow>
              (case SDKServerData_Attributes data of
                 None \<Rightarrow> go_return (Inl (Err ''invalid response from server creation''))
               | Some attrs \<Rightarrow>
                   (case SDKServerData_ID data of
                      None \<Rightarrow> go_panic
                    | Some i \<Rightarrow> go_return (Inr
                        \<lparr>Server_ID = i,
                         Server_Status = (case SDKServer_Status attrs of None \<Rightarrow> [] | Some st \<Rightarrow> st),
                         Server_Hostname = ServerSpec_Hostname spec,
                         Server_IPAddress = []\<rparr>)))
          | _ \<Rightarrow> go_return (Inl (Err ''invalid response from server creation''))))"

text \<open>\<open>GetServer\<close> reads \<open>attrs.PrimaryIpv4\<close> outside the test that \<open>attrs\<close> is not nil.\<close>

definition client_GetServer :: "'w sdk \<Rightarrow> string \<Rightarrow> ('w, go_error + Server) run" where
  "client_GetServer sdk serverID =
     go_bind (lift_run (Servers_Get sdk serverID)) (\<lambda>result.
     case result of
       Inl err \<Rightarrow> go_return (Inl (Wrapf ''failed to get server'' err))
     | Inr (Some (Some data)) \<Rightarrow>
         (case SDKServerData_Attributes data of
            None \<Rightarrow> go_panic
          | Some attrs \<Rightarrow> go_return (Inr
              \<lparr>Server_ID = serverID,
               Server_Status = (case SDKServer_Status attrs of None \<Rightarrow> [] | Some st \<Rightarrow> st),
               Server_Hostname = (case SDKServer_Hostname attrs of None \<Rightarrow> [] | Some h \<Rightarrow> h),
               Server_IPAddress = (case SDKServer_PrimaryIpv4 attrs of None \<Rightarrow> [] | Some ip \<Rightarrow> [ip])\<rparr>))
     | _ \<Rightarrow> go_return (Inl (Err (''server '' @ serverID @ '' not found''))))"

definition client_DeleteServer :: "'w sdk \<Rightarrow> string \<Rightarrow> ('w, go_error option) run" where
  "client_DeleteServer sdk serverID =
     go_bind (lift_run (Servers_Delete sdk serverID)) (\<lambda>res.
     case res of
       Some err \<Rightarrow> go_return (Some (Wrapf ''failed to delete server'' err))
     | None \<Rightarrow> go_return None)"

text \<open>
  The loop of \<open>WaitForServer\<close> over the ticks it serves; when they are used up the context is done.
\<close>

primrec wait_loop :: "'w sdk \<Rightarrow> string \<Rightarrow> string \<Rightarrow> nat \<Rightarrow> ('w, go_error + Server) run" where
  "wait_loop sdk serverID targetStatus 0 =
     go_return (Inl (Err (''timeout waiting for server '' @ serverID @ '' to reach '' @ targetStatus)))"
| "wait_loop sdk serverID targetStatus (Suc k) =
     go_bind (client_GetServer sdk serverID) (\<lambda>res.
     case res of
       Inl err \<Rightarrow> go_return (Inl (Wrapf ''failed to get server'' err))
     | Inr server \<Rightarrow>
         if equal_fold (Server_Status server) targetStatus then go_return (Inr server)
         else wait_loop sdk serverID targetStatus k)"

definition client_WaitForServer ::
  "'w sdk \<Rightarrow> string \<Rightarrow> string \<Rightarrow> nat \<Rightarrow> ('w, go_error + Server) run" where
  "client_WaitForServer sdk serverID targetStatus timeout =
     wait_loop sdk serverID targetStatus (Timer_Ticks sdk timeout)"

section \<open>Plans and regions\<close>

text \<open>The slugs of a listing, without the entries that have none.\<close>

fun slugs :: "string option option list \<Rightarrow> string list" where
  "slugs [] = []"
| "slugs (Some (Some slug) # xs) = slug # slugs xs"
| "slugs (_ # xs) = slugs xs"

definition client_GetAvailablePlans :: "'w sdk \<Rightarrow> ('w, go_error + string list) run" where
  "client_GetAvailablePlans sdk =
     go_bind (lift_run (Plans_List sdk)) (\<lambda>result.
     case result of
       Inl err \<Rightarrow> go_return (Inl (Wrapf ''failed to get available plans'' err))
     | Inr None \<Rightarrow> go_return (Inr [])
     | Inr (Some data) \<Rightarrow> go_return (Inr (slugs data)))"

definition client_GetAvailableRegions :: "'w sdk \<Rightarrow> ('w, go_error + string list) run" where
  "client_GetAvailableRegions sdk =
     go_bind (lift_run (Regions_Get sdk)) (\<lambda>result.
     case result of
       Inl err \<Rightarrow> go_return (Inl (Wrapf ''failed to get available regions'' err))
     | Inr None \<Rightarrow> go_return (Inr [])
     | Inr (Some data) \<Rightarrow> go_return (Inr (slugs data)))"

section \<open>VLANs\<close>

definition vlan_description :: "SDK_VLANAttributes \<Rightarrow> string" where
  "vlan_description attrs = (case SDKVLAN_Description attrs of None \<Rightarrow> [] | Some d \<Rightarrow> d)"

definition vlan_vid :: "SDK_VLANAttributes \<Rightarrow> int" where
  "vlan_vid attrs = (case SDKVLAN_Vid attrs of None \<Rightarrow> 0 | Some v \<Rightarrow> v)"

text \<open>The loop of \<open>ListVLANs\<close>: an entry without attributes is skipped, one without an ID panics.\<close>

fun list_vlans_loop :: "string \<Rightarrow> SDK_VLANData list \<Rightarrow> VLAN list outcome" where
  "list_vlans_loop projectID [] = Ok []"
| "list_vlans_loop projectID (d # ds) =
     (case SDKVLANData_Attributes d of
        None \<Rightarrow> list_vlans_loop projectID ds
      | Some attrs \<Rightarrow>
          (case SDKVLANData_ID d of
             None \<Rightarrow> Panic
           | Some i \<Rightarrow>
               (case list_vlans_loop projectID ds of
                  Panic \<Rightarrow> Panic
                | Ok vlans \<Rightarrow> Ok (\<lparr>VLAN_ID = i, VLAN_VID = vlan_vid attrs,
                    VLAN_Subnet = vlan_description attrs, VLAN_Project = projectID\<rparr> # vlans))))"

definition client_ListVLANs :: "'w sdk \<Rightarrow> string \<Rightarrow> ('w, go_error + VLAN list) run" where
  "client_ListVLANs sdk projectID =
     go_bind (lift_run (PrivateNetworks_List sdk)) (\<lambda>res.
     case res of
       Inl err \<Rightarrow> go_return (Inl (Wrapf ''failed to list VLANs'' err))
     | Inr None \<Rightarrow> go_return (Inr [])
     | Inr (Some data) \<Rightarrow>
         (case list_vlans_loop projectID data of
            Panic \<Rightarrow> go_panic
          | Ok vlans \<Rightarrow> go_return (Inr vlans)))"

text \<open>The part of \<open>CreateVLAN\<close> after the search for an existing VLAN.\<close>

definition create_new_vlan :: "'w sdk \<Rightarrow> CreateVLANRequest \<Rightarrow> ('w, go_error + VLAN) run" where
  "create_new_vlan sdk req =
     go_bind (lift_run (PrivateNetworks_Create sdk
       \<lparr>SDKCreateVLAN_Project = CreateVLANRequest_ProjectID req,
        SDKCreateVLAN_Site = to_lower (CreateVLANRequest_Site req),
        SDKCreateVLAN_Description = CreateVLANRequest_Subnet req\<rparr>)) (\<lambda>res.
     case res of
       Inl err \<Rightarrow> go_return (Inl (Wrapf ''failed to create VLAN'' err))
     | Inr (Some (Some vlanData)) \<Rightarrow>
         (case SDKVLANData_ID vlanData of
            None \<Rightarrow> go_panic
          | Some i \<Rightarrow> go_return (Inr
              \<lparr>VLAN_ID = i,
               VLAN_VID = (case SDKVLANData_Attributes vlanData of None \<Rightarrow> 0 | Some a \<Rightarrow> vlan_vid a),
               VLAN_Subnet = CreateVLANRequest_Subnet req,
               VLAN_Project = CreateVLANRequest_ProjectID req\<rparr>))
     | _ \<Rightarrow> go_return (Inl (Err ''empty response from VLAN creation'')))"

definition client_CreateVLAN :: "'w sdk \<Rightarrow> CreateVLANRequest \<Rightarrow> ('w, go_error + VLAN) run" where
  "client_CreateVLAN sdk req =
     (if CreateVLANRequest_ProjectID req = [] then go_return (Inl (Err ''projectID is required''))
      else if CreateVLANRequest_Subnet req = [] then go_return (Inl (Err ''subnet is required''))
      else if CreateVLANRequest_Site req = [] then go_return (Inl (Err ''site is required''))
      else
        go_bind (client_ListVLANs sdk (CreateVLANRequest_ProjectID req)) (\<lambda>existing.
        case existing of
          Inl err \<Rightarrow> create_new_vlan sdk req
        | Inr vlans \<Rightarrow>
            (case find (\<lambda>v. VLAN_Subnet v = CreateVLANRequest_Subnet req) vlans of
               Some v \<Rightarrow> go_return (Inr v)
             | None \<Rightarrow> create_new_vlan sdk req)))"

definition client_GetVLAN :: "'w sdk \<Rightarrow> string \<Rightarrow> ('w, go_error + VLAN) run" where
  "client_GetVLAN sdk vlanID =
     (if vlanID = [] then go_return (Inl (Err ''vlanID is required''))
      else
        go_bind (lift_run (PrivateNetworks_Get sdk vlanID)) (\<lambda>res.
        case res of
          Inl err \<Rightarrow> go_return (Inl (Wrapf ''failed to get VLAN'' err))
        | Inr (Some (Some (Some vlanData))) \<Rightarrow>
            (case SDKVLANData_ID vlanData of
               None \<Rightarrow> go_panic
             | Some i \<Rightarrow> go_return (Inr
                 \<lparr>VLAN_ID = i,
                  VLAN_VID = (case SDKVLANData_Attributes vlanData of None \<Rightarrow> 0 | Some a \<Rightarrow> vlan_vid a),
                  VLAN_Subnet =
                    (case SDKVLANData_Attributes vlanData of None \<Rightarrow> [] | Some a \<Rightarrow> vlan_description a),
                  VLAN_Project = []\<rparr>))
        | _ \<Rightarrow> go_return (Inl (Err (''VLAN not found: '' @ vlanID)))))"

definition client_DeleteVLAN :: "'w sdk \<Rightarrow> string \<Rightarrow> ('w, go_error option) run" where
  "client_DeleteVLAN sdk vlanID =
     (if vlanID = [] then go_return (Some (Err ''vlanID is required''))
      else
        go_bind (lift_run (VirtualNetworks_Delete sdk vlanID)) (\<lambda>res.
        case res of
          Some err \<Rightarrow>
            if str_contains (error_text err) ''not found'' \<or> str_contains (error_text err) ''404''
            then go_return None
            else go_return (Some (Wrapf ''failed to delete VLAN'' err))
        | None \<Rightarrow> go_return None))"

definition client_AttachServerToVLAN :: "'w sdk \<Rightarrow> string \<Rightarrow> string \<Rightarrow> ('w, go_error option) run" where
  "client_AttachServerToVLAN sdk serverID vlanID =
     (if serverID = [] then go_return (Some (Err ''serverID is required''))
      else if vlanID = [] then go_return (Some (Err ''vlanID is required''))
      else
        go_bind (lift_run (PrivateNetworks_Assign sdk serverID vlanID)) (\<lambda>res.
        case res of
          Some err \<Rightarrow>
            if str_contains (error_text err) ''already assigned'' \<or>
               str_contains (error_text err) ''already exists''
            then go_return None
            else go_return (Some (Wrapf ''failed to attach server to VLAN'' err))
        | None \<Rightarrow> go_return None))"

definition client_DetachServerFromVLAN :: "'w sdk \<Rightarrow> string \<Rightarrow> string \<Rightarrow> ('w, go_error option) run" where
  "client_DetachServerFromVLAN sdk serverID vlanID =
     (if serverID = [] then go_return (Some (Err ''serverID is required''))
      else if vlanID = [] then go_return (Some (Err ''vlanID is required''))
      else
        go_bind (lift_run (PrivateNetworks_DeleteAssignment sdk (serverID @ ''-'' @ vlanID))) (\<lambda>res.
        case res of
          Some err \<Rightarrow>
            if str_contains (error_text err) ''not found'' \<or> str_contains (error_text err) ''404''
            then go_return None
            else go_return (Some (Wrapf ''failed to detach server from VLAN'' err))
        | None \<Rightarrow> go_return None))"

section \<open>The client as an implementation of the interface\<close>

definition Client :: "'w sdk \<Rightarrow> 'w ClientInterface" where
  "Client sdk =
     \<lparr>CreateServer = client_CreateServer sdk,
      GetServer = client_GetServer sdk,
      DeleteServer = client_DeleteServer sdk,
      WaitForServer = client_WaitForServer sdk,
      GetAvailablePlans = client_GetAvailablePlans sdk,
      GetAvailableRegions = client_GetAvailableRegions sdk,
      CreateUserData = client_CreateUserData sdk,
      DeleteUserData = client_DeleteUserData sdk,
      CreateVLAN = client_CreateVLAN sdk,
      GetVLAN = client_GetVLAN sdk,
      ListVLANs = client_ListVLANs sdk,
      DeleteVLAN = client_DeleteVLAN sdk,
      AttachServerToVLAN = client_AttachServerToVLAN sdk,
      DetachServerFromVLAN = client_DetachServerFromVLAN sdk\<rparr>"

text \<open>
  \<open>NewClient\<close>: \<open>apiKey\<close> is the value of \<open>LATITUDE_API_KEY\<close> (empty when unset) and \<open>new_sdk\<close> the SDK's
  constructor.
\<close>

definition NewClient :: "(string \<Rightarrow> 'w sdk) \<Rightarrow> string \<Rightarrow> go_error + 'w ClientInterface" where
  "NewClient new_sdk apiKey =
     (if apiKey = [] then Inl (Err ''LATITUDE_API_KEY environment variable is required'')
      else Inr (Client (new_sdk apiKey)))"

section \<open>The contract of the interface\<close>

text \<open>
  What the controllers rely on beyond the types: the server fetched is the one asked for, a server
  is created under the requested host name, and the VLAN that \<open>CreateVLAN\<close> returns, found or new,
  carries the requested description and project.
\<close>

locale latitude_api =
  fixes api :: "'w ClientInterface"
  assumes get_server_id: "GetServer api i w = (Ok (Inr srv), w') \<Longrightarrow> Server_ID srv = i"
    and create_server_hostname:
      "CreateServer api spec w = (Ok (Inr srv), w') \<Longrightarrow> Server_Hostname srv = ServerSpec_Hostname spec"
    and create_vlan_request:
      "CreateVLAN api req w = (Ok (Inr v), w') \<Longrightarrow>
         VLAN_Subnet v = CreateVLANRequest_Subnet req \<and> VLAN_Project v = CreateVLANRequest_ProjectID req"

lemma client_GetServer_id: "client_GetServer sdk i w = (Ok (Inr srv), w') \<Longrightarrow> Server_ID srv = i"
  by (auto simp: client_GetServer_def go_defs split: prod.splits sum.splits option.splits)

lemma client_CreateServer_hostname:
  "client_CreateServer sdk spec w = (Ok (Inr srv), w') \<Longrightarrow> Server_Hostname srv = ServerSpec_Hostname spec"
  by (auto simp: client_CreateServer_def go_defs split: prod.splits sum.splits option.splits)

lemma list_vlans_loop_project:
  "list_vlans_loop p ds = Ok vs \<Longrightarrow> v \<in> set vs \<Longrightarrow> VLAN_Project v = p"
  by (induction ds arbitrary: vs) (auto split: option.splits outcome.splits)

lemma client_ListVLANs_project:
  "client_ListVLANs sdk p w = (Ok (Inr vs), w') \<Longrightarrow> v \<in> set vs \<Longrightarrow> VLAN_Project v = p"
  by (auto simp: client_ListVLANs_def go_defs list_vlans_loop_project
      split: prod.splits sum.splits option.splits outcome.splits)

lemma create_new_vlan_request:
  "create_new_vlan sdk req w = (Ok (Inr v), w') \<Longrightarrow>
     VLAN_Subnet v = CreateVLANRequest_Subnet req \<and> VLAN_Project v = CreateVLANRequest_ProjectID req"
  by (auto simp: create_new_vlan_def go_defs split: prod.splits sum.splits option.splits)

lemma client_CreateVLAN_request:
  "client_CreateVLAN sdk req w = (Ok (Inr v), w') \<Longrightarrow>
     VLAN_Subnet v = CreateVLANRequest_Subnet req \<and> VLAN_Project v = CreateVLANRequest_ProjectID req"
  unfolding client_CreateVLAN_def
  by (auto simp: go_bind_def go_return_def
      split: if_splits prod.splits sum.splits option.splits outcome.splits
      dest!: find_SomeD dest: create_new_vlan_request client_ListVLANs_project)

interpretation client_api: latitude_api "Client sdk" for sdk :: "'w sdk"
  by unfold_locales
    (auto simp: Client_def client_GetServer_id client_CreateServer_hostname client_CreateVLAN_request)

end
