(* ===== verification/Calls.thy ===== *)
theory Calls
  imports Kube_Env Latitude_Client
begin

text \<open>
  The calls of a controller that reach the Latitude.sh client or write to the Kubernetes API, as
  they appear in the trace of a reconciliation. \<open>CallPatch obj\<close> is a call of the patch helper with
  the object as it stands. Each wrapper makes the call through the interface and records it.
\<close>

datatype 'o api_call =
    CallCreateServer ServerSpec
  | CallGetServer string
  | CallDeleteServer string
  | CallCreateUserData CreateUserDataRequest
  | CallDeleteUserData string
  | CallGetAvailableRegions
  | CallCreateVLAN CreateVLANRequest
  | CallGetVLAN string
  | CallDeleteVLAN string
  | CallAttachServerToVLAN string string
  | CallPatch 'o

type_synonym ('w, 'o, 'a) handler = "('w, 'o, 'o api_call, 'a) go"

definition call_CreateServer ::
  "'w ClientInterface \<Rightarrow> ServerSpec \<Rightarrow> ('w, 'o, go_error + Server) handler" where
  "call_CreateServer api spec = call (CallCreateServer spec) (CreateServer api spec)"

definition call_GetServer :: "'w ClientInterface \<Rightarrow> string \<Rightarrow> ('w, 'o, go_error + Server) handler" where
  "call_GetServer api i = call (CallGetServer i) (GetServer api i)"

definition call_DeleteServer :: "'w ClientInterface \<Rightarrow> string \<Rightarrow> ('w, 'o, go_error option) handler" where
  "call_DeleteServer api i = call (CallDeleteServer i) (DeleteServer api i)"

definition call_CreateUserData ::
  "'w ClientInterface \<Rightarrow> CreateUserDataRequest \<Rightarrow> ('w, 'o, go_error + string) handler" where
  "call_CreateUserData api req = call (CallCreateUserData req) (CreateUserData api req)"

definition call_DeleteUserData :: "'w ClientInterface \<Rightarrow> string \<Rightarrow> ('w, 'o, go_error option) handler" where
  "call_DeleteUserData api i = call (CallDeleteUserData i) (DeleteUserData api i)"

definition call_GetAvailableRegions :: "'w ClientInterface \<Rightarrow> ('w, 'o, go_error + string list) handler" where
  "call_GetAvailableRegions api = call CallGetAvailableRegions (GetAvailableRegions api)"

definition call_CreateVLAN ::
  "'w ClientInterface \<Rightarrow> CreateVLANRequest \<Rightarrow> ('w, 'o, go_error + VLAN) handler" where
  "call_CreateVLAN api req = call (CallCreateVLAN req) (CreateVLAN api req)"

definition call_GetVLAN :: "'w ClientInterface \<Rightarrow> string \<Rightarrow> ('w, 'o, go_error + VLAN) handler" where
  "call_GetVLAN api i = call (CallGetVLAN i) (GetVLAN api i)"

definition call_DeleteVLAN :: "'w ClientInterface \<Rightarrow> string \<Rightarrow> ('w, 'o, go_error option) handler" where
  "call_DeleteVLAN api i = call (CallDeleteVLAN i) (DeleteVLAN api i)"

definition call_AttachServerToVLAN ::
  "'w ClientInterface \<Rightarrow> string \<Rightarrow> string \<Rightarrow> ('w, 'o, go_error option) handler" where
  "call_AttachServerToVLAN api i v = call (CallAttachServerToVLAN i v) (AttachServerToVLAN api i v)"

lemmas call_defs = call_CreateServer_def call_GetServer_def call_DeleteServer_def
  call_CreateUserData_def call_DeleteUserData_def call_GetAvailableRegions_def call_CreateVLAN_def
  call_GetVLAN_def call_DeleteVLAN_def call_AttachServerToVLAN_def

text \<open>\<open>patchHelper.Patch(ctx, obj)\<close> with the object behind the pointer.\<close>

definition patch_object :: "('o \<Rightarrow> 'w \<Rightarrow> go_error option \<times> 'w) \<Rightarrow> ('w, 'o, go_error option) handler" where
  "patch_object p = go_bind get_object (\<lambda>obj. call (CallPatch obj) (lift_run (p obj)))"

lemma lift_run_simps [simp]: "fst (lift_run f s) = Ok (fst (f s))" "snd (lift_run f s) = snd (f s)"
  by (simp_all add: lift_run_def split: prod.splits)

lemma wp_patch_object [wp_rules]:
  "wp (patch_object p) Q s = Q (Ok (fst (p (object s) (world s))))
     (s\<lparr>world := snd (p (object s) (world s)), calls := calls s @ [CallPatch (object s)]\<rparr>)"
  by (simp add: patch_object_def wp_rules)

lemma wp_api_calls [wp_rules]:
  "wp (call_CreateServer api spec) Q1 s = Q1 (fst (CreateServer api spec (world s)))
     (s\<lparr>world := snd (CreateServer api spec (world s)), calls := calls s @ [CallCreateServer spec]\<rparr>)"
  "wp (call_GetServer api i) Q2 s = Q2 (fst (GetServer api i (world s)))
     (s\<lparr>world := snd (GetServer api i (world s)), calls := calls s @ [CallGetServer i]\<rparr>)"
  "wp (call_DeleteServer api i) Q3 s = Q3 (fst (DeleteServer api i (world s)))
     (s\<lparr>world := snd (DeleteServer api i (world s)), calls := calls s @ [CallDeleteServer i]\<rparr>)"
  "wp (call_CreateUserData api ureq) Q4 s = Q4 (fst (CreateUserData api ureq (world s)))
     (s\<lparr>world := snd (CreateUserData api ureq (world s)), calls := calls s @ [CallCreateUserData ureq]\<rparr>)"
  "wp (call_DeleteUserData api i) Q5 s = Q5 (fst (DeleteUserData api i (world s)))
     (s\<lparr>world := snd (DeleteUserData api i (world s)), calls := calls s @ [CallDeleteUserData i]\<rparr>)"
  "wp (call_GetAvailableRegions api) Q6 s = Q6 (fst (GetAvailableRegions api (world s)))
     (s\<lparr>world := snd (GetAvailableRegions api (world s)), calls := calls s @ [CallGetAvailableRegions]\<rparr>)"
  "wp (call_CreateVLAN api vreq) Q7 s = Q7 (fst (CreateVLAN api vreq (world s)))
     (s\<lparr>world := snd (CreateVLAN api vreq (world s)), calls := calls s @ [CallCreateVLAN vreq]\<rparr>)"
  "wp (call_GetVLAN api i) Q8 s = Q8 (fst (GetVLAN api i (world s)))
     (s\<lparr>world := snd (GetVLAN api i (world s)), calls := calls s @ [CallGetVLAN i]\<rparr>)"
  "wp (call_DeleteVLAN api i) Q9 s = Q9 (fst (DeleteVLAN api i (world s)))
     (s\<lparr>world := snd (DeleteVLAN api i (world s)), calls := calls s @ [CallDeleteVLAN i]\<rparr>)"
  "wp (call_AttachServerToVLAN api i v) Q10 s = Q10 (fst (AttachServerToVLAN api i v (world s)))
     (s\<lparr>world := snd (AttachServerToVLAN api i v (world s)), calls := calls s @ [CallAttachServerToVLAN i v]\<rparr>)"
  by (simp_all add: call_defs wp_call)

section \<open>The deferred patch of a Reconcile method\<close>

text \<open>
  Both \<open>Reconcile\<close> methods defer a patch of the object: it runs after the body on every return, and
  also when the body panics. Its error is returned only if the body returned none.
\<close>

definition with_deferred_patch ::
  "('o \<Rightarrow> 'w \<Rightarrow> go_error option \<times> 'w) \<Rightarrow> ('w, 'o, reconcile_result) handler \<Rightarrow>
   ('w, 'o, reconcile_result) handler" where
  "with_deferred_patch p body = (\<lambda>s.
     case body s of (r, t) \<Rightarrow>
     (case patch_object p t of
        (Ok perr, u) \<Rightarrow>
          (case r of
             Ok (res, None) \<Rightarrow> (Ok (res, perr), u)
           | Ok (res, Some err) \<Rightarrow> (Ok (res, Some err), u)
           | Panic \<Rightarrow> (Panic, u))
      | (Panic, u) \<Rightarrow> (Panic, u)))"

lemma with_deferred_patch_state:
  assumes "body s = (r, t)"
  shows "snd (with_deferred_patch p body s) =
    t\<lparr>world := snd (p (object t) (world t)), calls := calls t @ [CallPatch (object t)]\<rparr>"
  using assms
  by (simp add: with_deferred_patch_def patch_object_def go_defs
      split: prod.split outcome.split option.split)

lemma with_deferred_patch_result:
  assumes "body s = (r, t)"
  shows "fst (with_deferred_patch p body s) =
    (case r of Ok (res, None) \<Rightarrow> Ok (res, fst (p (object t) (world t)))
     | Ok (res, Some err) \<Rightarrow> Ok (res, Some err) | Panic \<Rightarrow> Panic)"
  using assms
  by (simp add: with_deferred_patch_def patch_object_def go_defs
      split: prod.split outcome.split option.split)

text \<open>What a request leaves behind: its outcome, the world, the events and the trace of calls.\<close>

record ('w, 'o) report =
  Report_Outcome :: "reconcile_result outcome"
  Report_World :: 'w
  Report_Events :: "k8s_event list"
  Report_Calls :: "'o api_call list"

definition report :: "reconcile_result outcome \<times> ('w, 'o, 'o api_call) st \<Rightarrow> ('w, 'o) report" where
  "report rs = \<lparr>Report_Outcome = fst rs, Report_World = world (snd rs),
     Report_Events = events (snd rs), Report_Calls = calls (snd rs)\<rparr>"

definition no_calls :: "reconcile_result \<Rightarrow> 'w \<Rightarrow> ('w, 'o) report" where
  "no_calls r w = \<lparr>Report_Outcome = Ok r, Report_World = w, Report_Events = [], Report_Calls = []\<rparr>"

definition start :: "'w \<Rightarrow> 'o \<Rightarrow> ('w, 'o, 'o api_call) st" where
  "start w obj = \<lparr>world = w, object = obj, events = [], calls = []\<rparr>"

lemma start_simps [simp]:
  "world (start w obj) = w" "object (start w obj) = obj" "events (start w obj) = []" "calls (start w obj) = []"
  by (simp_all add: start_def)

section \<open>Kinds of calls\<close>

fun is_create_server :: "'o api_call \<Rightarrow> bool" where
  "is_create_server (CallCreateServer spec) = True"
| "is_create_server _ = False"

fun is_delete_server :: "'o api_call \<Rightarrow> bool" where
  "is_delete_server (CallDeleteServer i) = True"
| "is_delete_server _ = False"

fun_cases is_delete_serverE: "is_delete_server c"

fun is_create_user_data :: "'o api_call \<Rightarrow> bool" where
  "is_create_user_data (CallCreateUserData req) = True"
| "is_create_user_data _ = False"

fun is_create_vlan :: "'o api_call \<Rightarrow> bool" where
  "is_create_vlan (CallCreateVLAN req) = True"
| "is_create_vlan _ = False"

fun is_delete_vlan :: "'o api_call \<Rightarrow> bool" where
  "is_delete_vlan (CallDeleteVLAN i) = True"
| "is_delete_vlan _ = False"

fun is_patch :: "'o api_call \<Rightarrow> bool" where
  "is_patch (CallPatch obj) = True"
| "is_patch _ = False"

lemma costs_patch_object [cost_rules]:
  "(\<And>obj. \<not> p (CallPatch obj)) \<Longrightarrow> costs p 0 (patch_object f)"
  unfolding patch_object_def by (intro cost_rules) simp

lemma costs_api_calls [cost_rules]:
  "\<not> p (CallCreateServer spec) \<Longrightarrow> costs p 0 (call_CreateServer api spec)"
  "\<not> p (CallGetServer i) \<Longrightarrow> costs p 0 (call_GetServer api i)"
  "\<not> p (CallDeleteServer i) \<Longrightarrow> costs p 0 (call_DeleteServer api i)"
  "\<not> p (CallCreateUserData ureq) \<Longrightarrow> costs p 0 (call_CreateUserData api ureq)"
  "\<not> p (CallDeleteUserData i) \<Longrightarrow> costs p 0 (call_DeleteUserData api i)"
  "\<not> p CallGetAvailableRegions \<Longrightarrow> costs p 0 (call_GetAvailableRegions api)"
  "\<not> p (CallCreateVLAN vreq) \<Longrightarrow> costs p 0 (call_CreateVLAN api vreq)"
  "\<not> p (CallGetVLAN i) \<Longrightarrow> costs p 0 (call_GetVLAN api i)"
  "\<not> p (CallDeleteVLAN i) \<Longrightarrow> costs p 0 (call_DeleteVLAN api i)"
  "\<not> p (CallAttachServerToVLAN i v) \<Longrightarrow> costs p 0 (call_AttachServerToVLAN api i v)"
  unfolding call_defs by (rule costs_call_other, assumption)+

section \<open>What a reconciliation may hand to the API server\<close>

text \<open>
  \<open>good P\<close>: the object behind the pointer satisfies \<open>P\<close>, and so does every object that was handed to
  the patch helper so far. A handler that keeps \<open>good P\<close> persists only objects that satisfy \<open>P\<close>.
\<close>

definition good :: "('o \<Rightarrow> bool) \<Rightarrow> ('w, 'o, 'o api_call) st \<Rightarrow> bool" where
  "good P s \<longleftrightarrow> P (object s) \<and> (\<forall>obj. CallPatch obj \<in> set (calls s) \<longrightarrow> P obj)"

lemma good_start [simp]: "good P (start w obj) = P obj"
  by (simp add: good_def)

lemma good_objectD: "good P s \<Longrightarrow> P (object s)"
  by (simp add: good_def)

lemma good_mono: "good P s \<Longrightarrow> (\<And>obj. P obj \<Longrightarrow> Q obj) \<Longrightarrow> good Q s"
  by (simp add: good_def)

lemma good_query [keep_rules]: "keeps (good P) (query f)"
  by (auto simp: keeps_def good_def go_defs split: prod.splits)

lemma good_emit [keep_rules]: "keeps (good P) (emit ty re ms)"
  by (simp add: keeps_def good_def go_defs)

lemma good_set_object [keep_rules]:
  "(\<And>obj. P obj \<Longrightarrow> P (f obj)) \<Longrightarrow> keeps (good P) (set_object f)"
  by (simp add: keeps_def good_def go_defs)

lemma good_call: "(\<And>obj. c \<noteq> CallPatch obj) \<Longrightarrow> keeps (good P) (call c f)"
  by (auto simp: keeps_def good_def go_defs split: prod.splits)

lemma good_api_calls [keep_rules]:
  "keeps (good P) (call_CreateServer api spec)" "keeps (good P) (call_GetServer api i)"
  "keeps (good P) (call_DeleteServer api i)" "keeps (good P) (call_CreateUserData api ureq)"
  "keeps (good P) (call_DeleteUserData api i)" "keeps (good P) (call_GetAvailableRegions api)"
  "keeps (good P) (call_CreateVLAN api vreq)" "keeps (good P) (call_GetVLAN api i)"
  "keeps (good P) (call_DeleteVLAN api i)" "keeps (good P) (call_AttachServerToVLAN api i v)"
  unfolding call_defs by (rule good_call, simp)+

lemma good_patch_object [keep_rules]: "keeps (good P) (patch_object p)"
  by (auto simp: keeps_def good_def patch_object_def go_defs split: prod.splits)

lemma good_deferred_patch [keep_rules]:
  fixes body :: "('w, 'o, reconcile_result) handler"
  assumes "keeps (good P) body"
  shows "keeps (good P) (with_deferred_patch p body)"
proof (rule keepsI)
  fix s :: "('w, 'o, 'o api_call) st"
  assume "good P s"
  obtain r t where b: "body s = (r, t)" by fastforce
  from keepsD [OF assms \<open>good P s\<close> b] have "good P t" .
  then show "good P (snd (with_deferred_patch p body s))"
    by (auto simp: with_deferred_patch_state [where body = body and s = s, OF b] good_def)
qed

lemma keeps_wp: "keeps P m \<Longrightarrow> P s \<Longrightarrow> wp m (\<lambda>r t. P t) s"
  by (auto simp: keeps_def wp_def split: prod.splits dest: spec [where x = s])

lemma costs_deferred_patch [cost_rules]:
  assumes body: "costs p n body" and p: "\<And>obj. \<not> p (CallPatch obj)"
  shows "costs p n (with_deferred_patch f body)"
proof (rule costsI)
  fix s
  obtain r t where b: "body s = (r, t)" by fastforce
  from costsD [OF body b] obtain cs where "calls t = calls s @ cs" "length (filter p cs) \<le> n" .
  then show "\<exists>cs. calls (snd (with_deferred_patch f body s)) = calls s @ cs \<and> length (filter p cs) \<le> n"
    by (intro exI [of _ "cs @ [CallPatch (object t)]"]) (simp add: with_deferred_patch_state [where body = body and s = s, OF b] p)
qed

end
