(* ===== verification/Machine_Scope.thy ===== *)
theory Machine_Scope
  imports Calls
begin

text \<open>
  \<open>internal/scope/machine.go\<close>. A scope shares the reconciler's \<open>LatitudeMachine\<close> pointer, so that
  object is the one in the handler's state; the scope itself holds the owner machine and a patch
  helper of its own. A nil interface or pointer among the parameters is \<open>None\<close>.
\<close>

record ('w, 'h) MachineScopeParams =
  Params_Client :: "('w, 'h) kube option"
  Params_Machine :: "Machine option"
  Params_LatitudeMachine :: "LatitudeMachine option"

record 'h MachineScope =
  MachineScope_Machine :: Machine
  MachineScope_patchHelper :: 'h

definition NewMachineScope :: "('w, 'h) MachineScopeParams \<Rightarrow> go_error + 'h MachineScope" where
  "NewMachineScope params =
     (case Params_Client params of
        None \<Rightarrow> Inl (Err ''client is required when creating a MachineScope'')
      | Some k \<Rightarrow>
     (case Params_Machine params of
        None \<Rightarrow> Inl (Err ''machine is required when creating a MachineScope'')
      | Some m \<Rightarrow>
     (case Params_LatitudeMachine params of
        None \<Rightarrow> Inl (Err ''latitudeMachine is required when creating a MachineScope'')
      | Some lm \<Rightarrow>
     (case NewHelper_LatitudeMachine k lm of
        Inl err \<Rightarrow> Inl (Wrapf ''failed to create patch helper'' err)
      | Inr helper \<Rightarrow> Inr \<lparr>MachineScope_Machine = m, MachineScope_patchHelper = helper\<rparr>))))"

definition scope_Close ::
  "('w, 'h) kube \<Rightarrow> 'h MachineScope \<Rightarrow> ('w, LatitudeMachine, go_error option) handler" where
  "scope_Close k sc = patch_object (Patch_LatitudeMachine k (MachineScope_patchHelper sc))"

definition scope_Namespace :: "LatitudeMachine \<Rightarrow> string" where
  "scope_Namespace lm = ObjectMeta_Namespace (LatitudeMachine_ObjectMeta lm)"

definition scope_Name :: "LatitudeMachine \<Rightarrow> string" where
  "scope_Name lm = ObjectMeta_Name (LatitudeMachine_ObjectMeta lm)"

definition GetRawBootstrapData ::
  "('w, 'h) kube \<Rightarrow> 'h MachineScope \<Rightarrow> ('w, LatitudeMachine, go_error + string) handler" where
  "GetRawBootstrapData k sc =
     (case Machine_DataSecretName (MachineScope_Machine sc) of
        None \<Rightarrow> go_return (Inl BootstrapDataNotReady)
      | Some name \<Rightarrow>
          go_bind get_object (\<lambda>lm.
          go_bind (query (Get_Secret k \<lparr>ObjectKey_Namespace = scope_Namespace lm, ObjectKey_Name = name\<rparr>)) (\<lambda>res.
          case res of
            Inl err \<Rightarrow>
              if is_not_found err then go_return (Inl BootstrapDataNotReady)
              else go_return (Inl (Wrapf ''failed to get bootstrap data secret'' err))
          | Inr data \<Rightarrow>
              (case data ''value'' of
                 None \<Rightarrow> go_return (Inl (Err ''error retrieving bootstrap data: secret value key is missing''))
               | Some value \<Rightarrow>
                   if value = [] then
                     go_return (Inl (Err ''error retrieving bootstrap data: secret value is empty''))
                   else go_return (Inr value)))))"

definition GetBootstrapData ::
  "('w, 'h) kube \<Rightarrow> 'h MachineScope \<Rightarrow> ('w, LatitudeMachine, go_error + string) handler" where
  "GetBootstrapData k sc =
     go_bind (GetRawBootstrapData k sc) (\<lambda>res.
     case res of
       Inl err \<Rightarrow> go_return (Inl err)
     | Inr value \<Rightarrow> go_return (Inr value))"

definition scope_IsReady :: "LatitudeMachine \<Rightarrow> bool" where
  "scope_IsReady lm = MachineStatus_Ready (LatitudeMachine_Status lm)"

definition SetReady :: "('w, LatitudeMachine, unit) handler" where
  "SetReady = set_object (upd_lm_status (\<lambda>st. st\<lparr>MachineStatus_Ready := True\<rparr>))"

definition SetNotReady :: "('w, LatitudeMachine, unit) handler" where
  "SetNotReady = set_object (upd_lm_status (\<lambda>st. st\<lparr>MachineStatus_Ready := False\<rparr>))"

definition GetProviderID :: "LatitudeMachine \<Rightarrow> string" where
  "GetProviderID lm = MachineStatus_ProviderID (LatitudeMachine_Status lm)"

definition with_provider_id :: "string \<Rightarrow> LatitudeMachine \<Rightarrow> LatitudeMachine" where
  "with_provider_id providerID lm =
     (upd_lm_status (\<lambda>st. st\<lparr>MachineStatus_ProviderID := providerID\<rparr>) lm)
       \<lparr>LatitudeMachine_Spec := (LatitudeMachine_Spec lm)\<lparr>MachineSpec_ProviderID := Some providerID\<rparr>\<rparr>"

definition SetProviderID :: "string \<Rightarrow> ('w, LatitudeMachine, unit) handler" where
  "SetProviderID providerID = set_object (with_provider_id providerID)"

lemma with_provider_id_simps [simp]:
  "lm_meta (with_provider_id p m) = lm_meta m"
  "lm_status (with_provider_id p m) = (lm_status m)\<lparr>MachineStatus_ProviderID := p\<rparr>"
  "MachineSpec_ProviderID (lm_spec (with_provider_id p m)) = Some p"
  by (simp_all add: with_provider_id_def upd_lm_status_def)

lemma costs_bootstrap [cost_rules]:
  "costs p 0 (GetRawBootstrapData k sc)" "costs p 0 (GetBootstrapData k sc)"
  unfolding GetBootstrapData_def GetRawBootstrapData_def by (intro cost_rules)+

text \<open>
  What the bootstrap data is, for the world and object of the state: a function of the secret read.
\<close>

definition bootstrap_result :: "go_error + (string \<rightharpoonup> string) \<Rightarrow> go_error + string" where
  "bootstrap_result res =
     (case res of
        Inl err \<Rightarrow> Inl (if is_not_found err then BootstrapDataNotReady
          else Wrapf ''failed to get bootstrap data secret'' err)
      | Inr data \<Rightarrow>
          (case data ''value'' of
             None \<Rightarrow> Inl (Err ''error retrieving bootstrap data: secret value key is missing'')
           | Some value \<Rightarrow>
               if value = [] then Inl (Err ''error retrieving bootstrap data: secret value is empty'')
               else Inr value))"

lemma wp_GetBootstrapData [wp_rules]:
  "wp (GetBootstrapData k sc) Q s =
     (case Machine_DataSecretName (MachineScope_Machine sc) of
        None \<Rightarrow> Q (Ok (Inl BootstrapDataNotReady)) s
      | Some name \<Rightarrow>
          (let key = \<lparr>ObjectKey_Namespace = ObjectMeta_Namespace (lm_meta (object s)), ObjectKey_Name = name\<rparr>;
               r = Get_Secret k key (world s) in
           Q (Ok (bootstrap_result (fst r))) (s\<lparr>world := snd r\<rparr>)))"
  by (simp add: GetBootstrapData_def GetRawBootstrapData_def wp_rules bootstrap_result_def
      scope_Namespace_def Let_def split: option.split sum.split)

end
