(* ===== verification/Conditions.thy ===== *)
theory Conditions
  imports Kube_Env
begin

text \<open>
  The two \<open>setCondition\<close> methods (machine and cluster controller), each a loop over the condition
  list. They differ in what they refresh, but both keep one contract, the locale
  \<open>condition_setter\<close>: the list holds each condition type at most once, a set condition has the
  status and reason written last, and conditions of other types stay as they were.
\<close>

definition find_condition :: "Condition list \<Rightarrow> string \<Rightarrow> Condition option" where
  "find_condition cs ty = find (\<lambda>c. Condition_Type c = ty) cs"

lemma find_condition_simps [simp]:
  "find_condition [] ty = None"
  "find_condition (c # cs) ty = (if Condition_Type c = ty then Some c else find_condition cs ty)"
  by (simp_all add: find_condition_def)

lemma find_condition_type: "find_condition cs ty = Some c \<Longrightarrow> Condition_Type c = ty \<and> c \<in> set cs"
  by (auto simp: find_condition_def dest: find_SomeD)

section \<open>The machine controller's setter\<close>

text \<open>
  The first condition of the type is updated in place, its transition time only if status, reason
  or message change; without one the condition is appended.
\<close>

fun machine_set_conditions :: "Condition \<Rightarrow> int \<Rightarrow> Condition list \<Rightarrow> Condition list" where
  "machine_set_conditions c t [] = [c\<lparr>Condition_LastTransitionTime := t\<rparr>]"
| "machine_set_conditions c t (x # xs) =
     (if Condition_Type x \<noteq> Condition_Type c then x # machine_set_conditions c t xs
      else
        let changed = Condition_Status x \<noteq> Condition_Status c \<or>
              Condition_Reason x \<noteq> Condition_Reason c \<or> Condition_Message x \<noteq> Condition_Message c in
        x\<lparr>Condition_Status := Condition_Status c, Condition_Reason := Condition_Reason c,
          Condition_Message := Condition_Message c,
          Condition_ObservedGeneration := Condition_ObservedGeneration c,
          Condition_LastTransitionTime := (if changed then t else Condition_LastTransitionTime x)\<rparr> # xs)"

definition machine_setCondition ::
  "('w, 'h) kube \<Rightarrow> string \<Rightarrow> ConditionStatus \<Rightarrow> string \<Rightarrow> string \<Rightarrow> ('w, LatitudeMachine, 'c, unit) go" where
  "machine_setCondition k conditionType status reason message =
     go_bind (now k) (\<lambda>t.
     set_object (\<lambda>m. machine_SetConditions m (machine_set_conditions
       \<lparr>Condition_Type = conditionType, Condition_Status = status, Condition_Reason = reason,
        Condition_Message = message,
        Condition_ObservedGeneration = ObjectMeta_Generation (LatitudeMachine_ObjectMeta m),
        Condition_LastTransitionTime = 0\<rparr> t (machine_GetConditions m))))"

section \<open>The cluster controller's setter\<close>

text \<open>
  The first condition of the type is replaced if status or reason change and kept as it is
  otherwise; the new condition carries the time of the call and no observed generation.
\<close>

fun cluster_set_conditions :: "Condition \<Rightarrow> int \<Rightarrow> Condition list \<Rightarrow> Condition list" where
  "cluster_set_conditions c t [] = [c\<lparr>Condition_LastTransitionTime := t\<rparr>]"
| "cluster_set_conditions c t (x # xs) =
     (if Condition_Type x = Condition_Type c then
        (if Condition_Status x \<noteq> Condition_Status c \<or> Condition_Reason x \<noteq> Condition_Reason c
         then c\<lparr>Condition_LastTransitionTime := t\<rparr> # xs else x # xs)
      else x # cluster_set_conditions c t xs)"

definition cluster_setCondition ::
  "('w, 'h) kube \<Rightarrow> string \<Rightarrow> ConditionStatus \<Rightarrow> string \<Rightarrow> string \<Rightarrow> ('w, LatitudeCluster, 'c, unit) go" where
  "cluster_setCondition k conditionType status reason message =
     go_bind (now k) (\<lambda>t.
     set_object (\<lambda>c. cluster_SetConditions c (cluster_set_conditions
       \<lparr>Condition_Type = conditionType, Condition_Status = status, Condition_Reason = reason,
        Condition_Message = message, Condition_ObservedGeneration = 0,
        Condition_LastTransitionTime = 0\<rparr> t (cluster_GetConditions c))))"

section \<open>The shared contract\<close>

locale condition_setter =
  fixes put :: "Condition \<Rightarrow> int \<Rightarrow> Condition list \<Rightarrow> Condition list"
  assumes put_types: "map Condition_Type (put c t cs) =
      (if Condition_Type c \<in> Condition_Type ` set cs then map Condition_Type cs
       else map Condition_Type cs @ [Condition_Type c])"
    and put_found: "\<exists>x. find_condition (put c t cs) (Condition_Type c) = Some x
      \<and> Condition_Status x = Condition_Status c \<and> Condition_Reason x = Condition_Reason c"
    and put_other: "ty \<noteq> Condition_Type c \<Longrightarrow> find_condition (put c t cs) ty = find_condition cs ty"
begin

text \<open>A sequence of writes, each with the time of its call.\<close>

definition put_all :: "(Condition \<times> int) list \<Rightarrow> Condition list \<Rightarrow> Condition list" where
  "put_all ws cs = foldl (\<lambda>cs (c, t). put c t cs) cs ws"

lemma put_all_simps:
  "put_all [] cs = cs"
  "put_all (ws @ [(c, t)]) cs = put c t (put_all ws cs)"
  "put_all ((c, t) # ws) cs = put_all ws (put c t cs)"
  by (simp_all add: put_all_def)

lemma put_distinct: "distinct (map Condition_Type cs) \<Longrightarrow> distinct (map Condition_Type (put c t cs))"
  by (auto simp: put_types)

lemma put_all_distinct:
  "distinct (map Condition_Type cs) \<Longrightarrow> distinct (map Condition_Type (put_all ws cs))"
  by (induction ws arbitrary: cs) (auto simp: put_all_simps put_distinct)

lemma put_all_last:
  assumes "filter (\<lambda>(c, t). Condition_Type c = ty) ws \<noteq> []"
  shows "\<exists>x. find_condition (put_all ws cs) ty = Some x
    \<and> Condition_Status x = Condition_Status (fst (last (filter (\<lambda>(c, t). Condition_Type c = ty) ws)))
    \<and> Condition_Reason x = Condition_Reason (fst (last (filter (\<lambda>(c, t). Condition_Type c = ty) ws)))"
  using assms
proof (induction ws rule: rev_induct)
  case Nil
  then show ?case by simp
next
  case (snoc w ws)
  obtain c t where w: "w = (c, t)" by fastforce
  show ?case
  proof (cases "Condition_Type c = ty")
    case True
    then show ?thesis using put_found [of c t "put_all ws cs"] w by (auto simp: put_all_simps)
  next
    case False
    with snoc w show ?thesis by (simp add: put_all_simps put_other)
  qed
qed

lemma put_all_untouched:
  "\<forall>(c, t) \<in> set ws. Condition_Type c \<noteq> ty \<Longrightarrow> find_condition (put_all ws cs) ty = find_condition cs ty"
  by (induction ws arbitrary: cs) (auto simp: put_all_simps put_other)

end

lemma machine_set_types: "map Condition_Type (machine_set_conditions c t cs) =
    (if Condition_Type c \<in> Condition_Type ` set cs then map Condition_Type cs
     else map Condition_Type cs @ [Condition_Type c])"
  by (induction c t cs rule: machine_set_conditions.induct) (auto simp: Let_def)

lemma machine_set_found: "\<exists>x. find_condition (machine_set_conditions c t cs) (Condition_Type c) = Some x
    \<and> Condition_Status x = Condition_Status c \<and> Condition_Reason x = Condition_Reason c
    \<and> Condition_Message x = Condition_Message c"
  by (induction c t cs rule: machine_set_conditions.induct) (auto simp: Let_def)

lemma machine_set_other:
  "ty \<noteq> Condition_Type c \<Longrightarrow> find_condition (machine_set_conditions c t cs) ty = find_condition cs ty"
  by (induction c t cs rule: machine_set_conditions.induct) (auto simp: Let_def)

lemma cluster_set_types: "map Condition_Type (cluster_set_conditions c t cs) =
    (if Condition_Type c \<in> Condition_Type ` set cs then map Condition_Type cs
     else map Condition_Type cs @ [Condition_Type c])"
  by (induction c t cs rule: cluster_set_conditions.induct) auto

lemma cluster_set_found: "\<exists>x. find_condition (cluster_set_conditions c t cs) (Condition_Type c) = Some x
    \<and> Condition_Status x = Condition_Status c \<and> Condition_Reason x = Condition_Reason c"
  by (induction c t cs rule: cluster_set_conditions.induct) auto

lemma cluster_set_other:
  "ty \<noteq> Condition_Type c \<Longrightarrow> find_condition (cluster_set_conditions c t cs) ty = find_condition cs ty"
  by (induction c t cs rule: cluster_set_conditions.induct) auto

interpretation machine_conds: condition_setter machine_set_conditions
  by unfold_locales (use machine_set_types machine_set_found machine_set_other in blast)+

interpretation cluster_conds: condition_setter cluster_set_conditions
  by unfold_locales (use cluster_set_types cluster_set_found cluster_set_other in blast)+

section \<open>The setters inside a handler\<close>

lemma costs_machine_setCondition [cost_rules]: "costs p 0 (machine_setCondition k ty st re ms)"
  unfolding machine_setCondition_def by (intro cost_rules)

lemma costs_cluster_setCondition [cost_rules]: "costs p 0 (cluster_setCondition k ty st re ms)"
  unfolding cluster_setCondition_def by (intro cost_rules)

text \<open>The object after a set condition, as one function of the state before.\<close>

definition with_machine_condition ::
  "('w, 'h) kube \<Rightarrow> string \<Rightarrow> ConditionStatus \<Rightarrow> string \<Rightarrow> string \<Rightarrow> 'w \<Rightarrow> LatitudeMachine \<Rightarrow> LatitudeMachine" where
  "with_machine_condition k ty st re ms w m = machine_SetConditions m (machine_set_conditions
       \<lparr>Condition_Type = ty, Condition_Status = st, Condition_Reason = re, Condition_Message = ms,
        Condition_ObservedGeneration = ObjectMeta_Generation (LatitudeMachine_ObjectMeta m),
        Condition_LastTransitionTime = 0\<rparr> (Now k w) (machine_GetConditions m))"

definition with_cluster_condition ::
  "('w, 'h) kube \<Rightarrow> string \<Rightarrow> ConditionStatus \<Rightarrow> string \<Rightarrow> string \<Rightarrow> 'w \<Rightarrow> LatitudeCluster \<Rightarrow> LatitudeCluster" where
  "with_cluster_condition k ty st re ms w c = cluster_SetConditions c (cluster_set_conditions
       \<lparr>Condition_Type = ty, Condition_Status = st, Condition_Reason = re, Condition_Message = ms,
        Condition_ObservedGeneration = 0, Condition_LastTransitionTime = 0\<rparr>
       (Now k w) (cluster_GetConditions c))"

lemma wp_machine_setCondition [wp_rules]:
  "wp (machine_setCondition k ty st re ms) Q s =
     Q (Ok ()) (s\<lparr>object := with_machine_condition k ty st re ms (world s) (object s)\<rparr>)"
  by (simp add: machine_setCondition_def with_machine_condition_def wp_rules)

lemma wp_cluster_setCondition [wp_rules]:
  "wp (cluster_setCondition k ty st re ms) Q s =
     Q (Ok ()) (s\<lparr>object := with_cluster_condition k ty st re ms (world s) (object s)\<rparr>)"
  by (simp add: cluster_setCondition_def with_cluster_condition_def wp_rules)

lemma with_machine_condition_simps [simp]:
  "lm_meta (with_machine_condition k ty st re ms w m) = lm_meta m"
  "lm_spec (with_machine_condition k ty st re ms w m) = lm_spec m"
  "MachineStatus_Ready (lm_status (with_machine_condition k ty st re ms w m)) = MachineStatus_Ready (lm_status m)"
  "MachineStatus_ProviderID (lm_status (with_machine_condition k ty st re ms w m)) = MachineStatus_ProviderID (lm_status m)"
  "MachineStatus_ServerID (lm_status (with_machine_condition k ty st re ms w m)) = MachineStatus_ServerID (lm_status m)"
  "MachineStatus_UserDataID (lm_status (with_machine_condition k ty st re ms w m)) = MachineStatus_UserDataID (lm_status m)"
  "MachineStatus_Addresses (lm_status (with_machine_condition k ty st re ms w m)) = MachineStatus_Addresses (lm_status m)"
  "MachineStatus_FailureReason (lm_status (with_machine_condition k ty st re ms w m)) = MachineStatus_FailureReason (lm_status m)"
  "MachineStatus_FailureMessage (lm_status (with_machine_condition k ty st re ms w m)) = MachineStatus_FailureMessage (lm_status m)"
  by (simp_all add: with_machine_condition_def)

lemma with_cluster_condition_simps [simp]:
  "lc_meta (with_cluster_condition k ty st re ms w c) = lc_meta c"
  "lc_spec (with_cluster_condition k ty st re ms w c) = lc_spec c"
  "ClusterStatus_Ready (lc_status (with_cluster_condition k ty st re ms w c)) = ClusterStatus_Ready (lc_status c)"
  "ClusterStatus_ControlPlaneEndpoint (lc_status (with_cluster_condition k ty st re ms w c)) =
     ClusterStatus_ControlPlaneEndpoint (lc_status c)"
  "ClusterStatus_VLANID (lc_status (with_cluster_condition k ty st re ms w c)) = ClusterStatus_VLANID (lc_status c)"
  "ClusterStatus_VLANVID (lc_status (with_cluster_condition k ty st re ms w c)) = ClusterStatus_VLANVID (lc_status c)"
  by (simp_all add: with_cluster_condition_def)

text \<open>What the condition reads as afterwards.\<close>

lemma with_machine_condition_found:
  "\<exists>x. find_condition (machine_GetConditions (with_machine_condition k ty st re ms w m)) ty = Some x
     \<and> Condition_Status x = st \<and> Condition_Reason x = re \<and> Condition_Message x = ms"
  using machine_set_found [of "\<lparr>Condition_Type = ty, Condition_Status = st, Condition_Reason = re,
      Condition_Message = ms, Condition_ObservedGeneration = ObjectMeta_Generation (LatitudeMachine_ObjectMeta m),
      Condition_LastTransitionTime = 0\<rparr>" "Now k w" "machine_GetConditions m"]
  by (simp add: with_machine_condition_def)

lemma with_cluster_condition_found:
  "\<exists>x. find_condition (cluster_GetConditions (with_cluster_condition k ty st re ms w c)) ty = Some x
     \<and> Condition_Status x = st \<and> Condition_Reason x = re"
  using cluster_set_found [of "\<lparr>Condition_Type = ty, Condition_Status = st, Condition_Reason = re,
      Condition_Message = ms, Condition_ObservedGeneration = 0, Condition_LastTransitionTime = 0\<rparr>"
      "Now k w" "cluster_GetConditions c"]
  by (simp add: with_cluster_condition_def)

section \<open>Sequences of writes\<close>

text \<open>The writes on one type, in order.\<close>

definition writes_of :: "string \<Rightarrow> (Condition \<times> int) list \<Rightarrow> Condition list" where
  "writes_of ty ws = map fst (filter (\<lambda>(c, t). Condition_Type c = ty) ws)"

lemma writes_of_last:
  "writes_of ty ws \<noteq> [] \<Longrightarrow> filter (\<lambda>(c, t). Condition_Type c = ty) ws \<noteq> [] \<and>
   fst (last (filter (\<lambda>(c, t). Condition_Type c = ty) ws)) = last (writes_of ty ws)"
  by (simp add: writes_of_def last_map)

text \<open>
  C26: The last write wins, in both controllers: after any sequence of \<open>setCondition\<close> calls on a list without
  duplicate types, no type occurs twice, and each type that was written has the status and the reason
  written last.
\<close>

theorem conditions_last_write_wins:
  assumes distinct: "distinct (map Condition_Type cs)" and written: "writes_of ty ws \<noteq> []"
    and result: "result = foldl (\<lambda>cs (c, t). machine_set_conditions c t cs) cs ws \<or>
      result = foldl (\<lambda>cs (c, t). cluster_set_conditions c t cs) cs ws"
  shows "distinct (map Condition_Type result) \<and>
    (\<exists>x. find_condition result ty = Some x \<and> Condition_Status x = Condition_Status (last (writes_of ty ws)) \<and>
       Condition_Reason x = Condition_Reason (last (writes_of ty ws)))"
  using result
    machine_conds.put_all_distinct [OF distinct, of ws] cluster_conds.put_all_distinct [OF distinct, of ws]
    machine_conds.put_all_last [of ty ws cs] cluster_conds.put_all_last [of ty ws cs] writes_of_last [OF written]
  by (auto simp: machine_conds.put_all_def cluster_conds.put_all_def)

definition ready_condition :: "ConditionStatus \<Rightarrow> string \<Rightarrow> Condition" where
  "ready_condition st re = \<lparr>Condition_Type = InstanceReadyCondition, Condition_Status = st, Condition_Reason = re,
     Condition_Message = [], Condition_ObservedGeneration = 1, Condition_LastTransitionTime = 0\<rparr>"

theorem conditions_last_write_wins_witness:
  "\<exists>x. find_condition (foldl (\<lambda>cs (c, t). machine_set_conditions c t cs) []
      [(ready_condition ConditionFalse InstanceNotReadyReason, 1), (ready_condition ConditionTrue ''InstanceReady'', 2)])
      InstanceReadyCondition = Some x \<and> Condition_Status x = ConditionTrue"
  using conditions_last_write_wins [of "[]" InstanceReadyCondition
      "[(ready_condition ConditionFalse InstanceNotReadyReason, 1), (ready_condition ConditionTrue ''InstanceReady'', 2)]",
      OF _ _ disjI1 [OF refl]]
  by (auto simp: writes_of_def ready_condition_def)

end
