(* ===== verification/Go_Net.thy ===== *)
theory Go_Net
  imports Go_Strings "HOL-Library.Word"
begin

unbundle bit_operations_syntax

text \<open>
  Go's \<open>net\<close> and \<open>net/netip\<close> as far as \<open>net.ParseCIDR\<close>, \<open>IP.To4\<close>, \<open>IP.String\<close> and
  \<open>IPMask.Size\<close> need them: addresses and masks are lists of bytes (4 for IPv4, 16 for IPv6).
  A parser returns \<open>None\<close> where Go returns an error.
\<close>

type_synonym ip_bytes = "8 word list"

section \<open>netip.ParseAddr\<close>

text \<open>
  \<open>parseIPv4Fields\<close>: the loop over the bytes with its variables \<open>digLen\<close> and \<open>val\<close>; \<open>fields\<close> holds
  the octets finished so far, and \<open>edge\<close> says that the previous byte was a dot or that there was none.
\<close>

fun ipv4_fields :: "bool \<Rightarrow> nat \<Rightarrow> nat \<Rightarrow> nat list \<Rightarrow> string \<Rightarrow> nat list option" where
  "ipv4_fields edge digLen val fields [] =
     (if length fields < 3 then None else Some (fields @ [val]))"
| "ipv4_fields edge digLen val fields (c # cs) =
     (if is_digit c then
        (if digLen = 1 \<and> val = 0 then None
         else if val * 10 + digit_val c > 255 then None
         else ipv4_fields False (Suc digLen) (val * 10 + digit_val c) fields cs)
      else if c = CHR ''.'' then
        (if edge \<or> cs = [] then None
         else if length fields = 3 then None
         else ipv4_fields True 0 0 (fields @ [val]) cs)
      else None)"

definition parse_ipv4 :: "string \<Rightarrow> ip_bytes option" where
  "parse_ipv4 s = map_option (map of_nat) (ipv4_fields True 0 0 [] s)"

definition is_hex :: "char \<Rightarrow> bool" where
  "is_hex c \<longleftrightarrow> is_digit c \<or> in_range 97 102 c \<or> in_range 65 70 c"

definition hex_val :: "char \<Rightarrow> nat" where
  "hex_val c = (if is_digit c then digit_val c
     else if in_range 97 102 c then byte_of c - 87 else byte_of c - 55)"

definition hex_value :: "string \<Rightarrow> nat" where
  "hex_value s = foldl (\<lambda>n c. n * 16 + hex_val c) 0 s"

text \<open>
  The loop of \<open>parseIPv6\<close>: \<open>out\<close> is \<open>ip[:i]\<close>, and the result is the bytes written, the position of the
  ellipsis and the text that is left.
\<close>

function ipv6_groups ::
  "nat option \<Rightarrow> ip_bytes \<Rightarrow> string \<Rightarrow> (ip_bytes \<times> nat option \<times> string) option" where
  "ipv6_groups ell out s =
    (if 16 \<le> length out then Some (out, ell, s)
     else
       let h = takeWhile is_hex s; rest = dropWhile is_hex s in
       if 4 < length h \<or> h = [] then None
       else if rest \<noteq> [] \<and> hd rest = CHR ''.'' then
         (if ell = None \<and> length out \<noteq> 12 then None
          else if 16 < length out + 4 then None
          else case parse_ipv4 s of None \<Rightarrow> None | Some f \<Rightarrow> Some (out @ f, ell, []))
       else
         let out' = out @ [of_nat (hex_value h div 256), of_nat (hex_value h)] in
         if rest = [] then Some (out', ell, [])
         else if hd rest \<noteq> CHR '':'' then None
         else if tl rest = [] then None
         else if hd (tl rest) = CHR '':'' then
           (if ell \<noteq> None then None
            else if tl (tl rest) = [] then Some (out', Some (length out'), [])
            else ipv6_groups (Some (length out')) out' (tl (tl rest)))
         else ipv6_groups ell out' (tl rest))"
  by pat_completeness auto
termination
  by (relation "measure (\<lambda>(ell, out, s). 16 - length out)") auto

declare ipv6_groups.simps [simp del]

definition expand_ellipsis :: "ip_bytes \<Rightarrow> nat option \<Rightarrow> ip_bytes option" where
  "expand_ellipsis out ell =
     (if length out < 16 then
        (case ell of None \<Rightarrow> None
         | Some e \<Rightarrow> Some (take e out @ replicate (16 - length out) 0 @ drop e out))
      else if ell \<noteq> None then None else Some out)"

text \<open>The address and its zone; the zone is everything after the first percent sign.\<close>

definition parse_ipv6 :: "string \<Rightarrow> (ip_bytes \<times> string) option" where
  "parse_ipv6 input =
    (let s = takeWhile (\<lambda>c. c \<noteq> CHR ''%'') input;
         zone = drop 1 (dropWhile (\<lambda>c. c \<noteq> CHR ''%'') input) in
     if CHR ''%'' \<in> set input \<and> zone = [] then None
     else if take 2 s = ''::'' then
       (if drop 2 s = [] then Some (replicate 16 0, zone)
        else (case ipv6_groups (Some 0) [] (drop 2 s) of None \<Rightarrow> None
          | Some (out, ell, left) \<Rightarrow>
              if left \<noteq> [] then None else map_option (\<lambda>b. (b, zone)) (expand_ellipsis out ell)))
     else (case ipv6_groups None [] s of None \<Rightarrow> None
       | Some (out, ell, left) \<Rightarrow>
           if left \<noteq> [] then None else map_option (\<lambda>b. (b, zone)) (expand_ellipsis out ell)))"

datatype ip_addr = Addr4 ip_bytes | Addr6 ip_bytes string

text \<open>\<open>ParseAddr\<close> is decided by the first dot, colon or percent sign.\<close>

definition parse_addr :: "string \<Rightarrow> ip_addr option" where
  "parse_addr s =
    (case dropWhile (\<lambda>c. c \<notin> {CHR ''.'', CHR '':'', CHR ''%''}) s of
       [] \<Rightarrow> None
     | c # _ \<Rightarrow>
        if c = CHR ''.'' then map_option Addr4 (parse_ipv4 s)
        else if c = CHR '':'' then map_option (\<lambda>(b, z). Addr6 b z) (parse_ipv6 s)
        else None)"

section \<open>Masks\<close>

text \<open>\<open>net.CIDRMask\<close> with \<open>ones\<close> leading one bits in \<open>l\<close> bytes.\<close>

fun cidr_mask :: "nat \<Rightarrow> nat \<Rightarrow> ip_bytes" where
  "cidr_mask 0 n = []"
| "cidr_mask (Suc l) n =
     (if 8 \<le> n then 255 # cidr_mask l (n - 8) else NOT (drop_bit n 255) # cidr_mask l 0)"

lemma length_cidr_mask [simp]: "length (cidr_mask l n) = l"
  by (induction l n rule: cidr_mask.induct) auto

lemma cidr_mask_zero [simp]: "cidr_mask l 0 = replicate l 0"
  by (induction l) auto

text \<open>
  \<open>simpleMaskLength\<close>, \<open>None\<close> for its -1. A byte below 255 loses its leading ones within eight shifts.
\<close>

fun lead_ones :: "nat \<Rightarrow> 8 word \<Rightarrow> nat \<times> 8 word" where
  "lead_ones 0 v = (0, v)"
| "lead_ones (Suc k) v =
     (if v AND 0x80 \<noteq> 0 then (let (n, r) = lead_ones k (push_bit 1 v) in (Suc n, r)) else (0, v))"

fun simple_mask_length :: "ip_bytes \<Rightarrow> nat option" where
  "simple_mask_length [] = Some 0"
| "simple_mask_length (v # vs) =
     (if v = 0xFF then map_option (\<lambda>n. n + 8) (simple_mask_length vs)
      else (case lead_ones 8 v of (n, r) \<Rightarrow>
        if r \<noteq> 0 then None else if list_all (\<lambda>x. x = 0) vs then Some n else None))"

text \<open>\<open>IPMask.Size\<close>: the number of ones, 0 when the mask is not canonical.\<close>

definition mask_size :: "ip_bytes \<Rightarrow> nat" where
  "mask_size m = (case simple_mask_length m of None \<Rightarrow> 0 | Some n \<Rightarrow> n)"

lemma lead_ones_mask_bytes:
  "\<forall>n \<in> set [0, 1, 2, 3, 4, 5, 6, 7].
     NOT (drop_bit n (255::8 word)) \<noteq> 255 \<and> lead_ones 8 (NOT (drop_bit n 255)) = (n, 0)"
  by code_simp

lemma lead_ones_mask_byte:
  assumes "n < 8"
  shows "NOT (drop_bit n (255::8 word)) \<noteq> 255 \<and> lead_ones 8 (NOT (drop_bit n 255)) = (n, 0)"
proof -
  from assms have "n \<in> set [0, 1, 2, 3, 4, 5, 6, 7]" by auto
  with lead_ones_mask_bytes show ?thesis by blast
qed

lemma simple_mask_length_cidr_mask:
  "n \<le> 8 * l \<Longrightarrow> simple_mask_length (cidr_mask l n) = Some n"
proof (induction l n rule: cidr_mask.induct)
  case (1 n)
  then show ?case by simp
next
  case (2 l n)
  then show ?case
    using lead_ones_mask_byte [of n] by (cases "8 \<le> n") (auto simp: list_all_iff)
qed

lemma mask_size_cidr_mask [simp]: "n \<le> 8 * l \<Longrightarrow> mask_size (cidr_mask l n) = n"
  by (simp add: mask_size_def simple_mask_length_cidr_mask)

text \<open>\<open>IP.Mask\<close> on an address and a mask of the same length.\<close>

definition apply_mask :: "ip_bytes \<Rightarrow> ip_bytes \<Rightarrow> ip_bytes" where
  "apply_mask ip m = map2 (\<lambda>a b. a AND b) ip m"

lemma length_apply_mask [simp]: "length (apply_mask ip m) = min (length ip) (length m)"
  by (simp add: apply_mask_def)

lemma apply_mask_idem: "apply_mask (apply_mask ip m) m = apply_mask ip m"
  by (induction ip m rule: list_induct2') (auto simp: apply_mask_def and.assoc)

section \<open>net.ParseCIDR\<close>

record ipnet =
  IPNet_IP :: ip_bytes
  IPNet_Mask :: ip_bytes

text \<open>\<open>dtoi\<close> on the text after the slash, which must be digits only and below \<open>0xFFFFFF\<close>.\<close>

fun dtoi_loop :: "nat \<Rightarrow> string \<Rightarrow> nat option" where
  "dtoi_loop n [] = Some n"
| "dtoi_loop n (c # cs) =
     (if \<not> is_digit c then None
      else if 0xFFFFFF \<le> n * 10 + digit_val c then None
      else dtoi_loop (n * 10 + digit_val c) cs)"

definition dtoi :: "string \<Rightarrow> nat option" where
  "dtoi s = (if s = [] then None else dtoi_loop 0 s)"

text \<open>
  \<open>ParseCIDR\<close> returns the network of the address: for IPv4 four bytes, for IPv6 sixteen. The
  host address it also returns is not used by the provider.
\<close>

definition parse_cidr :: "string \<Rightarrow> ipnet option" where
  "parse_cidr s =
    (let addr = takeWhile (\<lambda>c. c \<noteq> CHR ''/'') s;
         mask = drop 1 (dropWhile (\<lambda>c. c \<noteq> CHR ''/'') s) in
     if CHR ''/'' \<notin> set s then None
     else case parse_addr addr of
       None \<Rightarrow> None
     | Some (Addr4 ip) \<Rightarrow>
         (case dtoi mask of None \<Rightarrow> None
          | Some n \<Rightarrow> if 32 < n then None
              else Some \<lparr>IPNet_IP = apply_mask ip (cidr_mask 4 n), IPNet_Mask = cidr_mask 4 n\<rparr>)
     | Some (Addr6 ip zone) \<Rightarrow>
         if zone \<noteq> [] then None
         else (case dtoi mask of None \<Rightarrow> None
          | Some n \<Rightarrow> if 128 < n then None
              else Some \<lparr>IPNet_IP = apply_mask ip (cidr_mask 16 n), IPNet_Mask = cidr_mask 16 n\<rparr>))"

text \<open>The error of a failed \<open>ParseCIDR\<close>, a \<open>net.ParseError\<close>.\<close>

definition parse_cidr_error_text :: "string \<Rightarrow> string" where
  "parse_cidr_error_text s = ''invalid CIDR address: '' @ s"

text \<open>\<open>IP.To4\<close>: \<open>None\<close> for nil; an IPv4-mapped IPv6 address counts as IPv4.\<close>

definition to4 :: "ip_bytes \<Rightarrow> ip_bytes option" where
  "to4 ip =
    (if length ip = 4 then Some ip
     else if length ip = 16 \<and> take 12 ip = replicate 10 0 @ [0xFF, 0xFF] then Some (drop 12 ip)
     else None)"

lemma length_to4: "to4 ip = Some ip4 \<Longrightarrow> length ip4 = 4"
  by (auto simp: to4_def split: if_splits)

text \<open>\<open>IP.String\<close> of an IPv4 address.\<close>

definition ipv4_string :: "ip_bytes \<Rightarrow> string" where
  "ipv4_string ip = str_join ''.'' (map (itoa \<circ> unat) ip)"

section \<open>Printing and parsing agree\<close>

lemma is_digit_not_dot: "is_digit c \<Longrightarrow> c \<noteq> CHR ''.''"
  by (auto simp: is_digit_def byte_of_def)

lemma ipv4_fields_itoa:
  "v \<le> 255 \<Longrightarrow> ipv4_fields edge 0 0 fs (itoa v @ rest) =
     ipv4_fields False (length (itoa v)) v fs rest"
proof (induction v arbitrary: rest rule: itoa.induct)
  case (1 v)
  show ?case
  proof (cases "v < 10")
    case True
    then show ?thesis by (subst (1 2) itoa.simps) simp
  next
    case False
    have split: "itoa v = itoa (v div 10) @ [digit_char (v mod 10)]"
      using False by (subst itoa.simps) simp
    have "ipv4_fields edge 0 0 fs (itoa v @ rest) =
        ipv4_fields False (length (itoa (v div 10))) (v div 10) fs (digit_char (v mod 10) # rest)"
      using "1.IH" [OF False, of "digit_char (v mod 10) # rest"] "1.prems" by (simp add: split)
    also have "\<dots> = ipv4_fields False (length (itoa v)) v fs rest"
      using False "1.prems" by (auto simp: split)
    finally show ?thesis .
  qed
qed

lemma parse_ipv4_string:
  "parse_ipv4 (ipv4_string [a, b, c, d]) = Some [a, b, c, d]"
proof -
  have u: "unat x \<le> 255" for x :: "8 word"
    using unsigned_less [of x, where 'a = nat] by simp
  have "\<not> is_digit CHR ''.''" by (simp add: is_digit_def byte_of_def)
  then have "ipv4_fields True 0 0 [] (ipv4_string [a, b, c, d]) = Some [unat a, unat b, unat c, unat d]"
    by (simp add: ipv4_string_def ipv4_fields_itoa [OF u] ipv4_fields_itoa [OF u, where rest = "[]", simplified])
  then show ?thesis by (simp add: parse_ipv4_def)
qed

lemma dtoi_loop_itoa:
  "n < 0xFFFFFF \<Longrightarrow> dtoi_loop 0 (itoa n @ rest) = dtoi_loop n rest"
proof (induction n arbitrary: rest rule: itoa.induct)
  case (1 n)
  show ?case
  proof (cases "n < 10")
    case True
    with "1.prems" show ?thesis by (subst itoa.simps) simp
  next
    case False
    have split: "itoa n = itoa (n div 10) @ [digit_char (n mod 10)]"
      using False by (subst itoa.simps) simp
    show ?thesis
      using "1.IH" [OF False, of "digit_char (n mod 10) # rest"] "1.prems" by (simp add: split)
  qed
qed

lemma dtoi_itoa: "n < 0xFFFFFF \<Longrightarrow> dtoi (itoa n) = Some n"
  using dtoi_loop_itoa [of n "[]"] by (simp add: dtoi_def)

lemma itoa_no_char: "\<not> is_digit c \<Longrightarrow> c \<notin> set (itoa n)"
  using itoa_digits [of n] by (auto simp: list_all_iff)

lemma ipv4_string_chars:
  "c \<in> set (ipv4_string ip) \<Longrightarrow> is_digit c \<or> c = CHR ''.''"
proof (induction ip)
  case Nil
  then show ?case by (simp add: ipv4_string_def)
next
  case (Cons x xs)
  then show ?case
    using itoa_digits [of "unat x"] by (cases xs) (auto simp: ipv4_string_def list_all_iff)
qed

lemma parse_addr_ipv4_string: "parse_addr (ipv4_string [a, b, c, d]) = Some (Addr4 [a, b, c, d])"
proof -
  let ?p = "\<lambda>x. x \<notin> {CHR ''.'', CHR '':'', CHR ''%''}"
  have "\<forall>x \<in> set (itoa (unat a)). ?p x"
    using itoa_digits [of "unat a"] by (auto simp: list_all_iff is_digit_def byte_of_def)
  then have "dropWhile ?p (ipv4_string [a, b, c, d]) =
      CHR ''.'' # str_join ''.'' (map (itoa \<circ> unat) [b, c, d])"
    by (simp add: ipv4_string_def)
  then show ?thesis by (simp add: parse_addr_def parse_ipv4_string)
qed

lemma parse_cidr_string:
  assumes "n \<le> 32"
  shows "parse_cidr (ipv4_string [a, b, c, d] @ ''/'' @ itoa n) =
    Some \<lparr>IPNet_IP = apply_mask [a, b, c, d] (cidr_mask 4 n), IPNet_Mask = cidr_mask 4 n\<rparr>"
proof -
  have "CHR ''/'' \<notin> set (ipv4_string [a, b, c, d])"
    using ipv4_string_chars [of "CHR ''/''" "[a, b, c, d]"] by (auto simp: is_digit_def byte_of_def)
  then have ns: "\<forall>x \<in> set (ipv4_string [a, b, c, d]). x \<noteq> CHR ''/''" by auto
  have "takeWhile (\<lambda>x. x \<noteq> CHR ''/'') (ipv4_string [a, b, c, d] @ ''/'' @ itoa n) = ipv4_string [a, b, c, d]"
    and "dropWhile (\<lambda>x. x \<noteq> CHR ''/'') (ipv4_string [a, b, c, d] @ ''/'' @ itoa n) = CHR ''/'' # itoa n"
    using ns by (simp_all add: takeWhile_append2 dropWhile_append2)
  then show ?thesis
    using assms by (simp add: parse_cidr_def parse_addr_ipv4_string dtoi_itoa)
qed

section \<open>Shape of the parsed network\<close>

lemma ipv4_fields_length:
  "ipv4_fields edge dl v fs s = Some r \<Longrightarrow> length fs \<le> 3 \<Longrightarrow> length r = 4"
  by (induction edge dl v fs s rule: ipv4_fields.induct) (auto split: if_splits)

lemma parse_ipv4_length: "parse_ipv4 s = Some ip \<Longrightarrow> length ip = 4"
  using ipv4_fields_length [of True 0 0 "[]" s] by (auto simp: parse_ipv4_def)

lemma ipv6_groups_length:
  "ipv6_groups ell out s = Some (out', ell', left) \<Longrightarrow> length out \<le> 16 \<Longrightarrow> even (length out) \<Longrightarrow>
     length out' \<le> 16"
proof (induction "16 - length out" arbitrary: ell out s rule: less_induct)
  case less
  let ?h = "takeWhile is_hex s" and ?r = "dropWhile is_hex s"
  let ?o = "out @ [of_nat (hex_value ?h div 256), of_nat (hex_value ?h)]"
  show ?case
  proof (cases "16 \<le> length out")
    case True
    with less.prems show ?thesis by (simp add: ipv6_groups.simps [of ell out s])
  next
    case False
    note run = less.prems(1) [unfolded ipv6_groups.simps [of ell out s] Let_def]
    have room: "length ?o \<le> 16" "even (length ?o)"
      using False \<open>even (length out)\<close> by simp_all presburger
    have IH: "length out' \<le> 16" if "ipv6_groups e ?o t = Some (out', ell', left)" for e t
      using less.hyps [OF _ that room] False by simp
    show ?thesis
    proof (cases "4 < length ?h \<or> ?h = []")
      case True
      with run False show ?thesis by simp
    next
      case hex: False
      show ?thesis
      proof (cases "?r \<noteq> [] \<and> hd ?r = CHR ''.''")
        case True
        with run False hex show ?thesis
          by (auto dest!: parse_ipv4_length split: option.splits if_splits)
      next
        case nodot: False
        then have "(?r \<noteq> [] \<and> hd ?r = CHR ''.'') = False" by blast
        with run False hex have "(out' = ?o) \<or> (\<exists>e t. ipv6_groups e ?o t = Some (out', ell', left))"
          by (simp only: if_False split: if_splits) auto
        with IH room show ?thesis by blast
      qed
    qed
  qed
qed

lemma expand_ellipsis_length:
  "expand_ellipsis out ell = Some b \<Longrightarrow> length out \<le> 16 \<Longrightarrow> length b = 16"
  by (auto simp: expand_ellipsis_def split: if_splits option.splits)

lemma parse_ipv6_length: "parse_ipv6 s = Some (b, z) \<Longrightarrow> length b = 16"
  unfolding parse_ipv6_def Let_def
  by (auto split: if_splits option.splits dest!: ipv6_groups_length dest: expand_ellipsis_length)

lemma parse_addr_length:
  "parse_addr s = Some (Addr4 b) \<Longrightarrow> length b = 4"
  "parse_addr s = Some (Addr6 b z) \<Longrightarrow> length b = 16"
  by (auto simp: parse_addr_def parse_ipv4_length parse_ipv6_length split: list.splits if_splits)

text \<open>
  A parsed network has a canonical mask of its address's length, and its address is already masked.
\<close>

lemma parse_cidr_shape:
  assumes "parse_cidr s = Some net"
  obtains n l where "l = 4 \<or> l = 16" and "n \<le> 8 * l" and "IPNet_Mask net = cidr_mask l n"
    and "length (IPNet_IP net) = l" and "apply_mask (IPNet_IP net) (IPNet_Mask net) = IPNet_IP net"
proof -
  from assms consider
    (v4) ip n where "parse_addr (takeWhile (\<lambda>c. c \<noteq> CHR ''/'') s) = Some (Addr4 ip)" "n \<le> 32"
      "net = \<lparr>IPNet_IP = apply_mask ip (cidr_mask 4 n), IPNet_Mask = cidr_mask 4 n\<rparr>"
  | (v6) ip z n where "parse_addr (takeWhile (\<lambda>c. c \<noteq> CHR ''/'') s) = Some (Addr6 ip z)" "n \<le> 128"
      "net = \<lparr>IPNet_IP = apply_mask ip (cidr_mask 16 n), IPNet_Mask = cidr_mask 16 n\<rparr>"
    by (auto simp: parse_cidr_def Let_def split: if_splits option.splits ip_addr.splits)
      (metis linorder_not_less)+
  then show thesis
  proof cases
    case v4
    then show thesis
      using that [of 4 n] by (simp add: parse_addr_length apply_mask_idem)
  next
    case v6
    then show thesis
      using that [of 16 n] by (simp add: parse_addr_length apply_mask_idem)
  qed
qed

end
