(* ===== verification/Vlan_Config.thy ===== *)
theory Vlan_Config
  imports Go_Net Go_Encoding
begin

text \<open>
  \<open>internal/controller/vlan_config.go\<close> and \<open>getMachineIndex\<close>: the VLAN address of a machine and the
  cloud-init user data that configures it. The lemmas show that the index stays in range under
  64-bit wrap-around, which addresses fall into the subnet, that the injected command survives
  YAML quoting and that the rest of the user data is untouched.
\<close>

section \<open>The netplan fragment\<close>

definition DefaultVLANInterface :: string where
  "DefaultVLANInterface = ''eno2''"

record VLANNetplanConfig =
  NetplanConfig_VID :: int
  NetplanConfig_Subnet :: string
  NetplanConfig_IPAddress :: string
  NetplanConfig_Interface :: string

text \<open>\<open>maskSize\<close>: the prefix length of the subnet, 24 if it does not parse.\<close>

definition netplan_mask_size :: "string \<Rightarrow> nat" where
  "netplan_mask_size subnet =
     (case parse_cidr subnet of None \<Rightarrow> 24 | Some ipNet \<Rightarrow> mask_size (IPNet_Mask ipNet))"

definition GenerateVLANNetplanConfig :: "VLANNetplanConfig \<Rightarrow> string" where
  "GenerateVLANNetplanConfig cfg =
    (let iface = (if NetplanConfig_Interface cfg = [] then DefaultVLANInterface
                  else NetplanConfig_Interface cfg);
         vid = itoa_int (NetplanConfig_VID cfg) in
     ''  vlans:'' @ [newline] @
     ''    vlan.'' @ vid @ '':'' @ [newline] @
     ''      id: '' @ vid @ [newline] @
     ''      link: '' @ iface @ [newline] @
     ''      addresses: ['' @ NetplanConfig_IPAddress cfg @ ''/'' @
       itoa (netplan_mask_size (NetplanConfig_Subnet cfg)) @ '']'' @ [newline])"

section \<open>The cloud-init injection\<close>

text \<open>\<open>escapeForYAML\<close> doubles single quotes.\<close>

definition escapeForYAML :: "string \<Rightarrow> string" where
  "escapeForYAML s = replace_char quote1 [quote1, quote1] s"

text \<open>
  The command, piece by piece as in the format string: \<open>bsn\<close> is the two characters backslash and n
  of the raw string. The interface in it is \<open>DefaultVLANInterface\<close>, not the configured one.
\<close>

definition bsn :: string where "bsn = [backslash, CHR ''n'']"

definition vlan_cmd_prefix :: string where
  "vlan_cmd_prefix =
     ''if ! command -v yq >/dev/null 2>&1; then apt-get update -qq && apt-get install -y yq >/dev/null 2>&1; fi;PRIV_IFACE=$(yq -r '' @
     [quote1] @ ''.network.ethernets | to_entries[] | select(.value.gateway4 == null) | .key'' @ [quote1] @
     '' /etc/netplan/50-cloud-init.yaml 2>/dev/null | head -1); if [ -z '' @
     [quote2] @ ''$PRIV_IFACE'' @ [quote2] @ '' ]; then PRIV_IFACE='' @ [quote2]"

definition vlan_cmd :: "VLANNetplanConfig \<Rightarrow> nat \<Rightarrow> string" where
  "vlan_cmd cfg maskSize =
     (let vid = itoa_int (NetplanConfig_VID cfg) in
      vlan_cmd_prefix @ DefaultVLANInterface @ [quote2] @ ''; fi; printf '' @ [quote2] @ bsn @
      ''    vlans:'' @ bsn @
      ''        vlan.'' @ vid @ '':'' @ bsn @
      ''            id: '' @ vid @ bsn @
      ''            link: $PRIV_IFACE'' @ bsn @
      ''            addresses: ['' @ NetplanConfig_IPAddress cfg @ ''/'' @ itoa maskSize @ '']'' @ bsn @ [quote2] @
      '' >> /etc/netplan/50-cloud-init.yaml && netplan apply && mkdir -p /etc/rancher/rke2/config.yaml.d && echo '' @
      [quote2] @ ''node-ip: '' @ NetplanConfig_IPAddress cfg @ [quote2] @
      '' > /etc/rancher/rke2/config.yaml.d/99-node-ip.yaml'')"

definition runcmd_entry :: "string \<Rightarrow> string" where
  "runcmd_entry cmd = ''  - '' @ [quote1] @ escapeForYAML cmd @ [quote1, newline]"

definition InjectVLANConfigIntoCloudInit :: "string \<Rightarrow> VLANNetplanConfig \<Rightarrow> string" where
  "InjectVLANConfigIntoCloudInit userData cfg =
    (if NetplanConfig_VID cfg = 0 \<or> NetplanConfig_IPAddress cfg = [] \<or> NetplanConfig_Subnet cfg = []
     then userData
     else
       let cmd = vlan_cmd cfg (netplan_mask_size (NetplanConfig_Subnet cfg));
           appended = userData @ [newline] @ ''runcmd:'' @ [newline] @ runcmd_entry cmd in
       (case str_index userData ''runcmd:'' of
          None \<Rightarrow> appended
        | Some idx \<Rightarrow>
            (case str_index (drop idx userData) [newline] of
               None \<Rightarrow> appended
             | Some newlineIdx \<Rightarrow>
                 let insertPoint = idx + newlineIdx + 1 in
                 take insertPoint userData @ runcmd_entry cmd @ drop insertPoint userData)))"

section \<open>The address of a machine\<close>

definition CalculateVLANIPAddress :: "string \<Rightarrow> int \<Rightarrow> go_error + string" where
  "CalculateVLANIPAddress subnet machineIndex =
    (case parse_cidr subnet of
       None \<Rightarrow> Inl (Wrapf ''invalid subnet CIDR'' (Err (parse_cidr_error_text subnet)))
     | Some ipNet \<Rightarrow>
         let baseOffset = 10 + machineIndex in
         (case to4 (IPNet_IP ipNet) of
            None \<Rightarrow> Inl (Err ''only IPv4 subnets are supported'')
          | Some ip \<Rightarrow> Inr (ipv4_string (ip[3 := word_of_int baseOffset]))))"

text \<open>
  \<open>getMachineIndex\<close>: Go's \<open>int\<close> has 64 bits and wraps, and \<open>%\<close> truncates towards zero, so the
  remainder of a negative hash is negative.
\<close>

definition hash_step :: "64 word \<Rightarrow> nat \<Rightarrow> 64 word" where
  "hash_step hash c = hash * 31 + of_nat c"

definition machine_hash :: "string \<Rightarrow> int" where
  "machine_hash machineName = sint (foldl hash_step 0 (runes machineName))"

definition go_rem :: "int \<Rightarrow> int \<Rightarrow> int" where
  "go_rem a b = sgn a * (\<bar>a\<bar> mod \<bar>b\<bar>)"

definition getMachineIndex :: "string \<Rightarrow> int" where
  "getMachineIndex machineName =
     (let index = go_rem (machine_hash machineName) 241 in if index < 0 then - index else index)"

section \<open>Lemmas: the index and the address\<close>

lemma getMachineIndex_range: "0 \<le> getMachineIndex name" "getMachineIndex name \<le> 240"
proof -
  let ?h = "machine_hash name"
  have m: "0 \<le> \<bar>?h\<bar> mod 241" "\<bar>?h\<bar> mod 241 \<le> 240"
    by simp_all
  have "go_rem ?h 241 = \<bar>?h\<bar> mod 241 \<or> go_rem ?h 241 = - (\<bar>?h\<bar> mod 241) \<or> go_rem ?h 241 = 0"
    by (auto simp: go_rem_def sgn_if)
  with m show "0 \<le> getMachineIndex name" "getMachineIndex name \<le> 240"
    by (auto simp: getMachineIndex_def Let_def)
qed

lemma getMachineIndex_abs: "getMachineIndex name = \<bar>machine_hash name\<bar> mod 241"
  by (auto simp: getMachineIndex_def go_rem_def Let_def sgn_if pos_mod_sign not_less
      intro: antisym)

text \<open>The last byte of an address is the offset itself when the index is in range.\<close>

lemma offset_byte:
  assumes "0 \<le> i" and "i \<le> 240"
  shows "unat (word_of_int (10 + i) :: 8 word) = nat (10 + i)"
  using assms by (simp del: of_int_add add: unsigned_of_int take_bit_eq_mod nat_mod_distrib)

lemma parse_ipv4_string_list: "length ip = 4 \<Longrightarrow> parse_ipv4 (ipv4_string ip) = Some ip"
proof -
  assume "length ip = 4"
  then obtain a b c d where "ip = [a, b, c, d]"
    by (auto simp: eval_nat_numeral length_Suc_conv)
  then show ?thesis by (simp add: parse_ipv4_string)
qed

text \<open>What the address calculation computes on a parsed IPv4 network.\<close>

lemma CalculateVLANIPAddress_Inr:
  assumes "CalculateVLANIPAddress subnet i = Inr s"
  obtains net ip where "parse_cidr subnet = Some net" and "to4 (IPNet_IP net) = Some ip"
    and "length ip = 4" and "parse_ipv4 s = Some (ip[3 := word_of_int (10 + i)])"
  using assms by (fastforce simp: CalculateVLANIPAddress_def Let_def length_to4 parse_ipv4_string_list
      split: option.splits)

lemma apply_mask_update:
  assumes "length ip = 4" and "length m = 4" and "apply_mask ip m = ip"
  shows "apply_mask (ip[3 := b]) m = ip \<longleftrightarrow> b AND m ! 3 = ip ! 3"
proof -
  obtain i0 i1 i2 i3 m0 m1 m2 m3 where "ip = [i0, i1, i2, i3]" "m = [m0, m1, m2, m3]"
    using assms(1,2) by (auto simp: eval_nat_numeral length_Suc_conv)
  with assms(3) show ?thesis by (auto simp: apply_mask_def)
qed

lemma cidr_mask_4_last: "n \<le> 24 \<Longrightarrow> cidr_mask 4 n ! 3 = 0"
  by (auto simp: eval_nat_numeral)

section \<open>Lemmas: quoting and injection\<close>

text \<open>
  A reader of YAML single-quoted scalars: the text after the opening quote up to the closing one,
  with doubled quotes read as one, and what follows the closing quote.
\<close>

fun yaml_single_quoted :: "string \<Rightarrow> (string \<times> string) option" where
  "yaml_single_quoted [] = None"
| "yaml_single_quoted (c # cs) =
     (if c \<noteq> quote1 then map_option (\<lambda>(s, r). (c # s, r)) (yaml_single_quoted cs)
      else (case cs of
          [] \<Rightarrow> Some ([], [])
        | d # ds \<Rightarrow>
            if d = quote1 then map_option (\<lambda>(s, r). (quote1 # s, r)) (yaml_single_quoted ds)
            else Some ([], cs)))"

lemma yaml_single_quoted_escape:
  assumes "rest = [] \<or> hd rest \<noteq> quote1"
  shows "yaml_single_quoted (escapeForYAML s @ quote1 # rest) = Some (s, rest)"
proof (induction s)
  case Nil
  then show ?case using assms by (cases rest) (auto simp: escapeForYAML_def)
next
  case (Cons c cs)
  then show ?case by (auto simp: escapeForYAML_def)
qed

lemma newline_not_in_digits: "newline \<notin> set (itoa n)"
  by (rule itoa_no_char) (simp add: newline_def is_digit_def byte_of_def)

lemma newline_not_in_itoa_int: "newline \<notin> set (itoa_int i)"
  by (simp add: itoa_int_def newline_not_in_digits) (simp add: newline_def)

lemma newline_not_in_escape: "newline \<notin> set s \<Longrightarrow> newline \<notin> set (escapeForYAML s)"
  by (auto simp: escapeForYAML_def replace_char_def newline_def quote1_def)

lemma vlan_cmd_prefix_no_newline: "newline \<notin> set vlan_cmd_prefix"
  by (simp add: vlan_cmd_prefix_def char_defs)

lemma vlan_cmd_no_newline:
  "newline \<notin> set (NetplanConfig_IPAddress cfg) \<Longrightarrow> newline \<notin> set (vlan_cmd cfg m)"
  using newline_not_in_digits [of m] newline_not_in_itoa_int [of "NetplanConfig_VID cfg"]
    vlan_cmd_prefix_no_newline
  by (simp add: vlan_cmd_def Let_def bsn_def DefaultVLANInterface_def char_defs)

lemma str_index_newline: "str_index s [newline] = Some i \<Longrightarrow> i < length s \<and> s ! i = newline"
proof -
  assume "str_index s [newline] = Some i"
  then have "i \<le> length s" and p: "prefix [newline] (drop i s)" by (simp_all add: str_index_Some)
  from p obtain zs where "drop i s = newline # zs" by (auto simp: prefix_def)
  then show ?thesis by (metis drop_eq_Nil hd_drop_conv_nth leI list.sel(1) list.distinct(1))
qed

lemma str_index_single_None: "str_index s [c] = None \<Longrightarrow> c \<notin> set s"
  using str_contains_sublist [of s "[c]"] by (auto simp: str_contains_def sublist_def in_set_conv_decomp)

lemma str_index_single_split:
  assumes "str_index s [c] = Some j"
  shows "s = take j s @ [c] @ drop (j + 1) s" and "c \<notin> set (take j s)"
proof -
  have j: "j \<le> length s" "prefix [c] (drop j s)" "\<forall>k < j. \<not> prefix [c] (drop k s)"
    using str_index_Some [OF assms] by blast+
  from j(2) obtain zs where zs: "drop j s = c # zs" by (auto simp: prefix_def)
  then have "drop (j + 1) s = zs" by (metis drop_drop drop_Suc_Cons drop0 One_nat_def add.commute)
  with zs show "s = take j s @ [c] @ drop (j + 1) s" by (metis append_Cons append_Nil append_take_drop_id)
  show "c \<notin> set (take j s)"
  proof
    assume "c \<in> set (take j s)"
    then obtain k where "k < j" "k < length s" "s ! k = c" by (auto simp: in_set_conv_nth)
    then have "prefix [c] (drop k s)" by (simp add: Cons_nth_drop_Suc [symmetric])
    with j(3) \<open>k < j\<close> show False by blast
  qed
qed

section \<open>Concrete subnets and names for the witnesses\<close>

lemma parse_cidr_10_8_0_0_24:
  "parse_cidr ''10.8.0.0/24'' = Some \<lparr>IPNet_IP = [10, 8, 0, 0], IPNet_Mask = [255, 255, 255, 0]\<rparr>"
proof -
  have "ipv4_string [10, 8, 0, 0] @ ''/'' @ itoa 24 = ''10.8.0.0/24''" by code_simp
  moreover have "cidr_mask 4 24 = [255, 255, 255, 0]" by code_simp
  ultimately show ?thesis
    using parse_cidr_string [of 24 10 8 0 0] by (simp add: apply_mask_def)
qed

lemma parse_cidr_10_8_0_128_25:
  "parse_cidr ''10.8.0.128/25'' = Some \<lparr>IPNet_IP = [10, 8, 0, 128], IPNet_Mask = [255, 255, 255, 128]\<rparr>"
proof -
  have "ipv4_string [10, 8, 0, 128] @ ''/'' @ itoa 25 = ''10.8.0.128/25''" by code_simp
  moreover have "cidr_mask 4 25 = [255, 255, 255, 128]" by code_simp
  ultimately show ?thesis
    using parse_cidr_string [of 25 10 8 0 128] by (simp add: apply_mask_def)
qed

lemma getMachineIndex_m1: "getMachineIndex ''m1'' = 54"
  by code_simp

lemma ipv4_string_10_8_0_64: "ipv4_string [10, 8, 0, 64] = ''10.8.0.64''"
  by code_simp

section \<open>Properties\<close>

text \<open>
  C28: The VLAN address of a machine on an IPv4 subnet of prefix length 24 or less lies in the
  subnet: it parses back, its network part is the subnet's, and its last octet is ten plus the
  machine index, between 10 and 250, so that no wrap-around and no network or broadcast octet occurs.
\<close>

theorem vlan_address_in_subnet:
  assumes addr: "CalculateVLANIPAddress subnet (getMachineIndex name) = Inr s"
    and net: "parse_cidr subnet = Some net" and v4: "length (IPNet_IP net) = 4"
    and wide: "mask_size (IPNet_Mask net) \<le> 24"
  shows "\<exists>ip. parse_ipv4 s = Some ip \<and> apply_mask ip (IPNet_Mask net) = IPNet_IP net
    \<and> unat (ip ! 3) = nat (10 + getMachineIndex name) \<and> 10 \<le> unat (ip ! 3) \<and> unat (ip ! 3) \<le> 250"
proof -
  let ?b = "word_of_int (10 + getMachineIndex name) :: 8 word"
  from net obtain n l where shape: "l = 4 \<or> l = 16" "n \<le> 8 * l" "IPNet_Mask net = cidr_mask l n"
    "length (IPNet_IP net) = l" "apply_mask (IPNet_IP net) (IPNet_Mask net) = IPNet_IP net"
    by (rule parse_cidr_shape)
  with v4 wide have mask: "IPNet_Mask net = cidr_mask 4 n" "n \<le> 24" by auto
  from addr net v4 have p: "parse_ipv4 s = Some ((IPNet_IP net)[3 := ?b])"
    by (auto elim!: CalculateVLANIPAddress_Inr simp: to4_def)
  have "apply_mask ((IPNet_IP net)[3 := ?b]) (IPNet_Mask net) = IPNet_IP net"
    using apply_mask_update [OF v4 _ shape(5), of ?b] apply_mask_update [OF v4 _ shape(5), of "IPNet_IP net ! 3"]
      mask shape(5) cidr_mask_4_last [of n] by simp
  moreover have "unat ?b = nat (10 + getMachineIndex name)"
    by (rule offset_byte) (rule getMachineIndex_range)+
  ultimately show ?thesis
    using p v4 getMachineIndex_range [of name] by (auto simp: nat_le_iff)
qed

theorem vlan_address_in_subnet_witness:
  "\<exists>ip. parse_ipv4 ''10.8.0.64'' = Some ip \<and> apply_mask ip [255, 255, 255, 0] = [10, 8, 0, 0]
    \<and> unat (ip ! 3) = nat (10 + getMachineIndex ''m1'') \<and> 10 \<le> unat (ip ! 3) \<and> unat (ip ! 3) \<le> 250"
proof -
  let ?net = "\<lparr>IPNet_IP = [10, 8, 0, 0], IPNet_Mask = [255, 255, 255, 0]\<rparr>"
  have a: "CalculateVLANIPAddress ''10.8.0.0/24'' (getMachineIndex ''m1'') = Inr ''10.8.0.64''"
    by (simp add: CalculateVLANIPAddress_def parse_cidr_10_8_0_0_24 getMachineIndex_m1 to4_def
        ipv4_string_10_8_0_64)
  have w: "mask_size (IPNet_Mask ?net) \<le> 24" by code_simp
  from vlan_address_in_subnet [OF a parse_cidr_10_8_0_0_24 _ w] show ?thesis by simp
qed

text \<open>
  On a subnet smaller than a /24 nothing keeps the address in the subnet: the last octet is
  overwritten, not offset; on \<open>10.8.0.128/25\<close> the machine \<open>m1\<close> gets \<open>10.8.0.64\<close>, outside the subnet.
\<close>

theorem vlan_address_escapes_small_subnet:
  "\<exists>net ip. parse_cidr ''10.8.0.128/25'' = Some net
     \<and> CalculateVLANIPAddress ''10.8.0.128/25'' (getMachineIndex ''m1'') = Inr (ipv4_string ip)
     \<and> apply_mask ip (IPNet_Mask net) \<noteq> IPNet_IP net"
proof (intro exI conjI)
  show "CalculateVLANIPAddress ''10.8.0.128/25'' (getMachineIndex ''m1'') = Inr (ipv4_string [10, 8, 0, 64])"
    by (simp add: CalculateVLANIPAddress_def parse_cidr_10_8_0_128_25 getMachineIndex_m1 to4_def)
qed (rule parse_cidr_10_8_0_128_25, simp add: apply_mask_def)

text \<open>
  C39: Machine names do not get unique VLAN addresses: the index has 241 values, so any set of more
  than 241 names has two with the same index, and already the names \<open>cp-b\<close> and \<open>md-a0\<close> share
  one and with it their address on every subnet.
\<close>

theorem vlan_addresses_collide:
  "(\<forall>S. finite S \<and> 241 < card S \<longrightarrow> \<not> inj_on getMachineIndex S)
   \<and> getMachineIndex ''cp-b'' = getMachineIndex ''md-a0''
   \<and> (\<forall>subnet. CalculateVLANIPAddress subnet (getMachineIndex ''cp-b'') =
                 CalculateVLANIPAddress subnet (getMachineIndex ''md-a0''))"
proof (intro conjI allI impI notI)
  fix S :: "string set"
  assume S: "finite S \<and> 241 < card S" and inj: "inj_on getMachineIndex S"
  have "getMachineIndex ` S \<subseteq> {0..240}" using getMachineIndex_range by auto
  then have "card (getMachineIndex ` S) \<le> card {0..240::int}" by (rule card_mono [rotated]) simp
  with S inj show False by (simp add: card_image)
next
  show eq: "getMachineIndex ''cp-b'' = getMachineIndex ''md-a0''" by code_simp
  then show "CalculateVLANIPAddress subnet (getMachineIndex ''cp-b'') =
      CalculateVLANIPAddress subnet (getMachineIndex ''md-a0'')" for subnet by simp
qed

theorem vlan_addresses_collide_witness:
  "\<not> inj_on getMachineIndex ((\<lambda>n. replicate n CHR ''a'') ` {0..<300})"
proof -
  have "inj_on (\<lambda>n. replicate n CHR ''a'') {0..<300}" by (rule inj_onI) (metis length_replicate)
  then have "card ((\<lambda>n. replicate n CHR ''a'') ` {0..<300}) = 300" by (simp add: card_image)
  with vlan_addresses_collide show ?thesis by simp
qed

text \<open>
  An address is refused exactly when the subnet is not in CIDR notation or is not IPv4; the
  error names the cause and, for a malformed subnet, repeats it.
\<close>

lemma vlan_address_errors:
  "CalculateVLANIPAddress subnet i = Inl e \<longleftrightarrow>
     (parse_cidr subnet = None \<and>
        e = Wrapf ''invalid subnet CIDR'' (Err (''invalid CIDR address: '' @ subnet)))
   \<or> (\<exists>net. parse_cidr subnet = Some net \<and> length (IPNet_IP net) = 16
        \<and> take 12 (IPNet_IP net) \<noteq> replicate 10 0 @ [255, 255]
        \<and> e = Err ''only IPv4 subnets are supported'')"
proof (cases "parse_cidr subnet")
  case None
  then show ?thesis by (auto simp: CalculateVLANIPAddress_def parse_cidr_error_text_def)
next
  case (Some net)
  then obtain n l where "l = 4 \<or> l = 16" "length (IPNet_IP net) = l"
    by (rule parse_cidr_shape)
  with Some show ?thesis
    by (auto simp: CalculateVLANIPAddress_def to4_def Let_def)
qed

text \<open>
  C27: The injection changes nothing but what it adds: when a VLAN is to be configured (VID,
  address and subnet set) the result is the old user data with one block inserted. If the user data
  has a line with \<open>runcmd:\<close>, the block is the command entry alone and it stands at the start of a
  line, right after the line of the first \<open>runcmd:\<close>; otherwise, or if that line is unfinished, the
  block is a new \<open>runcmd:\<close> section at the end.
\<close>

theorem inject_only_inserts:
  assumes active: "NetplanConfig_VID cfg \<noteq> 0" "NetplanConfig_IPAddress cfg \<noteq> []" "NetplanConfig_Subnet cfg \<noteq> []"
    and entry: "entry = runcmd_entry (vlan_cmd cfg (netplan_mask_size (NetplanConfig_Subnet cfg)))"
  shows "(\<exists>pre line post. u = pre @ line @ [newline] @ post \<and> newline \<notin> set line
          \<and> str_index u ''runcmd:'' = Some (length pre) \<and> prefix ''runcmd:'' (line @ [newline] @ post)
          \<and> InjectVLANConfigIntoCloudInit u cfg = pre @ line @ [newline] @ entry @ post)
     \<or> (case str_index u ''runcmd:'' of None \<Rightarrow> True | Some i \<Rightarrow> newline \<notin> set (drop i u))
       \<and> InjectVLANConfigIntoCloudInit u cfg = u @ [newline] @ ''runcmd:'' @ [newline] @ entry"
    (is "?inserted \<or> ?appended")
proof -
  note inject = InjectVLANConfigIntoCloudInit_def [of u cfg, folded entry, unfolded Let_def, folded entry]
  consider (none) "str_index u ''runcmd:'' = None"
    | (open_line) i where "str_index u ''runcmd:'' = Some i" "str_index (drop i u) [newline] = None"
    | (line) i j where "str_index u ''runcmd:'' = Some i" "str_index (drop i u) [newline] = Some j"
    by (cases "str_index u ''runcmd:''") auto
  then show ?thesis
  proof cases
    case none
    with active have ?appended by (simp add: inject)
    then show ?thesis ..
  next
    case open_line
    with active have ?appended by (simp add: inject str_index_single_None)
    then show ?thesis ..
  next
    case (line i j)
    let ?line = "take j (drop i u)" and ?post = "drop (i + j + 1) u"
    have i: "i \<le> length u" "prefix ''runcmd:'' (drop i u)"
      using str_index_Some [OF line(1)] by blast+
    have split: "drop i u = ?line @ [newline] @ ?post" and nl: "newline \<notin> set ?line"
      using str_index_single_split [OF line(2)] by (simp_all add: ac_simps)
    have u: "u = take i u @ ?line @ [newline] @ ?post" using split by (metis append_take_drop_id)
    have cut: "take (i + j + 1) u = take i u @ ?line @ [newline]"
      using u by (metis append_assoc append_take_drop_id append_same_eq)
    have "InjectVLANConfigIntoCloudInit u cfg = take i u @ ?line @ [newline] @ entry @ ?post"
      using active line cut by (simp add: inject)
    moreover have "prefix ''runcmd:'' (?line @ [newline] @ ?post)" using i(2) split by simp
    ultimately have ?inserted
      using u nl line(1) i(1)
      by (intro exI [of _ "take i u"] exI [of _ ?line] exI [of _ ?post]) simp
    then show ?thesis ..
  qed
qed

definition sample_netplan :: VLANNetplanConfig where
  "sample_netplan = \<lparr>NetplanConfig_VID = 2011, NetplanConfig_Subnet = ''10.8.0.0/24'',
     NetplanConfig_IPAddress = ''10.8.0.64'', NetplanConfig_Interface = ''enp1s0f1''\<rparr>"

theorem inject_only_inserts_witness:
  "\<exists>pre line post. ''runcmd:'' @ [newline] @ ''  - ls'' = pre @ line @ [newline] @ post
     \<and> newline \<notin> set line
     \<and> InjectVLANConfigIntoCloudInit (''runcmd:'' @ [newline] @ ''  - ls'') sample_netplan
         = pre @ line @ [newline] @ runcmd_entry (vlan_cmd sample_netplan
             (netplan_mask_size (NetplanConfig_Subnet sample_netplan))) @ post"
proof -
  let ?u = "''runcmd:'' @ [newline] @ ''  - ls''"
  have a: "NetplanConfig_VID sample_netplan \<noteq> 0" "NetplanConfig_IPAddress sample_netplan \<noteq> []"
    "NetplanConfig_Subnet sample_netplan \<noteq> []" by (simp_all add: sample_netplan_def)
  have "\<not> (case str_index ?u ''runcmd:'' of None \<Rightarrow> True | Some i \<Rightarrow> newline \<notin> set (drop i ?u))" by simp
  with inject_only_inserts [OF a refl, of ?u] show ?thesis by blast
qed

text \<open>
  C29: The injected entry is one line of the \<open>runcmd\<close> list whose YAML scalar is the VLAN command,
  quotes included: a reader of single-quoted scalars gets the command back and stops at the end of
  the line.
\<close>

theorem runcmd_entry_roundtrip:
  assumes "newline \<notin> set (NetplanConfig_IPAddress cfg)"
  shows "\<exists>scalar. runcmd_entry (vlan_cmd cfg m) @ rest = ''  - '' @ [quote1] @ scalar @ [quote1, newline] @ rest
    \<and> newline \<notin> set scalar
    \<and> yaml_single_quoted (scalar @ [quote1, newline] @ rest) = Some (vlan_cmd cfg m, newline # rest)"
proof (intro exI [of _ "escapeForYAML (vlan_cmd cfg m)"] conjI)
  show "newline \<notin> set (escapeForYAML (vlan_cmd cfg m))"
    using assms by (intro newline_not_in_escape vlan_cmd_no_newline)
  show "yaml_single_quoted (escapeForYAML (vlan_cmd cfg m) @ [quote1, newline] @ rest) =
      Some (vlan_cmd cfg m, newline # rest)"
    using yaml_single_quoted_escape [of "newline # rest" "vlan_cmd cfg m"]
    by (simp add: char_defs)
qed (simp add: runcmd_entry_def)

theorem runcmd_entry_roundtrip_witness:
  "\<exists>scalar. yaml_single_quoted (scalar @ [quote1, newline]) = Some (vlan_cmd sample_netplan 24, [newline])
     \<and> newline \<notin> set scalar"
proof -
  have "newline \<notin> set (NetplanConfig_IPAddress sample_netplan)"
    by (simp add: sample_netplan_def newline_def)
  from runcmd_entry_roundtrip [OF this, of 24 "[]"] show ?thesis by auto
qed

text \<open>
  The configured network interface has no influence on the injected configuration: the
  command falls back to \<open>eno2\<close> whatever the field says.
\<close>

lemma inject_ignores_interface:
  "InjectVLANConfigIntoCloudInit u (cfg\<lparr>NetplanConfig_Interface := x\<rparr>) =
   InjectVLANConfigIntoCloudInit u (cfg\<lparr>NetplanConfig_Interface := y\<rparr>)"
  by (simp add: InjectVLANConfigIntoCloudInit_def vlan_cmd_def)

text \<open>
  The netplan fragment and the injected command use the prefix length written in the subnet: for
  a subnet \<open>a.b.c.d/n\<close> the mask size is \<open>n\<close>, and for one that does not parse it is 24.
\<close>

lemma netplan_prefix_length:
  "(n \<le> 32 \<longrightarrow> netplan_mask_size (ipv4_string [a, b, c, d] @ ''/'' @ itoa n) = n)
   \<and> (parse_cidr subnet = None \<longrightarrow> netplan_mask_size subnet = 24)"
  by (simp add: netplan_mask_size_def parse_cidr_string [simplified])

end
