(* ===== verification/Machine_Controller.thy ===== *)
theory Machine_Controller
  imports Machine_Scope Conditions Vlan_Config
begin

text \<open>
  \<open>internal/controller/latitudemachine_controller.go\<close>, method by method. A handler runs on the
  state of one reconciliation, whose object is the \<open>LatitudeMachine\<close> behind the reconciler's
  pointer; \<open>k\<close> is the Kubernetes side and \<open>api\<close> the Latitude.sh client. Log lines and the duration
  metric are left out.
\<close>

definition LatitudeFinalizerName :: string where
  "LatitudeFinalizerName = ''latitudemachine.infrastructure.cluster.x-k8s.io''"

definition control_plane_label :: string where
  "control_plane_label = ''cluster.x-k8s.io/control-plane''"

definition paused_annotation :: string where
  "paused_annotation = ''cluster.x-k8s.io/paused''"

section \<open>Looking up the cluster, the project and the site\<close>

text \<open>A cluster without an infrastructure reference is a nil dereference.\<close>

definition getLatitudeCluster ::
  "('w, 'h) kube \<Rightarrow> ('w, LatitudeMachine, go_error + LatitudeCluster option) handler" where
  "getLatitudeCluster k =
     go_bind get_object (\<lambda>lm.
     go_bind (query (GetOwnerMachine k (LatitudeMachine_ObjectMeta lm))) (\<lambda>owner.
     case owner of
       Inl err \<Rightarrow> go_return (Inl (Wrapf ''get owner Machine'' err))
     | Inr None \<Rightarrow> go_return (Inr None)
     | Inr (Some ownerMachine) \<Rightarrow>
         go_bind (query (GetClusterFromMetadata k (Machine_ObjectMeta ownerMachine))) (\<lambda>res.
         case res of
           Inl err \<Rightarrow> go_return (Inl (Wrapf ''get cluster from Machine'' err))
         | Inr None \<Rightarrow> go_return (Inr None)
         | Inr (Some cluster) \<Rightarrow>
             (case Cluster_InfrastructureRef cluster of
                None \<Rightarrow> go_panic
              | Some ref \<Rightarrow>
                  go_bind (query (Get_LatitudeCluster k
                     \<lparr>ObjectKey_Namespace = ObjectMeta_Namespace (Cluster_ObjectMeta cluster),
                      ObjectKey_Name = ObjectReference_Name ref\<rparr>)) (\<lambda>got.
                  case got of
                    Inl err \<Rightarrow> go_return (Inl (Wrapf ''get LatitudeCluster'' err))
                  | Inr latitudeCluster \<Rightarrow> go_return (Inr (Some latitudeCluster)))))))"

definition getProjectID :: "('w, 'h) kube \<Rightarrow> ('w, LatitudeMachine, string) handler" where
  "getProjectID k =
     go_bind (getLatitudeCluster k) (\<lambda>res.
     case res of
       Inl err \<Rightarrow> go_return []
     | Inr None \<Rightarrow> go_return []
     | Inr (Some cluster) \<Rightarrow>
         (case ClusterSpec_ProjectRef (LatitudeCluster_Spec cluster) of
            None \<Rightarrow> go_return []
          | Some pr \<Rightarrow> go_return (ProjectRef_ProjectID pr)))"

definition site_from_cluster :: "('w, 'h) kube \<Rightarrow> ('w, LatitudeMachine, string) handler" where
  "site_from_cluster k =
     go_bind (getLatitudeCluster k) (\<lambda>res.
     case res of
       Inl err \<Rightarrow> go_return []
     | Inr None \<Rightarrow> go_return []
     | Inr (Some cluster) \<Rightarrow> go_return (ClusterSpec_Location (LatitudeCluster_Spec cluster)))"

definition getSite :: "('w, 'h) kube \<Rightarrow> ('w, LatitudeMachine, string) handler" where
  "getSite k =
     go_bind get_object (\<lambda>lm.
     go_bind (query (GetOwnerMachine k (LatitudeMachine_ObjectMeta lm))) (\<lambda>owner.
     case owner of
       Inl err \<Rightarrow> go_return []
     | Inr None \<Rightarrow> site_from_cluster k
     | Inr (Some ownerMachine) \<Rightarrow>
         (case Machine_FailureDomain ownerMachine of
            Some fd \<Rightarrow> go_return fd
          | None \<Rightarrow> site_from_cluster k)))"

definition getHostname :: "LatitudeMachine \<Rightarrow> string" where
  "getHostname lm = ObjectMeta_Namespace (LatitudeMachine_ObjectMeta lm) @ ''-'' @
     ObjectMeta_Name (LatitudeMachine_ObjectMeta lm)"

section \<open>Validation\<close>

definition validation_error :: "string list \<Rightarrow> go_error option" where
  "validation_error msgs =
     (if msgs = [] then None else Some (Err (''validation failed: '' @ str_join '', '' msgs)))"

definition validateMachineSpec :: "('w, 'h) kube \<Rightarrow> ('w, LatitudeMachine, go_error option) handler" where
  "validateMachineSpec k =
     go_bind get_object (\<lambda>lm.
     go_bind (getProjectID k) (\<lambda>project.
     go_bind (getSite k) (\<lambda>site.
     go_return (validation_error
       ((if MachineSpec_OperatingSystem (LatitudeMachine_Spec lm) = [] then [''operatingSystem is required''] else []) @
        (if MachineSpec_Plan (LatitudeMachine_Spec lm) = [] then [''plan is required''] else []) @
        (if project = [] then [''projectID is required''] else []) @
        (if site = [] then [''site is required''] else []))))))"

section \<open>A failed control plane\<close>

definition is_control_plane :: "Machine \<Rightarrow> bool" where
  "is_control_plane m \<longleftrightarrow> ObjectMeta_Labels (Machine_ObjectMeta m) control_plane_label \<noteq> None"

text \<open>The loop over the machines of the namespace; a machine whose owner is unknown is skipped.\<close>

primrec control_plane_failed_loop ::
  "('w, 'h) kube \<Rightarrow> LatitudeMachine list \<Rightarrow> ('w, LatitudeMachine, bool) handler" where
  "control_plane_failed_loop k [] = go_return False"
| "control_plane_failed_loop k (machine # ms) =
     go_bind (query (GetOwnerMachine k (LatitudeMachine_ObjectMeta machine))) (\<lambda>owner.
     case owner of
       Inl err \<Rightarrow> control_plane_failed_loop k ms
     | Inr None \<Rightarrow> control_plane_failed_loop k ms
     | Inr (Some ownerMachine) \<Rightarrow>
         if is_control_plane ownerMachine \<and> MachineStatus_FailureReason (LatitudeMachine_Status machine) \<noteq> None
         then go_return True
         else control_plane_failed_loop k ms)"

definition checkControlPlaneFailed :: "('w, 'h) kube \<Rightarrow> ('w, LatitudeMachine, go_error + bool) handler" where
  "checkControlPlaneFailed k =
     go_bind get_object (\<lambda>lm.
     go_bind (getLatitudeCluster k) (\<lambda>cluster.
     case cluster of
       Inl err \<Rightarrow> go_return (Inl err)
     | Inr None \<Rightarrow> go_return (Inr False)
     | Inr (Some c) \<Rightarrow>
         go_bind (query (List_LatitudeMachines k (ObjectMeta_Namespace (LatitudeMachine_ObjectMeta lm)))) (\<lambda>res.
         case res of
           Inl err \<Rightarrow> go_return (Inl (Wrapf ''failed to list LatitudeMachines'' err))
         | Inr items \<Rightarrow>
             go_bind (control_plane_failed_loop k items) (\<lambda>failed. go_return (Inr failed)))))"

section \<open>SSH keys\<close>

definition ssh_key_names :: "string list" where
  "ssh_key_names = [''ssh-key-ids'', ''sshKeys'', ''ssh_keys'', ''keys'']"

fun first_entry :: "(string \<rightharpoonup> string) \<Rightarrow> string list \<Rightarrow> string option" where
  "first_entry data [] = None"
| "first_entry data (name # names) =
     (case data name of Some v \<Rightarrow> Some v | None \<Rightarrow> first_entry data names)"

definition parse_ssh_keys :: "string \<Rightarrow> string list" where
  "parse_ssh_keys data =
     (let s = trim_space data in
      if s = [] then []
      else filter (\<lambda>key. key \<noteq> []) (map trim_space (str_split CHR '','' s)))"

definition getSSHKeys :: "('w, 'h) kube \<Rightarrow> ('w, LatitudeMachine, go_error + string list) handler" where
  "getSSHKeys k =
     go_bind get_object (\<lambda>lm.
     case MachineSpec_SSHKeySecretRef (LatitudeMachine_Spec lm) of
       None \<Rightarrow> go_return (Inr [])
     | Some secretRef \<Rightarrow>
         let ns = (if SecretReference_Namespace secretRef = []
                   then ObjectMeta_Namespace (LatitudeMachine_ObjectMeta lm)
                   else SecretReference_Namespace secretRef);
             name = SecretReference_Name secretRef in
         go_bind (query (Get_Secret k \<lparr>ObjectKey_Namespace = ns, ObjectKey_Name = name\<rparr>)) (\<lambda>res.
         case res of
           Inl err \<Rightarrow>
             if is_not_found err
             then go_return (Inl (Err (''SSH key secret '' @ ns @ ''/'' @ name @ '' not found'')))
             else go_return (Inl (Wrapf ''failed to get SSH key secret'' err))
         | Inr data \<Rightarrow>
             (case first_entry data ssh_key_names of
                None \<Rightarrow> go_return (Inl (Err (''SSH key secret '' @ ns @ ''/'' @ name @
                  '' does not contain any of the expected keys (ssh-key-ids, sshKeys, ssh_keys, keys)'')))
              | Some keyData \<Rightarrow> go_return (Inr (parse_ssh_keys keyData)))))"

section \<open>Failures\<close>

definition stringPtr :: "string \<Rightarrow> string option" where
  [simp]: "stringPtr s = Some s"

definition with_machine_failure :: "string \<Rightarrow> LatitudeMachine \<Rightarrow> LatitudeMachine" where
  "with_machine_failure message = upd_lm_status (\<lambda>st. st
     \<lparr>MachineStatus_Ready := False, MachineStatus_FailureReason := stringPtr ''CreateError'',
      MachineStatus_FailureMessage := stringPtr message\<rparr>)"

definition setMachineFailed :: "string \<Rightarrow> ('w, LatitudeMachine, unit) handler" where
  "setMachineFailed message = set_object (with_machine_failure message)"

definition isPermanentError :: "go_error option \<Rightarrow> bool" where
  "isPermanentError err =
     (case err of
        None \<Rightarrow> False
      | Some e \<Rightarrow> list_ex (\<lambda>permErr. str_contains (error_text e) permErr)
          [''SERVERS_OUT_OF_STOCK'', ''No stock availability''])"

section \<open>VLAN attachment and injection\<close>

text \<open>
  Both read fields of the cluster that \<open>getLatitudeCluster\<close> returned without testing it for nil.
\<close>

definition attachServerToVLAN ::
  "('w, 'h) kube \<Rightarrow> 'w ClientInterface \<Rightarrow> ('w, LatitudeMachine, go_error option) handler" where
  "attachServerToVLAN k api =
     go_bind get_object (\<lambda>lm.
     let serverID = MachineStatus_ServerID (LatitudeMachine_Status lm) in
     if serverID = [] then go_return (Some (Err ''serverID not set''))
     else
       go_bind (getLatitudeCluster k) (\<lambda>res.
       case res of
         Inl err \<Rightarrow> go_return (Some (Wrapf ''failed to get LatitudeCluster'' err))
       | Inr None \<Rightarrow> go_panic
       | Inr (Some cluster) \<Rightarrow>
           (case (ClusterSpec_VLANConfig (LatitudeCluster_Spec cluster),
                  ClusterStatus_VLANID (LatitudeCluster_Status cluster)) of
              (None, _) \<Rightarrow> go_return None
            | (Some cfg, None) \<Rightarrow> go_return None
            | (Some cfg, Some vlanID) \<Rightarrow>
                go_bind (call_AttachServerToVLAN api serverID vlanID) (\<lambda>res.
                case res of
                  Some err \<Rightarrow> go_return (Some (Wrapf ''failed to attach server to VLAN'' err))
                | None \<Rightarrow>
                    go_then (emit EventTypeNormal ''ServerAttachedToVLAN''
                      (''Attached server '' @ serverID @ '' to VLAN '' @ vlanID))
                    (go_return None)))))"

definition injectVLANConfig ::
  "('w, 'h) kube \<Rightarrow> string \<Rightarrow> ('w, LatitudeMachine, string \<times> go_error option) handler" where
  "injectVLANConfig k userData =
     go_bind get_object (\<lambda>lm.
     go_bind (getLatitudeCluster k) (\<lambda>res.
     case res of
       Inl err \<Rightarrow> go_return (userData, Some (Wrapf ''failed to get LatitudeCluster'' err))
     | Inr None \<Rightarrow> go_panic
     | Inr (Some cluster) \<Rightarrow>
         (case (ClusterSpec_VLANConfig (LatitudeCluster_Spec cluster),
                ClusterStatus_VLANVID (LatitudeCluster_Status cluster)) of
            (None, _) \<Rightarrow> go_return (userData, None)
          | (Some cfg, None) \<Rightarrow> go_return (userData, None)
          | (Some cfg, Some vid) \<Rightarrow>
              let machineIndex = getMachineIndex (ObjectMeta_Name (LatitudeMachine_ObjectMeta lm));
                  subnet = VLANConfig_Subnet cfg in
              (case CalculateVLANIPAddress subnet machineIndex of
                 Inl err \<Rightarrow> go_return (userData, Some (Wrapf ''failed to calculate VLAN IP address'' err))
               | Inr ipAddress \<Rightarrow>
                   let networkInterface = (if VLANConfig_NetworkInterface cfg = [] then ''eno2''
                         else VLANConfig_NetworkInterface cfg) in
                   go_return (InjectVLANConfigIntoCloudInit userData
                     \<lparr>NetplanConfig_VID = vid, NetplanConfig_Subnet = subnet,
                      NetplanConfig_IPAddress = ipAddress,
                      NetplanConfig_Interface = networkInterface\<rparr>, None)))))"

section \<open>The server\<close>

definition server_is_ready :: "Server \<Rightarrow> bool" where
  "server_is_ready server \<longleftrightarrow>
     equal_fold (Server_Status server) ''on'' \<or>
     equal_fold (Server_Status server) ''active'' \<or>
     equal_fold (Server_Status server) ''running''"

definition set_server_id :: "string \<Rightarrow> LatitudeMachine \<Rightarrow> LatitudeMachine" where
  "set_server_id i = upd_lm_status (\<lambda>st. st\<lparr>MachineStatus_ServerID := i\<rparr>)"

definition set_user_data_id :: "string \<Rightarrow> LatitudeMachine \<Rightarrow> LatitudeMachine" where
  "set_user_data_id i = upd_lm_status (\<lambda>st. st\<lparr>MachineStatus_UserDataID := i\<rparr>)"

text \<open>
  The middle of \<open>reconcileServer\<close>: the ID of the user data, either the one in the status or that of a
  new one, which is stored in the status and persisted at once.
\<close>

definition ensure_user_data ::
  "('w, 'h) kube \<Rightarrow> 'w ClientInterface \<Rightarrow> 'h \<Rightarrow> string \<Rightarrow> ('w, LatitudeMachine, go_error + string) handler" where
  "ensure_user_data k api helper userData =
     go_bind get_object (\<lambda>lm.
     if MachineStatus_UserDataID (LatitudeMachine_Status lm) \<noteq> [] then
       go_return (Inr (MachineStatus_UserDataID (LatitudeMachine_Status lm)))
     else
       go_bind (call_CreateUserData api
         \<lparr>CreateUserDataRequest_Name = ObjectMeta_Name (LatitudeMachine_ObjectMeta lm) @ ''-'' @
            ObjectMeta_UID (LatitudeMachine_ObjectMeta lm),
          CreateUserDataRequest_Content = b64_encode userData\<rparr>) (\<lambda>res.
       case res of
         Inl err \<Rightarrow> go_return (Inl (Wrapf ''create user-data'' err))
       | Inr udID \<Rightarrow>
           go_then (set_object (set_user_data_id udID))
           (go_then (patch_object (Patch_LatitudeMachine k helper))
           (go_return (Inr udID)))))"

text \<open>The end of \<open>reconcileServer\<close>: create the server, persist its ID and attach it to the VLAN.\<close>

definition create_and_attach ::
  "('w, 'h) kube \<Rightarrow> 'w ClientInterface \<Rightarrow> 'h \<Rightarrow> string \<Rightarrow>
   ('w, LatitudeMachine, go_error + Server option) handler" where
  "create_and_attach k api helper udID =
     go_bind (getSSHKeys k) (\<lambda>keys.
     case keys of
       Inl err \<Rightarrow> go_return (Inl (Wrapf ''failed to get SSH keys'' err))
     | Inr sshKeys \<Rightarrow>
         go_bind get_object (\<lambda>lm.
         go_bind (getProjectID k) (\<lambda>project.
         go_bind (getSite k) (\<lambda>site.
         go_bind (call_CreateServer api
           \<lparr>ServerSpec_Project = project,
            ServerSpec_Plan = MachineSpec_Plan (LatitudeMachine_Spec lm),
            ServerSpec_OperatingSystem = MachineSpec_OperatingSystem (LatitudeMachine_Spec lm),
            ServerSpec_Site = site,
            ServerSpec_Hostname = getHostname lm,
            ServerSpec_SSHKeys = sshKeys,
            ServerSpec_UserData = udID\<rparr>) (\<lambda>res.
         case res of
           Inl err \<Rightarrow> go_return (Inl (Wrapf ''failed to create server'' err))
         | Inr server \<Rightarrow>
             go_then (set_object (set_server_id (Server_ID server)))
             (go_then (patch_object (Patch_LatitudeMachine k helper))
             (go_then (attachServerToVLAN k api)
             (go_return (Inr None)))))))))"

text \<open>From the bootstrap data to the created server.\<close>

definition create_server_flow ::
  "('w, 'h) kube \<Rightarrow> 'w ClientInterface \<Rightarrow> 'h MachineScope \<Rightarrow> 'h \<Rightarrow>
   ('w, LatitudeMachine, go_error + Server option) handler" where
  "create_server_flow k api sc helper =
     go_bind (GetBootstrapData k sc) (\<lambda>res.
     case res of
       Inl err \<Rightarrow>
         if is_bootstrap_not_ready err then go_return (Inr None)
         else go_return (Inl (Wrapf ''failed to get bootstrap data'' err))
     | Inr userData \<Rightarrow>
         go_bind (injectVLANConfig k userData) (\<lambda>(userData', injectErr).
         go_bind (ensure_user_data k api helper userData') (\<lambda>ud.
         case ud of
           Inl err \<Rightarrow> go_return (Inl err)
         | Inr udID \<Rightarrow> create_and_attach k api helper udID)))"

definition reconcileServer ::
  "('w, 'h) kube \<Rightarrow> 'w ClientInterface \<Rightarrow> 'h MachineScope \<Rightarrow> 'h \<Rightarrow>
   ('w, LatitudeMachine, go_error + Server option) handler" where
  "reconcileServer k api sc helper =
     go_bind get_object (\<lambda>lm.
     if MachineStatus_ServerID (LatitudeMachine_Status lm) \<noteq> [] then
       go_bind (call_GetServer api (MachineStatus_ServerID (LatitudeMachine_Status lm))) (\<lambda>res.
       case res of
         Inl err \<Rightarrow>
           go_then (set_object (set_server_id [])) (create_server_flow k api sc helper)
       | Inr server \<Rightarrow>
           if server_is_ready server then go_return (Inr (Some server)) else go_return (Inr None))
     else create_server_flow k api sc helper)"

section \<open>Reconciliation\<close>

definition server_addresses :: "Server \<Rightarrow> MachineAddress list" where
  "server_addresses server =
     map (\<lambda>ip. \<lparr>MachineAddress_Type = MachineExternalIP, MachineAddress_Address = ip\<rparr>) (Server_IPAddress server) @
     (if Server_Hostname server \<noteq> []
      then [\<lparr>MachineAddress_Type = MachineHostName, MachineAddress_Address = Server_Hostname server\<rparr>] else [])"

definition provider_id :: "string \<Rightarrow> string" where
  "provider_id serverID = ''latitude://'' @ serverID"

text \<open>The last part of \<open>reconcileNormal\<close>, for a server that is up.\<close>

definition mark_server_ready ::
  "('w, 'h) kube \<Rightarrow> Server \<Rightarrow> ('w, LatitudeMachine, reconcile_result) handler" where
  "mark_server_ready k server =
     go_then (SetProviderID (provider_id (Server_ID server)))
     (go_then SetReady
     (go_then (set_object (set_server_id (Server_ID server)))
     (go_then (set_object (upd_lm_status (\<lambda>st. st\<lparr>MachineStatus_Addresses := server_addresses server\<rparr>)))
     (go_then (machine_setCondition k InstanceReadyCondition ConditionTrue ''InstanceReady'' ''Instance is ready'')
     (go_then (emit EventTypeNormal ''SuccessfulCreate'' (''Created server '' @ Server_ID server))
     (go_return (done_result, None)))))))"

definition handle_server_error ::
  "('w, 'h) kube \<Rightarrow> go_error \<Rightarrow> ('w, LatitudeMachine, reconcile_result) handler" where
  "handle_server_error k err =
     (if isPermanentError (Some err) then
        go_then (setMachineFailed (error_text err))
        (go_then (machine_setCondition k InstanceReadyCondition ConditionFalse InstanceProvisionFailedReason (error_text err))
        (go_then (emit EventTypeWarning ''ProvisioningFailed''
           (''Failed to create server (permanent error): '' @ error_text err))
        (go_return (requeue_after 300, None))))
      else
        go_then (machine_setCondition k InstanceReadyCondition ConditionFalse InstanceProvisionFailedReason (error_text err))
        (go_then (emit EventTypeWarning ''FailedCreate'' (''Failed to create server: '' @ error_text err))
        (go_return (done_result, Some err))))"

text \<open>From the validation on, for a machine whose control plane has not failed.\<close>

definition reconcile_valid_machine ::
  "('w, 'h) kube \<Rightarrow> 'w ClientInterface \<Rightarrow> 'h MachineScope \<Rightarrow> 'h \<Rightarrow>
   ('w, LatitudeMachine, reconcile_result) handler" where
  "reconcile_valid_machine k api sc helper =
     go_bind (validateMachineSpec k) (\<lambda>invalid.
     case invalid of
       Some err \<Rightarrow>
         go_then (machine_setCondition k InstanceReadyCondition ConditionFalse InstanceProvisionFailedReason (error_text err))
         (go_return (done_result, None))
     | None \<Rightarrow>
         go_bind (reconcileServer k api sc helper) (\<lambda>res.
         case res of
           Inl err \<Rightarrow> handle_server_error k err
         | Inr None \<Rightarrow>
             go_then (machine_setCondition k InstanceReadyCondition ConditionFalse InstanceNotReadyReason
               ''Server is being provisioned'')
             (go_return (requeue_after 30, None))
         | Inr (Some server) \<Rightarrow> mark_server_ready k server))"

definition fail_worker :: "('w, 'h) kube \<Rightarrow> ('w, LatitudeMachine, reconcile_result) handler" where
  "fail_worker k =
     go_then (setMachineFailed ''Control plane provisioning failed, cannot provision worker nodes'')
     (go_then (machine_setCondition k InstanceReadyCondition ConditionFalse InstanceProvisionFailedReason
        ''Control plane failed'')
     (go_then (emit EventTypeWarning ''ControlPlaneFailed''
        ''Cannot provision worker: control plane has failed'')
     (go_return (done_result, None))))"

definition machine_reconcileNormal ::
  "('w, 'h) kube \<Rightarrow> 'w ClientInterface \<Rightarrow> 'h \<Rightarrow> ('w, LatitudeMachine, reconcile_result) handler" where
  "machine_reconcileNormal k api helper =
     go_bind get_object (\<lambda>lm.
     if \<not> ContainsFinalizer k (ObjectMeta_Finalizers (LatitudeMachine_ObjectMeta lm)) LatitudeFinalizerName then
       go_then (set_object (upd_lm_finalizers (\<lambda>fs. AddFinalizer k fs LatitudeFinalizerName)))
       (go_return (done_result, None))
     else if MachineStatus_Ready (LatitudeMachine_Status lm) then go_return (done_result, None)
     else if MachineStatus_FailureReason (LatitudeMachine_Status lm) \<noteq> None then go_return (done_result, None)
     else
       go_bind (query (GetOwnerMachine k (LatitudeMachine_ObjectMeta lm))) (\<lambda>owner.
       case owner of
         Inl err \<Rightarrow> go_return (done_result, Some (Wrapf ''failed to get owner machine'' err))
       | Inr None \<Rightarrow> go_return (requeue_after 30, None)
       | Inr (Some ownerMachine) \<Rightarrow>
           (case NewMachineScope \<lparr>Params_Client = Some k, Params_Machine = Some ownerMachine,
                   Params_LatitudeMachine = Some lm\<rparr> of
              Inl err \<Rightarrow> go_return (done_result, Some (Wrapf ''failed to create machine scope'' err))
            | Inr sc \<Rightarrow>
                if is_control_plane ownerMachine then reconcile_valid_machine k api sc helper
                else
                  go_bind (checkControlPlaneFailed k) (\<lambda>failed.
                  case failed of
                    Inl err \<Rightarrow> reconcile_valid_machine k api sc helper
                  | Inr True \<Rightarrow> fail_worker k
                  | Inr False \<Rightarrow> reconcile_valid_machine k api sc helper))))"

section \<open>Deletion\<close>

text \<open>Deleting the user data may fail without consequence; the finalizer goes either way.\<close>

definition release_machine ::
  "('w, 'h) kube \<Rightarrow> 'w ClientInterface \<Rightarrow> ('w, LatitudeMachine, reconcile_result) handler" where
  "release_machine k api =
     go_bind get_object (\<lambda>lm.
     go_then
       (let udID = MachineStatus_UserDataID (LatitudeMachine_Status lm) in
        if udID \<noteq> [] then
          go_bind (call_DeleteUserData api udID) (\<lambda>res.
          case res of
            Some err \<Rightarrow> emit EventTypeWarning ''FailedDeleteUserData''
              (''Failed to delete user data '' @ udID @ '': '' @ error_text err)
          | None \<Rightarrow> emit EventTypeNormal ''SuccessfulDeleteUserData'' (''Deleted user data '' @ udID))
        else go_return ())
     (go_then (set_object (upd_lm_finalizers (\<lambda>fs. RemoveFinalizer k fs LatitudeFinalizerName)))
     (go_return (done_result, None))))"

definition machine_reconcileDelete ::
  "('w, 'h) kube \<Rightarrow> 'w ClientInterface \<Rightarrow> ('w, LatitudeMachine, reconcile_result) handler" where
  "machine_reconcileDelete k api =
     go_bind get_object (\<lambda>lm.
     let serverID = MachineStatus_ServerID (LatitudeMachine_Status lm) in
     if serverID \<noteq> [] then
       go_bind (call_DeleteServer api serverID) (\<lambda>res.
       case res of
         Some err \<Rightarrow>
           go_then (machine_setCondition k InstanceReadyCondition ConditionFalse InstanceDeletionFailedReason (error_text err))
           (go_then (emit EventTypeWarning ''FailedDelete''
              (''Failed to delete server '' @ serverID @ '': '' @ error_text err))
           (go_return (requeue_after 30, None)))
       | None \<Rightarrow>
           go_then (emit EventTypeNormal ''SuccessfulDelete'' (''Deleted server '' @ serverID))
           (release_machine k api))
     else release_machine k api)"

section \<open>The request\<close>

definition machine_body ::
  "('w, 'h) kube \<Rightarrow> 'w ClientInterface \<Rightarrow> 'h \<Rightarrow> ('w, LatitudeMachine, reconcile_result) handler" where
  "machine_body k api helper =
     go_bind get_object (\<lambda>lm.
     if ObjectMeta_Annotations (LatitudeMachine_ObjectMeta lm) paused_annotation \<noteq> None then
       go_return (done_result, None)
     else if ObjectMeta_DeletionTimestamp (LatitudeMachine_ObjectMeta lm) \<noteq> None then
       machine_reconcileDelete k api
     else machine_reconcileNormal k api helper)"

definition machine_Reconcile ::
  "('w, 'h) kube \<Rightarrow> 'w ClientInterface \<Rightarrow> ObjectKey \<Rightarrow> 'w \<Rightarrow> ('w, LatitudeMachine) report" where
  "machine_Reconcile k api req w =
     (case Get_LatitudeMachine k req w of
        (Inl err, w1) \<Rightarrow>
          if is_not_found err then no_calls (done_result, None) w1
          else no_calls (done_result, Some err) w1
      | (Inr lm, w1) \<Rightarrow>
          (case NewHelper_LatitudeMachine k lm of
             Inl err \<Rightarrow> no_calls (done_result, Some err) w1
           | Inr helper \<Rightarrow>
               report (with_deferred_patch (Patch_LatitudeMachine k helper) (machine_body k api helper)
                 (start w1 lm))))"

end
