(* ===== verification/Cluster_Controller.thy ===== *)
theory Cluster_Controller
  imports Calls Conditions
begin

text \<open>
  \<open>internal/controller/latitudecluster_controller.go\<close>, method by method. A handler runs on the
  state of one reconciliation, whose object is the \<open>LatitudeCluster\<close> behind the reconciler's
  pointer; \<open>k\<close> is the Kubernetes side and \<open>api\<close> the Latitude.sh client. Log lines are left out.
\<close>

definition LatitudeClusterFinalizerName :: string where
  "LatitudeClusterFinalizerName = ''latitudecluster.infrastructure.cluster.x-k8s.io''"

definition ClusterReadyCondition :: string where
  "ClusterReadyCondition = ''ClusterReady''"
definition ClusterProvisionFailedReason :: string where
  "ClusterProvisionFailedReason = ''ClusterProvisionFailed''"
definition ClusterDeletionFailedReason :: string where
  "ClusterDeletionFailedReason = ''ClusterDeletionFailed''"
definition InvalidClusterConfigReason :: string where
  "InvalidClusterConfigReason = ''InvalidClusterConfig''"
definition ControlPlaneEndpointSetReason :: string where
  "ControlPlaneEndpointSetReason = ''ControlPlaneEndpointSet''"

section \<open>Validation\<close>

definition cluster_spec_errors :: "LatitudeCluster \<Rightarrow> string list" where
  "cluster_spec_errors lc =
     (if ClusterSpec_Location (LatitudeCluster_Spec lc) = [] then [''location is required''] else []) @
     (case ClusterSpec_ProjectRef (LatitudeCluster_Spec lc) of
        None \<Rightarrow> [''projectRef.projectID is required'']
      | Some pr \<Rightarrow> if ProjectRef_ProjectID pr = [] then [''projectRef.projectID is required''] else [])"

definition validateClusterSpec :: "LatitudeCluster \<Rightarrow> go_error option" where
  "validateClusterSpec lc =
     (if cluster_spec_errors lc \<noteq> []
      then Some (Err (''validation failed: '' @ str_join '', '' (cluster_spec_errors lc)))
      else None)"

section \<open>The VLAN of the cluster\<close>

definition set_vlan_id :: "string \<Rightarrow> LatitudeCluster \<Rightarrow> LatitudeCluster" where
  "set_vlan_id i = upd_lc_status (\<lambda>st. st\<lparr>ClusterStatus_VLANID := Some i\<rparr>)"

definition set_vlan_vid :: "int \<Rightarrow> LatitudeCluster \<Rightarrow> LatitudeCluster" where
  "set_vlan_vid v = upd_lc_status (\<lambda>st. st\<lparr>ClusterStatus_VLANVID := Some v\<rparr>)"

definition vlan_request_description :: "LatitudeCluster \<Rightarrow> VLANConfig \<Rightarrow> string" where
  "vlan_request_description lc cfg =
     ''capl-'' @ ObjectMeta_Name (LatitudeCluster_ObjectMeta lc) @ ''-'' @ VLANConfig_Subnet cfg"

text \<open>The end of \<open>reconcileVLAN\<close>: create the VLAN and record it in the status.\<close>

definition create_cluster_vlan ::
  "'w ClientInterface \<Rightarrow> VLANConfig \<Rightarrow> ('w, LatitudeCluster, go_error option) handler" where
  "create_cluster_vlan api cfg =
     go_bind get_object (\<lambda>lc.
     case ClusterSpec_ProjectRef (LatitudeCluster_Spec lc) of
       None \<Rightarrow> go_return (Some (Err ''projectRef is required for VLAN creation''))
     | Some pr \<Rightarrow>
         go_bind (call_CreateVLAN api
           \<lparr>CreateVLANRequest_ProjectID = ProjectRef_ProjectID pr,
            CreateVLANRequest_Site = ClusterSpec_Location (LatitudeCluster_Spec lc),
            CreateVLANRequest_Subnet = vlan_request_description lc cfg,
            CreateVLANRequest_VID = VLANConfig_VID cfg\<rparr>) (\<lambda>res.
         case res of
           Inl err \<Rightarrow> go_return (Some (Wrapf ''failed to create VLAN'' err))
         | Inr vlan \<Rightarrow>
             go_then (set_object (set_vlan_id (VLAN_ID vlan)))
             (go_then (set_object (set_vlan_vid (VLAN_VID vlan)))
             (go_then (emit ''Normal'' ''VLANCreated''
               (''Created VLAN '' @ VLAN_ID vlan @ '' with VID '' @ itoa_int (VLAN_VID vlan)))
             (go_return None)))))"

definition reconcileVLAN :: "'w ClientInterface \<Rightarrow> ('w, LatitudeCluster, go_error option) handler" where
  "reconcileVLAN api =
     go_bind get_object (\<lambda>lc.
     case ClusterSpec_VLANConfig (LatitudeCluster_Spec lc) of
       None \<Rightarrow> go_return None
     | Some cfg \<Rightarrow>
         (case VLANConfig_ExistingVLANID cfg of
            Some existing \<Rightarrow>
              go_then (set_object (set_vlan_id existing))
              (if ClusterStatus_VLANVID (LatitudeCluster_Status lc) = None then
                 go_bind (call_GetVLAN api existing) (\<lambda>res.
                 case res of
                   Inl err \<Rightarrow> go_return (Some (Wrapf ''failed to get existing VLAN'' err))
                 | Inr vlan \<Rightarrow> go_then (set_object (set_vlan_vid (VLAN_VID vlan))) (go_return None))
               else go_return None)
          | None \<Rightarrow>
              (case ClusterStatus_VLANID (LatitudeCluster_Status lc) of
                 None \<Rightarrow> create_cluster_vlan api cfg
               | Some vlanID \<Rightarrow>
                   go_bind (call_GetVLAN api vlanID) (\<lambda>res.
                   case res of
                     Inl err \<Rightarrow> create_cluster_vlan api cfg
                   | Inr vlan \<Rightarrow>
                       go_then
                         (if ClusterStatus_VLANVID (LatitudeCluster_Status lc) = None
                          then set_object (set_vlan_vid (VLAN_VID vlan)) else go_return ())
                         (go_return None)))))"

definition location_error :: "string \<Rightarrow> string list \<Rightarrow> go_error" where
  "location_error location regions = Err (''location '' @ location @
     '' is not available, available regions: ['' @ str_join '' '' regions @ '']'')"

definition reconcileInfrastructure ::
  "'w ClientInterface \<Rightarrow> ('w, LatitudeCluster, go_error option) handler" where
  "reconcileInfrastructure api =
     go_bind (call_GetAvailableRegions api) (\<lambda>res.
     case res of
       Inl err \<Rightarrow> go_return (Some (Wrapf ''failed to get available regions'' err))
     | Inr regions \<Rightarrow>
         go_bind get_object (\<lambda>lc.
         if \<not> list_ex (\<lambda>region. region = ClusterSpec_Location (LatitudeCluster_Spec lc)) regions then
           go_return (Some (location_error (ClusterSpec_Location (LatitudeCluster_Spec lc)) regions))
         else
           go_bind (reconcileVLAN api) (\<lambda>r.
           case r of
             Some err \<Rightarrow> go_return (Some (Wrapf ''failed to reconcile VLAN'' err))
           | None \<Rightarrow> go_return None)))"

definition cleanupVLAN :: "'w ClientInterface \<Rightarrow> ('w, LatitudeCluster, go_error option) handler" where
  "cleanupVLAN api =
     go_bind get_object (\<lambda>lc.
     case ClusterStatus_VLANID (LatitudeCluster_Status lc) of
       None \<Rightarrow> go_return None
     | Some vlanID \<Rightarrow>
         if (case ClusterSpec_VLANConfig (LatitudeCluster_Spec lc) of
               None \<Rightarrow> False
             | Some cfg \<Rightarrow> VLANConfig_ExistingVLANID cfg \<noteq> None)
         then go_return None
         else
           go_bind (call_DeleteVLAN api vlanID) (\<lambda>res.
           case res of
             Some err \<Rightarrow> go_return (Some err)
           | None \<Rightarrow>
               go_then (emit ''Normal'' ''VLANDeleted'' (''Deleted VLAN '' @ vlanID)) (go_return None)))"

text \<open>A failed VLAN deletion is logged and dropped.\<close>

definition cleanupInfrastructure ::
  "'w ClientInterface \<Rightarrow> ('w, LatitudeCluster, go_error option) handler" where
  "cleanupInfrastructure api = go_then (cleanupVLAN api) (go_return None)"

section \<open>The control plane endpoint\<close>

text \<open>The address of the first entry of one of the types, empty without one.\<close>

definition first_address :: "string list \<Rightarrow> MachineAddress list \<Rightarrow> string" where
  "first_address types addrs =
     (case find (\<lambda>a. MachineAddress_Type a \<in> set types) addrs of
        Some a \<Rightarrow> MachineAddress_Address a | None \<Rightarrow> [])"

definition endpoint_address :: "MachineAddress list \<Rightarrow> string" where
  "endpoint_address addrs =
     (let externalIP = first_address [MachineInternalIP, ''ExternalIP''] addrs in
      if externalIP = [] then first_address [MachineInternalIP, ''InternalIP''] addrs else externalIP)"

definition set_endpoint :: "string \<Rightarrow> LatitudeCluster \<Rightarrow> LatitudeCluster" where
  "set_endpoint host = upd_lc_status (\<lambda>st. st\<lparr>ClusterStatus_ControlPlaneEndpoint :=
     \<lparr>APIEndpoint_Host = host, APIEndpoint_Port = 6443\<rparr>\<rparr>)"

text \<open>The end of \<open>setupControlPlaneEndpoint\<close>, from the \<open>LatitudeMachine\<close> on.\<close>

definition endpoint_from_machine ::
  "('w, 'h) kube \<Rightarrow> LatitudeMachine \<Rightarrow> ('w, LatitudeCluster, go_error + bool) handler" where
  "endpoint_from_machine k lm =
     (if \<not> MachineStatus_Ready (LatitudeMachine_Status lm) then go_return (Inr False)
      else
        let externalIP = endpoint_address (MachineStatus_Addresses (LatitudeMachine_Status lm)) in
        if externalIP = [] then
          go_return (Inl (Err (''control plane machine '' @ ObjectMeta_Name (LatitudeMachine_ObjectMeta lm) @
            '' has no external IP address'')))
        else
          go_then (set_object (set_endpoint externalIP))
          (go_then (cluster_setCondition k ClusterReadyCondition ConditionFalse ControlPlaneEndpointSetReason
             (''Control plane endpoint set to '' @ externalIP @ '':6443''))
          (go_then (emit EventTypeNormal ''ControlPlaneEndpointSet''
             (''Control plane endpoint set to '' @ externalIP @ '':6443 from machine '' @
              ObjectMeta_Name (LatitudeMachine_ObjectMeta lm)))
          (go_return (Inr True)))))"

definition setupControlPlaneEndpoint ::
  "('w, 'h) kube \<Rightarrow> Cluster \<Rightarrow> ('w, LatitudeCluster, go_error + bool) handler" where
  "setupControlPlaneEndpoint k cluster =
     go_bind get_object (\<lambda>lc.
     if APIEndpoint_Host (ClusterStatus_ControlPlaneEndpoint (LatitudeCluster_Status lc)) \<noteq> []
     then go_return (Inr True)
     else
       go_bind (query (List_Machines k (ObjectMeta_Namespace (Cluster_ObjectMeta cluster))
         (ObjectMeta_Name (Cluster_ObjectMeta cluster)))) (\<lambda>res.
       case res of
         Inl err \<Rightarrow> go_return (Inl (Wrapf ''failed to list CAPI machines'' err))
       | Inr items \<Rightarrow>
           (case find (IsControlPlaneMachine k) items of
              None \<Rightarrow> go_return (Inr False)
            | Some controlPlaneMachine \<Rightarrow>
                let ref = Machine_InfrastructureRef controlPlaneMachine in
                if ObjectReference_Name ref = [] then go_return (Inr False)
                else
                  go_bind (query (Get_LatitudeMachine k
                    \<lparr>ObjectKey_Namespace = ObjectReference_Namespace ref,
                     ObjectKey_Name = ObjectReference_Name ref\<rparr>)) (\<lambda>got.
                  case got of
                    Inl err \<Rightarrow>
                      if is_not_found err then go_return (Inr False)
                      else go_return (Inl (Wrapf ''failed to get LatitudeMachine'' err))
                  | Inr lm \<Rightarrow> endpoint_from_machine k lm))))"

section \<open>Reconciliation\<close>

definition mark_cluster_ready :: "LatitudeCluster \<Rightarrow> LatitudeCluster" where
  "mark_cluster_ready = upd_lc_status (\<lambda>st. st\<lparr>ClusterStatus_Ready := True\<rparr>)"

text \<open>The part of \<open>reconcileNormal\<close> for a cluster that is ready: find the endpoint.\<close>

definition discover_endpoint ::
  "('w, 'h) kube \<Rightarrow> Cluster \<Rightarrow> ('w, LatitudeCluster, reconcile_result) handler" where
  "discover_endpoint k cluster =
     go_bind (setupControlPlaneEndpoint k cluster) (\<lambda>res.
     case res of
       Inl err \<Rightarrow> go_return (requeue_after 15, None)
     | Inr False \<Rightarrow> go_return (requeue_after 15, None)
     | Inr True \<Rightarrow>
         go_bind get_object (\<lambda>lc.
         let ep = ClusterStatus_ControlPlaneEndpoint (LatitudeCluster_Status lc) in
         go_then (emit EventTypeNormal ''SuccessfulInfrastructure''
           (''Cluster infrastructure is ready with endpoint '' @ APIEndpoint_Host ep @ '':'' @
            itoa_int (APIEndpoint_Port ep)))
         (go_return (done_result, None))))"

definition cluster_reconcileNormal ::
  "('w, 'h) kube \<Rightarrow> 'w ClientInterface \<Rightarrow> Cluster \<Rightarrow> ('w, LatitudeCluster, reconcile_result) handler" where
  "cluster_reconcileNormal k api cluster =
     go_bind get_object (\<lambda>lc.
     if \<not> ContainsFinalizer k (ObjectMeta_Finalizers (LatitudeCluster_ObjectMeta lc)) LatitudeClusterFinalizerName then
       go_then (set_object (upd_lc_finalizers (\<lambda>fs. AddFinalizer k fs LatitudeClusterFinalizerName)))
       (go_return (done_result, None))
     else
       (case validateClusterSpec lc of
          Some err \<Rightarrow>
            go_then (cluster_setCondition k ClusterReadyCondition ConditionFalse InvalidClusterConfigReason (error_text err))
            (go_return (done_result, None))
        | None \<Rightarrow>
            go_bind (reconcileInfrastructure api) (\<lambda>infra.
            case infra of
              Some err \<Rightarrow>
                go_then (cluster_setCondition k ClusterReadyCondition ConditionFalse ClusterProvisionFailedReason (error_text err))
                (go_then (emit EventTypeWarning ''FailedInfrastructure''
                   (''Failed to setup cluster infrastructure: '' @ error_text err))
                (go_return (requeue_after 30, Some err)))
            | None \<Rightarrow>
                go_bind get_object (\<lambda>lc'.
                if \<not> ClusterStatus_Ready (LatitudeCluster_Status lc') then
                  go_then (set_object mark_cluster_ready)
                  (go_then (cluster_setCondition k ClusterReadyCondition ConditionTrue ''ClusterReady''
                     ''Cluster infrastructure is ready'')
                  (go_return (done_result, None)))
                else discover_endpoint k cluster))))"

definition cluster_reconcileDelete ::
  "('w, 'h) kube \<Rightarrow> 'w ClientInterface \<Rightarrow> ('w, LatitudeCluster, reconcile_result) handler" where
  "cluster_reconcileDelete k api =
     go_bind (cleanupInfrastructure api) (\<lambda>res.
     case res of
       Some err \<Rightarrow>
         go_then (cluster_setCondition k ClusterReadyCondition ConditionFalse ClusterDeletionFailedReason (error_text err))
         (go_then (emit EventTypeWarning ''FailedCleanup''
            (''Failed to cleanup cluster infrastructure: '' @ error_text err))
         (go_return (requeue_after 30, None)))
     | None \<Rightarrow>
         go_then (set_object (upd_lc_finalizers (\<lambda>fs. RemoveFinalizer k fs LatitudeClusterFinalizerName)))
         (go_then (emit EventTypeNormal ''SuccessfulCleanup'' ''Cluster infrastructure cleaned up'')
         (go_return (done_result, None))))"

section \<open>The request\<close>

definition cluster_body ::
  "('w, 'h) kube \<Rightarrow> 'w ClientInterface \<Rightarrow> Cluster \<Rightarrow> ('w, LatitudeCluster, reconcile_result) handler" where
  "cluster_body k api cluster =
     go_bind get_object (\<lambda>lc.
     if ObjectMeta_DeletionTimestamp (LatitudeCluster_ObjectMeta lc) \<noteq> None then
       cluster_reconcileDelete k api
     else cluster_reconcileNormal k api cluster)"

definition cluster_Reconcile ::
  "('w, 'h) kube \<Rightarrow> 'w ClientInterface \<Rightarrow> ObjectKey \<Rightarrow> 'w \<Rightarrow> ('w, LatitudeCluster) report" where
  "cluster_Reconcile k api req w =
     (case Get_LatitudeCluster k req w of
        (Inl err, w1) \<Rightarrow>
          if is_not_found err then no_calls (done_result, None) w1
          else no_calls (done_result, Some err) w1
      | (Inr lc, w1) \<Rightarrow>
          (case GetOwnerCluster k (LatitudeCluster_ObjectMeta lc) w1 of
             (Inl err, w2) \<Rightarrow> no_calls (done_result, Some err) w2
           | (Inr None, w2) \<Rightarrow> no_calls (requeue_after 10, None) w2
           | (Inr (Some cluster), w2) \<Rightarrow>
               (case NewHelper_LatitudeCluster k lc of
                  Inl err \<Rightarrow> no_calls (done_result, Some err) w2
                | Inr helper \<Rightarrow>
                    report (with_deferred_patch (Patch_LatitudeCluster k helper)
                      (cluster_body k api cluster) (start w2 lc)))))"

end
