(* ===== verification/Test_Doubles.thy ===== *)
theory Test_Doubles
  imports Machine_Controller Cluster_Controller
begin

text \<open>
  The repository's own test doubles, on which the properties are applied to concrete inputs: the
  fixtures of \<open>test/fixtures\<close>, the mock client of \<open>test/mocks/latitude/mock_client.go\<close>, and a small
  in-memory Kubernetes side (\<open>bench_kube\<close>) that stands for the fake client the tests build.
\<close>

section \<open>Fixtures\<close>

definition plain_meta :: "string \<Rightarrow> string \<Rightarrow> ObjectMeta" where
  "plain_meta name ns =
     \<lparr>ObjectMeta_Name = name, ObjectMeta_Namespace = ns, ObjectMeta_UID = [], ObjectMeta_Generation = 0,
      ObjectMeta_Annotations = (\<lambda>_. None), ObjectMeta_Labels = (\<lambda>_. None), ObjectMeta_Finalizers = [],
      ObjectMeta_DeletionTimestamp = None, ObjectMeta_OwnerReferences = []\<rparr>"

definition NewLatitudeCluster :: "string \<Rightarrow> string \<Rightarrow> string \<Rightarrow> string \<Rightarrow> LatitudeCluster" where
  "NewLatitudeCluster name ns location projectID =
     \<lparr>LatitudeCluster_ObjectMeta = plain_meta name ns,
      LatitudeCluster_Spec =
        \<lparr>ClusterSpec_Location = location, ClusterSpec_ProjectRef = Some \<lparr>ProjectRef_ProjectID = projectID\<rparr>,
         ClusterSpec_ControlPlaneEndpoint = \<lparr>APIEndpoint_Host = [], APIEndpoint_Port = 0\<rparr>,
         ClusterSpec_VLANConfig = None\<rparr>,
      LatitudeCluster_Status =
        \<lparr>ClusterStatus_Ready = False,
         ClusterStatus_ControlPlaneEndpoint = \<lparr>APIEndpoint_Host = [], APIEndpoint_Port = 0\<rparr>,
         ClusterStatus_VLANID = None, ClusterStatus_VLANVID = None, ClusterStatus_Conditions = []\<rparr>\<rparr>"

definition NewCluster :: "string \<Rightarrow> string \<Rightarrow> Cluster" where
  "NewCluster name ns = \<lparr>Cluster_ObjectMeta = plain_meta name ns, Cluster_InfrastructureRef = None\<rparr>"

definition NewLatitudeMachine :: "string \<Rightarrow> string \<Rightarrow> string \<Rightarrow> string \<Rightarrow> LatitudeMachine" where
  "NewLatitudeMachine name ns plan os =
     \<lparr>LatitudeMachine_ObjectMeta = plain_meta name ns,
      LatitudeMachine_Spec =
        \<lparr>MachineSpec_ProviderID = None, MachineSpec_OperatingSystem = os, MachineSpec_Plan = plan,
         MachineSpec_SSHKeySecretRef = None\<rparr>,
      LatitudeMachine_Status =
        \<lparr>MachineStatus_Ready = False, MachineStatus_ProviderID = [], MachineStatus_ServerID = [],
         MachineStatus_UserDataID = [], MachineStatus_Addresses = [], MachineStatus_FailureReason = None,
         MachineStatus_FailureMessage = None, MachineStatus_Conditions = []\<rparr>\<rparr>"

definition NewMachine :: "string \<Rightarrow> string \<Rightarrow> string \<Rightarrow> Machine" where
  "NewMachine name ns clusterName =
     \<lparr>Machine_ObjectMeta = (plain_meta name ns)
        \<lparr>ObjectMeta_Labels := [''cluster.x-k8s.io/cluster-name'' \<mapsto> clusterName]\<rparr>,
      Machine_FailureDomain = None, Machine_DataSecretName = None,
      Machine_InfrastructureRef = \<lparr>ObjectReference_Name = [], ObjectReference_Namespace = []\<rparr>\<rparr>"

section \<open>The mock client\<close>

text \<open>A function of the mock that is not set is \<open>None\<close>; the methods then answer with a fixed value.\<close>

record 'w MockClient =
  CreateServerFunc :: "(ServerSpec \<Rightarrow> ('w, go_error + Server) run) option"
  GetServerFunc :: "(string \<Rightarrow> ('w, go_error + Server) run) option"
  DeleteServerFunc :: "(string \<Rightarrow> ('w, go_error option) run) option"
  WaitForServerFunc :: "(string \<Rightarrow> string \<Rightarrow> nat \<Rightarrow> ('w, go_error + Server) run) option"
  GetAvailablePlansFunc :: "('w, go_error + string list) run option"
  GetAvailableRegionsFunc :: "('w, go_error + string list) run option"
  CreateUserDataFunc :: "(CreateUserDataRequest \<Rightarrow> ('w, go_error + string) run) option"
  DeleteUserDataFunc :: "(string \<Rightarrow> ('w, go_error option) run) option"
  CreateVLANFunc :: "(CreateVLANRequest \<Rightarrow> ('w, go_error + VLAN) run) option"
  GetVLANFunc :: "(string \<Rightarrow> ('w, go_error + VLAN) run) option"
  ListVLANsFunc :: "(string \<Rightarrow> ('w, go_error + VLAN list) run) option"
  DeleteVLANFunc :: "(string \<Rightarrow> ('w, go_error option) run) option"
  AttachServerToVLANFunc :: "(string \<Rightarrow> string \<Rightarrow> ('w, go_error option) run) option"
  DetachServerFromVLANFunc :: "(string \<Rightarrow> string \<Rightarrow> ('w, go_error option) run) option"

definition or_else :: "'a option \<Rightarrow> 'a \<Rightarrow> 'a" where
  "or_else f d = (case f of Some g \<Rightarrow> g | None \<Rightarrow> d)"

definition mock_server :: "string \<Rightarrow> string \<Rightarrow> string \<Rightarrow> Server" where
  "mock_server i status host =
     \<lparr>Server_ID = i, Server_Status = status, Server_Hostname = host, Server_IPAddress = [''192.168.1.1'']\<rparr>"

definition mock_client :: "'w MockClient \<Rightarrow> 'w ClientInterface" where
  "mock_client m =
     \<lparr>CreateServer = or_else (CreateServerFunc m)
        (\<lambda>spec. go_return (Inr (mock_server ''mock-server-id'' ''on'' (ServerSpec_Hostname spec)))),
      GetServer = or_else (GetServerFunc m)
        (\<lambda>serverID. go_return (Inr (mock_server serverID ''on'' ''mock-hostname''))),
      DeleteServer = or_else (DeleteServerFunc m) (\<lambda>serverID. go_return None),
      WaitForServer = or_else (WaitForServerFunc m)
        (\<lambda>serverID targetStatus timeout. go_return (Inr (mock_server serverID targetStatus ''mock-hostname''))),
      GetAvailablePlans = or_else (GetAvailablePlansFunc m) (go_return (Inr [''c3-small-x86'', ''c3-medium-x86''])),
      GetAvailableRegions = or_else (GetAvailableRegionsFunc m) (go_return (Inr [''SAO'', ''NYC'', ''LON''])),
      CreateUserData = or_else (CreateUserDataFunc m) (\<lambda>req. go_return (Inr ''mock-userdata-id'')),
      DeleteUserData = or_else (DeleteUserDataFunc m) (\<lambda>userDataID. go_return None),
      CreateVLAN = or_else (CreateVLANFunc m) (\<lambda>req. go_return (Inr
        \<lparr>VLAN_ID = ''mock-vlan-id'', VLAN_VID = 100, VLAN_Subnet = CreateVLANRequest_Subnet req,
         VLAN_Project = CreateVLANRequest_ProjectID req\<rparr>)),
      GetVLAN = or_else (GetVLANFunc m) (\<lambda>vlanID. go_return (Inr
        \<lparr>VLAN_ID = vlanID, VLAN_VID = 100, VLAN_Subnet = ''10.8.0.0/24'', VLAN_Project = ''mock-project-id''\<rparr>)),
      ListVLANs = or_else (ListVLANsFunc m) (\<lambda>projectID. go_return (Inr [])),
      DeleteVLAN = or_else (DeleteVLANFunc m) (\<lambda>vlanID. go_return None),
      AttachServerToVLAN = or_else (AttachServerToVLANFunc m) (\<lambda>serverID vlanID. go_return None),
      DetachServerFromVLAN = or_else (DetachServerFromVLANFunc m) (\<lambda>serverID vlanID. go_return None)\<rparr>"

definition zero_mock :: "'w MockClient" where
  "zero_mock =
     \<lparr>CreateServerFunc = None, GetServerFunc = None, DeleteServerFunc = None, WaitForServerFunc = None,
      GetAvailablePlansFunc = None, GetAvailableRegionsFunc = None, CreateUserDataFunc = None,
      DeleteUserDataFunc = None, CreateVLANFunc = None, GetVLANFunc = None, ListVLANsFunc = None,
      DeleteVLANFunc = None, AttachServerToVLANFunc = None, DetachServerFromVLANFunc = None\<rparr>"

text \<open>The mock without functions set keeps the contract of the interface.\<close>

lemma mock_client_zero:
  "CreateServer (mock_client zero_mock) spec = go_return (Inr (mock_server ''mock-server-id'' ''on'' (ServerSpec_Hostname spec)))"
  "GetServer (mock_client zero_mock) i = go_return (Inr (mock_server i ''on'' ''mock-hostname''))"
  "CreateVLAN (mock_client zero_mock) req = go_return (Inr
     \<lparr>VLAN_ID = ''mock-vlan-id'', VLAN_VID = 100, VLAN_Subnet = CreateVLANRequest_Subnet req,
      VLAN_Project = CreateVLANRequest_ProjectID req\<rparr>)"
  by (simp_all add: mock_client_def zero_mock_def or_else_def)

interpretation mock_api: latitude_api "mock_client zero_mock"
  by unfold_locales (auto simp: mock_client_zero mock_server_def go_return_def)

section \<open>An SDK\<close>

text \<open>
  A Latitude.sh API that answers every request: one server ID, every server up, no VLAN, and a
  VLAN registry as the world for the theorems about \<open>CreateVLAN\<close>.
\<close>

definition bench_sdk :: "'w sdk" where
  "bench_sdk =
     \<lparr>UserData_CreateNew = (\<lambda>name content w. (Inr (Some (Some ''ud_1'')), w)),
      UserData_Delete = (\<lambda>i w. (None, w)),
      Servers_Create = (\<lambda>attrs w. (Inr (Some (Some \<lparr>SDKServerData_ID = Some ''sv_1'',
         SDKServerData_Attributes = Some \<lparr>SDKServer_Hostname = Some (SDKCreate_Hostname attrs),
           SDKServer_Status = Some ''deploying'', SDKServer_PrimaryIpv4 = None\<rparr>\<rparr>)), w)),
      Servers_Get = (\<lambda>i w. (Inr (Some (Some \<lparr>SDKServerData_ID = Some i,
         SDKServerData_Attributes = Some \<lparr>SDKServer_Hostname = Some ''host'',
           SDKServer_Status = Some ''on'', SDKServer_PrimaryIpv4 = Some ''203.0.113.5''\<rparr>\<rparr>)), w)),
      Servers_Delete = (\<lambda>i w. (None, w)),
      Plans_List = (\<lambda>w. (Inr (Some [Some (Some ''c3-small-x86'')]), w)),
      Regions_Get = (\<lambda>w. (Inr (Some [Some (Some ''SAO''), None, Some None, Some (Some ''NYC'')]), w)),
      PrivateNetworks_Create = (\<lambda>attrs w. (Inr (Some (Some \<lparr>SDKVLANData_ID = Some ''vlan_1'',
         SDKVLANData_Attributes = Some \<lparr>SDKVLAN_Description = Some (SDKCreateVLAN_Description attrs),
           SDKVLAN_Vid = Some 2001\<rparr>\<rparr>)), w)),
      PrivateNetworks_Get = (\<lambda>i w. (Inr (Some (Some (Some \<lparr>SDKVLANData_ID = Some i,
         SDKVLANData_Attributes = Some \<lparr>SDKVLAN_Description = Some ''net'', SDKVLAN_Vid = Some 2001\<rparr>\<rparr>))), w)),
      PrivateNetworks_List = (\<lambda>w. (Inr (Some []), w)),
      VirtualNetworks_Delete = (\<lambda>i w. (None, w)),
      PrivateNetworks_Assign = (\<lambda>i v w. (None, w)),
      PrivateNetworks_DeleteAssignment = (\<lambda>a w. (None, w)),
      Timer_Ticks = (\<lambda>t. t div 30)\<rparr>"

definition registry_sdk :: "SDK_VLANData list sdk" where
  "registry_sdk = bench_sdk
     \<lparr>PrivateNetworks_Create := (\<lambda>attrs w.
        let v = \<lparr>SDKVLANData_ID = Some (''vlan_'' @ itoa (Suc (length w))),
              SDKVLANData_Attributes = Some \<lparr>SDKVLAN_Description = Some (SDKCreateVLAN_Description attrs),
                SDKVLAN_Vid = Some (2000 + int (Suc (length w)))\<rparr>\<rparr>
        in (Inr (Some (Some v)), w @ [v])),
      PrivateNetworks_List := (\<lambda>w. (Inr (Some w), w))\<rparr>"

section \<open>An in-memory Kubernetes side\<close>

record bench =
  Bench_Machine :: LatitudeMachine
  Bench_Cluster :: LatitudeCluster
  Bench_Secrets :: "string \<rightharpoonup> (string \<rightharpoonup> string)"

text \<open>
  One machine with the owner \<open>owner\<close>, one cluster that owns it all, secrets by name; a patch stores the object. The
  finalizer helpers are those of \<open>controllerutil\<close>.
\<close>

definition bench_kube :: "Machine \<Rightarrow> (bench, unit) kube" where
  "bench_kube owner =
     \<lparr>Get_LatitudeMachine = (\<lambda>key w. (Inr (Bench_Machine w), w)),
      Get_LatitudeCluster = (\<lambda>key w. (Inr (Bench_Cluster w), w)),
      Get_Secret = (\<lambda>key w. (case Bench_Secrets w (ObjectKey_Name key) of
         None \<Rightarrow> Inl (NotFoundErr ''secret not found'') | Some data \<Rightarrow> Inr data, w)),
      List_LatitudeMachines = (\<lambda>ns w. (Inr [Bench_Machine w], w)),
      List_Machines = (\<lambda>ns name w. (Inr [owner], w)),
      GetOwnerMachine = (\<lambda>meta w. (Inr (Some owner), w)),
      GetClusterFromMetadata = (\<lambda>meta w. (Inr (Some ((NewCluster ''test-cluster'' ''default'')
         \<lparr>Cluster_InfrastructureRef := Some \<lparr>ObjectReference_Name = ''test-cluster'',
            ObjectReference_Namespace = ''default''\<rparr>\<rparr>)), w)),
      GetOwnerCluster = (\<lambda>meta w. (Inr (Some (NewCluster ''test-cluster'' ''default'')), w)),
      IsControlPlaneMachine = is_control_plane,
      NewHelper_LatitudeMachine = (\<lambda>lm. Inr ()),
      NewHelper_LatitudeCluster = (\<lambda>lc. Inr ()),
      Patch_LatitudeMachine = (\<lambda>h lm w. (None, w\<lparr>Bench_Machine := lm\<rparr>)),
      Patch_LatitudeCluster = (\<lambda>h lc w. (None, w\<lparr>Bench_Cluster := lc\<rparr>)),
      ContainsFinalizer = (\<lambda>fs f. f \<in> set fs),
      AddFinalizer = (\<lambda>fs f. if f \<in> set fs then fs else fs @ [f]),
      RemoveFinalizer = (\<lambda>fs f. filter (\<lambda>g. g \<noteq> f) fs),
      Now = (\<lambda>w. 0)\<rparr>"

lemma bench_finalizer_laws: "finalizer_laws (bench_kube owner)"
  by (auto simp: finalizer_laws_def bench_kube_def)

definition bench_owner :: Machine where
  "bench_owner = (NewMachine ''test-machine'' ''default'' ''test-cluster'')
     \<lparr>Machine_DataSecretName := Some ''bootstrap'',
      Machine_InfrastructureRef := \<lparr>ObjectReference_Name = ''test-machine'', ObjectReference_Namespace = ''default''\<rparr>\<rparr>"

definition bench_control_plane :: Machine where
  "bench_control_plane = bench_owner\<lparr>Machine_ObjectMeta := (Machine_ObjectMeta bench_owner)
     \<lparr>ObjectMeta_Labels := [''cluster.x-k8s.io/control-plane'' \<mapsto> []]\<rparr>\<rparr>"

definition bench_scope :: "unit MachineScope" where
  "bench_scope = \<lparr>MachineScope_Machine = bench_control_plane, MachineScope_patchHelper = ()\<rparr>"

definition bench_key :: ObjectKey where
  "bench_key = \<lparr>ObjectKey_Namespace = ''default'', ObjectKey_Name = ''test-machine''\<rparr>"

definition bench_lm :: LatitudeMachine where
  "bench_lm = upd_lm_finalizers (\<lambda>_. [LatitudeFinalizerName])
     (NewLatitudeMachine ''test-machine'' ''default'' ''c3-small-x86'' ''ubuntu_22_04'')"

definition bench_lc :: LatitudeCluster where
  "bench_lc = upd_lc_finalizers (\<lambda>_. [LatitudeClusterFinalizerName])
     (NewLatitudeCluster ''test-cluster'' ''default'' ''SAO'' ''proj-1'')"

definition bench_world :: "LatitudeMachine \<Rightarrow> bench" where
  "bench_world lm = \<lparr>Bench_Machine = lm, Bench_Cluster = bench_lc,
     Bench_Secrets = [''bootstrap'' \<mapsto> [''value'' \<mapsto> ''#cloud-config'']]\<rparr>"

section \<open>Evaluating a request on the bench\<close>

text \<open>What the bench and the mock answer, and the definitions a run unfolds.\<close>

lemma bench_kube_simps [simp]:
  "Get_LatitudeMachine (bench_kube owner) key w = (Inr (Bench_Machine w), w)"
  "Get_LatitudeCluster (bench_kube owner) key w = (Inr (Bench_Cluster w), w)"
  "Get_Secret (bench_kube owner) key w = (case Bench_Secrets w (ObjectKey_Name key) of
     None \<Rightarrow> Inl (NotFoundErr ''secret not found'') | Some data \<Rightarrow> Inr data, w)"
  "List_LatitudeMachines (bench_kube owner) ns w = (Inr [Bench_Machine w], w)"
  "List_Machines (bench_kube owner) ns name w = (Inr [owner], w)"
  "GetOwnerMachine (bench_kube owner) meta w = (Inr (Some owner), w)"
  "GetClusterFromMetadata (bench_kube owner) meta w =
     (Inr (Some ((NewCluster ''test-cluster'' ''default'')\<lparr>Cluster_InfrastructureRef :=
        Some \<lparr>ObjectReference_Name = ''test-cluster'', ObjectReference_Namespace = ''default''\<rparr>\<rparr>)), w)"
  "GetOwnerCluster (bench_kube owner) meta w = (Inr (Some (NewCluster ''test-cluster'' ''default'')), w)"
  "IsControlPlaneMachine (bench_kube owner) = is_control_plane"
  "NewHelper_LatitudeMachine (bench_kube owner) lm = Inr ()"
  "NewHelper_LatitudeCluster (bench_kube owner) lc = Inr ()"
  "Patch_LatitudeMachine (bench_kube owner) h lm w = (None, w\<lparr>Bench_Machine := lm\<rparr>)"
  "Patch_LatitudeCluster (bench_kube owner) h lc w = (None, w\<lparr>Bench_Cluster := lc\<rparr>)"
  "ContainsFinalizer (bench_kube owner) fs f \<longleftrightarrow> f \<in> set fs"
  "AddFinalizer (bench_kube owner) fs f = (if f \<in> set fs then fs else fs @ [f])"
  "RemoveFinalizer (bench_kube owner) fs f = filter (\<lambda>g. g \<noteq> f) fs"
  "Now (bench_kube owner) w = 0"
  by (simp_all add: bench_kube_def)

lemmas bench_defs = mock_client_def zero_mock_def or_else_def mock_server_def bench_world_def bench_lm_def
  bench_lc_def bench_control_plane_def bench_owner_def NewLatitudeMachine_def NewLatitudeCluster_def
  NewCluster_def NewMachine_def plain_meta_def bench_key_def is_control_plane_def control_plane_label_def
  paused_annotation_def upd_lm_finalizers_def upd_lc_finalizers_def set_server_id_def
  set_user_data_id_def upd_lm_status_def upd_lc_status_def start_def scope_Namespace_def

lemmas machine_run_defs = machine_Reconcile_def machine_body_def machine_reconcileNormal_def
  reconcile_valid_machine_def reconcileServer_def create_server_flow_def create_and_attach_def
  ensure_user_data_def handle_server_error_def injectVLANConfig_def attachServerToVLAN_def
  getLatitudeCluster_def getProjectID_def getSite_def site_from_cluster_def validateMachineSpec_def
  validation_error_def checkControlPlaneFailed_def getSSHKeys_def NewMachineScope_def
  GetBootstrapData_def GetRawBootstrapData_def with_deferred_patch_def patch_object_def report_def
  call_defs now_def machine_setCondition_def

text \<open>A whole request that creates a server, its calls in order.\<close>

definition bench_spec :: ServerSpec where
  "bench_spec = \<lparr>ServerSpec_Project = ''proj-1'', ServerSpec_Plan = ''c3-small-x86'',
     ServerSpec_OperatingSystem = ''ubuntu_22_04'', ServerSpec_Site = ''SAO'',
     ServerSpec_Hostname = ''default-test-machine'', ServerSpec_SSHKeys = [],
     ServerSpec_UserData = ''mock-userdata-id''\<rparr>"

lemma bench_create_run:
  "\<exists>lm3. Report_Calls (machine_Reconcile (bench_kube bench_control_plane) (mock_client zero_mock) bench_key
      (bench_world bench_lm)) =
    [CallCreateUserData \<lparr>CreateUserDataRequest_Name = ''test-machine-'',
       CreateUserDataRequest_Content = b64_encode ''#cloud-config''\<rparr>,
     CallPatch (set_user_data_id ''mock-userdata-id'' bench_lm),
     CallCreateServer bench_spec,
     CallPatch (set_server_id ''mock-server-id'' (set_user_data_id ''mock-userdata-id'' bench_lm)),
     CallPatch lm3] \<and>
    MachineStatus_ServerID (lm_status lm3) = ''mock-server-id'' \<and>
    MachineStatus_Ready (lm_status lm3) = False"
  by (simp add: machine_run_defs go_defs bench_defs bench_spec_def Let_def getHostname_def
      machine_SetConditions_def)

text \<open>The next request: the server is up, and the machine becomes ready.\<close>

definition bench_created :: LatitudeMachine where
  "bench_created = set_server_id ''mock-server-id'' (set_user_data_id ''mock-userdata-id'' bench_lm)"

definition bench_ready :: LatitudeMachine where
  "bench_ready = with_machine_condition (bench_kube bench_control_plane) InstanceReadyCondition ConditionTrue
     ''InstanceReady'' ''Instance is ready'' (bench_world bench_created)
     (upd_lm_status (\<lambda>st. st\<lparr>MachineStatus_Ready := True,
        MachineStatus_Addresses := server_addresses (mock_server ''mock-server-id'' ''on'' ''mock-hostname'')\<rparr>)
      (with_provider_id ''latitude://mock-server-id'' bench_created))"

lemma bench_ready_run:
  "Report_Calls (machine_Reconcile (bench_kube bench_control_plane) (mock_client zero_mock) bench_key
      (bench_world bench_created)) = [CallGetServer ''mock-server-id'', CallPatch bench_ready]"
  by (simp add: machine_run_defs go_defs bench_defs bench_created_def bench_ready_def Let_def
      server_is_ready_def mark_server_ready_def SetProviderID_def SetReady_def provider_id_def
      with_provider_id_def with_machine_condition_def machine_SetConditions_def machine_GetConditions_def
      equal_fold_def)

end
