(* ===== verification/Lifecycle.thy ===== *)
theory Lifecycle
  imports Prelude
begin

text \<open>
  Controllers as transition systems. A controller is run again and again on the persisted object;
  \<open>concrete\<close> is what one run (or another writer) does to it, \<open>abstract\<close> the changes its life cycle
  allows. The contract \<open>simulation\<close> is that every concrete step is a sequence of abstract ones; with
  an invariant of the abstract changes it gives the invariant of all reachable objects
  (\<open>simulation_invariant\<close>).
\<close>

locale simulation =
  fixes concrete :: "'o \<Rightarrow> 'o \<Rightarrow> bool" and abstract :: "'o \<Rightarrow> 'o \<Rightarrow> bool"
  assumes simulates: "concrete a b \<Longrightarrow> abstract\<^sup>*\<^sup>* a b"
begin

lemma reaches: "concrete\<^sup>*\<^sup>* a b \<Longrightarrow> abstract\<^sup>*\<^sup>* a b"
  by (induction rule: rtranclp_induct) (auto dest: simulates)

end

locale invariant_steps =
  fixes step :: "'o \<Rightarrow> 'o \<Rightarrow> bool" and inv :: "'o \<Rightarrow> bool"
  assumes step_keeps: "step a b \<Longrightarrow> inv a \<Longrightarrow> inv b"
begin

lemma reach_keeps: "step\<^sup>*\<^sup>* a b \<Longrightarrow> inv a \<Longrightarrow> inv b"
  by (induction rule: rtranclp_induct) (auto dest: step_keeps)

end

locale simulation_invariant = simulation concrete abstract + abs: invariant_steps abstract inv
  for concrete :: "'o \<Rightarrow> 'o \<Rightarrow> bool" and abstract :: "'o \<Rightarrow> 'o \<Rightarrow> bool" and inv :: "'o \<Rightarrow> bool"

sublocale simulation_invariant \<subseteq> conc: invariant_steps concrete inv
  by unfold_locales (blast dest: simulates abs.reach_keeps)

end
