(* ===== verification/Machine_Correctness.thy ===== *)
theory Machine_Correctness
  imports Test_Doubles Lifecycle
begin

text \<open>
  What the machine controller guarantees: which requests may create or delete a server, in what order
  it creates and persists, what a ready or failed machine looks like, what deletion does.
\<close>

section \<open>Lookups change neither the object nor the trace\<close>

lemma reader_getLatitudeCluster [reader_rules]: "reader (getLatitudeCluster k)"
  unfolding getLatitudeCluster_def by (intro reader_rules)

lemma reader_getProjectID [reader_rules]: "reader (getProjectID k)"
  unfolding getProjectID_def by (intro reader_rules)

lemma reader_site_from_cluster [reader_rules]: "reader (site_from_cluster k)"
  unfolding site_from_cluster_def by (intro reader_rules)

lemma reader_getSite [reader_rules]: "reader (getSite k)"
  unfolding getSite_def by (intro reader_rules)

lemma reader_getSSHKeys [reader_rules]: "reader (getSSHKeys k)"
  unfolding getSSHKeys_def Let_def by (intro reader_rules)

lemma reader_validateMachineSpec [reader_rules]: "reader (validateMachineSpec k)"
  unfolding validateMachineSpec_def by (intro reader_rules)

lemma reader_injectVLANConfig [reader_rules]: "reader (injectVLANConfig k u)"
  unfolding injectVLANConfig_def Let_def by (intro reader_rules)

lemma reader_GetBootstrapData [reader_rules]: "reader (GetBootstrapData k sc)"
  unfolding GetBootstrapData_def GetRawBootstrapData_def by (intro reader_rules)

lemma reader_control_plane_failed_loop [reader_rules]: "reader (control_plane_failed_loop k ms)"
  by (induction ms) (simp_all, (intro reader_rules | assumption)+)

lemma reader_checkControlPlaneFailed [reader_rules]: "reader (checkControlPlaneFailed k)"
  unfolding checkControlPlaneFailed_def by (intro reader_rules)

lemmas lookup_readers = reader_getLatitudeCluster reader_getProjectID reader_getSite
  reader_getSSHKeys reader_validateMachineSpec reader_injectVLANConfig reader_GetBootstrapData
  reader_checkControlPlaneFailed

lemmas lookup_costs [cost_rules] = lookup_readers [THEN reader_costs]

lemma good_world [simp]: "good P (s\<lparr>world := w\<rparr>) = good P s"
  by (simp add: good_def)

lemma good_lookups [keep_rules]:
  "keeps (good P) (getLatitudeCluster k)" "keeps (good P) (getProjectID k)" "keeps (good P) (getSite k)"
  "keeps (good P) (getSSHKeys k)" "keeps (good P) (validateMachineSpec k)"
  "keeps (good P) (injectVLANConfig k u)" "keeps (good P) (GetBootstrapData k sc)"
  "keeps (good P) (checkControlPlaneFailed k)"
  by (rule lookup_readers [THEN reader_keeps], simp)+

section \<open>The life cycle of a machine\<close>

text \<open>
  The abstract machine: everything a reconciliation may do to a \<open>LatitudeMachine\<close>, one change at a
  time. A machine that is ready or has failed is settled: only its finalizers and conditions change
  from then on. User data is recorded once, a server ID is never replaced by another one directly.
\<close>

definition settled :: "LatitudeMachine \<Rightarrow> bool" where
  "settled lm \<longleftrightarrow> MachineStatus_Ready (lm_status lm) \<or> MachineStatus_FailureReason (lm_status lm) \<noteq> None"

definition ready_machine :: "Server \<Rightarrow> LatitudeMachine \<Rightarrow> LatitudeMachine" where
  "ready_machine srv lm =
     upd_lm_status (\<lambda>st. st\<lparr>MachineStatus_Ready := True, MachineStatus_ServerID := Server_ID srv,
         MachineStatus_Addresses := server_addresses srv\<rparr>)
       (with_provider_id (provider_id (Server_ID srv)) lm)"

inductive machine_change :: "LatitudeMachine \<Rightarrow> LatitudeMachine \<Rightarrow> bool" where
  change_finalizers: "machine_change lm (upd_lm_finalizers f lm)"
| change_conditions: "machine_change lm (machine_SetConditions lm cs)"
| change_user_data: "\<lbrakk>\<not> settled lm; MachineStatus_UserDataID (lm_status lm) = []\<rbrakk> \<Longrightarrow>
    machine_change lm (set_user_data_id i lm)"
| change_server: "\<lbrakk>\<not> settled lm; i = [] \<or> MachineStatus_ServerID (lm_status lm) = []\<rbrakk> \<Longrightarrow>
    machine_change lm (set_server_id i lm)"
| change_failed: "\<not> settled lm \<Longrightarrow> machine_change lm (with_machine_failure msg lm)"
| change_ready: "\<not> settled lm \<Longrightarrow> machine_change lm (ready_machine srv lm)"

inductive_cases machine_changeE: "machine_change lm lm'"

lemma set_ids_simps [simp]:
  "lm_meta (set_server_id i m) = lm_meta m" "lm_spec (set_server_id i m) = lm_spec m"
  "lm_status (set_server_id i m) = (lm_status m)\<lparr>MachineStatus_ServerID := i\<rparr>"
  "lm_meta (set_user_data_id i m) = lm_meta m" "lm_spec (set_user_data_id i m) = lm_spec m"
  "lm_status (set_user_data_id i m) = (lm_status m)\<lparr>MachineStatus_UserDataID := i\<rparr>"
  by (simp_all add: set_server_id_def set_user_data_id_def)

lemma with_machine_failure_simps [simp]:
  "lm_meta (with_machine_failure msg m) = lm_meta m" "lm_spec (with_machine_failure msg m) = lm_spec m"
  "lm_status (with_machine_failure msg m) = (lm_status m)\<lparr>MachineStatus_Ready := False,
     MachineStatus_FailureReason := Some ''CreateError'', MachineStatus_FailureMessage := Some msg\<rparr>"
  by (simp_all add: with_machine_failure_def)

lemma ready_machine_simps [simp]:
  "lm_meta (ready_machine srv m) = lm_meta m"
  "MachineSpec_ProviderID (lm_spec (ready_machine srv m)) = Some (provider_id (Server_ID srv))"
  "lm_status (ready_machine srv m) = (lm_status m)\<lparr>MachineStatus_ProviderID := provider_id (Server_ID srv),
     MachineStatus_Ready := True, MachineStatus_ServerID := Server_ID srv,
     MachineStatus_Addresses := server_addresses srv\<rparr>"
  by (simp_all add: ready_machine_def upd_lm_status_def with_provider_id_def)

lemma settled_simps [simp]:
  "settled (set_server_id i m) = settled m" "settled (set_user_data_id i m) = settled m"
  "settled (upd_lm_finalizers f m) = settled m"
  "settled (machine_SetConditions m cs) = settled m"
  "settled (with_machine_condition k ty st re ms w m) = settled m"
  "settled (with_machine_failure msg m)" "settled (ready_machine srv m)"
  by (simp_all add: settled_def)

lemma change_condition:
  "machine_change lm (with_machine_condition k ty st re ms w lm)"
  unfolding with_machine_condition_def by (rule change_conditions)

abbreviation machine_changes :: "LatitudeMachine \<Rightarrow> LatitudeMachine \<Rightarrow> bool" where
  "machine_changes \<equiv> machine_change\<^sup>*\<^sup>*"

lemma changes_step: "machine_changes a b \<Longrightarrow> machine_change b c \<Longrightarrow> machine_changes a c"
  by (rule rtranclp.rtrancl_into_rtrancl)

text \<open>A machine on its way: reached from \<open>lm\<close>, not settled.\<close>

definition on_the_way :: "LatitudeMachine \<Rightarrow> LatitudeMachine \<Rightarrow> bool" where
  "on_the_way lm x \<longleftrightarrow> machine_changes lm x \<and> \<not> settled x"

definition without_server :: "LatitudeMachine \<Rightarrow> LatitudeMachine \<Rightarrow> bool" where
  "without_server lm x \<longleftrightarrow> on_the_way lm x \<and> MachineStatus_ServerID (lm_status x) = []"

lemma on_the_way_server:
  "on_the_way lm x \<Longrightarrow> i = [] \<or> MachineStatus_ServerID (lm_status x) = [] \<Longrightarrow> on_the_way lm (set_server_id i x)"
  by (auto simp: on_the_way_def intro: changes_step change_server)

lemma without_server_user_data:
  "without_server lm x \<Longrightarrow> MachineStatus_UserDataID (lm_status x) = [] \<Longrightarrow>
   without_server lm (set_user_data_id i x)"
  by (auto simp: without_server_def on_the_way_def intro: changes_step change_user_data)

lemma good_without_server: "good (without_server lm) s \<Longrightarrow> good (on_the_way lm) s"
  by (erule good_mono) (simp add: without_server_def)

lemma good_on_the_way: "good (on_the_way lm) s \<Longrightarrow> good (machine_changes lm) s"
  by (erule good_mono) (simp add: on_the_way_def)

lemma good_updates [simp]:
  "good P (s\<lparr>object := x\<rparr>) \<longleftrightarrow> P x \<and> (\<forall>obj. CallPatch obj \<in> set (calls s) \<longrightarrow> P obj)"
  "good P (s\<lparr>events := e\<rparr>) = good P s"
  "good P (s\<lparr>calls := cs\<rparr>) \<longleftrightarrow> P (object s) \<and> (\<forall>obj. CallPatch obj \<in> set cs \<longrightarrow> P obj)"
  by (simp_all add: good_def)

section \<open>The controller follows the life cycle\<close>

lemma attach_good [keep_rules]: "keeps (good P) (attachServerToVLAN k api)"
  unfolding attachServerToVLAN_def Let_def by (intro keep_rules)

lemma ensure_user_data_good:
  "good (without_server lm) s \<Longrightarrow> wp (ensure_user_data k api h u) (\<lambda>r t. good (without_server lm) t) s"
  by (auto simp: ensure_user_data_def wp_rules without_server_user_data good_def
      split: outcome.split sum.split)

lemma create_and_attach_good:
  assumes g: "good (without_server lm) s"
  shows "wp (create_and_attach k api h u) (\<lambda>r t. good (on_the_way lm) t) s"
proof -
  have server: "on_the_way lm (set_server_id i x)" if "without_server lm x" for i x
    using that by (simp add: without_server_def on_the_way_server)
  have after: "good (on_the_way lm) t \<Longrightarrow> wp (attachServerToVLAN k api) (\<lambda>r t. good (on_the_way lm) t) t"
    for t by (rule keeps_wp [OF attach_good])
  show ?thesis
    unfolding create_and_attach_def wp_bind
    apply (rule wp_mono [OF keeps_wp [OF good_lookups(4) g]])
    apply (simp add: wp_rules good_without_server split: outcome.split sum.split)
    apply (intro allI impI)
    apply (rule wp_mono [OF keeps_wp [OF good_lookups(2)]], assumption)
    apply (simp add: good_without_server split: outcome.split)
    apply (intro allI impI)
    apply (rule wp_mono [OF keeps_wp [OF good_lookups(3)]], assumption)
    apply (simp add: good_without_server wp_rules split: outcome.split sum.split)
    apply (auto simp: good_def without_server_def server split: outcome.split intro!: wp_mono [OF after])
    done
qed

lemma create_server_flow_good:
  assumes g: "good (without_server lm) s"
  shows "wp (create_server_flow k api sc h) (\<lambda>r t. good (on_the_way lm) t) s"
  unfolding create_server_flow_def wp_bind
  apply (rule wp_mono [OF keeps_wp [OF good_lookups(7) g]])
  apply (simp add: wp_rules good_without_server split: outcome.split sum.split)
  apply (intro allI impI conjI)
  apply (rule wp_mono [OF keeps_wp [OF good_lookups(6)]], assumption)
  apply (simp add: good_without_server wp_rules split: outcome.split prod.split)
  apply (intro allI impI)
  apply (rule wp_mono [OF ensure_user_data_good], assumption)
  apply (auto simp: good_without_server wp_rules create_and_attach_good split: outcome.split sum.split)
  done

text \<open>Up to the call of \<open>reconcileServer\<close> nothing has been handed to the patch helper.\<close>

definition unpatched :: "('w, 'o, 'o api_call) st \<Rightarrow> bool" where
  "unpatched s \<longleftrightarrow> (\<forall>obj. CallPatch obj \<notin> set (calls s))"

lemma unpatched_simps [simp]:
  "unpatched (start w lm)" "unpatched (s\<lparr>world := w\<rparr>) = unpatched s"
  "unpatched (s\<lparr>object := x\<rparr>) = unpatched s" "unpatched (s\<lparr>events := e\<rparr>) = unpatched s"
  by (simp_all add: unpatched_def)

lemma good_unpatched: "unpatched s \<Longrightarrow> good P s = P (object s)"
  by (simp add: good_def unpatched_def)

lemma reconcileServer_good:
  assumes g: "on_the_way lm (object s)" and u: "unpatched s"
  shows "wp (reconcileServer k api sc h) (\<lambda>r t. good (on_the_way lm) t) s"
proof -
  have flow: "wp (create_server_flow k api sc h) (\<lambda>r t. good (on_the_way lm) t) t"
    if "without_server lm (object t)" "unpatched t" for t
    using that by (intro create_server_flow_good) (simp add: good_unpatched)
  have forget: "without_server lm (set_server_id [] (object s))"
    using g by (simp add: without_server_def on_the_way_server)
  show ?thesis
    using g u forget
    by (auto simp: reconcileServer_def wp_rules without_server_def [of lm "object s"] unpatched_def
        split: outcome.split sum.split intro!: flow)
qed

lemma mark_server_ready_changes:
  assumes g: "good (on_the_way lm) s"
  shows "wp (mark_server_ready k srv) (\<lambda>r t. good (machine_changes lm) t) s"
proof -
  let ?m = "upd_lm_status (\<lambda>st. st\<lparr>MachineStatus_Addresses := server_addresses srv\<rparr>)
    (set_server_id (Server_ID srv) (upd_lm_status (\<lambda>st. st\<lparr>MachineStatus_Ready := True\<rparr>)
      (with_provider_id (provider_id (Server_ID srv)) (object s))))"
  have m: "?m = ready_machine srv (object s)"
    by (simp add: ready_machine_def upd_lm_status_def set_server_id_def with_provider_id_def)
  from g have "on_the_way lm (object s)" by (rule good_objectD)
  then have "machine_changes lm (with_machine_condition k ty st re ms w ?m)" for ty st re ms w
    unfolding m on_the_way_def
    by (meson change_condition change_ready changes_step)
  with good_on_the_way [OF g] show ?thesis
    by (simp add: mark_server_ready_def SetProviderID_def SetReady_def wp_rules good_def)
qed

lemma failure_changes:
  assumes g: "good (on_the_way lm) s"
  shows "wp (handle_server_error k err) (\<lambda>r t. good (machine_changes lm) t) s"
    and "wp (fail_worker k) (\<lambda>r t. good (machine_changes lm) t) s"
proof -
  from g have o: "on_the_way lm (object s)" by (rule good_objectD)
  have f: "machine_changes lm (with_machine_condition k ty st re ms w (with_machine_failure msg (object s)))"
    for ty st re ms w msg
    using o unfolding on_the_way_def by (meson change_condition change_failed changes_step)
  have c: "machine_changes lm (with_machine_condition k ty st re ms w (object s))" for ty st re ms w
    using o unfolding on_the_way_def by (meson change_condition changes_step)
  show "wp (handle_server_error k err) (\<lambda>r t. good (machine_changes lm) t) s"
    using f c good_on_the_way [OF g]
    by (auto simp: handle_server_error_def setMachineFailed_def wp_rules good_def)
  show "wp (fail_worker k) (\<lambda>r t. good (machine_changes lm) t) s"
    using f good_on_the_way [OF g]
    by (auto simp: fail_worker_def setMachineFailed_def wp_rules good_def)
qed

lemma set_condition_changes:
  "good (on_the_way lm) s \<Longrightarrow> machine_changes lm (with_machine_condition k ty st re ms w (object s))"
  by (meson change_condition changes_step good_objectD on_the_way_def)

lemma reconcile_valid_machine_changes:
  assumes g: "on_the_way lm (object s)" and u: "unpatched s"
  shows "wp (reconcile_valid_machine k api sc h) (\<lambda>r t. good (machine_changes lm) t) s"
proof -
  have validate: "wp (validateMachineSpec k) (\<lambda>r t. on_the_way lm (object t) \<and> unpatched t) s"
    using g u by (intro reader_wp [OF lookup_readers(5)]) simp
  have server: "wp (reconcileServer k api sc h) (\<lambda>r t. good (on_the_way lm) t) t"
    if "on_the_way lm (object t)" "unpatched t" for t
    using that by (rule reconcileServer_good)
  have tail: "wp (case res of
        Inl err \<Rightarrow> handle_server_error k err
      | Inr None \<Rightarrow>
          go_then (machine_setCondition k InstanceReadyCondition ConditionFalse InstanceNotReadyReason
            ''Server is being provisioned'') (go_return (requeue_after 30, None))
      | Inr (Some server) \<Rightarrow> mark_server_ready k server) (\<lambda>r t. good (machine_changes lm) t) t"
    if "good (on_the_way lm) t" for res t
    using that set_condition_changes [OF that] good_on_the_way [OF that, unfolded good_def]
    by (auto simp: failure_changes(1) mark_server_ready_changes wp_rules
        split: sum.split option.split)
  have rest: "wp (go_bind (reconcileServer k api sc h) (\<lambda>res. case res of
        Inl err \<Rightarrow> handle_server_error k err
      | Inr None \<Rightarrow>
          go_then (machine_setCondition k InstanceReadyCondition ConditionFalse InstanceNotReadyReason
            ''Server is being provisioned'') (go_return (requeue_after 30, None))
      | Inr (Some server) \<Rightarrow> mark_server_ready k server)) (\<lambda>r t. good (machine_changes lm) t) t"
    if "on_the_way lm (object t)" "unpatched t" for t
    unfolding wp_bind
    by (rule wp_mono [OF server [OF that]]) (auto simp: tail good_on_the_way split: outcome.split)
  show ?thesis
    unfolding reconcile_valid_machine_def wp_bind
    apply (rule wp_mono [OF validate])
    apply (auto simp: wp_rules good_unpatched rest [unfolded wp_bind] split: outcome.split option.split
        intro: set_condition_changes)
    apply (simp_all add: on_the_way_def unpatched_def set_condition_changes good_unpatched)
    done
qed

lemma machine_reconcileNormal_changes:
  assumes g: "machine_changes lm (object s)" and u: "unpatched s"
  shows "wp (machine_reconcileNormal k api h) (\<lambda>r t. good (machine_changes lm) t) s"
proof -
  have valid: "wp (reconcile_valid_machine k api sc h) (\<lambda>r t. good (machine_changes lm) t) t"
    if "on_the_way lm (object t)" "unpatched t" for t sc
    using that by (rule reconcile_valid_machine_changes)
  have finalizers: "machine_changes lm (upd_lm_finalizers f (object s))" for f
    using g by (rule changes_step) (rule change_finalizers)
  show ?thesis
    using g u u [unfolded unpatched_def] finalizers
    by (auto simp: machine_reconcileNormal_def wp_rules good_unpatched settled_def on_the_way_def
        split: sum.split option.split outcome.split bool.split
        intro!: reader_wp [OF lookup_readers(8)] valid failure_changes(2))
qed

lemma good_delete: "machine_changes lm (object s) \<Longrightarrow> unpatched s \<Longrightarrow>
    wp (machine_reconcileDelete k api) (\<lambda>r t. good (machine_changes lm) t) s"
  by (auto simp: machine_reconcileDelete_def release_machine_def Let_def wp_rules unpatched_def
      good_unpatched split: outcome.split option.split
      intro: changes_step change_condition change_finalizers)

lemma machine_body_changes:
  "wp (machine_body k api h) (\<lambda>r t. good (machine_changes lm) t) (start w lm)"
  by (simp add: machine_body_def wp_rules machine_reconcileNormal_changes good_delete)

lemma machine_deferred_changes:
  "good (machine_changes lm) (snd (with_deferred_patch p (machine_body k api h) (start w lm)))"
proof -
  obtain r t where b: "machine_body k api h (start w lm) = (r, t)" by fastforce
  from wpD [OF machine_body_changes b] have "good (machine_changes lm) t" .
  then show ?thesis
    by (auto simp: with_deferred_patch_state [where body = "machine_body k api h" and s = "start w lm", OF b]
        dest: good_objectD simp: good_def)
qed

text \<open>
  The simulation: whatever a request hands to the patch helper, at any point and on every path,
  panics included, was reached from the fetched machine through changes of the life cycle.
\<close>

lemma machine_Reconcile_changes:
  assumes get: "Get_LatitudeMachine k req w = (Inr lm, w1)"
    and patched: "CallPatch lm' \<in> set (Report_Calls (machine_Reconcile k api req w))"
  shows "machine_changes lm lm'"
proof (cases "NewHelper_LatitudeMachine k lm")
  case (Inl err)
  with assms show ?thesis by (simp add: machine_Reconcile_def no_calls_def)
next
  case (Inr h)
  with assms show ?thesis
    using machine_deferred_changes [of lm "Patch_LatitudeMachine k h" k api h w1]
    by (simp add: machine_Reconcile_def report_def good_def)
qed

section \<open>Counting the servers a request creates and deletes\<close>

lemma costs_updates [cost_rules]:
  "costs p 0 (setMachineFailed msg)" "costs p 0 (SetProviderID i)" "costs p 0 SetReady"
  by (simp_all add: setMachineFailed_def SetProviderID_def SetReady_def costs_set_object)

lemma costs_mark_server_ready [cost_rules]: "costs p 0 (mark_server_ready k srv)"
  unfolding mark_server_ready_def by (intro cost_rules)

lemma costs_failures [cost_rules]:
  "costs p 0 (handle_server_error k err)" "costs p 0 (fail_worker k)"
  unfolding handle_server_error_def fail_worker_def by (intro cost_rules)+

lemma costs_attach [cost_rules]:
  "(\<And>i v. \<not> p (CallAttachServerToVLAN i v)) \<Longrightarrow> costs p 0 (attachServerToVLAN k api)"
  unfolding attachServerToVLAN_def Let_def by (intro cost_rules | assumption)+

lemma costs_ensure_user_data [cost_rules]:
  "(\<And>r. \<not> p (CallCreateUserData r)) \<Longrightarrow> (\<And>obj. \<not> p (CallPatch obj)) \<Longrightarrow>
   costs p 0 (ensure_user_data k api h u)"
  unfolding ensure_user_data_def by (intro cost_rules | assumption)+

lemma costs_call_CreateServer: "costs is_create_server 1 (call_CreateServer api spec)"
  unfolding call_CreateServer_def using costs_call [of is_create_server "CallCreateServer spec"] by simp

lemma costs_create_and_attach:
  "costs is_create_server 1 (create_and_attach k api h u)"
  "costs is_delete_server 0 (create_and_attach k api h u)"
  unfolding create_and_attach_def
   apply (rule costs_bind_free [OF lookup_costs(4)])
   apply (rule costs_sum, rule costs_return_any)
   apply (rule costs_bind_free [OF costs_get_object])
   apply (rule costs_bind_free [OF lookup_costs(2)])
   apply (rule costs_bind_free [OF lookup_costs(3)])
   apply (rule costs_bind_last [OF costs_call_CreateServer])
  by (intro cost_rules | simp)+

lemma costs_create_server_flow:
  "costs is_create_server 1 (create_server_flow k api sc h)"
  "costs is_delete_server 0 (create_server_flow k api sc h)"
proof -
  have ud: "costs is_create_server 0 (ensure_user_data k api h u)" for u
    by (rule costs_ensure_user_data) simp_all
  show "costs is_create_server 1 (create_server_flow k api sc h)"
    unfolding create_server_flow_def
    by (intro costs_bind_free [OF lookup_costs(7)] costs_sum costs_if costs_return_any costs_prod
        costs_bind_free [OF lookup_costs(6)] costs_bind_free [OF ud] costs_create_and_attach)
  show "costs is_delete_server 0 (create_server_flow k api sc h)"
    unfolding create_server_flow_def by (intro cost_rules costs_create_and_attach | simp)+
qed

lemma costs_reconcileServer:
  "costs is_create_server 1 (reconcileServer k api sc h)"
  "costs is_delete_server 0 (reconcileServer k api sc h)"
proof -
  have get: "costs is_create_server 0 (call_GetServer api i)" for i
    by (rule costs_api_calls) simp
  show "costs is_create_server 1 (reconcileServer k api sc h)"
    unfolding reconcileServer_def
    by (intro costs_bind_free [OF costs_get_object] costs_if costs_bind_free [OF get] costs_sum
        costs_return_any costs_then_free [OF costs_set_object] costs_create_server_flow)
  show "costs is_delete_server 0 (reconcileServer k api sc h)"
    unfolding reconcileServer_def by (intro cost_rules costs_create_server_flow | simp)+
qed

lemma costs_reconcile_valid_machine:
  "costs is_create_server 1 (reconcile_valid_machine k api sc h)"
  "costs is_delete_server 0 (reconcile_valid_machine k api sc h)"
proof -
  have invalid: "costs p n (go_then (machine_setCondition k ty st re ms) (go_return x))"
    for p n ty st re ms and x :: reconcile_result
    by (rule costs_free) (intro cost_rules)
  have tail: "costs p 0 (case res of
        Inl err \<Rightarrow> handle_server_error k err
      | Inr None \<Rightarrow>
          go_then (machine_setCondition k InstanceReadyCondition ConditionFalse InstanceNotReadyReason
            ''Server is being provisioned'') (go_return (requeue_after 30, None))
      | Inr (Some server) \<Rightarrow> mark_server_ready k server)" for p res
    by (intro cost_rules)
  show "costs is_create_server 1 (reconcile_valid_machine k api sc h)"
    unfolding reconcile_valid_machine_def
    by (intro costs_bind_free [OF lookup_costs(5)] costs_option invalid tail
        costs_bind_last [OF costs_reconcileServer(1)])
  show "costs is_delete_server 0 (reconcile_valid_machine k api sc h)"
    unfolding reconcile_valid_machine_def
    by (intro costs_bind_free [OF lookup_costs(5)] costs_option invalid tail
        costs_bind_free [OF costs_reconcileServer(2)])
qed

lemma costs_machine_reconcileNormal:
  "costs is_create_server 1 (machine_reconcileNormal k api h)"
  "costs is_delete_server 0 (machine_reconcileNormal k api h)"
proof -
  have finalizer: "costs p n (go_then (set_object f) (go_return x))"
    for p n and f :: "LatitudeMachine \<Rightarrow> LatitudeMachine" and x :: reconcile_result
    by (rule costs_free) (intro cost_rules)
  have fail: "costs p n (fail_worker k)" for p n
    by (rule costs_free) (rule costs_failures)
  show "costs is_create_server 1 (machine_reconcileNormal k api h)"
    unfolding machine_reconcileNormal_def
    by (intro costs_bind_free [OF costs_get_object] costs_if finalizer costs_return_any
        costs_bind_free [OF costs_query] costs_sum costs_option costs_bind_free [OF lookup_costs(8)]
        costs_bool fail costs_reconcile_valid_machine)
  show "costs is_delete_server 0 (machine_reconcileNormal k api h)"
    unfolding machine_reconcileNormal_def
    by (intro costs_bind_free [OF costs_get_object] costs_if finalizer costs_return_any
        costs_bind_free [OF costs_query] costs_sum costs_option costs_bind_free [OF lookup_costs(8)]
        costs_bool fail costs_reconcile_valid_machine)
qed

lemma costs_machine_reconcileDelete:
  "costs is_create_server 0 (machine_reconcileDelete k api)"
  unfolding machine_reconcileDelete_def release_machine_def Let_def by (intro cost_rules | simp)+

section \<open>User data is persisted before the server is created\<close>

text \<open>
  Reading a trace from left to right, \<open>u\<close> is the user data ID that the API server was last handed:
  the one fetched, then the one of each patch. A server may only be created with that ID.
\<close>

fun persisted_first :: "string \<Rightarrow> LatitudeMachine api_call list \<Rightarrow> bool" where
  "persisted_first u [] = True"
| "persisted_first u (CallPatch lm # cs) = persisted_first (MachineStatus_UserDataID (lm_status lm)) cs"
| "persisted_first u (CallCreateServer spec # cs) = (ServerSpec_UserData spec = u \<and> persisted_first u cs)"
| "persisted_first u (c # cs) = persisted_first u cs"

fun last_persisted :: "string \<Rightarrow> LatitudeMachine api_call list \<Rightarrow> string" where
  "last_persisted u [] = u"
| "last_persisted u (CallPatch lm # cs) = last_persisted (MachineStatus_UserDataID (lm_status lm)) cs"
| "last_persisted u (c # cs) = last_persisted u cs"

lemma persisted_append [simp]:
  "persisted_first u (cs @ ds) \<longleftrightarrow> persisted_first u cs \<and> persisted_first (last_persisted u cs) ds"
  "last_persisted u (cs @ ds) = last_persisted (last_persisted u cs) ds"
  by (induction u cs rule: persisted_first.induct) auto

definition ud_tracked :: "string \<Rightarrow> ('w, LatitudeMachine, LatitudeMachine api_call) st \<Rightarrow> bool" where
  "ud_tracked u s \<longleftrightarrow> persisted_first u (calls s) \<and>
     last_persisted u (calls s) = MachineStatus_UserDataID (lm_status (object s))"

lemma ud_tracked_simps [simp]:
  "ud_tracked u (s\<lparr>world := w\<rparr>) = ud_tracked u s" "ud_tracked u (s\<lparr>events := e\<rparr>) = ud_tracked u s"
  "ud_tracked u (start w lm) \<longleftrightarrow> MachineStatus_UserDataID (lm_status lm) = u"
  by (auto simp: ud_tracked_def)

lemma ud_query [keep_rules]: "keeps (ud_tracked u) (query f)"
  by (rule reader_keeps [OF reader_query]) simp

lemma ud_emit [keep_rules]: "keeps (ud_tracked u) (emit ty re ms)"
  by (simp add: keeps_def go_defs)

lemma ud_set_object [keep_rules]:
  "(\<And>m. MachineStatus_UserDataID (lm_status (f m)) = MachineStatus_UserDataID (lm_status m)) \<Longrightarrow>
   keeps (ud_tracked u) (set_object f)"
  by (simp add: keeps_def go_defs ud_tracked_def)

lemma ud_patch [keep_rules]: "keeps (ud_tracked u) (patch_object p)"
  by (auto simp: keeps_def patch_object_def go_defs ud_tracked_def split: prod.splits)

lemma ud_api_calls [keep_rules]:
  "keeps (ud_tracked u) (call_GetServer api i)" "keeps (ud_tracked u) (call_DeleteServer api i)"
  "keeps (ud_tracked u) (call_CreateUserData api r)" "keeps (ud_tracked u) (call_DeleteUserData api i)"
  "keeps (ud_tracked u) (call_AttachServerToVLAN api i v)"
  by (auto simp: keeps_def call_defs go_defs ud_tracked_def split: prod.splits)

lemma ud_set_condition [keep_rules]: "keeps (ud_tracked u) (machine_setCondition k ty st re ms)"
  unfolding machine_setCondition_def by (intro keep_rules) simp

lemma ud_lookups [keep_rules]:
  "keeps (ud_tracked u) (getLatitudeCluster k)" "keeps (ud_tracked u) (getProjectID k)"
  "keeps (ud_tracked u) (getSite k)" "keeps (ud_tracked u) (getSSHKeys k)"
  "keeps (ud_tracked u) (validateMachineSpec k)" "keeps (ud_tracked u) (injectVLANConfig k d)"
  "keeps (ud_tracked u) (GetBootstrapData k sc)" "keeps (ud_tracked u) (checkControlPlaneFailed k)"
  by (rule lookup_readers [THEN reader_keeps], simp)+

lemma ud_attach [keep_rules]: "keeps (ud_tracked u) (attachServerToVLAN k api)"
  unfolding attachServerToVLAN_def Let_def by (intro keep_rules)

lemma ud_ensure:
  "ud_tracked u s \<Longrightarrow>
   wp (ensure_user_data k api h d) (\<lambda>r t. ud_tracked u t \<and>
     (\<forall>i. r = Ok (Inr i) \<longrightarrow> i = MachineStatus_UserDataID (lm_status (object t)))) s"
  by (auto simp: ensure_user_data_def wp_rules ud_tracked_def split: outcome.split sum.split)

lemma ud_create_and_attach:
  assumes "ud_tracked u s"
  shows "wp (create_and_attach k api h (MachineStatus_UserDataID (lm_status (object s)))) (\<lambda>r t. ud_tracked u t) s"
proof -
  have after: "wp (attachServerToVLAN k api) (\<lambda>r t. ud_tracked u t) t" if "ud_tracked u t" for t
    using that by (rule keeps_wp [OF ud_attach])
  show ?thesis
    using assms
    by (auto simp: create_and_attach_def wp_rules ud_tracked_def split: outcome.split sum.split
        intro!: reader_wp [OF lookup_readers(4)] reader_wp [OF lookup_readers(2)]
          reader_wp [OF lookup_readers(3)] wp_mono [OF after])
qed

lemma ud_create_server_flow [keep_rules]: "keeps (ud_tracked u) (create_server_flow k api sc h)"
proof (rule keepsI)
  fix s :: "('a, LatitudeMachine, LatitudeMachine api_call) st"
  assume u: "ud_tracked u s"
  have rest: "wp (go_bind (ensure_user_data k api h d) (\<lambda>ud. case ud of
      Inl err \<Rightarrow> go_return (Inl err) | Inr udID \<Rightarrow> create_and_attach k api h udID)) (\<lambda>r t. ud_tracked u t) t"
    if "ud_tracked u t" for t d
    unfolding wp_bind
  proof (rule wp_mono [OF ud_ensure [OF that]])
    fix r :: "(go_error + string) outcome" and t' :: "('a, LatitudeMachine, LatitudeMachine api_call) st"
    assume *: "ud_tracked u t' \<and> (\<forall>i. r = Ok (Inr i) \<longrightarrow> i = MachineStatus_UserDataID (lm_status (object t')))"
    show "case r of Ok x \<Rightarrow> wp (case x of Inl err \<Rightarrow> go_return (Inl err)
        | Inr udID \<Rightarrow> create_and_attach k api h udID) (\<lambda>r t. ud_tracked u t) t' | Panic \<Rightarrow> ud_tracked u t'"
    proof (cases r)
      case (Ok x)
      then show ?thesis
        using * ud_create_and_attach [of u t' k api h] by (cases x) (simp_all add: wp_return)
    next
      case Panic
      then show ?thesis using * by simp
    qed
  qed
  have "wp (create_server_flow k api sc h) (\<lambda>r t. ud_tracked u t) s"
    using u unfolding create_server_flow_def wp_bind [of "GetBootstrapData k sc"]
    by (intro reader_wp [OF lookup_readers(7)])
      (auto simp: wp_bind [of "injectVLANConfig k d" for d] wp_return split: outcome.split sum.split
        intro!: reader_wp [OF lookup_readers(6)] rest)
  then show "ud_tracked u (snd (create_server_flow k api sc h s))"
    by (simp add: wp_def split: prod.splits)
qed

lemma ud_reconcileServer [keep_rules]: "keeps (ud_tracked u) (reconcileServer k api sc h)"
  unfolding reconcileServer_def by (intro keep_rules) simp

lemma ud_updates [keep_rules]:
  "keeps (ud_tracked u) (SetProviderID i)" "keeps (ud_tracked u) SetReady"
  "keeps (ud_tracked u) (setMachineFailed msg)"
  by (simp_all add: SetProviderID_def SetReady_def setMachineFailed_def ud_set_object)

lemma ud_status_writes [keep_rules]:
  "keeps (ud_tracked u) (mark_server_ready k srv)" "keeps (ud_tracked u) (handle_server_error k err)"
  "keeps (ud_tracked u) (fail_worker k)"
  unfolding mark_server_ready_def handle_server_error_def fail_worker_def
  by (intro keep_rules; simp)+

lemma ud_reconcile_valid_machine [keep_rules]: "keeps (ud_tracked u) (reconcile_valid_machine k api sc h)"
  unfolding reconcile_valid_machine_def by (intro keep_rules)

lemma ud_reconcileNormal [keep_rules]: "keeps (ud_tracked u) (machine_reconcileNormal k api h)"
  unfolding machine_reconcileNormal_def by (intro keep_rules) simp

lemma ud_reconcileDelete [keep_rules]: "keeps (ud_tracked u) (machine_reconcileDelete k api)"
  unfolding machine_reconcileDelete_def release_machine_def Let_def by (intro keep_rules) simp_all

lemma ud_body: "keeps (ud_tracked u) (machine_body k api h)"
  unfolding machine_body_def by (intro keep_rules)

section \<open>Repeated requests\<close>

text \<open>
  The persisted machine over time. A request stores any of the objects it handed to the patch helper,
  or none when the patches fail. Between requests a user or Cluster API may write everything but
  the status and the provider ID.
\<close>

inductive machine_step ::
  "('w, 'h) kube \<Rightarrow> 'w ClientInterface \<Rightarrow> LatitudeMachine \<Rightarrow> LatitudeMachine \<Rightarrow> bool"
  for k :: "('w, 'h) kube" and api :: "'w ClientInterface" where
  step_request: "\<lbrakk>Get_LatitudeMachine k req w = (Inr lm, w1);
      CallPatch lm' \<in> set (Report_Calls (machine_Reconcile k api req w))\<rbrakk> \<Longrightarrow>
    machine_step k api lm lm'"
| step_edit: "\<lbrakk>lm_status lm' = lm_status lm;
      MachineSpec_ProviderID (lm_spec lm') = MachineSpec_ProviderID (lm_spec lm)\<rbrakk> \<Longrightarrow>
    machine_step k api lm lm'"

inductive machine_life :: "LatitudeMachine \<Rightarrow> LatitudeMachine \<Rightarrow> bool" where
  life_change: "machine_change lm lm' \<Longrightarrow> machine_life lm lm'"
| life_edit: "\<lbrakk>lm_status lm' = lm_status lm;
      MachineSpec_ProviderID (lm_spec lm') = MachineSpec_ProviderID (lm_spec lm)\<rbrakk> \<Longrightarrow>
    machine_life lm lm'"

inductive_cases machine_stepE: "machine_step k api lm lm'"
inductive_cases machine_lifeE: "machine_life lm lm'"

lemma changes_life: "machine_changes lm lm' \<Longrightarrow> machine_life\<^sup>*\<^sup>* lm lm'"
  by (induction rule: rtranclp_induct) (auto intro: rtranclp.rtrancl_into_rtrancl life_change)

lemma machine_step_life: "machine_step k api lm lm' \<Longrightarrow> machine_life\<^sup>*\<^sup>* lm lm'"
  by (erule machine_stepE) (blast intro: changes_life machine_Reconcile_changes life_edit)+

text \<open>A ready machine names the server it runs on; a failed one is not ready.\<close>

definition machine_sound :: "LatitudeMachine \<Rightarrow> bool" where
  "machine_sound lm \<longleftrightarrow>
     (MachineStatus_Ready (lm_status lm) \<longrightarrow>
        MachineStatus_ProviderID (lm_status lm) = provider_id (MachineStatus_ServerID (lm_status lm)) \<and>
        MachineSpec_ProviderID (lm_spec lm) = Some (provider_id (MachineStatus_ServerID (lm_status lm))) \<and>
        MachineStatus_FailureReason (lm_status lm) = None) \<and>
     (MachineStatus_FailureReason (lm_status lm) \<noteq> None \<longrightarrow>
        \<not> MachineStatus_Ready (lm_status lm) \<and> MachineStatus_FailureMessage (lm_status lm) \<noteq> None)"

lemma settled_iff: "\<not> settled lm \<longleftrightarrow>
    \<not> MachineStatus_Ready (lm_status lm) \<and> MachineStatus_FailureReason (lm_status lm) = None"
  by (auto simp: settled_def)

lemma machine_change_sound: "machine_change a b \<Longrightarrow> machine_sound a \<Longrightarrow> machine_sound b"
  by (erule machine_changeE) (auto simp: machine_sound_def settled_iff)

text \<open>What stays for good: the status of a settled machine up to conditions, and the user data.\<close>

definition settled_as :: "LatitudeMachine \<Rightarrow> LatitudeMachine \<Rightarrow> bool" where
  "settled_as a b \<longleftrightarrow> settled b \<and>
     (lm_status b)\<lparr>MachineStatus_Conditions := []\<rparr> = (lm_status a)\<lparr>MachineStatus_Conditions := []\<rparr> \<and>
     MachineSpec_ProviderID (lm_spec b) = MachineSpec_ProviderID (lm_spec a)"

definition user_data_is :: "string \<Rightarrow> LatitudeMachine \<Rightarrow> bool" where
  "user_data_is i lm \<longleftrightarrow> i \<noteq> [] \<and> MachineStatus_UserDataID (lm_status lm) = i"

lemma machine_change_settled: "machine_change b c \<Longrightarrow> settled_as a b \<Longrightarrow> settled_as a c"
  by (erule machine_changeE) (auto simp: settled_as_def machine_SetConditions_def settled_def)

lemma machine_change_user_data: "machine_change b c \<Longrightarrow> user_data_is i b \<Longrightarrow> user_data_is i c"
  by (erule machine_changeE) (auto simp: user_data_is_def settled_iff)

lemma edit_keeps:
  assumes "lm_status b = lm_status a"
    and "MachineSpec_ProviderID (lm_spec b) = MachineSpec_ProviderID (lm_spec a)"
  shows "machine_sound a \<Longrightarrow> machine_sound b" and "settled_as c a \<Longrightarrow> settled_as c b"
    and "user_data_is i a \<Longrightarrow> user_data_is i b"
  using assms by (simp_all add: machine_sound_def settled_as_def settled_def user_data_is_def)

lemma machine_life_keeps:
  assumes "machine_life a b"
  shows "machine_sound a \<Longrightarrow> machine_sound b" and "settled_as c a \<Longrightarrow> settled_as c b"
    and "user_data_is i a \<Longrightarrow> user_data_is i b"
  using assms
  by (cases; blast intro: edit_keeps machine_change_sound machine_change_settled machine_change_user_data)+

interpretation machine_run: simulation "machine_step k api" machine_life
  for k :: "('w, 'h) kube" and api :: "'w ClientInterface"
  by unfold_locales (rule machine_step_life)

interpretation sound_run: simulation_invariant "machine_step k api" machine_life machine_sound
  for k :: "('w, 'h) kube" and api :: "'w ClientInterface"
  by unfold_locales (rule machine_life_keeps(1))

interpretation settled_run: simulation_invariant "machine_step k api" machine_life "settled_as a"
  for k :: "('w, 'h) kube" and api :: "'w ClientInterface" and a
  by unfold_locales (rule machine_life_keeps(2))

interpretation user_data_run: simulation_invariant "machine_step k api" machine_life "user_data_is i"
  for k :: "('w, 'h) kube" and api :: "'w ClientInterface" and i
  by unfold_locales (rule machine_life_keeps(3))

end
