(* ===== verification/Machine_Properties.thy ===== *)
theory Machine_Properties
  imports Machine_Correctness
begin

text \<open>The properties of the machine controller, with the inputs they are applied to.\<close>

section \<open>When a server is created or deleted\<close>

definition paused :: "LatitudeMachine \<Rightarrow> bool" where
  "paused lm \<longleftrightarrow> ObjectMeta_Annotations (lm_meta lm) paused_annotation \<noteq> None"

definition deleting :: "LatitudeMachine \<Rightarrow> bool" where
  "deleting lm \<longleftrightarrow> ObjectMeta_DeletionTimestamp (lm_meta lm) \<noteq> None"

definition has_finalizer :: "('w, 'h) kube \<Rightarrow> LatitudeMachine \<Rightarrow> bool" where
  "has_finalizer k lm \<longleftrightarrow> ContainsFinalizer k (ObjectMeta_Finalizers (lm_meta lm)) LatitudeFinalizerName"

text \<open>A machine a server may be created for.\<close>

definition may_create :: "('w, 'h) kube \<Rightarrow> LatitudeMachine \<Rightarrow> bool" where
  "may_create k lm \<longleftrightarrow> \<not> paused lm \<and> \<not> deleting lm \<and> has_finalizer k lm \<and> \<not> settled lm"

lemma settled_normal:
  "machine_reconcileNormal k api h s =
     (Ok (done_result, None), if has_finalizer k (object s) then s
        else s\<lparr>object := upd_lm_finalizers (\<lambda>fs. AddFinalizer k fs LatitudeFinalizerName) (object s)\<rparr>)"
  if "\<not> has_finalizer k (object s) \<or> settled (object s)"
  using that by (auto simp: machine_reconcileNormal_def go_defs has_finalizer_def settled_def)

lemma settled_body:
  "machine_body k api h (start w lm) = (Ok (done_result, None), start w lm)"
  if "paused lm \<or> \<not> deleting lm \<and> has_finalizer k lm \<and> settled lm"
  using that settled_normal [of k "start w lm" api h]
  by (auto simp: machine_body_def go_defs paused_def deleting_def)

lemma report_calls:
  "Report_Calls (machine_Reconcile k api req w) =
     (case Get_LatitudeMachine k req w of
        (Inl err, w1) \<Rightarrow> []
      | (Inr lm, w1) \<Rightarrow>
          (case NewHelper_LatitudeMachine k lm of
             Inl err \<Rightarrow> []
           | Inr h \<Rightarrow>
               (let t = snd (machine_body k api h (start w1 lm)) in calls t @ [CallPatch (object t)])))"
proof -
  have d: "calls (snd (with_deferred_patch p body s)) =
      (let t = snd (body s) in calls t @ [CallPatch (object t)])"
    for p and body :: "('w, LatitudeMachine, reconcile_result) handler" and s :: "('w, LatitudeMachine, LatitudeMachine api_call) st"
  proof -
    obtain r t where b: "body s = (r, t)" by fastforce
    show ?thesis
      by (simp add: with_deferred_patch_state [where body = body and s = s, OF b] b Let_def)
  qed
  show ?thesis
    by (simp add: machine_Reconcile_def no_calls_def report_def d split: prod.split sum.split)
qed

lemma machine_body_cases:
  "machine_body k api h (start w lm) =
     (if paused lm then (Ok (done_result, None), start w lm)
      else if deleting lm then machine_reconcileDelete k api (start w lm)
      else machine_reconcileNormal k api h (start w lm))"
  by (simp add: machine_body_def go_defs paused_def deleting_def)

lemma costs_zero: "costs p 0 m \<Longrightarrow> filter p (calls (snd (m (start w x)))) = []"
  by (erule costsD [of p 0 m "start w x" "fst (m (start w x))" "snd (m (start w x))"]) simp_all

lemma costs_one: "costs p 1 m \<Longrightarrow> length (filter p (calls (snd (m (start w x))))) \<le> 1"
  by (erule costsD [of p 1 m "start w x" "fst (m (start w x))" "snd (m (start w x))"]) simp_all

lemma costs_body:
  "length (filter is_create_server (calls (snd (machine_body k api h (start w lm))))) \<le>
     (if may_create k lm then 1 else 0)"
proof (cases "may_create k lm")
  case True
  then show ?thesis
    by (simp add: machine_body_cases may_create_def costs_one [OF costs_machine_reconcileNormal(1), simplified])
next
  case False
  then show ?thesis
    using settled_normal [of k "start w lm" api h]
    by (auto simp: machine_body_cases may_create_def costs_zero [OF costs_machine_reconcileDelete])
qed

text \<open>
  C1: A request creates at most one server, and none at all unless the fetched machine carries the
  finalizer, is neither paused nor being deleted, and is neither ready nor failed. This holds
  whatever the Kubernetes side and the Latitude.sh client answer, errors and panics included.
\<close>

theorem at_most_one_server_created:
  "length (filter is_create_server (Report_Calls (machine_Reconcile k api req w))) \<le>
     (case fst (Get_LatitudeMachine k req w) of
        Inl err \<Rightarrow> 0
      | Inr lm \<Rightarrow> if may_create k lm then 1 else 0)"
  by (simp add: report_calls Let_def costs_body order_trans [OF _ costs_body]
      split: prod.split sum.split split del: if_split)

lemma reconcileDelete_calls:
  "filter is_delete_server (calls (snd (machine_reconcileDelete k api (start w lm)))) =
     (if MachineStatus_ServerID (lm_status lm) \<noteq> []
      then [CallDeleteServer (MachineStatus_ServerID (lm_status lm))] else [])"
proof -
  have release: "wp (release_machine k api) (\<lambda>r t. filter is_delete_server (calls t) =
      filter is_delete_server (calls s)) s" for s
    by (simp add: release_machine_def Let_def wp_rules split: outcome.split option.split)
  have "wp (machine_reconcileDelete k api) (\<lambda>r t. filter is_delete_server (calls t) =
     (if MachineStatus_ServerID (lm_status lm) \<noteq> []
      then [CallDeleteServer (MachineStatus_ServerID (lm_status lm))] else [])) (start w lm)"
    by (auto simp: machine_reconcileDelete_def Let_def wp_rules split: outcome.split option.split
        intro!: wp_mono [OF release])
  then show ?thesis by (simp add: wp_def split: prod.splits)
qed

lemma delete_calls:
  "filter is_delete_server (calls (snd (machine_body k api h (start w lm)))) =
     (if \<not> paused lm \<and> deleting lm \<and> MachineStatus_ServerID (lm_status lm) \<noteq> []
      then [CallDeleteServer (MachineStatus_ServerID (lm_status lm))] else [])"
  by (simp add: machine_body_cases reconcileDelete_calls
      costs_zero [OF costs_machine_reconcileNormal(2)])

text \<open>
  C7: A request deletes a server only for a machine that is being deleted and not paused: then it is
  exactly the server recorded in the status, asked for once. No request for a live machine ever
  deletes a server.
\<close>

theorem deletes_only_the_recorded_server:
  "filter is_delete_server (Report_Calls (machine_Reconcile k api req w)) =
     (case fst (Get_LatitudeMachine k req w) of
        Inl err \<Rightarrow> []
      | Inr lm \<Rightarrow>
          (case NewHelper_LatitudeMachine k lm of
             Inl err \<Rightarrow> []
           | Inr h \<Rightarrow> if \<not> paused lm \<and> deleting lm \<and> MachineStatus_ServerID (lm_status lm) \<noteq> []
               then [CallDeleteServer (MachineStatus_ServerID (lm_status lm))] else []))"
  by (simp add: report_calls delete_calls Let_def split: prod.split sum.split)

text \<open>
  A machine that is paused, ready or failed is left alone: the request makes no call to
  Latitude.sh, records no event, hands the machine back to the API server as it was fetched, and
  asks for no requeue.
\<close>

theorem settled_machine_untouched:
  assumes get: "Get_LatitudeMachine k req w = (Inr lm, w1)"
    and helper: "NewHelper_LatitudeMachine k lm = Inr h"
    and at_rest: "paused lm \<or> \<not> deleting lm \<and> has_finalizer k lm \<and> settled lm"
  shows "machine_Reconcile k api req w =
    \<lparr>Report_Outcome = Ok (done_result, fst (Patch_LatitudeMachine k h lm w1)),
     Report_World = snd (Patch_LatitudeMachine k h lm w1), Report_Events = [], Report_Calls = [CallPatch lm]\<rparr>"
  using settled_body [OF at_rest, of api h w1] get helper
  by (simp add: machine_Reconcile_def report_def with_deferred_patch_def patch_object_def go_defs
      split: prod.split)

lemma bench_ready_simps:
  "ObjectMeta_DeletionTimestamp (lm_meta bench_ready) = None"
  "ObjectMeta_Finalizers (lm_meta bench_ready) = [LatitudeFinalizerName]"
  "MachineStatus_Ready (lm_status bench_ready)"
  "MachineStatus_ServerID (lm_status bench_ready) = ''mock-server-id''"
  "MachineStatus_UserDataID (lm_status bench_ready) = ''mock-userdata-id''"
  by (simp_all add: bench_ready_def bench_created_def bench_lm_def upd_lm_finalizers_def
      NewLatitudeMachine_def plain_meta_def)

theorem settled_machine_untouched_witness:
  "machine_Reconcile (bench_kube bench_control_plane) (mock_client zero_mock) bench_key (bench_world bench_ready) =
    \<lparr>Report_Outcome = Ok (done_result, None), Report_World = bench_world bench_ready, Report_Events = [],
     Report_Calls = [CallPatch bench_ready]\<rparr>"
proof -
  let ?k = "bench_kube bench_control_plane"
  have get: "Get_LatitudeMachine ?k bench_key (bench_world bench_ready) = (Inr bench_ready, bench_world bench_ready)"
    by (simp add: bench_world_def)
  have helper: "NewHelper_LatitudeMachine ?k bench_ready = Inr ()" by simp
  have rest: "paused bench_ready \<or> \<not> deleting bench_ready \<and> has_finalizer ?k bench_ready \<and> settled bench_ready"
    by (simp add: deleting_def has_finalizer_def settled_def bench_ready_simps)
  show ?thesis
    using settled_machine_untouched [OF get helper rest, of "mock_client zero_mock"]
    by (simp add: bench_world_def)
qed

section \<open>The order of creation\<close>


text \<open>The attachment leaves the object alone; every call it makes is for the server it was given.\<close>

definition attaches_only :: "string \<Rightarrow> LatitudeMachine api_call list \<Rightarrow> bool" where
  "attaches_only i cs \<longleftrightarrow> list_all (\<lambda>c. case c of CallAttachServerToVLAN j v \<Rightarrow> j = i | _ \<Rightarrow> False) cs"

lemma set_server_id_twice: "set_server_id j (set_server_id i lm) = set_server_id j lm"
  by (simp add: set_server_id_def upd_lm_status_def)

lemma attaches_no_delete: "attaches_only i cs \<Longrightarrow> filter is_delete_server cs = []"
  by (auto simp: attaches_only_def list_all_iff filter_empty_conv elim!: is_delete_serverE)

lemma attach_wp:
  "wp (attachServerToVLAN k api) (\<lambda>r t. object t = object s \<and>
     (\<exists>cs. calls t = calls s @ cs \<and> attaches_only (MachineStatus_ServerID (lm_status (object s))) cs)) s"
  by (auto simp: attachServerToVLAN_def wp_rules Let_def attaches_only_def
      split: outcome.split sum.split option.split intro!: reader_wp [OF lookup_readers(1)])

lemma create_and_attach_wp:
  assumes keys: "getSSHKeys k s = (Ok (Inr sshKeys), s1)"
    and project: "getProjectID k s1 = (Ok project, s2)"
    and site: "getSite k s2 = (Ok site, s3)"
    and create: "CreateServer api
        \<lparr>ServerSpec_Project = project, ServerSpec_Plan = MachineSpec_Plan (lm_spec (object s)),
         ServerSpec_OperatingSystem = MachineSpec_OperatingSystem (lm_spec (object s)),
         ServerSpec_Site = site,
         ServerSpec_Hostname = ObjectMeta_Namespace (lm_meta (object s)) @ ''-'' @ ObjectMeta_Name (lm_meta (object s)),
         ServerSpec_SSHKeys = sshKeys, ServerSpec_UserData = udID\<rparr> (world s3) = (Ok (Inr server), w4)"
  shows "wp (create_and_attach k api h udID) (\<lambda>r t. \<exists>spec attach.
      calls t = calls s @ [CallCreateServer spec, CallPatch (set_server_id (Server_ID server) (object s))] @ attach
      \<and> ServerSpec_UserData spec = udID \<and> ServerSpec_Project spec = project \<and> ServerSpec_Site spec = site
      \<and> attaches_only (Server_ID server) attach
      \<and> object t = set_server_id (Server_ID server) (object s) \<and> r \<in> {Ok (Inr None), Panic}) s"
proof -
  have s1: "object s1 = object s" "calls s1 = calls s"
    using readerD [OF lookup_readers(4) keys] by simp_all
  have s2: "object s2 = object s" "calls s2 = calls s"
    using readerD [OF lookup_readers(2) project] s1 by simp_all
  have s3: "object s3 = object s" "calls s3 = calls s"
    using readerD [OF lookup_readers(3) site] s2 by simp_all
  let ?spec = "\<lparr>ServerSpec_Project = project, ServerSpec_Plan = MachineSpec_Plan (lm_spec (object s)),
     ServerSpec_OperatingSystem = MachineSpec_OperatingSystem (lm_spec (object s)), ServerSpec_Site = site,
     ServerSpec_Hostname = ObjectMeta_Namespace (lm_meta (object s)) @ ''-'' @ ObjectMeta_Name (lm_meta (object s)),
     ServerSpec_SSHKeys = sshKeys, ServerSpec_UserData = udID\<rparr>"
  have "wp (create_and_attach k api h udID) (\<lambda>r t. \<exists>attach.
      calls t = calls s @ [CallCreateServer ?spec, CallPatch (set_server_id (Server_ID server) (object s))] @ attach
      \<and> attaches_only (Server_ID server) attach
      \<and> object t = set_server_id (Server_ID server) (object s) \<and> r \<in> {Ok (Inr None), Panic}) s"
    using keys project site create
    by (auto simp: create_and_attach_def wp_rules wp_def [of "getSSHKeys k"] wp_def [of "getProjectID k"]
        wp_def [of "getSite k"] s1 s2 s3 getHostname_def split: outcome.split intro!: wp_mono [OF attach_wp])
  then show ?thesis by (rule wp_mono) (intro exI [of _ ?spec], auto)
qed

text \<open>
  C10: A server that was created is recorded: once \<open>CreateServer\<close> has succeeded, the very next call hands
  the machine with the new server ID to the API server, and the machine keeps that ID whatever
  becomes of the VLAN attachment, a nil dereference included. The host name is the namespace and
  name of the machine; project and site are those looked up.
\<close>

theorem created_server_is_recorded:
  assumes keys: "getSSHKeys k s = (Ok (Inr sshKeys), s1)"
    and project: "getProjectID k s1 = (Ok project, s2)"
    and site: "getSite k s2 = (Ok site, s3)"
    and create: "CreateServer api
        \<lparr>ServerSpec_Project = project, ServerSpec_Plan = MachineSpec_Plan (lm_spec (object s)),
         ServerSpec_OperatingSystem = MachineSpec_OperatingSystem (lm_spec (object s)),
         ServerSpec_Site = site,
         ServerSpec_Hostname = ObjectMeta_Namespace (lm_meta (object s)) @ ''-'' @ ObjectMeta_Name (lm_meta (object s)),
         ServerSpec_SSHKeys = sshKeys, ServerSpec_UserData = udID\<rparr> (world s3) = (Ok (Inr server), w4)"
  shows "\<exists>spec attach. calls (snd (create_and_attach k api h udID s)) =
        calls s @ [CallCreateServer spec, CallPatch (set_server_id (Server_ID server) (object s))] @ attach
      \<and> ServerSpec_UserData spec = udID \<and> ServerSpec_Project spec = project \<and> ServerSpec_Site spec = site
      \<and> attaches_only (Server_ID server) attach
      \<and> object (snd (create_and_attach k api h udID s)) = set_server_id (Server_ID server) (object s)
      \<and> fst (create_and_attach k api h udID s) \<in> {Ok (Inr None), Panic}"
  using create_and_attach_wp [OF keys project site create, of h] by (simp add: wp_def split: prod.splits)

theorem created_server_is_recorded_witness:
  "\<exists>spec attach. calls (snd (create_and_attach (bench_kube bench_control_plane) (mock_client zero_mock) ()
        ''mock-userdata-id'' (start (bench_world bench_lm) bench_lm))) =
      [CallCreateServer spec, CallPatch (set_server_id ''mock-server-id'' bench_lm)] @ attach
    \<and> ServerSpec_UserData spec = ''mock-userdata-id''"
proof -
  let ?k = "bench_kube bench_control_plane"
  let ?s = "start (bench_world bench_lm) bench_lm"
  have keys: "getSSHKeys ?k ?s = (Ok (Inr []), ?s)"
    by (simp add: getSSHKeys_def go_defs bench_lm_def upd_lm_finalizers_def NewLatitudeMachine_def)
  have project: "getProjectID ?k ?s = (Ok ''proj-1'', ?s)"
    by (simp add: getProjectID_def getLatitudeCluster_def go_defs bench_world_def bench_lc_def
        upd_lc_finalizers_def NewLatitudeCluster_def start_def)
  have site: "getSite ?k ?s = (Ok ''SAO'', ?s)"
    by (simp add: getSite_def site_from_cluster_def getLatitudeCluster_def go_defs bench_world_def bench_lc_def
        upd_lc_finalizers_def NewLatitudeCluster_def start_def bench_control_plane_def bench_owner_def NewMachine_def)
  have create: "CreateServer (mock_client zero_mock) spec w =
      (Ok (Inr (mock_server ''mock-server-id'' ''on'' (ServerSpec_Hostname spec))), w)" for spec and w :: bench
    by (simp add: mock_client_zero go_defs)
  from created_server_is_recorded [OF keys project site create, where udID = "''mock-userdata-id''" and h = "()"]
  show ?thesis by (auto simp: mock_server_def)
qed

section \<open>The machine over many requests\<close>

lemma bench_reaches_ready:
  "(machine_step (bench_kube bench_control_plane) (mock_client zero_mock))\<^sup>*\<^sup>* bench_created bench_ready"
  "(machine_step (bench_kube bench_control_plane) (mock_client zero_mock))\<^sup>*\<^sup>* bench_lm bench_ready"
proof -
  let ?step = "machine_step (bench_kube bench_control_plane) (mock_client zero_mock)"
  have get: "Get_LatitudeMachine (bench_kube bench_control_plane) bench_key (bench_world lm) = (Inr lm, bench_world lm)" for lm
    by (simp add: bench_world_def)
  have "?step bench_lm bench_created"
    using bench_create_run by (intro step_request [OF get]) (auto simp: bench_created_def)
  moreover show "?step\<^sup>*\<^sup>* bench_created bench_ready"
    using bench_ready_run by (intro r_into_rtranclp step_request [OF get]) simp
  ultimately show "?step\<^sup>*\<^sup>* bench_lm bench_ready" by (rule converse_rtranclp_into_rtranclp)
qed

text \<open>
  C5: Simulation. Over any sequence of requests, with patches that may fail and users that edit
  metadata and spec in between, the persisted machine only moves along its life cycle
  (\<open>machine_life\<close>): finalizers and conditions at any time, user data once, a server ID set or
  forgotten only while unsettled, ready or failed once.
\<close>

theorem machine_follows_its_life_cycle:
  "(machine_step k api)\<^sup>*\<^sup>* lm lm' \<Longrightarrow> machine_life\<^sup>*\<^sup>* lm lm'"
  by (rule machine_run.reaches)

theorem machine_follows_its_life_cycle_witness: "machine_life\<^sup>*\<^sup>* bench_lm bench_ready"
  by (rule machine_follows_its_life_cycle [OF bench_reaches_ready(2)])

text \<open>
  C8: A ready machine names the server it runs on, over any sequence of requests from a sound
  machine (such as a new one): its provider ID, in the status and in the spec, is
  \<open>latitude://<server ID>\<close>, and it has not failed; a failed machine is not ready and says why.
\<close>

theorem ready_machine_is_sound:
  assumes "(machine_step k api)\<^sup>*\<^sup>* lm lm'" and "machine_sound lm"
  shows "machine_sound lm'"
  using assms by (rule sound_run.conc.reach_keeps)

theorem ready_machine_is_sound_witness:
  "machine_sound bench_ready \<and> MachineStatus_Ready (lm_status bench_ready)"
proof
  have "machine_sound bench_lm"
    by (simp add: machine_sound_def bench_lm_def NewLatitudeMachine_def)
  with bench_reaches_ready(2) show "machine_sound bench_ready" by (rule ready_machine_is_sound)
qed (rule bench_ready_simps)

text \<open>
  C9: Ready and failed are final: from then on, over any sequence of requests and edits, nothing of
  the status changes but the conditions, so server ID, addresses and failure stay as they were.
\<close>

theorem settled_machine_is_final:
  assumes "(machine_step k api)\<^sup>*\<^sup>* lm lm'" and "settled lm"
  shows "settled lm' \<and>
    (lm_status lm')\<lparr>MachineStatus_Conditions := []\<rparr> = (lm_status lm)\<lparr>MachineStatus_Conditions := []\<rparr> \<and>
    MachineSpec_ProviderID (lm_spec lm') = MachineSpec_ProviderID (lm_spec lm)"
  using settled_run.conc.reach_keeps [OF assms(1), of lm] assms(2) by (simp add: settled_as_def)

theorem settled_machine_is_final_witness:
  "MachineStatus_ServerID (lm_status (bench_ready\<lparr>LatitudeMachine_ObjectMeta := (lm_meta bench_ready)
     \<lparr>ObjectMeta_DeletionTimestamp := Some 7\<rparr>\<rparr>)) = ''mock-server-id''"
proof -
  let ?lm = "bench_ready\<lparr>LatitudeMachine_ObjectMeta := (lm_meta bench_ready)\<lparr>ObjectMeta_DeletionTimestamp := Some 7\<rparr>\<rparr>"
  have "machine_step (bench_kube bench_control_plane) (mock_client zero_mock) bench_ready ?lm"
    by (rule step_edit) simp_all
  then have "(machine_step (bench_kube bench_control_plane) (mock_client zero_mock))\<^sup>*\<^sup>* bench_ready ?lm" by blast
  moreover have "settled bench_ready" by (simp add: settled_def bench_ready_simps)
  ultimately have "(lm_status ?lm)\<lparr>MachineStatus_Conditions := []\<rparr> =
      (lm_status bench_ready)\<lparr>MachineStatus_Conditions := []\<rparr>"
    by (blast dest: settled_machine_is_final)
  then have "MachineStatus_ServerID ((lm_status ?lm)\<lparr>MachineStatus_Conditions := []\<rparr>) =
      MachineStatus_ServerID ((lm_status bench_ready)\<lparr>MachineStatus_Conditions := []\<rparr>)" by (rule arg_cong)
  then show ?thesis by (simp add: bench_ready_simps)
qed

text \<open>
  C31: The user data of a machine is created once: a user data ID on record is never replaced or
  cleared, even when the server it was made for is lost and a new one is created.
\<close>

theorem user_data_recorded_once:
  assumes "(machine_step k api)\<^sup>*\<^sup>* lm lm'" and "MachineStatus_UserDataID (lm_status lm) \<noteq> []"
  shows "MachineStatus_UserDataID (lm_status lm') = MachineStatus_UserDataID (lm_status lm)"
  using user_data_run.conc.reach_keeps [OF assms(1)] assms(2) by (simp add: user_data_is_def)

theorem user_data_recorded_once_witness:
  "MachineStatus_UserDataID (lm_status bench_ready) = MachineStatus_UserDataID (lm_status bench_created)"
  by (rule user_data_recorded_once [OF bench_reaches_ready(1)]) (simp add: bench_created_def)

section \<open>A server that exists\<close>

text \<open>
  Under the contract of the client interface, a machine whose server is up becomes ready with the
  very server that is recorded; with a server that is not up yet only the condition changes.
\<close>

definition condition_is :: "LatitudeMachine \<Rightarrow> ConditionStatus \<Rightarrow> string \<Rightarrow> string \<Rightarrow> bool" where
  "condition_is lm st re ms \<longleftrightarrow>
     (case find_condition (machine_GetConditions lm) InstanceReadyCondition of
        None \<Rightarrow> False
      | Some c \<Rightarrow> Condition_Status c = st \<and> Condition_Reason c = re \<and> Condition_Message c = ms)"

lemma condition_is_set [simp]:
  "condition_is (with_machine_condition k InstanceReadyCondition st re ms w lm) st re ms"
  using with_machine_condition_found [of k InstanceReadyCondition st re ms w lm]
  by (auto simp: condition_is_def)

definition same_but_conditions :: "LatitudeMachine \<Rightarrow> LatitudeMachine \<Rightarrow> bool" where
  "same_but_conditions a b \<longleftrightarrow> machine_SetConditions a [] = machine_SetConditions b []"

lemma same_but_conditions_set [simp]:
  "same_but_conditions (with_machine_condition k ty st re ms w lm) lm"
  by (simp add: same_but_conditions_def with_machine_condition_def machine_SetConditions_def)

lemma same_but_conditionsD:
  assumes "same_but_conditions a b"
  shows "lm_meta a = lm_meta b" and "lm_spec a = lm_spec b"
    and "MachineStatus_ServerID (lm_status a) = MachineStatus_ServerID (lm_status b)"
    and "MachineStatus_Ready (lm_status a) = MachineStatus_Ready (lm_status b)"
    and "MachineStatus_FailureReason (lm_status a) = MachineStatus_FailureReason (lm_status b)"
  using arg_cong [OF assms [unfolded same_but_conditions_def], of lm_meta]
    arg_cong [OF assms [unfolded same_but_conditions_def], of lm_spec]
    arg_cong [OF assms [unfolded same_but_conditions_def], of "\<lambda>x. MachineStatus_ServerID (lm_status x)"]
    arg_cong [OF assms [unfolded same_but_conditions_def], of "\<lambda>x. MachineStatus_Ready (lm_status x)"]
    arg_cong [OF assms [unfolded same_but_conditions_def], of "\<lambda>x. MachineStatus_FailureReason (lm_status x)"]
  by simp_all

context latitude_api
begin

lemma existing_server:
  assumes valid: "validateMachineSpec k s = (Ok None, s1)"
    and recorded: "MachineStatus_ServerID (lm_status (object s)) = i" "i \<noteq> []"
    and get: "GetServer api i (world s1) = (Ok (Inr srv), w2)"
  shows "wp (reconcile_valid_machine k api sc h) (\<lambda>r t.
    calls t = calls s @ [CallGetServer i] \<and>
    (if server_is_ready srv then
       r = Ok (done_result, None) \<and> same_but_conditions (object t) (ready_machine srv (object s)) \<and>
       MachineStatus_ServerID (lm_status (object t)) = i \<and>
       MachineStatus_ProviderID (lm_status (object t)) = provider_id i \<and>
       condition_is (object t) ConditionTrue ''InstanceReady'' ''Instance is ready''
     else
       r = Ok (requeue_after 30, None) \<and> same_but_conditions (object t) (object s) \<and>
       condition_is (object t) ConditionFalse InstanceNotReadyReason ''Server is being provisioned'')) s"
proof -
  have s1: "object s1 = object s" "calls s1 = calls s"
    using readerD [OF lookup_readers(5) valid] by simp_all
  have id: "Server_ID srv = i" using get by (rule get_server_id)
  have m: "upd_lm_status (\<lambda>st. st\<lparr>MachineStatus_Addresses := server_addresses srv\<rparr>)
      (set_server_id i (upd_lm_status (\<lambda>st. st\<lparr>MachineStatus_Ready := True\<rparr>)
        (with_provider_id (provider_id i) lm))) = ready_machine srv lm" for lm
    by (simp add: ready_machine_def upd_lm_status_def set_server_id_def with_provider_id_def id)
  show ?thesis
    using valid recorded get s1 id
    by (simp add: reconcile_valid_machine_def wp_bind [of "validateMachineSpec k"] wp_def [of "validateMachineSpec k"]
        reconcileServer_def mark_server_ready_def SetProviderID_def SetReady_def wp_rules m)
qed

end

text \<open>
  C11: With the real client, over any SDK: a request for a valid machine that has a server on record
  and finds it up makes the machine ready with that server, its provider ID \<open>latitude://<ID>\<close> and
  its addresses, sets the condition and is done; a server that is not up yet changes nothing but the
  condition and asks for a requeue after 30 seconds. The only call is \<open>GetServer\<close>: no second server.
\<close>

theorem recorded_server_is_adopted:
  assumes valid: "validateMachineSpec k s = (Ok None, s1)"
    and recorded: "MachineStatus_ServerID (lm_status (object s)) = i" "i \<noteq> []"
    and get: "client_GetServer sdk i (world s1) = (Ok (Inr srv), w2)"
    and run: "reconcile_valid_machine k (Client sdk) sc h s = (r, t)"
  shows "calls t = calls s @ [CallGetServer i] \<and>
    (if server_is_ready srv then
       r = Ok (done_result, None) \<and> same_but_conditions (object t) (ready_machine srv (object s)) \<and>
       MachineStatus_ServerID (lm_status (object t)) = i \<and>
       MachineStatus_ProviderID (lm_status (object t)) = provider_id i \<and>
       condition_is (object t) ConditionTrue ''InstanceReady'' ''Instance is ready''
     else
       r = Ok (requeue_after 30, None) \<and> same_but_conditions (object t) (object s) \<and>
       condition_is (object t) ConditionFalse InstanceNotReadyReason ''Server is being provisioned'')"
proof -
  have "GetServer (Client sdk) i (world s1) = (Ok (Inr srv), w2)"
    using get by (simp add: Client_def)
  from wpD [OF client_api.existing_server [OF valid recorded this] run] show ?thesis .
qed

theorem recorded_server_is_adopted_witness:
  "MachineStatus_ProviderID (lm_status (object (snd (reconcile_valid_machine (bench_kube bench_control_plane)
     (Client bench_sdk) bench_scope () (start (bench_world bench_created) bench_created))))) =
   ''latitude://mock-server-id''"
proof -
  let ?k = "bench_kube bench_control_plane"
  let ?s = "start (bench_world bench_created) bench_created"
  let ?srv = "\<lparr>Server_ID = ''mock-server-id'', Server_Status = ''on'', Server_Hostname = ''host'',
    Server_IPAddress = [''203.0.113.5'']\<rparr>"
  obtain r t where run: "reconcile_valid_machine ?k (Client bench_sdk) bench_scope () ?s = (r, t)" by fastforce
  have valid: "validateMachineSpec ?k ?s = (Ok None, ?s)"
    by (simp add: validateMachineSpec_def validation_error_def getProjectID_def getSite_def site_from_cluster_def
        getLatitudeCluster_def go_defs bench_defs bench_created_def)
  have recorded: "MachineStatus_ServerID (lm_status (object ?s)) = ''mock-server-id''" "''mock-server-id'' \<noteq> []"
    by (simp_all add: bench_created_def)
  have get: "client_GetServer bench_sdk ''mock-server-id'' (world ?s) = (Ok (Inr ?srv), world ?s)"
    by (simp add: client_GetServer_def bench_sdk_def go_defs)
  have ready: "server_is_ready ?srv" by (simp add: server_is_ready_def)
  show ?thesis
    using recorded_server_is_adopted [OF valid recorded get run] ready run by (simp add: provider_id_def)
qed

text \<open>
  C36: Any error of \<open>GetServer\<close>, not only a missing server, makes the controller forget the recorded server
  and create another one in the same request, and nothing deletes the first: with an arbitrary
  error and user data on record, once \<open>CreateServer\<close> succeeds the calls are the lookup, the creation, the patch
  that replaces the recorded ID, and VLAN attachments of the new server.
\<close>

theorem lookup_error_creates_second_server:
  assumes recorded: "MachineStatus_ServerID (lm_status (object s)) = i" "i \<noteq> []"
      "MachineStatus_UserDataID (lm_status (object s)) = udID" "udID \<noteq> []"
    and get: "GetServer api i (world s) = (Ok (Inl err), w1)"
    and bootstrap: "GetBootstrapData k sc
        (s\<lparr>world := w1, calls := calls s @ [CallGetServer i], object := set_server_id [] (object s)\<rparr>) =
        (Ok (Inr userData), s2)"
    and inject: "injectVLANConfig k userData s2 = (Ok (userData', injectErr), s3)"
    and keys: "getSSHKeys k s3 = (Ok (Inr sshKeys), s4)"
    and project: "getProjectID k s4 = (Ok project, s5)"
    and site: "getSite k s5 = (Ok site, s6)"
    and create: "CreateServer api
        \<lparr>ServerSpec_Project = project, ServerSpec_Plan = MachineSpec_Plan (lm_spec (object s)),
         ServerSpec_OperatingSystem = MachineSpec_OperatingSystem (lm_spec (object s)),
         ServerSpec_Site = site,
         ServerSpec_Hostname = ObjectMeta_Namespace (lm_meta (object s)) @ ''-'' @ ObjectMeta_Name (lm_meta (object s)),
         ServerSpec_SSHKeys = sshKeys, ServerSpec_UserData = udID\<rparr> (world s6) = (Ok (Inr server), w7)"
    and run: "reconcileServer k api sc h s = (r, t)"
  shows "\<exists>spec attach. calls t = calls s @ [CallGetServer i, CallCreateServer spec,
        CallPatch (set_server_id (Server_ID server) (object s))] @ attach
      \<and> attaches_only (Server_ID server) attach \<and> filter is_delete_server attach = []
      \<and> object t = set_server_id (Server_ID server) (object s)"
proof -
  let ?lm = "set_server_id [] (object s)"
  have s2: "object s2 = ?lm" "calls s2 = calls s @ [CallGetServer i]"
    using readerD [OF lookup_readers(7) bootstrap] by simp_all
  have s3: "object s3 = ?lm" "calls s3 = calls s @ [CallGetServer i]"
    using readerD [OF lookup_readers(6) inject] s2 by simp_all
  have lookup: "reconcileServer k api sc h s = create_server_flow k api sc h
      (s\<lparr>world := w1, calls := calls s @ [CallGetServer i], object := ?lm\<rparr>)"
    using recorded get by (simp add: reconcileServer_def call_GetServer_def go_defs)
  have flow: "(r, t) = create_and_attach k api h udID s3"
    using run bootstrap inject recorded(3,4) s3(1)
    by (simp add: lookup create_server_flow_def ensure_user_data_def go_defs)
  from create_and_attach_wp [OF keys project site, of api udID server w7 h] create s3
  have "wp (create_and_attach k api h udID) (\<lambda>r t. \<exists>spec attach. calls t = calls s @ [CallGetServer i,
      CallCreateServer spec, CallPatch (set_server_id (Server_ID server) (object s))] @ attach
      \<and> attaches_only (Server_ID server) attach
      \<and> object t = set_server_id (Server_ID server) (object s)) s3"
    by (auto simp: set_server_id_twice elim!: wp_mono)
  from wpD [OF this flow [symmetric]] show ?thesis using attaches_no_delete by blast
qed

theorem lookup_error_creates_second_server_witness:
  "\<exists>spec attach. calls (snd (reconcileServer (bench_kube bench_control_plane)
       (mock_client (zero_mock\<lparr>GetServerFunc := Some (\<lambda>i. go_return (Inl (Err ''timeout'')))\<rparr>)) bench_scope ()
       (start (bench_world bench_lm) (set_server_id ''first-server'' (set_user_data_id ''mock-userdata-id'' bench_lm))))) =
     [CallGetServer ''first-server'', CallCreateServer spec,
      CallPatch (set_server_id ''mock-server-id'' (set_user_data_id ''mock-userdata-id'' bench_lm))] @ attach"
proof -
  let ?k = "bench_kube bench_control_plane"
  let ?api = "mock_client (zero_mock\<lparr>GetServerFunc := Some (\<lambda>i. go_return (Inl (Err ''timeout'')))\<rparr>)"
  let ?lm = "set_server_id ''first-server'' (set_user_data_id ''mock-userdata-id'' bench_lm)"
  let ?s = "start (bench_world bench_lm) ?lm"
  let ?s1 = "?s\<lparr>world := bench_world bench_lm, calls := calls ?s @ [CallGetServer ''first-server''],
    object := set_server_id [] (object ?s)\<rparr>"
  obtain r t where run: "reconcileServer ?k ?api bench_scope () ?s = (r, t)" by fastforce
  have recorded: "MachineStatus_ServerID (lm_status (object ?s)) = ''first-server''" "''first-server'' \<noteq> []"
      "MachineStatus_UserDataID (lm_status (object ?s)) = ''mock-userdata-id''" "''mock-userdata-id'' \<noteq> []"
    by simp_all
  have get: "GetServer ?api ''first-server'' (world ?s) = (Ok (Inl (Err ''timeout'')), bench_world bench_lm)"
    by (simp add: mock_client_def or_else_def go_defs)
  have bootstrap: "GetBootstrapData ?k bench_scope ?s1 = (Ok (Inr ''#cloud-config''), ?s1)"
    by (simp add: machine_run_defs go_defs bench_defs bench_scope_def)
  have inject: "injectVLANConfig ?k ''#cloud-config'' ?s1 = (Ok (''#cloud-config'', None), ?s1)"
    by (simp add: machine_run_defs go_defs bench_defs)
  have keys: "getSSHKeys ?k ?s1 = (Ok (Inr []), ?s1)"
    by (simp add: machine_run_defs go_defs bench_defs)
  have project: "getProjectID ?k ?s1 = (Ok ''proj-1'', ?s1)"
    by (simp add: machine_run_defs go_defs bench_defs)
  have site: "getSite ?k ?s1 = (Ok ''SAO'', ?s1)"
    by (simp add: machine_run_defs go_defs bench_defs)
  have create: "CreateServer ?api spec w =
      (Ok (Inr (mock_server ''mock-server-id'' ''on'' (ServerSpec_Hostname spec))), w)" for spec and w :: bench
    by (simp add: mock_client_def zero_mock_def or_else_def go_defs)
  from lookup_error_creates_second_server [OF recorded get bootstrap inject keys project site create run] run
  show ?thesis by (auto simp: mock_server_def set_server_id_twice)
qed

section \<open>Failures\<close>

lemma condition_is_failure [simp]:
  "condition_is (with_machine_condition k InstanceReadyCondition st re ms w (with_machine_failure msg lm)) st re ms"
  by simp

text \<open>
  C14: What an error of \<open>reconcileServer\<close> does to a valid machine. If its text, however often it was
  wrapped, names a stock failure (\<open>SERVERS_OUT_OF_STOCK\<close> or \<open>No stock availability\<close>), the machine fails for
  good with that text and is only looked at again after 300 seconds; any other error leaves the
  status as it was and is returned, so that the request is retried. In both cases the condition
  tells the error.
\<close>

theorem server_error_outcome:
  assumes valid: "validateMachineSpec k s = (Ok None, s1)"
    and failed: "reconcileServer k api sc h s1 = (Ok (Inl err), s2)"
    and run: "reconcile_valid_machine k api sc h s = (r, t)"
  shows "calls t = calls s2 \<and>
    condition_is (object t) ConditionFalse InstanceProvisionFailedReason (error_text err) \<and>
    (if str_contains (error_text err) ''SERVERS_OUT_OF_STOCK'' \<or> str_contains (error_text err) ''No stock availability''
     then r = Ok (requeue_after 300, None) \<and>
       same_but_conditions (object t) (with_machine_failure (error_text err) (object s2))
     else r = Ok (done_result, Some err) \<and> same_but_conditions (object t) (object s2))"
proof -
  have "wp (reconcile_valid_machine k api sc h) (\<lambda>r t. calls t = calls s2 \<and>
    condition_is (object t) ConditionFalse InstanceProvisionFailedReason (error_text err) \<and>
    (if isPermanentError (Some err)
     then r = Ok (requeue_after 300, None) \<and>
       same_but_conditions (object t) (with_machine_failure (error_text err) (object s2))
     else r = Ok (done_result, Some err) \<and> same_but_conditions (object t) (object s2))) s"
    using valid failed
    by (simp add: reconcile_valid_machine_def wp_bind wp_def [of "validateMachineSpec k"]
        wp_def [of "reconcileServer k api sc h"] handle_server_error_def setMachineFailed_def wp_rules)
  from wpD [OF this run] show ?thesis by (simp add: isPermanentError_def)
qed

text \<open>Wrapping an error keeps it permanent, so the text of the SDK decides.\<close>

lemma permanent_wrapped: "isPermanentError (Some e) \<Longrightarrow> isPermanentError (Some (Wrapf p e))"
  unfolding isPermanentError_def by (auto simp del: error_text.simps intro: error_text_Wrapf_contains)

theorem server_error_outcome_witness:
  "MachineStatus_FailureReason (lm_status (object (snd (reconcile_valid_machine (bench_kube bench_control_plane)
     (mock_client (zero_mock\<lparr>CreateUserDataFunc := Some (\<lambda>q. go_return (Inl (Err ''SERVERS_OUT_OF_STOCK'')))\<rparr>))
     bench_scope () (start (bench_world bench_lm) bench_lm))))) = Some ''CreateError''"
proof -
  let ?k = "bench_kube bench_control_plane"
  let ?api = "mock_client (zero_mock\<lparr>CreateUserDataFunc := Some (\<lambda>q. go_return (Inl (Err ''SERVERS_OUT_OF_STOCK'')))\<rparr>)"
  let ?s = "start (bench_world bench_lm) bench_lm"
  let ?err = "Wrapf ''create user-data'' (Err ''SERVERS_OUT_OF_STOCK'')"
  obtain r t where run: "reconcile_valid_machine ?k ?api bench_scope () ?s = (r, t)" by fastforce
  have valid: "validateMachineSpec ?k ?s = (Ok None, ?s)"
    by (simp add: validateMachineSpec_def validation_error_def getProjectID_def getSite_def site_from_cluster_def
        getLatitudeCluster_def go_defs bench_defs)
  obtain s2 where failed: "reconcileServer ?k ?api bench_scope () ?s = (Ok (Inl ?err), s2)"
    by (simp add: machine_run_defs go_defs bench_defs bench_scope_def Let_def)
  have "isPermanentError (Some (Err ''SERVERS_OUT_OF_STOCK''))"
    by (simp add: isPermanentError_def) code_simp
  then have "str_contains (error_text ?err) ''SERVERS_OUT_OF_STOCK'' \<or> str_contains (error_text ?err) ''No stock availability''"
    using permanent_wrapped [of "Err ''SERVERS_OUT_OF_STOCK''" "''create user-data''"]
    by (simp add: isPermanentError_def)
  then have "same_but_conditions (object t) (with_machine_failure (error_text ?err) (object s2))"
    using server_error_outcome [OF valid failed run] by presburger
  then have "MachineStatus_FailureReason (lm_status (object t)) = Some ''CreateError''"
    by (auto dest: same_but_conditionsD(5))
  then show ?thesis using run by simp
qed

lemma failed_loop_any:
  assumes own: "\<And>meta w. GetOwnerMachine k meta w = (own meta, w)"
  shows "control_plane_failed_loop k ms s = (Ok (\<exists>lm \<in> set ms. \<exists>m. own (lm_meta lm) = Inr (Some m) \<and>
    is_control_plane m \<and> MachineStatus_FailureReason (lm_status lm) \<noteq> None), s)"
  by (induction ms) (auto simp: go_defs own split: sum.split option.split)

text \<open>
  C35: A failed control plane fails the workers: a worker that is about to be provisioned fails at once,
  without a call, as soon as any machine of its namespace belongs to a control plane (of whichever
  cluster: the list is not restricted to its own) and has failed.
\<close>

theorem worker_fails_with_control_plane:
  assumes own: "\<And>meta w. GetOwnerMachine k meta w = (own meta, w)"
    and live: "has_finalizer k (object s)" "\<not> settled (object s)"
    and worker: "own (lm_meta (object s)) = Inr (Some m)" "\<not> is_control_plane m"
    and helper: "NewHelper_LatitudeMachine k (object s) = Inr h0"
    and cluster: "getLatitudeCluster k s = (Ok (Inr (Some c)), s)"
    and list: "List_LatitudeMachines k (ObjectMeta_Namespace (lm_meta (object s))) (world s) = (Inr items, w1)"
    and failed: "lm' \<in> set items" "own (lm_meta lm') = Inr (Some m')" "is_control_plane m'"
      "MachineStatus_FailureReason (lm_status lm') \<noteq> None"
    and run: "machine_reconcileNormal k api h s = (r, t)"
  shows "r = Ok (done_result, None) \<and> calls t = calls s \<and>
    same_but_conditions (object t) (with_machine_failure
      ''Control plane provisioning failed, cannot provision worker nodes'' (object s)) \<and>
    condition_is (object t) ConditionFalse InstanceProvisionFailedReason ''Control plane failed''"
proof -
  have any: "\<exists>lm \<in> set items. \<exists>m. own (lm_meta lm) = Inr (Some m) \<and> is_control_plane m \<and>
      MachineStatus_FailureReason (lm_status lm) \<noteq> None"
    using failed by blast
  have check: "checkControlPlaneFailed k s = (Ok (Inr True), s\<lparr>world := w1\<rparr>)"
    using cluster list any by (simp add: checkControlPlaneFailed_def failed_loop_any [OF own] go_defs)
  have "wp (machine_reconcileNormal k api h) (\<lambda>r t. r = Ok (done_result, None) \<and> calls t = calls s \<and>
    same_but_conditions (object t) (with_machine_failure
      ''Control plane provisioning failed, cannot provision worker nodes'' (object s)) \<and>
    condition_is (object t) ConditionFalse InstanceProvisionFailedReason ''Control plane failed'') s"
    using live worker helper
    by (simp add: machine_reconcileNormal_def wp_rules own NewMachineScope_def has_finalizer_def settled_def
        wp_def [of "checkControlPlaneFailed k"] check fail_worker_def setMachineFailed_def)
  from wpD [OF this run] show ?thesis .
qed

definition other_clusters_machine :: LatitudeMachine where
  "other_clusters_machine = with_machine_failure ''no stock''
     (NewLatitudeMachine ''other-cp-0'' ''default'' ''c3-small-x86'' ''ubuntu_22_04'')"

definition two_cluster_kube :: "(bench, unit) kube" where
  "two_cluster_kube = (bench_kube bench_owner)
     \<lparr>GetOwnerMachine := (\<lambda>meta w. (Inr (Some (if ObjectMeta_Name meta = ''other-cp-0''
        then bench_control_plane\<lparr>Machine_ObjectMeta := (Machine_ObjectMeta bench_control_plane)
          \<lparr>ObjectMeta_Labels := [''cluster.x-k8s.io/control-plane'' \<mapsto> [], ''cluster.x-k8s.io/cluster-name'' \<mapsto> ''other'']\<rparr>\<rparr>
        else bench_owner)), w)),
      List_LatitudeMachines := (\<lambda>ns w. (Inr [Bench_Machine w, other_clusters_machine], w))\<rparr>"

theorem worker_fails_with_control_plane_witness:
  "MachineStatus_FailureReason (lm_status (object (snd (machine_reconcileNormal two_cluster_kube
     (mock_client zero_mock) () (start (bench_world bench_lm) bench_lm))))) = Some ''CreateError''"
proof -
  let ?s = "start (bench_world bench_lm) bench_lm"
  let ?cp = "bench_control_plane\<lparr>Machine_ObjectMeta := (Machine_ObjectMeta bench_control_plane)
    \<lparr>ObjectMeta_Labels := [''cluster.x-k8s.io/control-plane'' \<mapsto> [], ''cluster.x-k8s.io/cluster-name'' \<mapsto> ''other'']\<rparr>\<rparr>"
  obtain r t where run: "machine_reconcileNormal two_cluster_kube (mock_client zero_mock) () ?s = (r, t)" by fastforce
  have own: "GetOwnerMachine two_cluster_kube meta w =
      ((\<lambda>meta. Inr (Some (if ObjectMeta_Name meta = ''other-cp-0'' then ?cp else bench_owner))) meta, w)" for meta w
    by (simp add: two_cluster_kube_def)
  have live: "has_finalizer two_cluster_kube (object ?s)" "\<not> settled (object ?s)"
    by (simp_all add: has_finalizer_def settled_def two_cluster_kube_def bench_defs)
  have worker: "Inr (Some (if ObjectMeta_Name (lm_meta (object ?s)) = ''other-cp-0'' then ?cp else bench_owner)) =
      (Inr (Some bench_owner) :: go_error + Machine option)" "\<not> is_control_plane bench_owner"
    by (simp_all add: bench_defs)
  have helper: "NewHelper_LatitudeMachine two_cluster_kube (object ?s) = Inr ()"
    by (simp add: two_cluster_kube_def)
  have cluster: "getLatitudeCluster two_cluster_kube ?s = (Ok (Inr (Some bench_lc)), ?s)"
    by (simp add: getLatitudeCluster_def go_defs two_cluster_kube_def bench_world_def)
  have list: "List_LatitudeMachines two_cluster_kube (ObjectMeta_Namespace (lm_meta (object ?s))) (world ?s) =
      (Inr [bench_lm, other_clusters_machine], world ?s)"
    by (simp add: two_cluster_kube_def bench_world_def)
  have failed: "other_clusters_machine \<in> set [bench_lm, other_clusters_machine]"
    "Inr (Some (if ObjectMeta_Name (lm_meta other_clusters_machine) = ''other-cp-0'' then ?cp else bench_owner)) =
      (Inr (Some ?cp) :: go_error + Machine option)"
    "is_control_plane ?cp" "MachineStatus_FailureReason (lm_status other_clusters_machine) \<noteq> None"
    by (simp_all add: other_clusters_machine_def bench_defs)
  from worker_fails_with_control_plane [OF own live worker helper cluster list failed run]
  show ?thesis using run by (auto dest: same_but_conditionsD(5))
qed

section \<open>Deletion\<close>

lemma client_deletes:
  "DeleteServer (Client sdk) i w = (Ok (case fst (Servers_Delete sdk i w) of
     None \<Rightarrow> None | Some err \<Rightarrow> Some (Wrapf ''failed to delete server'' err)), snd (Servers_Delete sdk i w))"
  "DeleteUserData (Client sdk) i w = (Ok (case fst (UserData_Delete sdk i w) of
     None \<Rightarrow> None | Some err \<Rightarrow> Some (Wrapf ''failed to delete user data'' err)), snd (UserData_Delete sdk i w))"
  by (simp_all add: Client_def client_DeleteServer_def client_DeleteUserData_def go_defs
      split: prod.split option.split)

text \<open>
  C13: Deletion of a machine, with the real client over any SDK. The finalizer goes exactly when there
  is no server on record or \<open>Servers.Delete\<close> reports no error, whatever happens to the user data; any
  error, a server that is already gone included, keeps the finalizer and the server ID, leaves the
  user data alone and tries again after 30 seconds.
\<close>

theorem machine_deletion:
  assumes laws: "finalizer_laws k"
    and run: "machine_reconcileDelete k (Client sdk) s = (r, t)"
  shows "case (if MachineStatus_ServerID (lm_status (object s)) = [] then None
       else fst (Servers_Delete sdk (MachineStatus_ServerID (lm_status (object s))) (world s))) of
     Some err \<Rightarrow>
       r = Ok (requeue_after 30, None) \<and>
       has_finalizer k (object t) = has_finalizer k (object s) \<and>
       same_but_conditions (object t) (object s) \<and>
       condition_is (object t) ConditionFalse InstanceDeletionFailedReason
         (error_text (Wrapf ''failed to delete server'' err)) \<and>
       calls t = calls s @ [CallDeleteServer (MachineStatus_ServerID (lm_status (object s)))]
   | None \<Rightarrow>
       r = Ok (done_result, None) \<and>
       \<not> has_finalizer k (object t) \<and>
       calls t = calls s @
         (if MachineStatus_ServerID (lm_status (object s)) = [] then []
          else [CallDeleteServer (MachineStatus_ServerID (lm_status (object s)))]) @
         (if MachineStatus_UserDataID (lm_status (object s)) = [] then []
          else [CallDeleteUserData (MachineStatus_UserDataID (lm_status (object s)))])"
    (is "?P r t")
proof -
  have "wp (machine_reconcileDelete k (Client sdk)) ?P s"
    using laws
    by (auto simp: machine_reconcileDelete_def release_machine_def Let_def wp_rules client_deletes
        has_finalizer_def finalizer_laws_def split: option.split)
  from wpD [OF this run] show ?thesis .
qed

theorem machine_deletion_witness:
  "\<not> has_finalizer (bench_kube bench_control_plane)
     (object (snd (machine_reconcileDelete (bench_kube bench_control_plane) (Client bench_sdk)
       (start (bench_world bench_created) bench_created))))"
proof -
  let ?s = "start (bench_world bench_created) bench_created"
  obtain r t where run: "machine_reconcileDelete (bench_kube bench_control_plane) (Client bench_sdk) ?s = (r, t)"
    by fastforce
  have "fst (Servers_Delete bench_sdk (MachineStatus_ServerID (lm_status (object ?s))) (world ?s)) = None"
    by (simp add: bench_sdk_def)
  then show ?thesis
    using machine_deletion [OF bench_finalizer_laws run] run by (simp split: if_splits)
qed

section \<open>Waiting and giving up\<close>

text \<open>
  C33: A machine without a server whose bootstrap data is not there yet (no secret named, or the secret
  not found) waits: no call, no change but the condition, and a requeue after 30 seconds.
\<close>

theorem bootstrap_data_awaited:
  assumes valid: "validateMachineSpec k s = (Ok None, s1)"
    and no_server: "MachineStatus_ServerID (lm_status (object s)) = []"
    and missing: "case Machine_DataSecretName (MachineScope_Machine sc) of
        None \<Rightarrow> True
      | Some name \<Rightarrow> \<exists>err. fst (Get_Secret k \<lparr>ObjectKey_Namespace = ObjectMeta_Namespace (lm_meta (object s)),
          ObjectKey_Name = name\<rparr> (world s1)) = Inl err \<and> is_not_found err"
    and run: "reconcile_valid_machine k api sc h s = (r, t)"
  shows "r = Ok (requeue_after 30, None) \<and> calls t = calls s \<and> same_but_conditions (object t) (object s) \<and>
    condition_is (object t) ConditionFalse InstanceNotReadyReason ''Server is being provisioned''"
proof -
  have s1: "object s1 = object s" "calls s1 = calls s"
    using readerD [OF lookup_readers(5) valid] by simp_all
  have "wp (reconcile_valid_machine k api sc h) (\<lambda>r t. r = Ok (requeue_after 30, None) \<and> calls t = calls s \<and>
    same_but_conditions (object t) (object s) \<and>
    condition_is (object t) ConditionFalse InstanceNotReadyReason ''Server is being provisioned'') s"
    using valid no_server missing s1
    by (auto simp: reconcile_valid_machine_def wp_bind [of "validateMachineSpec k"] wp_def [of "validateMachineSpec k"]
        reconcileServer_def create_server_flow_def wp_rules bootstrap_result_def Let_def split: option.splits)
  from wpD [OF this run] show ?thesis .
qed

theorem bootstrap_data_awaited_witness:
  "fst (reconcile_valid_machine (bench_kube bench_control_plane) (mock_client zero_mock)
     (bench_scope\<lparr>MachineScope_Machine := NewMachine ''m'' ''default'' ''c''\<rparr>) () (start (bench_world bench_lm) bench_lm)) =
   Ok (requeue_after 30, None)"
proof -
  let ?k = "bench_kube bench_control_plane"
  let ?s = "start (bench_world bench_lm) bench_lm"
  let ?sc = "bench_scope\<lparr>MachineScope_Machine := NewMachine ''m'' ''default'' ''c''\<rparr>"
  obtain r t where run: "reconcile_valid_machine ?k (mock_client zero_mock) ?sc () ?s = (r, t)" by fastforce
  have valid: "validateMachineSpec ?k ?s = (Ok None, ?s)"
    by (simp add: validateMachineSpec_def validation_error_def getProjectID_def getSite_def site_from_cluster_def
        getLatitudeCluster_def go_defs bench_defs)
  have no_server: "MachineStatus_ServerID (lm_status (object ?s)) = []" by (simp add: bench_defs)
  have missing: "case Machine_DataSecretName (MachineScope_Machine ?sc) of
        None \<Rightarrow> True
      | Some name \<Rightarrow> \<exists>err. fst (Get_Secret ?k \<lparr>ObjectKey_Namespace = ObjectMeta_Namespace (lm_meta (object ?s)),
          ObjectKey_Name = name\<rparr> (world ?s)) = Inl err \<and> is_not_found err"
    by (simp add: NewMachine_def)
  show ?thesis using bootstrap_data_awaited [OF valid no_server missing run] run by simp
qed

text \<open>
  C37: An error while the cluster is looked up is not told from a cluster without project and location:
  the machine is reported as invalid (\<open>projectID is required, site is required\<close>), the error is dropped,
  and the request ends without a requeue.
\<close>

theorem lookup_error_reported_as_invalid:
  assumes owner: "\<And>meta w. GetOwnerMachine k meta w = (Inr (Some m), w)"
    and error: "\<And>meta w. GetClusterFromMetadata k meta w = (Inl err, w)"
    and no_domain: "Machine_FailureDomain m = None"
    and spec: "MachineSpec_OperatingSystem (lm_spec (object s)) \<noteq> []" "MachineSpec_Plan (lm_spec (object s)) \<noteq> []"
    and run: "reconcile_valid_machine k api sc h s = (r, t)"
  shows "r = Ok (done_result, None) \<and> calls t = calls s \<and> same_but_conditions (object t) (object s) \<and>
    condition_is (object t) ConditionFalse InstanceProvisionFailedReason
      ''validation failed: projectID is required, site is required''"
proof -
  have cluster: "getLatitudeCluster k s = (Ok (Inl (Wrapf ''get cluster from Machine'' err)), s)" for s
    by (simp add: getLatitudeCluster_def go_defs owner error)
  have valid: "validateMachineSpec k s =
      (Ok (Some (Err ''validation failed: projectID is required, site is required'')), s)"
    using spec by (simp add: validateMachineSpec_def getProjectID_def getSite_def site_from_cluster_def go_defs
        cluster owner no_domain validation_error_def)
  have "wp (reconcile_valid_machine k api sc h) (\<lambda>r t. r = Ok (done_result, None) \<and> calls t = calls s \<and>
    same_but_conditions (object t) (object s) \<and>
    condition_is (object t) ConditionFalse InstanceProvisionFailedReason
      ''validation failed: projectID is required, site is required'') s"
    by (simp add: reconcile_valid_machine_def wp_bind wp_def [of "validateMachineSpec k"] valid wp_rules
        del: str_join.simps)
  from wpD [OF this run] show ?thesis .
qed

definition cut_off_kube :: "(bench, unit) kube" where
  "cut_off_kube = (bench_kube bench_control_plane)
     \<lparr>GetClusterFromMetadata := (\<lambda>meta w. (Inl (Err ''connection refused''), w))\<rparr>"

theorem lookup_error_reported_as_invalid_witness:
  "fst (reconcile_valid_machine cut_off_kube (mock_client zero_mock) bench_scope () (start (bench_world bench_lm) bench_lm)) =
   Ok (done_result, None)"
proof -
  let ?s = "start (bench_world bench_lm) bench_lm"
  obtain r t where run: "reconcile_valid_machine cut_off_kube (mock_client zero_mock) bench_scope () ?s = (r, t)" by fastforce
  have owner: "GetOwnerMachine cut_off_kube meta w = (Inr (Some bench_control_plane), w)" for meta w
    by (simp add: cut_off_kube_def)
  have error: "GetClusterFromMetadata cut_off_kube meta w = (Inl (Err ''connection refused''), w)" for meta w
    by (simp add: cut_off_kube_def)
  have dom: "Machine_FailureDomain bench_control_plane = None" by (simp add: bench_defs)
  have spec: "MachineSpec_OperatingSystem (lm_spec (object ?s)) \<noteq> []" "MachineSpec_Plan (lm_spec (object ?s)) \<noteq> []"
    by (simp_all add: bench_defs)
  show ?thesis using lookup_error_reported_as_invalid [OF owner error dom spec run] run by simp
qed




section \<open>SSH keys\<close>

lemma parse_ssh_keys_ascii:
  assumes "is_ascii data"
  shows "parse_ssh_keys data = filter (\<lambda>key. key \<noteq> []) (map trim_space (str_split CHR '','' data))"
proof -
  obtain p q where d: "data = p @ trim_space data @ q" "list_all white p" "list_all white q"
    by (rule trim_space_decompose [OF assms])
  have "map trim_space (str_split CHR '','' data) = map trim_space (str_split CHR '','' (trim_space data))"
    using map_trim_split [of p "trim_space data" q "CHR '',''"] assms d comma_not_white by metis
  then show ?thesis by (simp add: parse_ssh_keys_def Let_def)
qed

text \<open>
  C34: The SSH key secret holds a comma-separated list that survives formatting: keys written with any
  ASCII white space around them are read back exactly, in order, and empty entries (a trailing
  comma, a blank line) are dropped.
\<close>

theorem ssh_keys_roundtrip:
  assumes "\<forall>(p, key, q) \<in> set entries. is_ascii (p @ key @ q) \<and> list_all white p \<and> list_all white q \<and>
    list_all (\<lambda>c. \<not> white c \<and> c \<noteq> CHR '','') key"
  shows "parse_ssh_keys (str_join '','' (map (\<lambda>(p, key, q). p @ key @ q) entries)) =
    filter (\<lambda>key. key \<noteq> []) (map (\<lambda>(p, key, q). key) entries)"
proof (cases "entries = []")
  case True
  then show ?thesis by (simp add: parse_ssh_keys_def)
next
  case False
  let ?parts = "map (\<lambda>(p, key, q). p @ key @ q) entries"
  have ascii: "is_ascii (str_join '','' ps)" if "\<forall>p \<in> set ps. is_ascii p" for ps
    using that by (induction "'',''" ps rule: str_join.induct) (auto simp: is_ascii_def byte_of_def)
  have comma: "\<forall>part \<in> set ?parts. CHR '','' \<notin> set part"
    using assms comma_not_white by (fastforce simp: list_all_iff)
  have trim: "trim_space (p @ key @ q) = key" if "(p, key, q) \<in> set entries" for p key q
  proof -
    from assms that have e: "is_ascii (p @ key @ q)" "list_all white p" "list_all white q"
      "list_all (\<lambda>c. \<not> white c \<and> c \<noteq> CHR '','') key" by blast+
    have "trim_space (p @ key @ q) = trim_space key"
      using e trim_space_prepend [of p "key @ q"] trim_space_append [of key q] by simp
    also have "trim_space key = key"
      using e by (intro trim_space_id) (simp_all add: list_all_iff white_def)
    finally show ?thesis .
  qed
  have "str_split CHR '','' (str_join '','' ?parts) = ?parts"
    using False comma by (intro str_split_join) simp_all
  moreover have "is_ascii (str_join '','' ?parts)"
    using assms by (intro ascii) auto
  moreover have "map trim_space ?parts = map (\<lambda>(p, key, q). key) entries"
    using trim by (auto simp: case_prod_beta)
  ultimately show ?thesis by (simp only: parse_ssh_keys_ascii)
qed

theorem ssh_keys_roundtrip_witness:
  "parse_ssh_keys '' ssh_1, ssh_2,, '' = [''ssh_1'', ''ssh_2'']"
  using ssh_keys_roundtrip [of "[('' '', ''ssh_1'', []), ('' '', ''ssh_2'', []), ([], [], []), ('' '', [], [])]"]
  by (simp add: is_ascii_def byte_of_def white_def is_space_def)

end
