(* ===== verification/Provisioning.thy ===== *)
theory Provisioning
  imports Machine_Properties
begin

text \<open>
  Two more properties of the machine controller: what a server is booted with, and that a machine in a
  cooperative environment becomes ready.
\<close>

section \<open>The user data carries the bootstrap data\<close>

text \<open>Some secret holds this text under \<open>value\<close>.\<close>

definition bootstrap_secret :: "('w, 'h) kube \<Rightarrow> string \<Rightarrow> bool" where
  "bootstrap_secret k ud \<longleftrightarrow>
     ud \<noteq> [] \<and> (\<exists>key w data w'. Get_Secret k key w = (Inr data, w') \<and> data ''value'' = Some ud)"

text \<open>What may be sent as user data: the text itself, or the text with the VLAN command in it.\<close>

definition bootstrap_text :: "('w, 'h) kube \<Rightarrow> string \<Rightarrow> bool" where
  "bootstrap_text k sent \<longleftrightarrow>
     (\<exists>ud. bootstrap_secret k ud \<and> (sent = ud \<or> (\<exists>cfg. sent = InjectVLANConfigIntoCloudInit ud cfg)))"

fun carries_bootstrap_data :: "('w, 'h) kube \<Rightarrow> LatitudeMachine api_call \<Rightarrow> bool" where
  "carries_bootstrap_data k (CallCreateUserData req) =
     (case b64_decode (CreateUserDataRequest_Content req) of None \<Rightarrow> False | Some sent \<Rightarrow> bootstrap_text k sent)"
| "carries_bootstrap_data k _ = True"

abbreviation stray :: "('w, 'h) kube \<Rightarrow> LatitudeMachine api_call \<Rightarrow> bool" where
  "stray k c \<equiv> \<not> carries_bootstrap_data k c"

lemma bootstrap_data_from_secret:
  "GetBootstrapData k sc s = (Ok (Inr ud), t) \<Longrightarrow> bootstrap_secret k ud"
  by (auto simp: GetBootstrapData_def GetRawBootstrapData_def go_defs bootstrap_secret_def
      split: option.splits sum.splits prod.splits if_splits)
    metis

lemma injected_text:
  "injectVLANConfig k ud s = (Ok (sent, err), t) \<Longrightarrow> bootstrap_secret k ud \<Longrightarrow> bootstrap_text k sent"
  by (auto simp: injectVLANConfig_def go_defs Let_def bootstrap_text_def
      split: option.splits sum.splits prod.splits outcome.splits)

lemma costs_stray_calls [cost_rules]:
  "costs (stray k) 0 (call_GetServer api i)" "costs (stray k) 0 (call_DeleteServer api i)"
  "costs (stray k) 0 (call_DeleteUserData api i)" "costs (stray k) 0 (call_AttachServerToVLAN api i v)"
  "costs (stray k) 0 (call_CreateServer api spec)"
  by (simp_all add: call_defs costs_call_other)

lemma costs_stray_ensure:
  "bootstrap_text k sent \<Longrightarrow> costs (stray k) 0 (ensure_user_data k api h sent)"
  unfolding ensure_user_data_def patch_object_def call_CreateUserData_def
  by (intro cost_rules | simp add: b64_decode_encode)+

lemma costs_stray_attach [cost_rules]: "costs (stray k) 0 (create_and_attach k api h u)"
  unfolding create_and_attach_def attachServerToVLAN_def patch_object_def Let_def
  by (intro cost_rules | simp)+

lemma costs_stray_flow [cost_rules]: "costs (stray k) 0 (create_server_flow k api sc h)"
  unfolding create_server_flow_def
proof (rule costs_bind_known [OF lookup_costs(7)])
  fix s t :: "('a, LatitudeMachine, LatitudeMachine api_call) st" and res :: "go_error + string"
  assume got: "GetBootstrapData k sc s = (Ok res, t)"
  show "costs (stray k) 0 (case res of
       Inl err \<Rightarrow>
         if is_bootstrap_not_ready err then go_return (Inr None)
         else go_return (Inl (Wrapf ''failed to get bootstrap data'' err))
     | Inr userData \<Rightarrow>
         go_bind (injectVLANConfig k userData) (\<lambda>(userData', injectErr).
         go_bind (ensure_user_data k api h userData') (\<lambda>ud.
         case ud of
           Inl err \<Rightarrow> go_return (Inl err)
         | Inr udID \<Rightarrow> create_and_attach k api h udID)))"
  proof (cases res)
    case (Inl err)
    then show ?thesis by (simp add: costs_return)
  next
    case (Inr ud)
    note secret = bootstrap_data_from_secret [OF got [unfolded Inr]]
    show ?thesis
      unfolding Inr sum.case
      by (rule costs_bind_known [OF lookup_costs(6)])
        (auto dest!: injected_text [OF _ secret] intro!: costs_bind_free [OF costs_stray_ensure]
          costs_sum costs_return costs_stray_attach)
  qed
qed

lemma costs_stray_normal [cost_rules]: "costs (stray k) 0 (machine_reconcileNormal k api h)"
  unfolding machine_reconcileNormal_def reconcile_valid_machine_def reconcileServer_def
  by (intro cost_rules | simp)+

lemma costs_stray_delete [cost_rules]: "costs (stray k) 0 (machine_reconcileDelete k api)"
  unfolding machine_reconcileDelete_def release_machine_def Let_def by (intro cost_rules | simp)+



section \<open>A cooperative environment\<close>

text \<open>A cluster whose spec names a location and a project.\<close>

definition complete_cluster :: "LatitudeCluster \<Rightarrow> bool" where
  "complete_cluster lc \<longleftrightarrow> ClusterSpec_Location (lc_spec lc) \<noteq> [] \<and>
     (\<exists>pr. ClusterSpec_ProjectRef (lc_spec lc) = Some pr \<and> ProjectRef_ProjectID pr \<noteq> [])"

text \<open>
  The Kubernetes side of a machine nobody else writes: \<open>stored\<close> reads the machine out of the world and a
  patch stores it; its owner is a control plane machine with a bootstrap secret, \<open>cluster\<close> reads its cluster,
  which is complete, and reading changes nothing. \<open>boots\<close> is how many more times the server will be
  found starting.
\<close>

definition cooperative_kube ::
  "('w, 'h) kube \<Rightarrow> ObjectKey \<Rightarrow> ('w \<Rightarrow> LatitudeMachine) \<Rightarrow> ('w \<Rightarrow> nat) \<Rightarrow> Machine \<Rightarrow> ('w \<Rightarrow> LatitudeCluster) \<Rightarrow> bool" where
  "cooperative_kube k req stored boots owner cluster \<longleftrightarrow>
     finalizer_laws k \<and> is_control_plane owner \<and> Machine_DataSecretName owner \<noteq> None \<and>
     Machine_FailureDomain owner \<noteq> Some [] \<and> (\<forall>w. complete_cluster (cluster w)) \<and>
     (\<forall>w. Get_LatitudeMachine k req w = (Inr (stored w), w)) \<and>
     (\<forall>lm. \<exists>h. NewHelper_LatitudeMachine k lm = Inr h) \<and>
     (\<forall>h lm w. stored (snd (Patch_LatitudeMachine k h lm w)) = lm \<and>
        boots (snd (Patch_LatitudeMachine k h lm w)) = boots w) \<and>
     (\<forall>meta w. GetOwnerMachine k meta w = (Inr (Some owner), w)) \<and>
     (\<forall>meta w. \<exists>c ref. GetClusterFromMetadata k meta w = (Inr (Some c), w) \<and> Cluster_InfrastructureRef c = Some ref) \<and>
     (\<forall>key w. Get_LatitudeCluster k key w = (Inr (cluster w), w)) \<and>
     (\<forall>key w. \<exists>data ud. Get_Secret k key w = (Inr data, w) \<and> data ''value'' = Some ud \<and> ud \<noteq> [])"

text \<open>An API that creates what it is asked for, and whose servers start sooner or later.\<close>

definition cooperative_api :: "'w ClientInterface \<Rightarrow> ('w \<Rightarrow> nat) \<Rightarrow> bool" where
  "cooperative_api api boots \<longleftrightarrow>
     (\<forall>r w. \<exists>i. fst (CreateUserData api r w) = Ok (Inr i)) \<and>
     (\<forall>spec w. \<exists>srv. fst (CreateServer api spec w) = Ok (Inr srv) \<and> Server_ID srv \<noteq> []) \<and>
     (\<forall>i w. \<exists>srv. fst (GetServer api i w) = Ok (Inr srv) \<and>
        (server_is_ready srv \<or> boots (snd (GetServer api i w)) < boots w))"

text \<open>A machine with a complete spec that nothing holds back.\<close>

definition provisionable :: "LatitudeMachine \<Rightarrow> bool" where
  "provisionable lm \<longleftrightarrow>
     \<not> paused lm \<and> \<not> deleting lm \<and> MachineStatus_FailureReason (lm_status lm) = None \<and>
     MachineSpec_OperatingSystem (lm_spec lm) \<noteq> [] \<and> MachineSpec_Plan (lm_spec lm) \<noteq> [] \<and>
     MachineSpec_SSHKeySecretRef (lm_spec lm) = None"

text \<open>The controller run again and again.\<close>

primrec requests :: "('w, 'h) kube \<Rightarrow> 'w ClientInterface \<Rightarrow> ObjectKey \<Rightarrow> nat \<Rightarrow> 'w \<Rightarrow> 'w" where
  "requests k api req 0 w = w"
| "requests k api req (Suc n) w = requests k api req n (Report_World (machine_Reconcile k api req w))"

lemma provisionable_updates [simp]:
  "provisionable (set_server_id i lm) = provisionable lm"
  "provisionable (set_user_data_id i lm) = provisionable lm"
  "provisionable (upd_lm_finalizers f lm) = provisionable lm"
  "provisionable (with_machine_condition k ty st re ms w lm) = provisionable lm"
  by (simp_all add: provisionable_def paused_def deleting_def set_server_id_def set_user_data_id_def
      upd_lm_finalizers_def with_machine_condition_def machine_SetConditions_def)

section \<open>One request in a cooperative environment\<close>

lemma cooperative_reads:
  assumes kube: "cooperative_kube k req stored boots owner cluster"
  shows "getLatitudeCluster k s = (Ok (Inr (Some (cluster (world s)))), s)"
    and "\<exists>p. getProjectID k s = (Ok p, s) \<and> p \<noteq> []"
    and "\<exists>x. getSite k s = (Ok x, s) \<and> x \<noteq> []"
    and "MachineScope_Machine sc = owner \<Longrightarrow> \<exists>ud. GetBootstrapData k sc s = (Ok (Inr ud), s)"
    and "\<exists>r. injectVLANConfig k ud s = (Ok r, s)"
proof -
  have owner: "\<And>meta w. GetOwnerMachine k meta w = (Inr (Some owner), w)"
    and meta: "\<And>meta w. \<exists>c ref. GetClusterFromMetadata k meta w = (Inr (Some c), w) \<and> Cluster_InfrastructureRef c = Some ref"
    and lc: "\<And>key w. Get_LatitudeCluster k key w = (Inr (cluster w), w)"
    and secret: "\<And>key w. \<exists>data ud. Get_Secret k key w = (Inr data, w) \<and> data ''value'' = Some ud \<and> ud \<noteq> []"
    and name: "Machine_DataSecretName owner \<noteq> None" and fd: "Machine_FailureDomain owner \<noteq> Some []"
    and complete: "\<And>w. complete_cluster (cluster w)"
    using kube unfolding cooperative_kube_def by blast+
  note site = complete [of "world s", unfolded complete_cluster_def, THEN conjunct1] fd
    and pr = complete [of "world s", unfolded complete_cluster_def, THEN conjunct2]
  obtain c ref where c: "GetClusterFromMetadata k (Machine_ObjectMeta owner) (world s) = (Inr (Some c), world s)"
    "Cluster_InfrastructureRef c = Some ref"
    using meta by blast
  show get: "getLatitudeCluster k s = (Ok (Inr (Some (cluster (world s)))), s)"
    by (simp add: getLatitudeCluster_def go_defs owner c lc)
  show "\<exists>p. getProjectID k s = (Ok p, s) \<and> p \<noteq> []"
    using pr by (auto simp: getProjectID_def go_defs get)
  show "\<exists>x. getSite k s = (Ok x, s) \<and> x \<noteq> []"
    using site by (auto simp: getSite_def site_from_cluster_def go_defs owner get split: option.split)
  show "\<exists>ud. GetBootstrapData k sc s = (Ok (Inr ud), s)" if "MachineScope_Machine sc = owner"
  proof -
    from name obtain n where n: "Machine_DataSecretName owner = Some n" by blast
    obtain data ud where "Get_Secret k \<lparr>ObjectKey_Namespace = scope_Namespace (object s), ObjectKey_Name = n\<rparr> (world s)
        = (Inr data, world s)" "data ''value'' = Some ud" "ud \<noteq> []"
      using secret by blast
    then show ?thesis using n that by (simp add: GetBootstrapData_def GetRawBootstrapData_def go_defs)
  qed
  show "\<exists>r. injectVLANConfig k ud s = (Ok r, s)"
    by (auto simp: injectVLANConfig_def go_defs get Let_def split: option.split sum.split)
qed

lemma cooperative_validate:
  assumes "cooperative_kube k req stored boots owner cluster" and "provisionable (object s)"
  shows "validateMachineSpec k s = (Ok None, s)"
  using cooperative_reads(2,3) [OF assms(1), of s] assms(2)
  by (auto simp: validateMachineSpec_def validation_error_def go_defs provisionable_def)

lemma attach_keeps_object: "wp (attachServerToVLAN k api) (\<lambda>r t. object t = object s) s"
  by (auto simp: attachServerToVLAN_def wp_rules Let_def split: outcome.split sum.split option.split
      intro!: reader_wp [OF lookup_readers(1)])

lemma cooperative_user_data:
  assumes api: "cooperative_api api boots" and lm: "provisionable (object s)"
  shows "wp (ensure_user_data k api h d) (\<lambda>r t. (\<exists>i. r = Ok (Inr i)) \<and> provisionable (object t) \<and>
    lm_meta (object t) = lm_meta (object s)) s"
proof -
  have "\<And>r w. \<exists>i. fst (CreateUserData api r w) = Ok (Inr i)"
    using api unfolding cooperative_api_def by blast
  from this [of "\<lparr>CreateUserDataRequest_Name = ObjectMeta_Name (lm_meta (object s)) @ ''-'' @ ObjectMeta_UID (lm_meta (object s)),
      CreateUserDataRequest_Content = b64_encode d\<rparr>" "world s"]
  show ?thesis using lm by (auto simp: ensure_user_data_def wp_rules)
qed

lemma cooperative_server:
  assumes kube: "cooperative_kube k req stored boots owner cluster" and api: "cooperative_api api boots"
    and lm: "provisionable (object s)"
  shows "wp (create_and_attach k api h u) (\<lambda>r t. provisionable (object t) \<and> lm_meta (object t) = lm_meta (object s) \<and>
    MachineStatus_ServerID (lm_status (object t)) \<noteq> [] \<and> (\<forall>x. r = Ok x \<longrightarrow> x = Inr None)) s"
proof -
  have keys: "getSSHKeys k s = (Ok (Inr []), s)"
    using lm by (simp add: getSSHKeys_def go_defs provisionable_def)
  obtain p x where p: "getProjectID k s = (Ok p, s)" and x: "getSite k s = (Ok x, s)"
    using cooperative_reads(2,3) [OF kube, of s] by blast
  define spec where "spec = \<lparr>ServerSpec_Project = p, ServerSpec_Plan = MachineSpec_Plan (lm_spec (object s)),
     ServerSpec_OperatingSystem = MachineSpec_OperatingSystem (lm_spec (object s)), ServerSpec_Site = x,
     ServerSpec_Hostname = getHostname (object s), ServerSpec_SSHKeys = [], ServerSpec_UserData = u\<rparr>"
  have "\<And>spec w. \<exists>srv. fst (CreateServer api spec w) = Ok (Inr srv) \<and> Server_ID srv \<noteq> []"
    using api unfolding cooperative_api_def by blast
  then obtain srv where srv: "fst (CreateServer api spec (world s)) = Ok (Inr srv)" "Server_ID srv \<noteq> []" by blast
  show ?thesis
    using lm srv
    by (auto simp: create_and_attach_def wp_rules keys p x wp_def [of "getSSHKeys k"]
        wp_def [of "getProjectID k"] wp_def [of "getSite k"] spec_def [symmetric]
        split: outcome.split intro!: wp_mono [OF attach_keeps_object])
qed

lemma cooperative_create:
  assumes kube: "cooperative_kube k req stored boots owner cluster" and api: "cooperative_api api boots"
    and sc: "MachineScope_Machine sc = owner" and lm: "provisionable (object s)"
  shows "wp (create_server_flow k api sc h) (\<lambda>r t. provisionable (object t) \<and> lm_meta (object t) = lm_meta (object s) \<and>
    MachineStatus_ServerID (lm_status (object t)) \<noteq> [] \<and> (\<forall>x. r = Ok x \<longrightarrow> x = Inr None)) s"
proof -
  obtain ud where ud: "GetBootstrapData k sc s = (Ok (Inr ud), s)" using cooperative_reads(4) [OF kube sc] by blast
  obtain d e where d: "injectVLANConfig k ud s = (Ok (d, e), s)" using cooperative_reads(5) [OF kube] by fast
  show ?thesis
    using cooperative_server [OF kube api]
    by (auto simp: create_server_flow_def wp_bind ud d wp_def [of "GetBootstrapData k sc"]
        wp_def [of "injectVLANConfig k ud"] wp_return split: outcome.split
        intro!: wp_mono [OF cooperative_user_data [OF api lm]] wp_mono [OF cooperative_server [OF kube api]])
qed

lemma provisionable_ready [simp]:
  "provisionable (upd_lm_status (\<lambda>st. st\<lparr>MachineStatus_Addresses := a\<rparr>) lm) = provisionable lm"
  "provisionable (upd_lm_status (\<lambda>st. st\<lparr>MachineStatus_Ready := b\<rparr>) lm) = provisionable lm"
  "provisionable (with_provider_id i lm) = provisionable lm"
  by (simp_all add: provisionable_def paused_def deleting_def with_provider_id_def)

text \<open>What a request has left to do: make the server, or wait for it.\<close>

definition advances :: "('w \<Rightarrow> nat) \<Rightarrow> ('w, LatitudeMachine, LatitudeMachine api_call) st \<Rightarrow>
    ('w, LatitudeMachine, LatitudeMachine api_call) st \<Rightarrow> bool" where
  "advances boots s t \<longleftrightarrow>
     (if MachineStatus_ServerID (lm_status (object s)) = []
      then MachineStatus_ServerID (lm_status (object t)) \<noteq> []
      else MachineStatus_Ready (lm_status (object t)) \<or>
        MachineStatus_ServerID (lm_status (object t)) \<noteq> [] \<and> boots (world t) < boots (world s))"

lemma cooperative_valid:
  assumes kube: "cooperative_kube k req stored boots owner cluster" and api: "cooperative_api api boots"
    and sc: "MachineScope_Machine sc = owner" and lm: "provisionable (object s)"
  shows "wp (reconcile_valid_machine k api sc h) (\<lambda>r t. provisionable (object t) \<and>
    lm_meta (object t) = lm_meta (object s) \<and> advances boots s t) s"
proof (cases "MachineStatus_ServerID (lm_status (object s)) = []")
  case True
  then show ?thesis
    using cooperative_validate [OF kube lm]
    by (auto simp: reconcile_valid_machine_def wp_bind wp_def [of "validateMachineSpec k"] reconcileServer_def
        wp_get_object wp_machine_setCondition wp_then wp_return advances_def split: outcome.split sum.split option.split
        intro!: wp_mono [OF cooperative_create [OF kube api sc lm]])
next
  case False
  let ?i = "MachineStatus_ServerID (lm_status (object s))"
  have "\<exists>srv. fst (GetServer api ?i (world s)) = Ok (Inr srv) \<and>
      (server_is_ready srv \<or> boots (snd (GetServer api ?i (world s))) < boots (world s))"
    using api unfolding cooperative_api_def by blast
  then obtain srv where srv: "fst (GetServer api ?i (world s)) = Ok (Inr srv)"
    "server_is_ready srv \<or> boots (snd (GetServer api ?i (world s))) < boots (world s)" by blast
  then show ?thesis
    using cooperative_validate [OF kube lm] False lm
    by (auto simp: reconcile_valid_machine_def wp_bind wp_def [of "validateMachineSpec k"] reconcileServer_def
        mark_server_ready_def SetProviderID_def SetReady_def wp_rules advances_def)
qed

text \<open>The steps left until the machine is ready: finalizer, server, and the boots of the server.\<close>

definition phase :: "('w, 'h) kube \<Rightarrow> LatitudeMachine \<Rightarrow> nat" where
  "phase k lm = (if \<not> has_finalizer k lm then 2 else if MachineStatus_ServerID (lm_status lm) = [] then 1 else 0)"

lemma cooperative_request:
  assumes kube: "cooperative_kube k req stored boots owner cluster"
  obtains h where "stored (Report_World (machine_Reconcile k api req w)) =
      object (snd (machine_body k api h (start w (stored w))))"
    and "boots (Report_World (machine_Reconcile k api req w)) =
      boots (world (snd (machine_body k api h (start w (stored w)))))"
    and "NewHelper_LatitudeMachine k (stored w) = Inr h"
proof -
  from kube obtain h where h: "NewHelper_LatitudeMachine k (stored w) = Inr h"
    unfolding cooperative_kube_def by blast
  have get: "Get_LatitudeMachine k req w = (Inr (stored w), w)"
    and patch: "\<And>h lm w. stored (snd (Patch_LatitudeMachine k h lm w)) = lm"
      "\<And>h lm w. boots (snd (Patch_LatitudeMachine k h lm w)) = boots w"
    using kube unfolding cooperative_kube_def by blast+
  obtain r t where b: "machine_body k api h (start w (stored w)) = (r, t)" by fastforce
  show ?thesis
    by (rule that [of h]) (simp_all add: machine_Reconcile_def get h report_def b patch
        with_deferred_patch_state [where body = "machine_body k api h" and s = "start w (stored w)", OF b])
qed

lemma cooperative_normal:
  assumes kube: "cooperative_kube k req stored boots owner cluster" and lm: "provisionable (object s)"
    and todo: "has_finalizer k (object s)" "\<not> MachineStatus_Ready (lm_status (object s))"
  obtains sc where "MachineScope_Machine sc = owner"
    and "machine_reconcileNormal k api h s = reconcile_valid_machine k api sc h s"
proof -
  from kube obtain h' where h': "NewHelper_LatitudeMachine k (object s) = Inr h'"
    unfolding cooperative_kube_def by blast
  have "\<And>meta w. GetOwnerMachine k meta w = (Inr (Some owner), w)" "is_control_plane owner"
    using kube unfolding cooperative_kube_def by blast+
  then have "machine_reconcileNormal k api h s = reconcile_valid_machine k api
      \<lparr>MachineScope_Machine = owner, MachineScope_patchHelper = h'\<rparr> h s"
    using todo lm h' by (simp add: machine_reconcileNormal_def go_defs NewMachineScope_def has_finalizer_def provisionable_def)
  then show ?thesis by (rule that [rotated]) simp
qed

lemma cooperative_body:
  assumes kube: "cooperative_kube k req stored boots owner cluster" and api: "cooperative_api api boots"
    and lm: "provisionable lm" and b: "machine_body k api h (start w lm) = (r, t)"
  shows "provisionable (object t)"
    and "MachineStatus_Ready (lm_status lm) \<Longrightarrow> MachineStatus_Ready (lm_status (object t))"
    and "MachineStatus_Ready (lm_status (object t)) \<or>
      ((phase k (object t), boots (world t)), phase k lm, boots w) \<in> less_than <*lex*> less_than"
proof -
  have normal: "machine_body k api h (start w lm) = machine_reconcileNormal k api h (start w lm)"
    using lm by (simp add: machine_body_cases provisionable_def)
  have laws: "finalizer_laws k" using kube unfolding cooperative_kube_def by blast
  consider "\<not> has_finalizer k lm" | "has_finalizer k lm" "MachineStatus_Ready (lm_status lm)"
    | "has_finalizer k lm" "\<not> MachineStatus_Ready (lm_status lm)" by blast
  then have "provisionable (object t) \<and>
    (MachineStatus_Ready (lm_status lm) \<longrightarrow> MachineStatus_Ready (lm_status (object t))) \<and>
    (MachineStatus_Ready (lm_status (object t)) \<or>
      ((phase k (object t), boots (world t)), phase k lm, boots w) \<in> less_than <*lex*> less_than)"
  proof cases
    case 1
    then have t: "t = (start w lm)\<lparr>object := upd_lm_finalizers (\<lambda>fs. AddFinalizer k fs LatitudeFinalizerName) lm\<rparr>"
      using settled_normal [of k "start w lm" api h] b normal by simp
    have "has_finalizer k (object t)"
      using laws by (simp add: t has_finalizer_def finalizer_laws_def)
    then show ?thesis using 1 lm by (simp add: t phase_def)
  next
    case 2
    then have "t = start w lm"
      using settled_normal [of k "start w lm" api h] b normal by (simp add: settled_def)
    then show ?thesis using 2 lm by simp
  next
    case 3
    obtain sc where sc: "MachineScope_Machine sc = owner"
      "machine_reconcileNormal k api h (start w lm) = reconcile_valid_machine k api sc h (start w lm)"
      by (rule cooperative_normal [OF kube, of "start w lm" api h]) (use lm 3 in simp_all)
    have "reconcile_valid_machine k api sc h (start w lm) = (r, t)" using b normal sc(2) by simp
    from wpD [OF cooperative_valid [OF kube api sc(1)] this] lm
    have "provisionable (object t)" "lm_meta (object t) = lm_meta lm" "advances boots (start w lm) t" by simp_all
    then show ?thesis using 3 by (auto simp: advances_def phase_def has_finalizer_def split: if_splits)
  qed
  then show "provisionable (object t)"
    and "MachineStatus_Ready (lm_status lm) \<Longrightarrow> MachineStatus_Ready (lm_status (object t))"
    and "MachineStatus_Ready (lm_status (object t)) \<or>
      ((phase k (object t), boots (world t)), phase k lm, boots w) \<in> less_than <*lex*> less_than"
    by blast+
qed

section \<open>Progress\<close>

lemma requests_add: "requests k api req (n + m) w = requests k api req m (requests k api req n w)"
  by (induction n arbitrary: w) simp_all

lemma request_advances:
  assumes kube: "cooperative_kube k req stored boots owner cluster" and api: "cooperative_api api boots"
    and lm: "provisionable (stored w)" and w': "w' = Report_World (machine_Reconcile k api req w)"
  shows "provisionable (stored w')"
    and "MachineStatus_Ready (lm_status (stored w)) \<Longrightarrow> MachineStatus_Ready (lm_status (stored w'))"
    and "MachineStatus_Ready (lm_status (stored w')) \<or>
      ((phase k (stored w'), boots w'), phase k (stored w), boots w) \<in> less_than <*lex*> less_than"
proof -
  obtain h where h: "stored w' = object (snd (machine_body k api h (start w (stored w))))"
    "boots w' = boots (world (snd (machine_body k api h (start w (stored w)))))"
    unfolding w' by (rule cooperative_request [OF kube])
  obtain r t where b: "machine_body k api h (start w (stored w)) = (r, t)" by fastforce
  note body = cooperative_body [OF kube api lm b]
  show "provisionable (stored w')"
    and "MachineStatus_Ready (lm_status (stored w)) \<Longrightarrow> MachineStatus_Ready (lm_status (stored w'))"
    and "MachineStatus_Ready (lm_status (stored w')) \<or>
      ((phase k (stored w'), boots w'), phase k (stored w), boots w) \<in> less_than <*lex*> less_than"
    using body by (simp_all add: h b)
qed

lemma requests_stay_ready:
  assumes "cooperative_kube k req stored boots owner cluster" "cooperative_api api boots"
    "provisionable (stored w)" "MachineStatus_Ready (lm_status (stored w))"
  shows "MachineStatus_Ready (lm_status (stored (requests k api req n w)))"
  using assms(3,4)
proof (induction n arbitrary: w)
  case 0
  then show ?case by simp
next
  case (Suc n)
  from request_advances [OF assms(1,2) Suc.prems(1) refl] Suc.prems(2) show ?case
    unfolding requests.simps by (intro Suc.IH)
qed

lemma requests_reach_ready:
  assumes "cooperative_kube k req stored boots owner cluster" "cooperative_api api boots" "provisionable (stored w)"
  shows "\<exists>n. provisionable (stored (requests k api req n w)) \<and>
    MachineStatus_Ready (lm_status (stored (requests k api req n w)))"
  using assms(3)
proof (induction "(phase k (stored w), boots w)" arbitrary: w rule: wf_induct_rule [OF wf_lex_prod [OF wf_less_than wf_less_than]])
  case (1 w)
  define w' where "w' = Report_World (machine_Reconcile k api req w)"
  note step = request_advances [OF assms(1,2) 1(2) w'_def]
  from step(3) have "\<exists>n. provisionable (stored (requests k api req n w')) \<and>
    MachineStatus_Ready (lm_status (stored (requests k api req n w')))"
  proof
    assume "MachineStatus_Ready (lm_status (stored w'))"
    with step(1) show ?thesis by (intro exI [of _ 0]) simp
  next
    assume "((phase k (stored w'), boots w'), phase k (stored w), boots w) \<in> less_than <*lex*> less_than"
    from 1(1) [OF this step(1)] show ?thesis .
  qed
  then obtain n where "provisionable (stored (requests k api req n w')) \<and>
    MachineStatus_Ready (lm_status (stored (requests k api req n w')))" by blast
  then show ?case by (intro exI [of _ "Suc n"]) (simp add: w'_def)
qed

text \<open>
  C16: Progress. In an environment that cooperates (a control plane machine, a complete cluster, a bootstrap
  secret, patches that are stored, an API that creates what it is asked for and whose servers start after
  any number of polls) a machine with a complete spec becomes ready after finitely many requests, and stays
  ready, from whatever state its provisioning was left in: with or without finalizer, user data or server.
\<close>

theorem machine_becomes_ready:
  assumes kube: "cooperative_kube k req stored boots owner cluster" and api: "cooperative_api api boots"
    and lm: "provisionable (stored w)"
  shows "\<exists>n. \<forall>m \<ge> n. MachineStatus_Ready (lm_status (stored (requests k api req m w)))"
proof -
  obtain n where n: "provisionable (stored (requests k api req n w))"
    "MachineStatus_Ready (lm_status (stored (requests k api req n w)))"
    using requests_reach_ready [OF kube api lm] by blast
  have "MachineStatus_Ready (lm_status (stored (requests k api req m w)))" if "n \<le> m" for m
  proof -
    have "requests k api req m w = requests k api req (m - n) (requests k api req n w)"
      using that by (simp flip: requests_add)
    then show ?thesis using requests_stay_ready [OF kube api n] by simp
  qed
  then show ?thesis by blast
qed

text \<open>A bench that answers every lookup, and a machine that has just been applied.\<close>

definition cooperative_bench :: "(bench, unit) kube" where
  "cooperative_bench = (bench_kube bench_control_plane)
     \<lparr>Get_Secret := (\<lambda>key w. (Inr [''value'' \<mapsto> ''#cloud-config''], w)),
      Get_LatitudeCluster := (\<lambda>key w. (Inr bench_lc, w))\<rparr>"

lemma cooperative_bench_kube:
  "cooperative_kube cooperative_bench bench_key Bench_Machine (\<lambda>_. 0) bench_control_plane
     (\<lambda>_. bench_lc)"
  using bench_finalizer_laws [of bench_control_plane]
  by (auto simp: cooperative_kube_def complete_cluster_def cooperative_bench_def finalizer_laws_def bench_defs NewLatitudeCluster_def)

lemma cooperative_bench_api: "cooperative_api (mock_client (zero_mock :: bench MockClient)) (\<lambda>_. 0)"
  by (auto simp: cooperative_api_def mock_client_def zero_mock_def or_else_def mock_server_def go_defs
      server_is_ready_def)

theorem machine_becomes_ready_witness:
  "\<exists>n. MachineStatus_Ready (lm_status (Bench_Machine (requests cooperative_bench (mock_client zero_mock) bench_key n
     (bench_world (NewLatitudeMachine ''test-machine'' ''default'' ''c3-small-x86'' ''ubuntu_22_04'')))))"
proof -
  let ?w = "bench_world (NewLatitudeMachine ''test-machine'' ''default'' ''c3-small-x86'' ''ubuntu_22_04'')"
  have "provisionable (Bench_Machine ?w)"
    by (simp add: provisionable_def paused_def deleting_def bench_defs)
  then show ?thesis
    using machine_becomes_ready [OF cooperative_bench_kube cooperative_bench_api, of ?w] by blast
qed

end
