(* ===== verification/Publication.thy ===== *)
theory Publication
  imports Machine_Properties
begin

text \<open>
  What a ready machine publishes comes from an answer of the API: its server ID and its addresses are those
  of a server that \<open>GetServer\<close> returned, and that answer said the server is up.
\<close>

definition answered :: "'w ClientInterface \<Rightarrow> Server \<Rightarrow> bool" where
  "answered api srv \<longleftrightarrow> server_is_ready srv \<and> (\<exists>i w w'. GetServer api i w = (Ok (Inr srv), w'))"

definition backed :: "'w ClientInterface \<Rightarrow> LatitudeMachine \<Rightarrow> bool" where
  "backed api lm \<longleftrightarrow> (MachineStatus_Ready (lm_status lm) \<longrightarrow>
     (\<exists>srv. answered api srv \<and> Server_ID srv = MachineStatus_ServerID (lm_status lm) \<and>
        server_addresses srv = MachineStatus_Addresses (lm_status lm)))"

definition unready :: "LatitudeMachine \<Rightarrow> bool" where
  "unready lm \<longleftrightarrow> \<not> MachineStatus_Ready (lm_status lm)"

lemma unready_simps [simp]:
  "unready (set_server_id i lm) = unready lm" "unready (set_user_data_id i lm) = unready lm"
  "unready (upd_lm_finalizers f lm) = unready lm" "unready (with_machine_failure msg lm)"
  "unready (with_machine_condition k ty st re ms w lm) = unready lm"
  by (simp_all add: unready_def)

lemma backed_simps [simp]:
  "backed api (upd_lm_finalizers f lm) = backed api lm"
  "backed api (with_machine_condition k ty st re ms w lm) = backed api lm"
  by (simp_all add: backed_def)

lemma unready_backed: "unready lm \<Longrightarrow> backed api lm"
  by (simp add: unready_def backed_def)

lemma good_unready: "good unready s \<Longrightarrow> good (backed api) s"
  by (erule good_mono) (rule unready_backed)

lemma good_condition [keep_rules]:
  assumes "\<And>x t. P x \<Longrightarrow> P (with_machine_condition k ty st re ms t x)"
  shows "keeps (good P) (machine_setCondition k ty st re ms)"
  unfolding keeps_def using assms wp_machine_setCondition [of k ty st re ms "\<lambda>r t. good P t"]
  by (simp add: wp_def case_prod_beta good_def)

section \<open>Before the machine is ready\<close>

lemma unready_ensure_user_data [keep_rules]: "keeps (good unready) (ensure_user_data k api h u)"
  unfolding ensure_user_data_def by (intro keep_rules) simp

lemma unready_create [keep_rules]: "keeps (good unready) (create_and_attach k api h u)"
  unfolding create_and_attach_def by (intro keep_rules) simp

lemma unready_flow [keep_rules]: "keeps (good unready) (create_server_flow k api sc h)"
  unfolding create_server_flow_def by (intro keep_rules)

lemma unready_failures [keep_rules]:
  "keeps (good unready) (handle_server_error k err)" "keeps (good unready) (fail_worker k)"
  unfolding handle_server_error_def fail_worker_def setMachineFailed_def by (intro keep_rules; simp)+

text \<open>The creation of a server never returns one.\<close>

lemma create_server_flow_returns: "wp (create_server_flow k api sc h) (\<lambda>r t. \<forall>srv. r \<noteq> Ok (Inr (Some srv))) s"
proof -
  have create: "wp (create_and_attach k api h u) (\<lambda>r t. \<forall>srv. r \<noteq> Ok (Inr (Some srv))) s" for u s
    by (auto simp: create_and_attach_def wp_rules split: outcome.split sum.split option.split
        intro!: reader_wp [OF lookup_readers(1)] reader_wp [OF lookup_readers(2)] reader_wp [OF lookup_readers(3)]
          reader_wp [OF lookup_readers(4)] wp_mono [OF attach_wp])
  show ?thesis
    by (auto simp: create_server_flow_def ensure_user_data_def wp_rules simp del: wp_GetBootstrapData
        split: outcome.split sum.split prod.split
        intro!: create reader_wp [OF lookup_readers(6)] reader_wp [OF lookup_readers(7)])
qed

definition answer_ok :: "'w ClientInterface \<Rightarrow> (go_error + Server option) outcome \<Rightarrow>
    ('w, LatitudeMachine, LatitudeMachine api_call) st \<Rightarrow> bool" where
  "answer_ok api r t \<longleftrightarrow> good unready t \<and> (\<forall>srv. r = Ok (Inr (Some srv)) \<longrightarrow> answered api srv)"

lemma reconcileServer_answer:
  assumes "good unready s"
  shows "wp (reconcileServer k api sc h) (answer_ok api) s"
proof -
  have flow: "wp (create_server_flow k api sc h) (answer_ok api) t" if "good unready t" for t
    by (rule wp_mono [OF wp_conj [OF keeps_wp [OF unready_flow that] create_server_flow_returns]])
      (auto simp: answer_ok_def)
  have up: "answered api srv" if "fst (GetServer api i w) = Ok (Inr srv)" "server_is_ready srv" for i w srv
    using that unfolding answered_def by (metis prod.collapse)
  have got: "answer_ok api Panic t" "answer_ok api (Ok (Inr None)) t"
    "answered api srv \<Longrightarrow> answer_ok api (Ok (Inr (Some srv))) t" if "good unready t" for t srv
    using that by (simp_all add: answer_ok_def)
  show ?thesis
    using assms
    by (auto simp: reconcileServer_def wp_rules good_def split: outcome.split sum.split
        intro!: flow got up)
qed

lemma mark_server_ready_backed:
  assumes "good unready s" "answered api srv"
  shows "wp (mark_server_ready k srv) (\<lambda>r t. good (backed api) t) s"
  using assms
  by (auto simp: mark_server_ready_def SetProviderID_def SetReady_def wp_rules good_def backed_def unready_def)

lemma reconcile_valid_backed:
  assumes s: "good unready s"
  shows "wp (reconcile_valid_machine k api sc h) (\<lambda>r t. good (backed api) t) s"
  unfolding reconcile_valid_machine_def wp_bind [of "validateMachineSpec k"]
proof (rule wp_mono [OF keeps_wp [OF good_lookups(5) s]], goal_cases)
  case (1 r t)
  have cond: "wp (machine_setCondition k ty st re ms) (\<lambda>r t. good (backed api) t) u" if "good unready u" for ty st re ms u
    by (rule wp_mono [OF keeps_wp [OF good_condition [of unready] that]]) (simp_all add: good_unready)
  have fail: "wp (handle_server_error k err) (\<lambda>r t. good (backed api) t) u" if "good unready u" for err u
    by (rule wp_mono [OF keeps_wp [OF unready_failures(1) that]]) (rule good_unready)
  have server: "wp (go_bind (reconcileServer k api sc h) f) (\<lambda>r t. good (backed api) t) t"
    if "\<And>x u. good unready u \<Longrightarrow> (\<forall>srv. x = Inr (Some srv) \<longrightarrow> answered api srv) \<Longrightarrow>
      wp (f x) (\<lambda>r t. good (backed api) t) u" for f :: "_ \<Rightarrow> ('a, LatitudeMachine, reconcile_result) handler"
    unfolding wp_bind by (rule wp_mono [OF reconcileServer_answer [OF 1]]) (auto simp: answer_ok_def split: outcome.split intro: that good_unready)
  show ?case
    using 1
    by (auto simp: wp_then wp_return good_unready split: outcome.split option.split sum.split
        intro!: server fail mark_server_ready_backed wp_mono [OF cond])
qed

lemma reconcileNormal_backed:
  assumes b: "backed api lm"
  shows "wp (machine_reconcileNormal k api h) (\<lambda>r t. good (backed api) t) (start w lm)"
proof (cases "has_finalizer k lm \<and> \<not> settled lm")
  case False
  then show ?thesis using settled_normal [of k "start w lm" api h] b by (auto simp: wp_def good_def)
next
  case True
  then have s: "good unready (start w lm)" by (simp add: unready_def settled_def)
  have valid: "wp (reconcile_valid_machine k api sc h) (\<lambda>r t. good (backed api) t) u" if "good unready u" for sc u
    by (rule reconcile_valid_backed [OF that])
  have fail: "wp (fail_worker k) (\<lambda>r t. good (backed api) t) u" if "good unready u" for u
    by (rule wp_mono [OF keeps_wp [OF unready_failures(2) that]]) (rule good_unready)
  have check: "wp (checkControlPlaneFailed k) (\<lambda>r t. good unready t) u" if "good unready u" for u
    by (rule keeps_wp [OF good_lookups(8) that])
  show ?thesis
    using True s
    by (auto simp: machine_reconcileNormal_def has_finalizer_def settled_def wp_bind wp_get_object wp_query wp_return good_unready unready_backed
        split: outcome.split option.split sum.split bool.split intro!: valid fail wp_mono [OF check])
qed

lemma body_backed:
  assumes "backed api lm"
  shows "good (backed api) (snd (machine_body k api h (start w lm)))"
proof -
  have "keeps (good (backed api)) (machine_reconcileDelete k api)"
    unfolding machine_reconcileDelete_def release_machine_def Let_def by (intro keep_rules) simp_all
  with assms have "wp (machine_reconcileDelete k api) (\<lambda>r t. good (backed api) t) (start w lm)"
    by (intro keeps_wp) simp_all
  with assms reconcileNormal_backed [OF assms, of k h w] have "wp (machine_body k api h) (\<lambda>r t. good (backed api) t) (start w lm)"
    by (simp add: machine_body_def wp_bind wp_get_object wp_return)
  then show ?thesis by (simp add: wp_def case_prod_beta)
qed

lemma machine_step_backed:
  assumes "machine_step k api a b" and "backed api a"
  shows "backed api b"
  using assms(1)
proof cases
  case (step_request req w w1)
  then show ?thesis
    using body_backed [OF assms(2), of k] by (auto simp: report_calls good_def Let_def split: sum.splits)
next
  case step_edit
  then show ?thesis using assms(2) by (simp add: backed_def)
qed

interpretation backed_run: invariant_steps "machine_step k api" "backed api"
  for k :: "('w, 'h) kube" and api :: "'w ClientInterface"
  by unfold_locales (rule machine_step_backed)

end
