(* ===== verification/Cluster_Correctness.thy ===== *)
theory Cluster_Correctness
  imports Test_Doubles Lifecycle
begin

text \<open>
  What the cluster controller guarantees: the life cycle of a \<open>LatitudeCluster\<close> and the simulation of
  the handlers by it, and the calls a request makes about VLANs.
\<close>

section \<open>The life cycle of a cluster\<close>

text \<open>
  Everything a reconciliation may do to a \<open>LatitudeCluster\<close>, one change at a time. The VLAN is recorded
  only when one is configured, the endpoint is set once and only on a ready cluster.
\<close>

abbreviation endpoint_host :: "LatitudeCluster \<Rightarrow> string" where
  "endpoint_host lc \<equiv> APIEndpoint_Host (ClusterStatus_ControlPlaneEndpoint (lc_status lc))"

inductive cluster_change :: "LatitudeCluster \<Rightarrow> LatitudeCluster \<Rightarrow> bool" where
  cluster_change_finalizers: "cluster_change lc (upd_lc_finalizers f lc)"
| cluster_change_conditions: "cluster_change lc (cluster_SetConditions lc cs)"
| cluster_change_vlan_id: "ClusterSpec_VLANConfig (lc_spec lc) \<noteq> None \<Longrightarrow> cluster_change lc (set_vlan_id i lc)"
| cluster_change_vlan_vid: "ClusterSpec_VLANConfig (lc_spec lc) \<noteq> None \<Longrightarrow> cluster_change lc (set_vlan_vid v lc)"
| cluster_change_ready: "\<not> ClusterStatus_Ready (lc_status lc) \<Longrightarrow> cluster_change lc (mark_cluster_ready lc)"
| cluster_change_endpoint: "\<lbrakk>ClusterStatus_Ready (lc_status lc); endpoint_host lc = []; host \<noteq> []\<rbrakk> \<Longrightarrow>
    cluster_change lc (set_endpoint host lc)"

inductive_cases cluster_changeE: "cluster_change lc lc'"

abbreviation cluster_changes :: "LatitudeCluster \<Rightarrow> LatitudeCluster \<Rightarrow> bool" where
  "cluster_changes \<equiv> cluster_change\<^sup>*\<^sup>*"

lemma cluster_updates_simps [simp]:
  "lc_meta (set_vlan_id i c) = lc_meta c" "lc_spec (set_vlan_id i c) = lc_spec c"
  "lc_status (set_vlan_id i c) = (lc_status c)\<lparr>ClusterStatus_VLANID := Some i\<rparr>"
  "lc_meta (set_vlan_vid v c) = lc_meta c" "lc_spec (set_vlan_vid v c) = lc_spec c"
  "lc_status (set_vlan_vid v c) = (lc_status c)\<lparr>ClusterStatus_VLANVID := Some v\<rparr>"
  "lc_meta (set_endpoint host c) = lc_meta c" "lc_spec (set_endpoint host c) = lc_spec c"
  "lc_status (set_endpoint host c) = (lc_status c)
     \<lparr>ClusterStatus_ControlPlaneEndpoint := \<lparr>APIEndpoint_Host = host, APIEndpoint_Port = 6443\<rparr>\<rparr>"
  "lc_meta (mark_cluster_ready c) = lc_meta c" "lc_spec (mark_cluster_ready c) = lc_spec c"
  "lc_status (mark_cluster_ready c) = (lc_status c)\<lparr>ClusterStatus_Ready := True\<rparr>"
  by (simp_all add: set_vlan_id_def set_vlan_vid_def set_endpoint_def mark_cluster_ready_def)

lemma cluster_change_condition: "cluster_change lc (with_cluster_condition k ty st re ms w lc)"
  unfolding with_cluster_condition_def by (rule cluster_change_conditions)

lemma cluster_step_intros [intro]:
  "cluster_changes lc x \<Longrightarrow> cluster_changes lc (upd_lc_finalizers f x)"
  "cluster_changes lc x \<Longrightarrow> cluster_changes lc (with_cluster_condition k ty st re ms w x)"
  "cluster_changes lc x \<Longrightarrow> ClusterSpec_VLANConfig (lc_spec x) \<noteq> None \<Longrightarrow> cluster_changes lc (set_vlan_id i x)"
  "cluster_changes lc x \<Longrightarrow> ClusterSpec_VLANConfig (lc_spec x) \<noteq> None \<Longrightarrow> cluster_changes lc (set_vlan_vid v x)"
  "cluster_changes lc x \<Longrightarrow> \<not> ClusterStatus_Ready (lc_status x) \<Longrightarrow> cluster_changes lc (mark_cluster_ready x)"
  "cluster_changes lc x \<Longrightarrow> ClusterStatus_Ready (lc_status x) \<Longrightarrow> endpoint_host x = [] \<Longrightarrow> host \<noteq> [] \<Longrightarrow>
     cluster_changes lc (set_endpoint host x)"
  by (blast intro: rtranclp.rtrancl_into_rtrancl cluster_change.intros cluster_change_condition)+

section \<open>The controller follows the life cycle\<close>

text \<open>Before the final patch nothing is handed to the patch helper, so the object alone counts.\<close>

lemma create_cluster_vlan_changes:
  "cluster_changes lc (object s) \<Longrightarrow> ClusterSpec_VLANConfig (lc_spec (object s)) \<noteq> None \<Longrightarrow>
   wp (create_cluster_vlan api cfg) (\<lambda>r t. cluster_changes lc (object t)) s"
  by (auto simp: create_cluster_vlan_def wp_rules split: outcome.split sum.split option.split
      intro!: cluster_step_intros(3,4))

lemma reconcileVLAN_changes:
  "cluster_changes lc (object s) \<Longrightarrow> wp (reconcileVLAN api) (\<lambda>r t. cluster_changes lc (object t)) s"
  by (auto simp: reconcileVLAN_def wp_rules split: outcome.split sum.split option.split
      intro!: create_cluster_vlan_changes cluster_step_intros(3,4))

lemma reconcileInfrastructure_changes:
  "cluster_changes lc (object s) \<Longrightarrow> wp (reconcileInfrastructure api) (\<lambda>r t. cluster_changes lc (object t)) s"
  by (auto simp: reconcileInfrastructure_def wp_rules split: outcome.split sum.split option.split
      intro!: wp_mono [OF reconcileVLAN_changes])

lemma setup_changes:
  "cluster_changes lc (object s) \<Longrightarrow> ClusterStatus_Ready (lc_status (object s)) \<Longrightarrow>
   wp (setupControlPlaneEndpoint k cluster) (\<lambda>r t. cluster_changes lc (object t)) s"
  by (auto simp: setupControlPlaneEndpoint_def endpoint_from_machine_def Let_def wp_rules
      split: outcome.split sum.split option.split)

lemma discover_changes:
  "cluster_changes lc (object s) \<Longrightarrow> ClusterStatus_Ready (lc_status (object s)) \<Longrightarrow>
   wp (discover_endpoint k cluster) (\<lambda>r t. cluster_changes lc (object t)) s"
  unfolding discover_endpoint_def wp_bind [of "setupControlPlaneEndpoint k cluster"]
  by (rule wp_mono [OF setup_changes])
    (auto simp: wp_rules Let_def split: outcome.split sum.split bool.split)

lemma cluster_reconcileNormal_changes:
  assumes "cluster_changes lc (object s)"
  shows "wp (cluster_reconcileNormal k api cluster) (\<lambda>r t. cluster_changes lc (object t)) s"
  using assms
  by (auto simp: cluster_reconcileNormal_def wp_rules split: outcome.split option.split
      intro!: wp_mono [OF reconcileInfrastructure_changes] discover_changes)

lemma cluster_reconcileDelete_changes:
  "cluster_changes lc (object s) \<Longrightarrow> wp (cluster_reconcileDelete k api) (\<lambda>r t. cluster_changes lc (object t)) s"
  by (auto simp: cluster_reconcileDelete_def cleanupInfrastructure_def cleanupVLAN_def wp_rules
      split: outcome.split option.split)

lemma cluster_body_changes:
  "wp (cluster_body k api cluster) (\<lambda>r t. cluster_changes lc (object t)) (start w lc)"
  by (simp add: cluster_body_def wp_rules cluster_reconcileNormal_changes cluster_reconcileDelete_changes)

section \<open>The calls of a request\<close>

lemma costs_endpoint [cost_rules]:
  "costs p 0 (endpoint_from_machine k lm)" "costs p 0 (setupControlPlaneEndpoint k cluster)"
  "costs p 0 (discover_endpoint k cluster)"
proof -
  show a: "costs p 0 (endpoint_from_machine k lm)" for lm
    unfolding endpoint_from_machine_def Let_def by (intro cost_rules)
  show b: "costs p 0 (setupControlPlaneEndpoint k cluster)"
    unfolding setupControlPlaneEndpoint_def Let_def by (intro cost_rules a)
  show "costs p 0 (discover_endpoint k cluster)"
    unfolding discover_endpoint_def Let_def by (intro cost_rules b)
qed

lemma cluster_unpatched: "costs is_patch 0 (cluster_body k api cluster)"
proof -
  have vlan: "costs is_patch 0 (create_cluster_vlan api cfg)" for cfg
    unfolding create_cluster_vlan_def by (intro cost_rules) simp
  have rec: "costs is_patch 0 (reconcileVLAN api)"
    unfolding reconcileVLAN_def by (intro cost_rules vlan) simp_all
  have infra: "costs is_patch 0 (reconcileInfrastructure api)"
    unfolding reconcileInfrastructure_def by (intro cost_rules rec) simp
  have del: "costs is_patch 0 (cluster_reconcileDelete k api)"
    unfolding cluster_reconcileDelete_def cleanupInfrastructure_def cleanupVLAN_def
    by (intro cost_rules) simp
  have normal: "costs is_patch 0 (cluster_reconcileNormal k api cluster)"
    unfolding cluster_reconcileNormal_def by (intro cost_rules infra)
  show ?thesis
    unfolding cluster_body_def by (intro cost_rules normal del)
qed

text \<open>A request that gets as far as the patch helper, and its calls.\<close>

lemma cluster_report_calls:
  "Report_Calls (cluster_Reconcile k api req w) =
     (case Get_LatitudeCluster k req w of
        (Inl err, w1) \<Rightarrow> []
      | (Inr lc, w1) \<Rightarrow>
          (case GetOwnerCluster k (lc_meta lc) w1 of
             (Inr (Some cluster), w2) \<Rightarrow>
               (case NewHelper_LatitudeCluster k lc of
                  Inl err \<Rightarrow> []
                | Inr h \<Rightarrow>
                    (let t = snd (cluster_body k api cluster (start w2 lc)) in
                     calls t @ [CallPatch (object t)]))
           | _ \<Rightarrow> []))"
proof -
  have d: "calls (snd (with_deferred_patch p body s)) =
      (let t = snd (body s) in calls t @ [CallPatch (object t)])"
    for p and body :: "('w, LatitudeCluster, reconcile_result) handler" and s :: "('w, LatitudeCluster, LatitudeCluster api_call) st"
  proof -
    obtain r t where b: "body s = (r, t)" by fastforce
    show ?thesis
      by (simp add: with_deferred_patch_state [where body = body and s = s, OF b] b Let_def)
  qed
  show ?thesis
    by (simp add: cluster_Reconcile_def no_calls_def report_def d split: prod.split sum.split option.split)
qed

lemma cluster_Reconcile_changes:
  assumes get: "Get_LatitudeCluster k req w = (Inr lc, w1)"
    and patched: "CallPatch lc' \<in> set (Report_Calls (cluster_Reconcile k api req w))"
  shows "cluster_changes lc lc'"
proof -
  have c: "cluster_changes lc (object (snd (cluster_body k api cluster (start w2 lc))))" for cluster w2
    using cluster_body_changes [of k api cluster lc w2] by (simp add: wp_def split: prod.splits)
  have n: "CallPatch obj \<notin> set (calls (snd (cluster_body k api cluster (start w2 lc))))" for cluster w2 obj
    using costs_zero_no_call [OF cluster_unpatched, of k api cluster "start w2 lc"
        "fst (cluster_body k api cluster (start w2 lc))" "snd (cluster_body k api cluster (start w2 lc))" "CallPatch obj"]
    by auto
  show ?thesis
    using patched c n
    by (auto simp: cluster_report_calls get Let_def split: prod.splits sum.splits option.splits)
qed

section \<open>Repeated requests\<close>

text \<open>
  The persisted cluster over time: a request stores the object it patched, or nothing when the patch
  fails; in between users edit everything but the status.
\<close>

inductive cluster_step ::
  "('w, 'h) kube \<Rightarrow> 'w ClientInterface \<Rightarrow> LatitudeCluster \<Rightarrow> LatitudeCluster \<Rightarrow> bool"
  for k :: "('w, 'h) kube" and api :: "'w ClientInterface" where
  cluster_step_request: "\<lbrakk>Get_LatitudeCluster k req w = (Inr lc, w1);
      CallPatch lc' \<in> set (Report_Calls (cluster_Reconcile k api req w))\<rbrakk> \<Longrightarrow>
    cluster_step k api lc lc'"
| cluster_step_edit: "lc_status lc' = lc_status lc \<Longrightarrow> cluster_step k api lc lc'"

inductive cluster_life :: "LatitudeCluster \<Rightarrow> LatitudeCluster \<Rightarrow> bool" where
  cluster_life_change: "cluster_change lc lc' \<Longrightarrow> cluster_life lc lc'"
| cluster_life_edit: "lc_status lc' = lc_status lc \<Longrightarrow> cluster_life lc lc'"

inductive_cases cluster_stepE: "cluster_step k api lc lc'"
inductive_cases cluster_lifeE: "cluster_life lc lc'"
inductive_simps cluster_life_iff: "cluster_life lc lc'"

lemma cluster_changes_life: "cluster_changes lc lc' \<Longrightarrow> cluster_life\<^sup>*\<^sup>* lc lc'"
  by (induction rule: rtranclp_induct) (auto intro: rtranclp.rtrancl_into_rtrancl cluster_life_change)

lemma cluster_step_life: "cluster_step k api lc lc' \<Longrightarrow> cluster_life\<^sup>*\<^sup>* lc lc'"
  by (erule cluster_stepE) (blast intro: cluster_changes_life cluster_Reconcile_changes cluster_life_edit)+

text \<open>An endpoint is a host with the API server's port and exists only on a ready cluster.\<close>

definition cluster_sound :: "LatitudeCluster \<Rightarrow> bool" where
  "cluster_sound lc \<longleftrightarrow> endpoint_host lc \<noteq> [] \<longrightarrow>
     ClusterStatus_Ready (lc_status lc) \<and>
     APIEndpoint_Port (ClusterStatus_ControlPlaneEndpoint (lc_status lc)) = 6443"

definition endpoint_is :: "APIEndpoint \<Rightarrow> LatitudeCluster \<Rightarrow> bool" where
  "endpoint_is ep lc \<longleftrightarrow> APIEndpoint_Host ep \<noteq> [] \<and> ClusterStatus_ControlPlaneEndpoint (lc_status lc) = ep"

definition cluster_is_ready :: "LatitudeCluster \<Rightarrow> bool" where
  "cluster_is_ready lc \<longleftrightarrow> ClusterStatus_Ready (lc_status lc)"

lemma cluster_change_keeps:
  assumes "cluster_change a b"
  shows "cluster_sound a \<Longrightarrow> cluster_sound b" and "endpoint_is ep a \<Longrightarrow> endpoint_is ep b"
    and "cluster_is_ready a \<Longrightarrow> cluster_is_ready b"
  using assms
  by (cases; auto simp: cluster_sound_def endpoint_is_def cluster_is_ready_def)+

lemma cluster_life_keeps:
  assumes "cluster_life a b"
  shows "cluster_sound a \<Longrightarrow> cluster_sound b" and "endpoint_is ep a \<Longrightarrow> endpoint_is ep b"
    and "cluster_is_ready a \<Longrightarrow> cluster_is_ready b"
  using assms cluster_change_keeps [of a b]
  by (auto simp: cluster_life_iff cluster_sound_def endpoint_is_def cluster_is_ready_def)

interpretation cluster_run: simulation "cluster_step k api" cluster_life
  for k :: "('w, 'h) kube" and api :: "'w ClientInterface"
  by unfold_locales (rule cluster_step_life)

interpretation cluster_sound_run: simulation_invariant "cluster_step k api" cluster_life cluster_sound
  for k :: "('w, 'h) kube" and api :: "'w ClientInterface"
  by unfold_locales (rule cluster_life_keeps(1))

interpretation endpoint_run: simulation_invariant "cluster_step k api" cluster_life "endpoint_is ep"
  for k :: "('w, 'h) kube" and api :: "'w ClientInterface" and ep
  by unfold_locales (rule cluster_life_keeps(2))

interpretation ready_run: simulation_invariant "cluster_step k api" cluster_life cluster_is_ready
  for k :: "('w, 'h) kube" and api :: "'w ClientInterface"
  by unfold_locales (rule cluster_life_keeps(3))

end
