(* ===== verification/Cluster_Properties.thy ===== *)
theory Cluster_Properties
  imports Cluster_Correctness
begin

text \<open>The properties of the cluster controller, with the inputs they are applied to.\<close>

definition cluster_condition_is :: "LatitudeCluster \<Rightarrow> ConditionStatus \<Rightarrow> string \<Rightarrow> bool" where
  "cluster_condition_is lc st re \<longleftrightarrow>
     (case find_condition (cluster_GetConditions lc) ClusterReadyCondition of
        None \<Rightarrow> False
      | Some c \<Rightarrow> Condition_Status c = st \<and> Condition_Reason c = re)"

lemma cluster_condition_is_set [simp]:
  "cluster_condition_is (with_cluster_condition k ClusterReadyCondition st re ms w lc) st re"
  using with_cluster_condition_found [of k ClusterReadyCondition st re ms w lc]
  by (auto simp: cluster_condition_is_def)

definition cluster_has_finalizer :: "('w, 'h) kube \<Rightarrow> LatitudeCluster \<Rightarrow> bool" where
  "cluster_has_finalizer k lc \<longleftrightarrow>
     ContainsFinalizer k (ObjectMeta_Finalizers (lc_meta lc)) LatitudeClusterFinalizerName"

text \<open>The VLAN of the spec that belongs to somebody else.\<close>

definition existing_vlan :: "LatitudeCluster \<Rightarrow> string option" where
  "existing_vlan lc =
     (case ClusterSpec_VLANConfig (lc_spec lc) of None \<Rightarrow> None | Some cfg \<Rightarrow> VLANConfig_ExistingVLANID cfg)"

section \<open>A cluster over many requests\<close>

text \<open>
  C19: Over any sequence of requests, failing patches and user edits of spec and metadata in between,
  a cluster only moves along its life cycle: ready stays ready, a control plane endpoint once set
  never changes, and from a sound cluster (such as a new one) an endpoint exists only on a ready
  cluster and has port 6443.
\<close>

theorem cluster_ready_and_endpoint_are_stable:
  assumes steps: "(cluster_step k api)\<^sup>*\<^sup>* lc lc'" and sound: "cluster_sound lc"
  shows "cluster_life\<^sup>*\<^sup>* lc lc' \<and> cluster_sound lc' \<and>
    (ClusterStatus_Ready (lc_status lc) \<longrightarrow> ClusterStatus_Ready (lc_status lc')) \<and>
    (endpoint_host lc \<noteq> [] \<longrightarrow>
      ClusterStatus_ControlPlaneEndpoint (lc_status lc') = ClusterStatus_ControlPlaneEndpoint (lc_status lc))"
  using cluster_run.reaches [OF steps] cluster_sound_run.conc.reach_keeps [OF steps sound]
    endpoint_run.conc.reach_keeps [OF steps] ready_run.conc.reach_keeps [OF steps]
  by (simp add: endpoint_is_def cluster_is_ready_def)

lemma bench_cluster_step:
  "cluster_step (bench_kube bench_owner) (mock_client zero_mock)
     (NewLatitudeCluster ''c1'' ''default'' ''SAO'' ''proj-1'')
     (upd_lc_finalizers (\<lambda>_. [LatitudeClusterFinalizerName]) (NewLatitudeCluster ''c1'' ''default'' ''SAO'' ''proj-1''))"
proof -
  let ?lc = "NewLatitudeCluster ''c1'' ''default'' ''SAO'' ''proj-1''"
  let ?w = "(bench_world bench_lm)\<lparr>Bench_Cluster := ?lc\<rparr>"
  have get: "Get_LatitudeCluster (bench_kube bench_owner) bench_key ?w = (Inr ?lc, ?w)" by simp
  have "CallPatch (upd_lc_finalizers (\<lambda>_. [LatitudeClusterFinalizerName]) ?lc) \<in>
      set (Report_Calls (cluster_Reconcile (bench_kube bench_owner) (mock_client zero_mock) bench_key ?w))"
    by (simp add: cluster_report_calls cluster_body_def cluster_reconcileNormal_def go_defs NewLatitudeCluster_def
        plain_meta_def upd_lc_finalizers_def Let_def)
  then show ?thesis by (rule cluster_step_request [OF get])
qed

theorem cluster_ready_and_endpoint_are_stable_witness:
  "cluster_sound (upd_lc_finalizers (\<lambda>_. [LatitudeClusterFinalizerName]) (NewLatitudeCluster ''c1'' ''default'' ''SAO'' ''proj-1''))"
proof -
  have "cluster_sound (NewLatitudeCluster ''c1'' ''default'' ''SAO'' ''proj-1'')"
    by (simp add: cluster_sound_def NewLatitudeCluster_def)
  with cluster_ready_and_endpoint_are_stable [OF r_into_rtranclp [of "cluster_step _ _", OF bench_cluster_step]]
  show ?thesis by blast
qed

section \<open>The VLAN\<close>

text \<open>
  The VLAN is recorded when one is configured; the location is one of the regions on offer; what a
  handler must leave alone on the way to readiness.
\<close>

definition vlan_recorded :: "LatitudeCluster \<Rightarrow> bool" where
  "vlan_recorded lc \<longleftrightarrow> ClusterSpec_VLANConfig (lc_spec lc) = None \<or>
     ClusterStatus_VLANID (lc_status lc) \<noteq> None \<and> ClusterStatus_VLANVID (lc_status lc) \<noteq> None"

definition location_offered :: "'w ClientInterface \<Rightarrow> 'w \<Rightarrow> LatitudeCluster \<Rightarrow> bool" where
  "location_offered api w lc \<longleftrightarrow>
     (case fst (GetAvailableRegions api w) of
        Ok (Inr regions) \<Rightarrow> ClusterSpec_Location (lc_spec lc) \<in> set regions | _ \<Rightarrow> False)"

definition as_before :: "LatitudeCluster \<Rightarrow> LatitudeCluster \<Rightarrow> bool" where
  "as_before a b \<longleftrightarrow> lc_spec b = lc_spec a \<and> lc_meta b = lc_meta a \<and>
     ClusterStatus_Ready (lc_status b) = ClusterStatus_Ready (lc_status a)"

lemma as_before_refl [simp]: "as_before a a"
  by (simp add: as_before_def)

lemma reconcileVLAN_wp:
  "wp (reconcileVLAN api) (\<lambda>r t. as_before (object s) (object t) \<and> (r = Ok None \<longrightarrow> vlan_recorded (object t))) s"
  by (auto simp: reconcileVLAN_def create_cluster_vlan_def as_before_def vlan_recorded_def wp_rules
      split: outcome.split sum.split option.split)

lemma reconcileInfrastructure_wp:
  "wp (reconcileInfrastructure api) (\<lambda>r t. as_before (object s) (object t) \<and>
     (r = Ok None \<longrightarrow> location_offered api (world s) (object s) \<and> vlan_recorded (object t))) s"
proof -
  have vlan: "wp (reconcileVLAN api) Q u"
    if "\<And>r t. as_before (object u) (object t) \<Longrightarrow> (r = Ok None \<longrightarrow> vlan_recorded (object t)) \<Longrightarrow> Q r t" for Q u
    by (rule wp_mono [OF reconcileVLAN_wp]) (rule that, simp_all)
  show ?thesis
    by (auto simp: reconcileInfrastructure_def location_offered_def wp_rules list_ex_iff
        split: outcome.split sum.split option.split intro!: vlan)
qed

lemma validateClusterSpec_None:
  assumes "validateClusterSpec lc = None"
  shows "ClusterSpec_Location (lc_spec lc) \<noteq> []"
    and "\<exists>pr. ClusterSpec_ProjectRef (lc_spec lc) = Some pr \<and> ProjectRef_ProjectID pr \<noteq> []"
  using assms by (auto simp: validateClusterSpec_def cluster_spec_errors_def split: if_splits option.splits)

text \<open>Marking a cluster ready is the only thing the last part of \<open>reconcileNormal\<close> does to an unready one.\<close>

lemma cluster_reconcileNormal_ready:
  assumes "\<not> ClusterStatus_Ready (lc_status (object s))"
  shows "wp (cluster_reconcileNormal k api cluster) (\<lambda>r t. ClusterStatus_Ready (lc_status (object t)) \<longrightarrow>
    cluster_has_finalizer k (object s) \<and> validateClusterSpec (object s) = None \<and>
    location_offered api (world s) (object s) \<and> vlan_recorded (object t) \<and>
    r = Ok (done_result, None) \<and> cluster_condition_is (object t) ConditionTrue ''ClusterReady'') s"
proof -
  have infra: "wp (reconcileInfrastructure api) Q s"
    if "\<And>r t. as_before (object s) (object t) \<Longrightarrow>
      (r = Ok None \<longrightarrow> location_offered api (world s) (object s) \<and> vlan_recorded (object t)) \<Longrightarrow> Q r t" for Q
    by (rule wp_mono [OF reconcileInfrastructure_wp]) (rule that, simp_all)
  have set: "vlan_recorded (with_cluster_condition k ty st re ms w (mark_cluster_ready lc)) = vlan_recorded lc"
    for ty st re ms w lc by (simp add: vlan_recorded_def)
  show ?thesis
  proof (cases "cluster_has_finalizer k (object s) \<and> validateClusterSpec (object s) = None")
    case True
    then show ?thesis
      using assms unfolding cluster_reconcileNormal_def cluster_has_finalizer_def
      apply (simp add: wp_get_object wp_bind [of get_object])
      apply (simp only: wp_bind [of "reconcileInfrastructure api"])
      apply (rule infra)
      apply (simp add: wp_rules as_before_def set split: outcome.split option.split)
      done
  next
    case False
    then show ?thesis
      using assms by (auto simp: cluster_reconcileNormal_def wp_rules cluster_has_finalizer_def)
  qed
qed

text \<open>
  C15: A cluster becomes ready only when all is in place: the request that marks it ready found its finalizer
  set, its location and project given, its location among the regions Latitude.sh offers, and, if a
  VLAN is configured, has recorded the VLAN's ID and VID. It sets the condition to true and is done.
\<close>

theorem cluster_ready_means_validated:
  assumes run: "cluster_reconcileNormal k api cluster s = (r, t)"
    and became_ready: "\<not> ClusterStatus_Ready (lc_status (object s))" "ClusterStatus_Ready (lc_status (object t))"
  shows "cluster_has_finalizer k (object s) \<and>
    ClusterSpec_Location (lc_spec (object s)) \<noteq> [] \<and>
    (\<exists>pr. ClusterSpec_ProjectRef (lc_spec (object s)) = Some pr \<and> ProjectRef_ProjectID pr \<noteq> []) \<and>
    location_offered api (world s) (object s) \<and> vlan_recorded (object t) \<and>
    r = Ok (done_result, None) \<and> cluster_condition_is (object t) ConditionTrue ''ClusterReady''"
  using wpD [OF cluster_reconcileNormal_ready [OF became_ready(1)] run] became_ready(2)
    validateClusterSpec_None [of "object s"] by blast

text \<open>A cluster of the bench with a VLAN to be created.\<close>

definition vlan_config :: "string option \<Rightarrow> VLANConfig" where
  "vlan_config existing = \<lparr>VLANConfig_Subnet = ''10.8.0.0/24'', VLANConfig_VID = None,
     VLANConfig_ExistingVLANID = existing, VLANConfig_NetworkInterface = []\<rparr>"

definition vlan_cluster :: "string option \<Rightarrow> LatitudeCluster" where
  "vlan_cluster existing = bench_lc\<lparr>LatitudeCluster_Spec := (lc_spec bench_lc)
     \<lparr>ClusterSpec_VLANConfig := Some (vlan_config existing)\<rparr>\<rparr>"

lemma vlan_cluster_simps [simp]:
  "ClusterSpec_VLANConfig (lc_spec (vlan_cluster existing)) = Some (vlan_config existing)"
  "ClusterSpec_ProjectRef (lc_spec (vlan_cluster existing)) = Some \<lparr>ProjectRef_ProjectID = ''proj-1''\<rparr>"
  "ClusterSpec_Location (lc_spec (vlan_cluster existing)) = ''SAO''"
  "ObjectMeta_Name (lc_meta (vlan_cluster existing)) = ''test-cluster''"
  "ObjectMeta_Finalizers (lc_meta (vlan_cluster existing)) = [LatitudeClusterFinalizerName]"
  "ObjectMeta_DeletionTimestamp (lc_meta (vlan_cluster existing)) = None"
  "ClusterStatus_VLANID (lc_status (vlan_cluster existing)) = None"
  "ClusterStatus_VLANVID (lc_status (vlan_cluster existing)) = None"
  "ClusterStatus_Ready (lc_status (vlan_cluster existing)) = False"
  "endpoint_host (vlan_cluster existing) = []"
  "VLANConfig_ExistingVLANID (vlan_config existing) = existing"
  "VLANConfig_Subnet (vlan_config existing) = ''10.8.0.0/24''"
  by (simp_all add: vlan_cluster_def vlan_config_def bench_lc_def upd_lc_finalizers_def NewLatitudeCluster_def plain_meta_def)

lemmas cluster_run_defs = cluster_body_def cluster_reconcileNormal_def reconcileInfrastructure_def
  reconcileVLAN_def create_cluster_vlan_def validateClusterSpec_def cluster_spec_errors_def call_defs
  cluster_setCondition_def now_def

theorem cluster_ready_means_validated_witness:
  "vlan_recorded (object (snd (cluster_reconcileNormal (bench_kube bench_owner) (mock_client zero_mock)
     (NewCluster ''test-cluster'' ''default'') (start (bench_world bench_lm) (vlan_cluster None)))))"
proof -
  let ?s = "start (bench_world bench_lm) (vlan_cluster None)"
  obtain r t where run: "cluster_reconcileNormal (bench_kube bench_owner) (mock_client zero_mock)
      (NewCluster ''test-cluster'' ''default'') ?s = (r, t)" by fastforce
  have "ClusterStatus_Ready (lc_status (object t))"
    using run by (auto simp: cluster_run_defs go_defs mock_client_def zero_mock_def or_else_def mark_cluster_ready_def)
  with cluster_ready_means_validated [OF run] run show ?thesis by simp
qed

definition manages_vlan :: "LatitudeCluster api_call \<Rightarrow> bool" where
  "manages_vlan c \<longleftrightarrow> is_create_vlan c \<or> is_delete_vlan c"

lemma existing_body:
  assumes "existing_vlan lc = Some v"
  shows "wp (cluster_body k api cluster) (\<lambda>r t. filter manages_vlan (calls t) = []) (start w lc)"
proof -
  obtain cfg where cfg: "ClusterSpec_VLANConfig (lc_spec lc) = Some cfg" "VLANConfig_ExistingVLANID cfg = Some v"
    using assms by (auto simp: existing_vlan_def split: option.splits)
  let ?none = "\<lambda>t. filter manages_vlan (calls t) = [] \<and> lc_spec (object t) = lc_spec lc"
  have m [simp]: "\<not> manages_vlan (CallGetVLAN i)" "\<not> manages_vlan CallGetAvailableRegions" for i
    by (simp_all add: manages_vlan_def)
  have vlan: "wp (reconcileVLAN api) (\<lambda>r t. filter manages_vlan (calls t) = []) s" if "?none s" for s
    using that cfg by (auto simp: reconcileVLAN_def wp_rules split: outcome.split sum.split)
  have infra: "wp (reconcileInfrastructure api) (\<lambda>r t. filter manages_vlan (calls t) = []) (start w lc)"
    by (auto simp: reconcileInfrastructure_def wp_rules split: outcome.split sum.split option.split
        intro!: wp_mono [OF vlan])
  have quiet: "wp (discover_endpoint k cluster) (\<lambda>r t. filter manages_vlan (calls t) = []) s"
    if "filter manages_vlan (calls s) = []" for s
  proof -
    obtain r t where d: "discover_endpoint k cluster s = (r, t)" by fastforce
    from costsD [OF costs_endpoint(3) d] obtain cs
      where "calls t = calls s @ cs" "length (filter manages_vlan cs) \<le> 0" .
    with that d show ?thesis by (simp add: wp_def)
  qed
  have normal: "wp (cluster_reconcileNormal k api cluster) (\<lambda>r t. filter manages_vlan (calls t) = []) (start w lc)"
    unfolding cluster_reconcileNormal_def
    apply (simp add: wp_get_object wp_bind [of get_object])
    apply (auto simp: wp_bind [of "reconcileInfrastructure api"] wp_rules split: outcome.split option.split
        intro!: wp_mono [OF infra] quiet)
    done
  have delete: "wp (cluster_reconcileDelete k api) (\<lambda>r t. filter manages_vlan (calls t) = []) (start w lc)"
    using cfg by (auto simp: cluster_reconcileDelete_def cleanupInfrastructure_def cleanupVLAN_def wp_rules
        split: outcome.split option.split)
  show ?thesis by (simp add: cluster_body_def wp_rules normal delete)
qed

text \<open>
  C21: A VLAN that belongs to somebody else is only looked at: with an existing VLAN in the spec, no
  request for the cluster, of whatever kind, creates or deletes a VLAN.
\<close>

theorem existing_vlan_is_not_managed:
  assumes get: "Get_LatitudeCluster k req w = (Inr lc, w1)" and existing: "existing_vlan lc = Some v"
  shows "filter manages_vlan (Report_Calls (cluster_Reconcile k api req w)) = []"
proof -
  have "filter manages_vlan (calls (snd (cluster_body k api cluster (start w2 lc)))) = []" for cluster w2
    using existing_body [OF existing, of k api cluster w2] by (simp add: wp_def split: prod.splits)
  then show ?thesis
    by (simp add: cluster_report_calls get Let_def manages_vlan_def split: prod.split sum.split option.split)
qed

theorem existing_vlan_is_not_managed_witness:
  "filter manages_vlan (Report_Calls (cluster_Reconcile (bench_kube bench_owner) (mock_client zero_mock) bench_key
     ((bench_world bench_lm)\<lparr>Bench_Cluster := vlan_cluster (Some ''theirs'')\<rparr>))) = []"
  by (rule existing_vlan_is_not_managed [where lc = "vlan_cluster (Some ''theirs'')" and v = "''theirs''"])
    (simp_all add: existing_vlan_def)



text \<open>
  C18: The cluster's own VLAN. With a VLAN configured and none given, a reconciliation that has no VLAN on
  record, or whose recorded VLAN cannot be fetched for whatever reason, asks once for a VLAN described by
  cluster name and subnet in the cluster's project and location, and records the ID and the VID it gets,
  replacing the old ones.
\<close>

theorem own_vlan_is_recorded:
  assumes config: "ClusterSpec_VLANConfig (lc_spec (object s)) = Some cfg" "VLANConfig_ExistingVLANID cfg = None"
    and project: "ClusterSpec_ProjectRef (lc_spec (object s)) = Some pr"
    and gone: "case ClusterStatus_VLANID (lc_status (object s)) of
        None \<Rightarrow> w1 = world s | Some i \<Rightarrow> \<exists>err. GetVLAN api i (world s) = (Ok (Inl err), w1)"
    and create: "CreateVLAN api
        \<lparr>CreateVLANRequest_ProjectID = ProjectRef_ProjectID pr,
         CreateVLANRequest_Site = ClusterSpec_Location (lc_spec (object s)),
         CreateVLANRequest_Subnet = ''capl-'' @ ObjectMeta_Name (lc_meta (object s)) @ ''-'' @ VLANConfig_Subnet cfg,
         CreateVLANRequest_VID = VLANConfig_VID cfg\<rparr> w1 = (Ok (Inr new), w2)"
    and run: "reconcileVLAN api s = (r, t)"
  shows "r = Ok None \<and> object t = set_vlan_vid (VLAN_VID new) (set_vlan_id (VLAN_ID new) (object s)) \<and>
    length (filter is_create_vlan (calls t)) = Suc (length (filter is_create_vlan (calls s)))"
proof -
  have "wp (reconcileVLAN api) (\<lambda>r t. r = Ok None \<and>
    object t = set_vlan_vid (VLAN_VID new) (set_vlan_id (VLAN_ID new) (object s)) \<and>
    length (filter is_create_vlan (calls t)) = Suc (length (filter is_create_vlan (calls s)))) s"
    using assms
    by (auto simp: reconcileVLAN_def create_cluster_vlan_def vlan_request_description_def wp_rules
        split: sum.split option.splits)
  from wpD [OF this run] show ?thesis .
qed

theorem own_vlan_is_recorded_witness:
  "ClusterStatus_VLANID (lc_status (object (snd (reconcileVLAN
     (mock_client (zero_mock\<lparr>GetVLANFunc := Some (\<lambda>i. go_return (Inl (Err ''timeout'')))\<rparr>))
     (start (bench_world bench_lm) (set_vlan_vid 7 (set_vlan_id ''lost'' (vlan_cluster None)))))))) = Some ''mock-vlan-id''"
proof -
  let ?api = "mock_client (zero_mock\<lparr>GetVLANFunc := Some (\<lambda>i. go_return (Inl (Err ''timeout'')))\<rparr>)"
  let ?lc = "set_vlan_vid 7 (set_vlan_id ''lost'' (vlan_cluster None))"
  let ?s = "start (bench_world bench_lm) ?lc"
  obtain r t where run: "reconcileVLAN ?api ?s = (r, t)" by fastforce
  have config: "ClusterSpec_VLANConfig (lc_spec (object ?s)) = Some (vlan_config None)"
    "VLANConfig_ExistingVLANID (vlan_config None) = None" by simp_all
  have project: "ClusterSpec_ProjectRef (lc_spec (object ?s)) = Some \<lparr>ProjectRef_ProjectID = ''proj-1''\<rparr>" by simp
  have gone: "case ClusterStatus_VLANID (lc_status (object ?s)) of None \<Rightarrow> world ?s = world ?s
      | Some i \<Rightarrow> \<exists>err. GetVLAN ?api i (world ?s) = (Ok (Inl err), world ?s)"
    by (simp add: mock_client_def or_else_def go_return_def)
  have create: "CreateVLAN ?api req w = (Ok (Inr \<lparr>VLAN_ID = ''mock-vlan-id'', VLAN_VID = 100,
      VLAN_Subnet = CreateVLANRequest_Subnet req, VLAN_Project = CreateVLANRequest_ProjectID req\<rparr>), w)"
    for req and w :: bench
    by (simp add: mock_client_def zero_mock_def or_else_def go_return_def)
  from own_vlan_is_recorded [OF config project gone create run] run show ?thesis by simp
qed

section \<open>Deletion\<close>

lemma client_DeleteVLAN_value:
  "\<exists>res w'. DeleteVLAN (Client sdk) v w = (Ok res, w')"
  by (auto simp: Client_def client_DeleteVLAN_def go_defs split: prod.splits option.splits)

text \<open>
  C24: Deleting a cluster always succeeds, with the real client over any SDK: the finalizer goes, whatever the
  API answers. Before that the VLAN on record is deleted, once, unless it is somebody else's; an
  error of that deletion is dropped, so the VLAN may be left behind.
\<close>

theorem cluster_deletion:
  assumes laws: "finalizer_laws k"
    and run: "cluster_reconcileDelete k (Client sdk) s = (r, t)"
  shows "r = Ok (done_result, None) \<and> \<not> cluster_has_finalizer k (object t) \<and>
    lc_status (object t) = lc_status (object s) \<and>
    calls t = calls s @
      (case ClusterStatus_VLANID (lc_status (object s)) of
         None \<Rightarrow> []
       | Some v \<Rightarrow> if existing_vlan (object s) = None then [CallDeleteVLAN v] else [])"
proof -
  have del: "fst (DeleteVLAN (Client sdk) v w) \<noteq> Panic" for v w
    using client_DeleteVLAN_value [of sdk v w] by auto
  have "wp (cluster_reconcileDelete k (Client sdk)) (\<lambda>r t. r = Ok (done_result, None) \<and>
    \<not> cluster_has_finalizer k (object t) \<and> lc_status (object t) = lc_status (object s) \<and>
    calls t = calls s @
      (case ClusterStatus_VLANID (lc_status (object s)) of
         None \<Rightarrow> []
       | Some v \<Rightarrow> if existing_vlan (object s) = None then [CallDeleteVLAN v] else [])) s"
    using laws del
    by (auto simp: cluster_reconcileDelete_def cleanupInfrastructure_def cleanupVLAN_def wp_rules existing_vlan_def
        cluster_has_finalizer_def finalizer_laws_def split: outcome.split option.split)
  from wpD [OF this run] show ?thesis .
qed

theorem cluster_deletion_witness:
  "calls (snd (cluster_reconcileDelete (bench_kube bench_owner)
     (Client (bench_sdk\<lparr>VirtualNetworks_Delete := (\<lambda>i w. (Some (Err ''500''), w))\<rparr>))
     (start (bench_world bench_lm) (set_vlan_id ''vlan_1'' (vlan_cluster None))))) = [CallDeleteVLAN ''vlan_1'']"
proof -
  let ?sdk = "bench_sdk\<lparr>VirtualNetworks_Delete := (\<lambda>i w. (Some (Err ''500''), w))\<rparr>"
  let ?s = "start (bench_world bench_lm) (set_vlan_id ''vlan_1'' (vlan_cluster None))"
  obtain r t where run: "cluster_reconcileDelete (bench_kube bench_owner) (Client ?sdk) ?s = (r, t)" by fastforce
  from cluster_deletion [OF bench_finalizer_laws run] run show ?thesis by (simp add: existing_vlan_def)
qed

section \<open>The control plane endpoint\<close>

lemma discovered_endpoint:
  assumes unset: "endpoint_host (object s) = []"
    and machines: "List_Machines k (ObjectMeta_Namespace (Cluster_ObjectMeta cluster))
        (ObjectMeta_Name (Cluster_ObjectMeta cluster)) (world s) = (Inr items, w1)"
    and first: "find (IsControlPlaneMachine k) items = Some m"
    and ref: "ObjectReference_Name (Machine_InfrastructureRef m) \<noteq> []"
    and infra: "Get_LatitudeMachine k
        \<lparr>ObjectKey_Namespace = ObjectReference_Namespace (Machine_InfrastructureRef m),
         ObjectKey_Name = ObjectReference_Name (Machine_InfrastructureRef m)\<rparr> w1 = (Inr lm, w2)"
    and ready: "MachineStatus_Ready (lm_status lm)"
    and address: "endpoint_address (MachineStatus_Addresses (lm_status lm)) \<noteq> []"
    and run: "discover_endpoint k cluster s = (r, t)"
  shows "r = Ok (done_result, None)"
    and "ClusterStatus_ControlPlaneEndpoint (lc_status (object t)) =
      \<lparr>APIEndpoint_Host = endpoint_address (MachineStatus_Addresses (lm_status lm)), APIEndpoint_Port = 6443\<rparr>"
    and "ClusterStatus_Ready (lc_status (object t)) = ClusterStatus_Ready (lc_status (object s))"
    and "cluster_condition_is (object t) ConditionFalse ''ControlPlaneEndpointSet''"
proof -
  have "wp (discover_endpoint k cluster) (\<lambda>r t. r = Ok (done_result, None) \<and>
    ClusterStatus_ControlPlaneEndpoint (lc_status (object t)) =
      \<lparr>APIEndpoint_Host = endpoint_address (MachineStatus_Addresses (lm_status lm)), APIEndpoint_Port = 6443\<rparr> \<and>
    ClusterStatus_Ready (lc_status (object t)) = ClusterStatus_Ready (lc_status (object s)) \<and>
    cluster_condition_is (object t) ConditionFalse ''ControlPlaneEndpointSet'') s"
    using assms
    by (simp add: discover_endpoint_def setupControlPlaneEndpoint_def endpoint_from_machine_def Let_def wp_rules
        ControlPlaneEndpointSetReason_def)
  from wpD [OF this run] show "r = Ok (done_result, None)"
    and "ClusterStatus_ControlPlaneEndpoint (lc_status (object t)) =
      \<lparr>APIEndpoint_Host = endpoint_address (MachineStatus_Addresses (lm_status lm)), APIEndpoint_Port = 6443\<rparr>"
    and "ClusterStatus_Ready (lc_status (object t)) = ClusterStatus_Ready (lc_status (object s))"
    and "cluster_condition_is (object t) ConditionFalse ''ControlPlaneEndpointSet''"
    by simp_all
qed

text \<open>The lookups of a cluster request on the bench, with its machine ready.\<close>

lemma bench_endpoint:
  "endpoint_host (object (start (bench_world bench_ready) (mark_cluster_ready bench_lc))) = []"
  "List_Machines (bench_kube bench_control_plane) ns name w = (Inr [bench_control_plane], w)"
  "find (IsControlPlaneMachine (bench_kube bench_control_plane)) [bench_control_plane] = Some bench_control_plane"
  "ObjectReference_Name (Machine_InfrastructureRef bench_control_plane) \<noteq> []"
  "MachineStatus_Ready (lm_status bench_ready)"
  "endpoint_address (MachineStatus_Addresses (lm_status bench_ready)) = ''192.168.1.1''"
  "MachineStatus_ServerID (lm_status bench_ready) = ''mock-server-id''"
  by (simp_all add: bench_defs bench_ready_def bench_created_def endpoint_address_def first_address_def server_addresses_def
      MachineExternalIP_def MachineInternalIP_def)

text \<open>
  C30: The endpoint of a ready cluster that has none yet is found on the first control plane machine of the
  cluster: once its infrastructure machine is ready and has an address, the endpoint is that address with port 6443.
  The request then reports success, yet it leaves the condition \<open>ClusterReady\<close> false, with the reason
  \<open>ControlPlaneEndpointSet\<close>, although the cluster is ready.
\<close>

theorem endpoint_discovery:
  assumes unset: "endpoint_host (object s) = []"
    and machines: "List_Machines k (ObjectMeta_Namespace (Cluster_ObjectMeta cluster))
        (ObjectMeta_Name (Cluster_ObjectMeta cluster)) (world s) = (Inr items, w1)"
    and first: "find (IsControlPlaneMachine k) items = Some m"
    and ref: "ObjectReference_Name (Machine_InfrastructureRef m) \<noteq> []"
    and infra: "Get_LatitudeMachine k
        \<lparr>ObjectKey_Namespace = ObjectReference_Namespace (Machine_InfrastructureRef m),
         ObjectKey_Name = ObjectReference_Name (Machine_InfrastructureRef m)\<rparr> w1 = (Inr lm, w2)"
    and ready: "MachineStatus_Ready (lm_status lm)"
    and address: "endpoint_address (MachineStatus_Addresses (lm_status lm)) \<noteq> []"
    and run: "discover_endpoint k cluster s = (r, t)"
  shows "r = Ok (done_result, None) \<and>
    ClusterStatus_ControlPlaneEndpoint (lc_status (object t)) =
      \<lparr>APIEndpoint_Host = endpoint_address (MachineStatus_Addresses (lm_status lm)), APIEndpoint_Port = 6443\<rparr> \<and>
    ClusterStatus_Ready (lc_status (object t)) = ClusterStatus_Ready (lc_status (object s)) \<and>
    cluster_condition_is (object t) ConditionFalse ''ControlPlaneEndpointSet''"
  using discovered_endpoint [OF assms] by simp

theorem endpoint_discovery_witness:
  "ClusterStatus_ControlPlaneEndpoint (lc_status (object (snd (discover_endpoint (bench_kube bench_control_plane)
     (NewCluster ''test-cluster'' ''default'') (start (bench_world bench_ready) (mark_cluster_ready bench_lc)))))) =
   \<lparr>APIEndpoint_Host = ''192.168.1.1'', APIEndpoint_Port = 6443\<rparr>"
proof -
  let ?s = "start (bench_world bench_ready) (mark_cluster_ready bench_lc)"
  obtain r t where run: "discover_endpoint (bench_kube bench_control_plane) (NewCluster ''test-cluster'' ''default'') ?s = (r, t)"
    by fastforce
  have infra: "Get_LatitudeMachine (bench_kube bench_control_plane) key (world ?s) = (Inr bench_ready, world ?s)" for key
    by (simp add: bench_world_def)
  from endpoint_discovery [OF bench_endpoint(1,2,3,4) infra bench_endpoint(5) _ run] run bench_endpoint(6)
  show ?thesis by simp
qed

end
