(* ===== verification/Views.thy ===== *)
theory Views
  imports Machine_Correctness
begin

text \<open>
  Parts of the outside world. A \<open>view\<close> reads a part of the world (the stored cluster, or a ledger of machines
  and servers); a call is quiet if it does not change it. For a Kubernetes side whose reads are quiet every
  lookup of the machine controller preserves what is known of the object and the view.
\<close>

section \<open>Quiet calls\<close>

definition quiet :: "('w \<Rightarrow> 'v) \<Rightarrow> ('w \<Rightarrow> 'a \<times> 'w) \<Rightarrow> bool" where
  "quiet view f \<longleftrightarrow> (\<forall>w. view (snd (f w)) = view w)"

text \<open>The reads of the machine controller.\<close>

definition quiet_kube :: "('w, 'h) kube \<Rightarrow> ('w \<Rightarrow> 'v) \<Rightarrow> bool" where
  "quiet_kube k view \<longleftrightarrow>
     (\<forall>key. quiet view (Get_LatitudeMachine k key)) \<and>
     (\<forall>key. quiet view (Get_LatitudeCluster k key)) \<and> (\<forall>key. quiet view (Get_Secret k key)) \<and>
     (\<forall>ns. quiet view (List_LatitudeMachines k ns)) \<and> (\<forall>meta. quiet view (GetOwnerMachine k meta)) \<and>
     (\<forall>meta. quiet view (GetClusterFromMetadata k meta))"

text \<open>A property of the object in hand and the view.\<close>

definition on_view :: "('w \<Rightarrow> 'v) \<Rightarrow> ('o \<Rightarrow> 'v \<Rightarrow> bool) \<Rightarrow>
    ('w, 'o, 'c) st \<Rightarrow> bool" where
  "on_view view Q s \<longleftrightarrow> Q (object s) (view (world s))"

lemma on_view_simps [simp]:
  "on_view view Q (s\<lparr>world := w\<rparr>) = Q (object s) (view w)"
  "on_view view Q (s\<lparr>object := x\<rparr>) = Q x (view (world s))"
  "on_view view Q (s\<lparr>events := e\<rparr>) = on_view view Q s"
  "on_view view Q (s\<lparr>calls := c\<rparr>) = on_view view Q s"
  "on_view view Q (start w x) = Q x (view w)"
  by (simp_all add: on_view_def)

lemma view_query [keep_rules]: "quiet view f \<Longrightarrow> keeps (on_view view Q) (query f)"
  by (auto simp: keeps_def quiet_def go_defs on_view_def split: prod.split) (metis snd_conv)

lemma view_emit [keep_rules]: "keeps (on_view view Q) (emit ty re ms)"
  by (simp add: keeps_def go_defs)

lemma view_call: "quiet view f \<Longrightarrow> keeps (on_view view Q) (call c f)"
  by (auto simp: keeps_def quiet_def go_defs on_view_def split: prod.split) (metis snd_conv)

lemma view_set_object [keep_rules]:
  "(\<And>x v. Q x v \<Longrightarrow> Q (f x) v) \<Longrightarrow> keeps (on_view view Q) (set_object f)"
  by (simp add: keeps_def go_defs on_view_def)

lemma keeps_by_wp: "(\<And>s. P s \<Longrightarrow> wp m (\<lambda>r t. P t) s) \<Longrightarrow> keeps P m"
  by (simp add: keeps_def wp_def case_prod_beta)

lemma view_patch:
  assumes "\<And>x w. Q x (view w) \<Longrightarrow> Q x (view (snd (p x w)))"
  shows "keeps (on_view view Q) (patch_object p)"
  by (rule keeps_by_wp) (auto simp: wp_patch_object on_view_def intro: assms)

section \<open>The lookups\<close>

lemma quiet_reads:
  assumes "quiet_kube k view"
  shows "quiet view (Get_LatitudeMachine k key)" "quiet view (Get_LatitudeCluster k key)" "quiet view (Get_Secret k key)"
    "quiet view (List_LatitudeMachines k ns)" "quiet view (GetOwnerMachine k meta)"
    "quiet view (GetClusterFromMetadata k meta)"
  using assms by (auto simp: quiet_kube_def)

lemma view_getLatitudeCluster [keep_rules]: "quiet_kube k view \<Longrightarrow> keeps (on_view view Q) (getLatitudeCluster k)"
  unfolding getLatitudeCluster_def by (intro keep_rules quiet_reads)

lemma view_site_from_cluster [keep_rules]: "quiet_kube k view \<Longrightarrow> keeps (on_view view Q) (site_from_cluster k)"
  unfolding site_from_cluster_def by (intro keep_rules)

lemma view_control_plane_loop [keep_rules]:
  "quiet_kube k view \<Longrightarrow> keeps (on_view view Q) (control_plane_failed_loop k ms)"
proof (induction ms)
  case (Cons m ms)
  then show ?case unfolding control_plane_failed_loop.simps by (intro keep_rules quiet_reads)
qed (simp add: keeps_return)

lemma view_lookups [keep_rules]:
  assumes "quiet_kube k view"
  shows "keeps (on_view view Q) (getProjectID k)" "keeps (on_view view Q) (getSite k)"
    "keeps (on_view view Q) (getSSHKeys k)" "keeps (on_view view Q) (GetBootstrapData k sc)"
    "keeps (on_view view Q) (injectVLANConfig k u)" "keeps (on_view view Q) (checkControlPlaneFailed k)"
  unfolding getProjectID_def getSite_def getSSHKeys_def GetBootstrapData_def GetRawBootstrapData_def
    injectVLANConfig_def checkControlPlaneFailed_def Let_def
  by (intro keep_rules quiet_reads assms)+

lemma view_validate [keep_rules]: "quiet_kube k view \<Longrightarrow> keeps (on_view view Q) (validateMachineSpec k)"
  unfolding validateMachineSpec_def by (intro keep_rules)

section \<open>Sequencing\<close>

lemma view_wp:
  "keeps (on_view view Q) m \<Longrightarrow> on_view view Q s \<Longrightarrow> (\<And>r t. on_view view Q t \<Longrightarrow> R r t) \<Longrightarrow> wp m R s"
  by (rule wp_mono [OF keeps_wp])

lemma view_bind:
  assumes "keeps (on_view view Q) m" "on_view view Q s"
    and "\<And>t. on_view view Q t \<Longrightarrow> R Panic t" "\<And>x t. on_view view Q t \<Longrightarrow> wp (f x) R t"
  shows "wp (go_bind m f) R s"
  unfolding wp_bind by (rule view_wp [OF assms(1,2)]) (auto split: outcome.split intro: assms(3,4))

lemma view_then:
  assumes "keeps (on_view view Q) m" "on_view view Q s"
    and "\<And>t. on_view view Q t \<Longrightarrow> R Panic t" "\<And>t. on_view view Q t \<Longrightarrow> wp n R t"
  shows "wp (go_then m n) R s"
  unfolding go_then_def by (rule view_bind [OF assms(1,2)]) (auto intro: assms(3,4))

section \<open>A part of the world that a machine request leaves alone\<close>

definition quiet_machine_calls :: "('w, 'h) kube \<Rightarrow> 'w ClientInterface \<Rightarrow> ('w \<Rightarrow> 'v) \<Rightarrow> bool" where
  "quiet_machine_calls k api view \<longleftrightarrow>
     (\<forall>h lm. quiet view (Patch_LatitudeMachine k h lm)) \<and>
     (\<forall>r. quiet view (CreateUserData api r)) \<and> (\<forall>i. quiet view (DeleteUserData api i)) \<and>
     (\<forall>spec. quiet view (CreateServer api spec)) \<and> (\<forall>i. quiet view (GetServer api i)) \<and>
     (\<forall>i. quiet view (DeleteServer api i)) \<and> (\<forall>i v. quiet view (AttachServerToVLAN api i v))"

abbreviation still :: "('w \<Rightarrow> 'v) \<Rightarrow> 'v \<Rightarrow> ('w, 'o, 'c) st \<Rightarrow> bool" where
  "still view c \<equiv> on_view view (\<lambda>_ v. v = c)"

lemma still_calls:
  assumes "quiet_machine_calls k api view"
  shows "keeps (still view c) (call_CreateUserData api ureq)" "keeps (still view c) (call_DeleteUserData api i)"
    "keeps (still view c) (call_CreateServer api spec)" "keeps (still view c) (call_GetServer api i)"
    "keeps (still view c) (call_DeleteServer api i)" "keeps (still view c) (call_AttachServerToVLAN api i v)"
  using assms unfolding call_defs by (auto simp: quiet_machine_calls_def intro!: view_call)

lemma still_patch:
  "quiet_machine_calls k api view \<Longrightarrow> keeps (still view c) (patch_object (Patch_LatitudeMachine k h))"
  by (rule view_patch) (simp add: quiet_machine_calls_def quiet_def)

lemma still_set_object: "keeps (still view c) (set_object f)"
  by (rule view_set_object)

lemma still_writes:
  "keeps (still view c) (machine_setCondition k ty st re ms)" "keeps (still view c) (SetProviderID i)"
  "keeps (still view c) SetReady" "keeps (still view c) (setMachineFailed msg)"
  unfolding machine_setCondition_def SetProviderID_def SetReady_def setMachineFailed_def
  by (intro keep_rules still_set_object)+

lemma machine_body_still:
  assumes reads: "quiet_kube k view" and calls: "quiet_machine_calls k api view"
  shows "keeps (still view c) (machine_body k api h)"
proof -
  note rules = keep_rules still_calls [OF calls] still_patch [OF calls] still_set_object still_writes quiet_reads [OF reads] reads
  have attach: "keeps (still view c) (attachServerToVLAN k api)"
    unfolding attachServerToVLAN_def Let_def by (intro rules)
  have flow: "keeps (still view c) (create_server_flow k api sc h)" for sc
    unfolding create_server_flow_def ensure_user_data_def create_and_attach_def by (intro rules attach)
  have server: "keeps (still view c) (reconcileServer k api sc h)" for sc
    unfolding reconcileServer_def by (intro rules flow)
  have valid: "keeps (still view c) (reconcile_valid_machine k api sc h)" for sc
    unfolding reconcile_valid_machine_def mark_server_ready_def handle_server_error_def by (intro rules server)
  have normal: "keeps (still view c) (machine_reconcileNormal k api h)"
    unfolding machine_reconcileNormal_def fail_worker_def by (intro rules valid)
  have delete: "keeps (still view c) (machine_reconcileDelete k api)"
    unfolding machine_reconcileDelete_def release_machine_def Let_def by (intro rules)
  show ?thesis unfolding machine_body_def by (intro rules normal delete)
qed

lemma machine_request_still:
  assumes "quiet_kube k view" "quiet_machine_calls k api view"
  shows "view (Report_World (machine_Reconcile k api req w)) = view w"
proof -
  have get: "view (snd (Get_LatitudeMachine k req w)) = view w" using assms(1) by (simp add: quiet_kube_def quiet_def)
  have patch: "view (snd (Patch_LatitudeMachine k h lm w)) = view w" for h lm w
    using assms(2) by (simp add: quiet_machine_calls_def quiet_def)
  have body: "view (world t) = view w1" if "machine_body k api h (start w1 lm) = (r, t)" for h w1 lm r t
    using keepsD [OF machine_body_still [OF assms] _ that, of "view w1"] by (simp add: on_view_def)
  have "view (world (snd (with_deferred_patch (Patch_LatitudeMachine k h) (machine_body k api h) (start w1 lm)))) = view w1"
    for h w1 lm
  proof -
    obtain r t where b: "machine_body k api h (start w1 lm) = (r, t)" by fastforce
    show ?thesis
      by (simp add: with_deferred_patch_state [where body = "machine_body k api h" and s = "start w1 lm", OF b] patch body [OF b])
  qed
  with get show ?thesis
    by (auto simp: machine_Reconcile_def no_calls_def report_def split: prod.split sum.split)
qed

end
