(* ===== verification/Fairness.thy ===== *)
theory Fairness
  imports Prelude
begin

text \<open>
  Progress of several controllers that take turns. A schedule says whose turn it is; it is fair to one if its
  turn always comes again. A goal that is kept once reached is reached if a measure falls at that
  controller's turns and no other turn raises it.
\<close>

definition fair :: "(nat \<Rightarrow> 'a) \<Rightarrow> 'a \<Rightarrow> bool" where
  "fair sched a \<longleftrightarrow> (\<forall>n. \<exists>m \<ge> n. sched m = a)"

lemma fair_shift:
  assumes "fair sched a"
  shows "fair (\<lambda>n. sched (k + n)) a"
  unfolding fair_def
proof
  fix n
  from assms obtain m where "k + n \<le> m" "sched m = a" by (auto simp: fair_def)
  then have "n \<le> m - k \<and> sched (k + (m - k)) = a" by simp
  then show "\<exists>m \<ge> n. sched (k + m) = a" by blast
qed

lemma fair_next:
  assumes "fair sched a"
  obtains m where "sched (n + m) = a" "\<And>j. j < m \<Longrightarrow> sched (n + j) \<noteq> a"
proof -
  from assms obtain k where "n \<le> k" "sched k = a" by (auto simp: fair_def)
  then have "\<exists>m. sched (n + m) = a" by (metis le_add_diff_inverse)
  then have "sched (n + (LEAST m. sched (n + m) = a)) = a" by (rule LeastI_ex)
  then show thesis by (rule that) (rule not_less_Least)
qed

lemma kept: "(\<And>n. P (f n) \<Longrightarrow> P (f (Suc n))) \<Longrightarrow> P (f n) \<Longrightarrow> n \<le> m \<Longrightarrow> P (f m)"
  by (induction m rule: nat_induct) (auto simp: le_Suc_eq)

lemma fair_progress:
  fixes run :: "nat \<Rightarrow> 'w" and meas :: "'w \<Rightarrow> 'm"
  assumes fair: "fair sched a" and wf: "wf R"
    and stable: "\<And>n. P (run n) \<Longrightarrow> P (run (Suc n))"
    and turn: "\<And>n. \<not> P (run n) \<Longrightarrow> sched n = a \<Longrightarrow> P (run (Suc n)) \<or> (meas (run (Suc n)), meas (run n)) \<in> R"
    and other: "\<And>n. \<not> P (run n) \<Longrightarrow> sched n \<noteq> a \<Longrightarrow> P (run (Suc n)) \<or> meas (run (Suc n)) = meas (run n)"
  shows "\<exists>n. \<forall>m \<ge> n. P (run m)"
proof -
  have "\<exists>m \<ge> n. P (run m)" for n
  proof (induction "meas (run n)" arbitrary: n rule: wf_induct_rule [OF wf])
    case (1 n)
    obtain m where m: "sched (n + m) = a" "\<And>j. j < m \<Longrightarrow> sched (n + j) \<noteq> a"
      by (rule fair_next [OF fair, of n]) blast
    show ?case
    proof (cases "\<exists>j \<le> Suc m. P (run (n + j))")
      case True
      then show ?thesis by (metis le_add1)
    next
      case False
      then have no: "\<not> P (run (n + j))" if "j \<le> Suc m" for j using that by blast
      have "meas (run (n + j)) = meas (run n)" if "j \<le> m" for j
        using that
      proof (induction j)
        case (Suc j)
        then show ?case using other [of "n + j"] no [of j] no [of "Suc j"] m(2) [of j] by simp
      qed simp
      then have "(meas (run (Suc (n + m))), meas (run n)) \<in> R"
        using turn [of "n + m"] no [of m] no [of "Suc m"] m(1) by simp
      from 1 [OF this] show ?thesis by (meson Suc_leD le_add1 order_trans)
    qed
  qed
  then obtain n where "P (run n)" by blast
  then show ?thesis using kept [of P run n] stable by blast
qed

end
