(* ===== verification/Convergence.thy ===== *)
theory Convergence
  imports Provisioning Publication Cluster_Properties Views Fairness
begin

text \<open>
  The two controllers together. They take turns in any order that is fair to both, over a world that holds
  one machine and its cluster, in an environment that cooperates: then the machine becomes ready, the
  cluster becomes ready, and the cluster's endpoint becomes the address the machine published, for good.
\<close>

section \<open>Turns\<close>

datatype turn = Machine_Turn | Cluster_Turn

primrec take_turn :: "('w, 'h) kube \<Rightarrow> 'w ClientInterface \<Rightarrow> ObjectKey \<Rightarrow> ObjectKey \<Rightarrow> turn \<Rightarrow> 'w \<Rightarrow> 'w" where
  "take_turn k api mreq creq Machine_Turn w = Report_World (machine_Reconcile k api mreq w)"
| "take_turn k api mreq creq Cluster_Turn w = Report_World (cluster_Reconcile k api creq w)"

primrec turns :: "('w, 'h) kube \<Rightarrow> 'w ClientInterface \<Rightarrow> ObjectKey \<Rightarrow> ObjectKey \<Rightarrow> (nat \<Rightarrow> turn) \<Rightarrow> 'w \<Rightarrow> nat \<Rightarrow> 'w" where
  "turns k api mreq creq sched w 0 = w"
| "turns k api mreq creq sched w (Suc n) = take_turn k api mreq creq (sched n) (turns k api mreq creq sched w n)"

lemma turns_add: "turns k api mreq creq sched w (n + m) =
    turns k api mreq creq (\<lambda>i. sched (n + i)) (turns k api mreq creq sched w n) m"
  by (induction m) simp_all

section \<open>The environment\<close>

text \<open>
  Beside what the machine controller needs: the cluster has an owner and is stored by its patch (nobody
  changes its spec), neither controller's patch touches the other's object, and the first control plane
  machine of the cluster refers to the machine.
\<close>

definition joint_kube ::
  "('w, 'h) kube \<Rightarrow> ObjectKey \<Rightarrow> ('w \<Rightarrow> LatitudeMachine) \<Rightarrow> ('w \<Rightarrow> nat) \<Rightarrow> Machine \<Rightarrow> ('w \<Rightarrow> LatitudeCluster) \<Rightarrow> bool" where
  "joint_kube k mreq stored boots owner cluster \<longleftrightarrow>
     cooperative_kube k mreq stored boots owner cluster \<and> quiet_kube k cluster \<and>
     (\<forall>h lm. quiet cluster (Patch_LatitudeMachine k h lm)) \<and>
     (\<forall>meta w. \<exists>c. GetOwnerCluster k meta w = (Inr (Some c), w)) \<and>
     (\<forall>lc. \<exists>h. NewHelper_LatitudeCluster k lc = Inr h) \<and>
     (\<forall>h lc. quiet stored (Patch_LatitudeCluster k h lc) \<and> quiet boots (Patch_LatitudeCluster k h lc)) \<and>
     (\<forall>h lc w. lc_spec lc = lc_spec (cluster w) \<longrightarrow> cluster (snd (Patch_LatitudeCluster k h lc w)) = lc) \<and>
     (\<forall>ns name w. \<exists>items m. List_Machines k ns name w = (Inr items, w) \<and>
        find (IsControlPlaneMachine k) items = Some m \<and> ObjectReference_Name (Machine_InfrastructureRef m) \<noteq> [] \<and>
        mreq = \<lparr>ObjectKey_Namespace = ObjectReference_Namespace (Machine_InfrastructureRef m),
          ObjectKey_Name = ObjectReference_Name (Machine_InfrastructureRef m)\<rparr>)"

text \<open>
  The API serves both: no call touches the stored objects, the location of the cluster is on offer, VLANs
  are created and found, and a server that is up has an address.
\<close>

definition joint_api ::
  "'w ClientInterface \<Rightarrow> ('w \<Rightarrow> LatitudeMachine) \<Rightarrow> ('w \<Rightarrow> nat) \<Rightarrow> ('w \<Rightarrow> LatitudeCluster) \<Rightarrow> bool" where
  "joint_api api stored boots cluster \<longleftrightarrow>
     cooperative_api api boots \<and>
     (\<forall>r. quiet cluster (CreateUserData api r)) \<and> (\<forall>i. quiet cluster (DeleteUserData api i)) \<and>
     (\<forall>spec. quiet cluster (CreateServer api spec)) \<and> (\<forall>i. quiet cluster (GetServer api i)) \<and>
     (\<forall>i. quiet cluster (DeleteServer api i)) \<and> (\<forall>i v. quiet cluster (AttachServerToVLAN api i v)) \<and>
     (\<forall>srv. answered api srv \<longrightarrow> endpoint_address (server_addresses srv) \<noteq> []) \<and>
     (let town = (\<lambda>w. (stored w, boots w, cluster w)) in
      quiet town (GetAvailableRegions api) \<and> (\<forall>r. quiet town (CreateVLAN api r)) \<and> (\<forall>i. quiet town (GetVLAN api i))) \<and>
     (\<forall>w. location_offered api w (cluster w)) \<and>
     (\<forall>r w. \<exists>v. fst (CreateVLAN api r w) = Ok (Inr v)) \<and> (\<forall>i w. \<exists>v. fst (GetVLAN api i w) = Ok (Inr v))"

section \<open>A cluster request\<close>

text \<open>What the environment looks like besides the object in hand.\<close>

definition town :: "('w \<Rightarrow> LatitudeMachine) \<Rightarrow> ('w \<Rightarrow> nat) \<Rightarrow> ('w \<Rightarrow> LatitudeCluster) \<Rightarrow> 'w \<Rightarrow> LatitudeMachine \<times> nat \<times> LatitudeCluster" where
  "town stored boots cluster w = (stored w, boots w, cluster w)"

definition same_endpoint :: "LatitudeCluster \<Rightarrow> LatitudeCluster \<Rightarrow> bool" where
  "same_endpoint a b \<longleftrightarrow>
     ClusterStatus_ControlPlaneEndpoint (lc_status b) = ClusterStatus_ControlPlaneEndpoint (lc_status a)"

lemma joint_api_quiet:
  assumes "joint_api api stored boots cluster"
  shows "quiet (town stored boots cluster) (GetAvailableRegions api)" "quiet (town stored boots cluster) (CreateVLAN api r)"
    "quiet (town stored boots cluster) (GetVLAN api i)"
  using assms unfolding joint_api_def town_def [abs_def] by (simp_all add: Let_def)

lemma joint_vlan:
  assumes api: "joint_api api stored boots cluster" and complete: "complete_cluster (object s)"
  shows "wp (reconcileVLAN api) (\<lambda>r t. r = Ok None \<and> as_before (object s) (object t) \<and> same_endpoint (object s) (object t) \<and>
    town stored boots cluster (world t) = town stored boots cluster (world s)) s"
proof -
  have create: "\<exists>v. fst (CreateVLAN api r w) = Ok (Inr v)" and get: "\<exists>v. fst (GetVLAN api i w) = Ok (Inr v)" for r i w
    using api unfolding joint_api_def by blast+
  note quiet = joint_api_quiet(2,3) [OF api, unfolded quiet_def, rule_format]
  obtain pr where pr: "ClusterSpec_ProjectRef (lc_spec (object s)) = Some pr"
    using complete by (auto simp: complete_cluster_def)
  have new: "wp (create_cluster_vlan api cfg) (\<lambda>r t. r = Ok None \<and> as_before (object s) (object t) \<and>
      same_endpoint (object s) (object t) \<and> town stored boots cluster (world t) = town stored boots cluster (world s)) u"
    if "object u = object s" "town stored boots cluster (world u) = town stored boots cluster (world s)" for cfg u
  proof -
    obtain v where "fst (CreateVLAN api \<lparr>CreateVLANRequest_ProjectID = ProjectRef_ProjectID pr,
        CreateVLANRequest_Site = ClusterSpec_Location (lc_spec (object s)),
        CreateVLANRequest_Subnet = vlan_request_description (object s) cfg,
        CreateVLANRequest_VID = VLANConfig_VID cfg\<rparr> (world u)) = Ok (Inr v)"
      using create by blast
    then show ?thesis
      using that pr by (simp add: create_cluster_vlan_def wp_rules quiet as_before_def same_endpoint_def)
  qed
  show ?thesis
  proof (cases "ClusterSpec_VLANConfig (lc_spec (object s))")
    case None
    then show ?thesis by (simp add: reconcileVLAN_def wp_rules as_before_def same_endpoint_def)
  next
    case (Some cfg)
    show ?thesis
    proof (cases "VLANConfig_ExistingVLANID cfg")
      case (Some e)
      obtain v where "fst (GetVLAN api e (world s)) = Ok (Inr v)" using get by blast
      then show ?thesis
        using Some \<open>ClusterSpec_VLANConfig (lc_spec (object s)) = Some cfg\<close>
        by (simp add: reconcileVLAN_def wp_rules as_before_def same_endpoint_def quiet)
    next
      case None
      show ?thesis
      proof (cases "ClusterStatus_VLANID (lc_status (object s))")
        case (Some i)
        obtain v where "fst (GetVLAN api i (world s)) = Ok (Inr v)" using get by blast
        then show ?thesis
          using Some None \<open>ClusterSpec_VLANConfig (lc_spec (object s)) = Some cfg\<close>
          by (simp add: reconcileVLAN_def wp_rules as_before_def same_endpoint_def quiet)
      qed (use None \<open>ClusterSpec_VLANConfig (lc_spec (object s)) = Some cfg\<close> new in
          \<open>simp add: reconcileVLAN_def wp_bind wp_get_object\<close>)
    qed
  qed
qed

lemma joint_infrastructure:
  assumes api: "joint_api api stored boots cluster" and complete: "complete_cluster (object s)"
    and stored: "cluster (world s) = object s"
  shows "wp (reconcileInfrastructure api) (\<lambda>r t. r = Ok None \<and> as_before (object s) (object t) \<and>
    same_endpoint (object s) (object t) \<and> town stored boots cluster (world t) = town stored boots cluster (world s)) s"
proof -
  have "location_offered api (world s) (cluster (world s))"
    using api unfolding joint_api_def by blast
  then obtain regions where regions: "fst (GetAvailableRegions api (world s)) = Ok (Inr regions)"
    "ClusterSpec_Location (lc_spec (object s)) \<in> set regions"
    by (auto simp: location_offered_def stored split: outcome.splits sum.splits)
  note quiet = joint_api_quiet(1) [OF api, unfolded quiet_def, rule_format]
  let ?u = "s\<lparr>world := snd (GetAvailableRegions api (world s)), calls := calls s @ [CallGetAvailableRegions]\<rparr>"
  have "wp (reconcileVLAN api) (\<lambda>r t. r = Ok None \<and> as_before (object s) (object t) \<and>
      same_endpoint (object s) (object t) \<and> town stored boots cluster (world t) = town stored boots cluster (world s)) ?u"
    using joint_vlan [OF api, of ?u] complete by (simp add: quiet)
  then have "wp (reconcileVLAN api) (\<lambda>r t. case r of
      Panic \<Rightarrow> False
    | Ok (Some err) \<Rightarrow> False
    | Ok None \<Rightarrow> as_before (object s) (object t) \<and>
        same_endpoint (object s) (object t) \<and> town stored boots cluster (world t) = town stored boots cluster (world s)) ?u"
    by (rule wp_mono) simp
  then show ?thesis
    using regions
    by (auto simp: reconcileInfrastructure_def wp_rules list_ex_iff split: outcome.splits option.splits elim!: wp_mono)
qed

text \<open>What a request does to a live cluster, given the machine it can see.\<close>

definition cluster_advances :: "('w, 'h) kube \<Rightarrow> LatitudeMachine \<Rightarrow> LatitudeCluster \<Rightarrow> LatitudeCluster \<Rightarrow> bool" where
  "cluster_advances k lm a b \<longleftrightarrow> cluster_has_finalizer k b \<and> lc_spec b = lc_spec a \<and>
     ObjectMeta_DeletionTimestamp (lc_meta b) = ObjectMeta_DeletionTimestamp (lc_meta a) \<and>
     (if \<not> cluster_has_finalizer k a then lc_status b = lc_status a
      else ClusterStatus_Ready (lc_status b) \<and>
        (if ClusterStatus_Ready (lc_status a) \<and> endpoint_host a = [] \<and> MachineStatus_Ready (lm_status lm)
         then endpoint_host b = endpoint_address (MachineStatus_Addresses (lm_status lm))
         else same_endpoint a b))"

definition publishable :: "LatitudeMachine \<Rightarrow> bool" where
  "publishable lm \<longleftrightarrow> (MachineStatus_Ready (lm_status lm) \<longrightarrow>
     endpoint_address (MachineStatus_Addresses (lm_status lm)) \<noteq> [])"

lemma joint_discover:
  assumes kube: "joint_kube k mreq stored boots owner cluster" and lm: "publishable (stored (world s))"
    and ready: "ClusterStatus_Ready (lc_status (object s))" and fin: "cluster_has_finalizer k (object s)"
  shows "wp (discover_endpoint k c) (\<lambda>r t. cluster_advances k (stored (world s)) (object s) (object t) \<and> world t = world s) s"
proof -
  obtain items m where list: "List_Machines k (ObjectMeta_Namespace (Cluster_ObjectMeta c))
      (ObjectMeta_Name (Cluster_ObjectMeta c)) (world s) = (Inr items, world s)"
    "find (IsControlPlaneMachine k) items = Some m" "ObjectReference_Name (Machine_InfrastructureRef m) \<noteq> []"
    "mreq = \<lparr>ObjectKey_Namespace = ObjectReference_Namespace (Machine_InfrastructureRef m),
          ObjectKey_Name = ObjectReference_Name (Machine_InfrastructureRef m)\<rparr>"
    using kube unfolding joint_kube_def by metis
  have get: "Get_LatitudeMachine k mreq (world s) = (Inr (stored (world s)), world s)"
    using kube unfolding joint_kube_def cooperative_kube_def by blast
  show ?thesis
    using list get lm ready fin
    by (auto simp: discover_endpoint_def setupControlPlaneEndpoint_def endpoint_from_machine_def Let_def wp_rules
        publishable_def cluster_advances_def same_endpoint_def cluster_has_finalizer_def)
qed

lemma complete_valid: "complete_cluster lc \<Longrightarrow> validateClusterSpec lc = None"
  by (auto simp: complete_cluster_def validateClusterSpec_def cluster_spec_errors_def)

lemma joint_cluster_normal:
  assumes kube: "joint_kube k mreq stored boots owner cluster" and api: "joint_api api stored boots cluster"
    and lm: "publishable (stored (world s))" and here: "cluster (world s) = object s"
  shows "wp (cluster_reconcileNormal k api c) (\<lambda>r t. cluster_advances k (stored (world s)) (object s) (object t) \<and>
    town stored boots cluster (world t) = town stored boots cluster (world s)) s"
proof (cases "cluster_has_finalizer k (object s)")
  case False
  have laws: "finalizer_laws k" using kube unfolding joint_kube_def cooperative_kube_def by blast
  with False show ?thesis
    by (simp add: cluster_reconcileNormal_def cluster_has_finalizer_def wp_rules cluster_advances_def finalizer_laws_def
        upd_lc_finalizers_def)
next
  case True
  have complete: "complete_cluster (object s)"
    using kube by (simp add: joint_kube_def cooperative_kube_def flip: here)
  have discover: "wp (discover_endpoint k c) (\<lambda>r u. cluster_advances k (stored (world s)) (object s) (object u) \<and>
      town stored boots cluster (world u) = town stored boots cluster (world s)) t"
    if t: "as_before (object s) (object t)" "same_endpoint (object s) (object t)"
      "town stored boots cluster (world t) = town stored boots cluster (world s)"
      and ready: "ClusterStatus_Ready (lc_status (object t))" for t
  proof -
    have "stored (world t) = stored (world s)" using t(3) by (simp add: town_def)
    moreover have "cluster_has_finalizer k (object t)"
      using t(1) True by (simp add: as_before_def cluster_has_finalizer_def)
    ultimately show ?thesis
      using joint_discover [OF kube, of t c] lm ready t True
      by (auto simp: cluster_advances_def as_before_def same_endpoint_def cluster_has_finalizer_def elim!: wp_mono)
  qed
  have rest: "wp (go_bind get_object (\<lambda>lc'. if \<not> ClusterStatus_Ready (lc_status lc') then
         go_then (set_object mark_cluster_ready)
         (go_then (cluster_setCondition k ClusterReadyCondition ConditionTrue ''ClusterReady''
            ''Cluster infrastructure is ready'')
         (go_return (done_result, None)))
       else discover_endpoint k c)) (\<lambda>r u. cluster_advances k (stored (world s)) (object s) (object u) \<and>
      town stored boots cluster (world u) = town stored boots cluster (world s)) t"
    if t: "as_before (object s) (object t)" "same_endpoint (object s) (object t)"
      "town stored boots cluster (world t) = town stored boots cluster (world s)" for t
  proof (cases "ClusterStatus_Ready (lc_status (object t))")
    case True
    then show ?thesis using discover [OF t True] by (simp add: wp_bind wp_get_object)
  next
    case False
    then show ?thesis
      using t True by (simp add: wp_rules cluster_advances_def as_before_def same_endpoint_def cluster_has_finalizer_def)
  qed
  show ?thesis
    unfolding cluster_reconcileNormal_def wp_bind [of get_object] wp_get_object outcome.case
    using True complete_valid [OF complete]
    by (simp add: cluster_has_finalizer_def wp_bind [of "reconcileInfrastructure api"])
      (rule wp_mono [OF joint_infrastructure [OF api complete here]], simp add: rest)
qed

lemma joint_cluster_turn:
  assumes kube: "joint_kube k mreq stored boots owner cluster" and api: "joint_api api stored boots cluster"
    and lm: "publishable (stored w)" and live: "ObjectMeta_DeletionTimestamp (lc_meta (cluster w)) = None"
    and w': "w' = take_turn k api mreq creq Cluster_Turn w"
  shows "stored w' = stored w" "boots w' = boots w" "cluster_advances k (stored w) (cluster w) (cluster w')"
proof -
  obtain c where owner: "GetOwnerCluster k (lc_meta (cluster w)) w = (Inr (Some c), w)"
    using kube unfolding joint_kube_def by blast
  obtain h where helper: "NewHelper_LatitudeCluster k (cluster w) = Inr h"
    using kube unfolding joint_kube_def by blast
  have get: "Get_LatitudeCluster k creq w = (Inr (cluster w), w)"
    using kube unfolding joint_kube_def cooperative_kube_def by blast
  have patch: "\<And>h lc. quiet stored (Patch_LatitudeCluster k h lc)" "\<And>h lc. quiet boots (Patch_LatitudeCluster k h lc)"
    "\<And>h lc w. lc_spec lc = lc_spec (cluster w) \<Longrightarrow> cluster (snd (Patch_LatitudeCluster k h lc w)) = lc"
    using kube unfolding joint_kube_def by blast+
  obtain r t where b: "cluster_body k api c (start w (cluster w)) = (r, t)" by fastforce
  have "cluster_body k api c (start w (cluster w)) = cluster_reconcileNormal k api c (start w (cluster w))"
    using live by (simp add: cluster_body_def go_defs)
  with b have "cluster_reconcileNormal k api c (start w (cluster w)) = (r, t)" by simp
  from wpD [OF joint_cluster_normal [OF kube api] this] lm
  have adv: "cluster_advances k (stored w) (cluster w) (object t)"
    and town: "town stored boots cluster (world t) = town stored boots cluster w" by simp_all
  have "w' = snd (Patch_LatitudeCluster k h (object t) (world t))"
    by (simp add: w' cluster_Reconcile_def get owner helper report_def
        with_deferred_patch_state [where body = "cluster_body k api c" and s = "start w (cluster w)", OF b])
  moreover have "lc_spec (object t) = lc_spec (cluster (world t))"
    using adv town by (simp add: cluster_advances_def town_def)
  ultimately show "stored w' = stored w" "boots w' = boots w" "cluster_advances k (stored w) (cluster w) (cluster w')"
    using patch adv town by (simp_all add: town_def quiet_def)
qed

section \<open>A machine request\<close>

lemma joint_machine_turn:
  assumes kube: "joint_kube k mreq stored boots owner cluster" and api: "joint_api api stored boots cluster"
    and lm: "provisionable (stored w)" and w': "w' = take_turn k api mreq creq Machine_Turn w"
  shows "cluster w' = cluster w" "provisionable (stored w')" "machine_step k api (stored w) (stored w')"
    "MachineStatus_Ready (lm_status (stored w')) \<or>
      ((phase k (stored w'), boots w'), phase k (stored w), boots w) \<in> less_than <*lex*> less_than"
proof -
  have k: "cooperative_kube k mreq stored boots owner cluster" and a: "cooperative_api api boots"
    using kube api by (simp_all add: joint_kube_def joint_api_def)
  have "quiet_machine_calls k api cluster" "quiet_kube k cluster"
    using kube api by (simp_all add: joint_kube_def joint_api_def quiet_machine_calls_def)
  then show "cluster w' = cluster w" by (simp add: w' machine_request_still)
  have step: "w' = Report_World (machine_Reconcile k api mreq w)" by (simp add: w')
  show "provisionable (stored w')" "MachineStatus_Ready (lm_status (stored w')) \<or>
      ((phase k (stored w'), boots w'), phase k (stored w), boots w) \<in> less_than <*lex*> less_than"
    using request_advances [OF k a lm step] by blast+
  obtain h where h: "stored w' = object (snd (machine_body k api h (start w (stored w))))"
    "NewHelper_LatitudeMachine k (stored w) = Inr h"
    unfolding step by (rule cooperative_request [OF k])
  have get: "Get_LatitudeMachine k mreq w = (Inr (stored w), w)"
    using k by (simp add: cooperative_kube_def)
  show "machine_step k api (stored w) (stored w')"
    by (rule step_request [OF get]) (simp add: report_calls get h Let_def)
qed

section \<open>Convergence\<close>

definition joint_inv :: "'w ClientInterface \<Rightarrow> LatitudeMachine \<Rightarrow> LatitudeCluster \<Rightarrow> bool" where
  "joint_inv api lm lc \<longleftrightarrow> provisionable lm \<and> backed api lm \<and> ObjectMeta_DeletionTimestamp (lc_meta lc) = None \<and>
     (endpoint_host lc \<noteq> [] \<longrightarrow> ClusterStatus_Ready (lc_status lc) \<and> MachineStatus_Ready (lm_status lm) \<and>
        endpoint_address (MachineStatus_Addresses (lm_status lm)) = endpoint_host lc)"

definition converged :: "LatitudeMachine \<Rightarrow> LatitudeCluster \<Rightarrow> bool" where
  "converged lm lc \<longleftrightarrow> MachineStatus_Ready (lm_status lm) \<and> ClusterStatus_Ready (lc_status lc) \<and>
     endpoint_host lc \<noteq> [] \<and> endpoint_address (MachineStatus_Addresses (lm_status lm)) = endpoint_host lc"

lemma backed_publishable: "joint_api api stored boots cluster \<Longrightarrow> backed api lm \<Longrightarrow> publishable lm"
  unfolding joint_api_def backed_def publishable_def by metis

lemma ready_machine_kept:
  assumes "machine_step k api a b" "MachineStatus_Ready (lm_status a)"
  shows "MachineStatus_Ready (lm_status b)" "MachineStatus_Addresses (lm_status b) = MachineStatus_Addresses (lm_status a)"
proof -
  have "settled_as a a" using assms(2) by (simp add: settled_as_def settled_def)
  with settled_run.conc.step_keeps [OF assms(1)] have "settled_as a b" by blast
  then have eq: "(lm_status b)\<lparr>MachineStatus_Conditions := []\<rparr> = (lm_status a)\<lparr>MachineStatus_Conditions := []\<rparr>"
    by (simp add: settled_as_def)
  from arg_cong [OF eq, of MachineStatus_Ready] arg_cong [OF eq, of MachineStatus_Addresses] assms(2)
  show "MachineStatus_Ready (lm_status b)" "MachineStatus_Addresses (lm_status b) = MachineStatus_Addresses (lm_status a)"
    by simp_all
qed

lemma joint_turn_inv:
  assumes kube: "joint_kube k mreq stored boots owner cluster" and api: "joint_api api stored boots cluster"
    and inv: "joint_inv api (stored w) (cluster w)" and w': "w' = take_turn k api mreq creq tn w"
  shows "joint_inv api (stored w') (cluster w')"
    and "MachineStatus_Ready (lm_status (stored w)) \<Longrightarrow> MachineStatus_Ready (lm_status (stored w'))"
    and "converged (stored w) (cluster w) \<Longrightarrow> converged (stored w') (cluster w')"
proof -
  have "joint_inv api (stored w') (cluster w') \<and>
    (MachineStatus_Ready (lm_status (stored w)) \<longrightarrow> MachineStatus_Ready (lm_status (stored w'))) \<and>
    (converged (stored w) (cluster w) \<longrightarrow> converged (stored w') (cluster w'))"
  proof (cases tn)
    case Machine_Turn
    have "provisionable (stored w)" using inv by (simp add: joint_inv_def)
    note m = joint_machine_turn [OF kube api this w' [unfolded Machine_Turn]]
    have "backed api (stored w')" using machine_step_backed [OF m(3)] inv by (simp add: joint_inv_def)
    with inv m(1,2) ready_machine_kept [OF m(3)] show ?thesis by (auto simp: joint_inv_def converged_def)
  next
    case Cluster_Turn
    have "publishable (stored w)" using backed_publishable [OF api] inv by (simp add: joint_inv_def)
    have live: "ObjectMeta_DeletionTimestamp (lc_meta (cluster w)) = None" using inv by (simp add: joint_inv_def)
    note c = joint_cluster_turn [OF kube api \<open>publishable (stored w)\<close> live w' [unfolded Cluster_Turn]]
    show ?thesis
      using inv c by (auto simp: joint_inv_def converged_def cluster_advances_def same_endpoint_def split: if_splits)
  qed
  then show "joint_inv api (stored w') (cluster w')"
    and "MachineStatus_Ready (lm_status (stored w)) \<Longrightarrow> MachineStatus_Ready (lm_status (stored w'))"
    and "converged (stored w) (cluster w) \<Longrightarrow> converged (stored w') (cluster w')"
    by blast+
qed

definition cluster_phase :: "('w, 'h) kube \<Rightarrow> LatitudeCluster \<Rightarrow> nat" where
  "cluster_phase k lc = (if \<not> cluster_has_finalizer k lc then 2 else if \<not> ClusterStatus_Ready (lc_status lc) then 1 else 0)"

lemma joint_cluster_progress:
  assumes kube: "joint_kube k mreq stored boots owner cluster" and api: "joint_api api stored boots cluster"
    and inv: "joint_inv api (stored w) (cluster w)" and ready: "MachineStatus_Ready (lm_status (stored w))"
    and w': "w' = take_turn k api mreq creq Cluster_Turn w" and no: "\<not> converged (stored w) (cluster w)"
  shows "converged (stored w') (cluster w') \<or> cluster_phase k (cluster w') < cluster_phase k (cluster w)"
proof -
  have pub: "publishable (stored w)" using backed_publishable [OF api] inv by (simp add: joint_inv_def)
  have live: "ObjectMeta_DeletionTimestamp (lc_meta (cluster w)) = None" using inv by (simp add: joint_inv_def)
  note c = joint_cluster_turn [OF kube api pub live w']
  show ?thesis
    using inv ready no c pub
    by (auto simp: joint_inv_def converged_def cluster_advances_def same_endpoint_def cluster_phase_def publishable_def
        split: if_splits)
qed

lemma turns_inv:
  assumes "joint_kube k mreq stored boots owner cluster" "joint_api api stored boots cluster"
    "joint_inv api (stored w) (cluster w)"
  shows "joint_inv api (stored (turns k api mreq creq sched w n)) (cluster (turns k api mreq creq sched w n))"
  by (induction n) (simp_all add: assms joint_turn_inv(1) [OF assms(1,2) _ refl] del: take_turn.simps)

lemma machine_turns_progress:
  assumes kube: "joint_kube k mreq stored boots owner cluster" and api: "joint_api api stored boots cluster"
    and inv: "joint_inv api (stored w) (cluster w)" and fair: "fair sched Machine_Turn"
  shows "\<exists>n. MachineStatus_Ready (lm_status (stored (turns k api mreq creq sched w n)))"
proof -
  let ?run = "turns k api mreq creq sched w"
  note I = turns_inv [OF kube api inv, of creq sched]
  have "\<exists>n. \<forall>m \<ge> n. MachineStatus_Ready (lm_status (stored (?run m)))"
  proof (rule fair_progress [OF fair, where run = ?run and P = "\<lambda>w. MachineStatus_Ready (lm_status (stored w))"
        and meas = "\<lambda>w. (phase k (stored w), boots w)" and R = "less_than <*lex*> less_than"])
    fix n
    show "MachineStatus_Ready (lm_status (stored (?run (Suc n))))" if "MachineStatus_Ready (lm_status (stored (?run n)))"
      using joint_turn_inv(2) [OF kube api I refl that] by simp
    show "MachineStatus_Ready (lm_status (stored (?run (Suc n)))) \<or>
        ((phase k (stored (?run (Suc n))), boots (?run (Suc n))), phase k (stored (?run n)), boots (?run n))
          \<in> less_than <*lex*> less_than" if "sched n = Machine_Turn"
      using joint_machine_turn(4) [OF kube api _ refl, of "?run n" creq] I [of n] that
      by (simp add: joint_inv_def)
    show "MachineStatus_Ready (lm_status (stored (?run (Suc n)))) \<or>
        (phase k (stored (?run (Suc n))), boots (?run (Suc n))) = (phase k (stored (?run n)), boots (?run n))"
      if "sched n \<noteq> Machine_Turn"
    proof -
      have "sched n = Cluster_Turn" using that by (cases "sched n") simp_all
      moreover have "publishable (stored (?run n))" "ObjectMeta_DeletionTimestamp (lc_meta (cluster (?run n))) = None"
        using backed_publishable [OF api] I [of n] by (simp_all add: joint_inv_def)
      ultimately show ?thesis
        using joint_cluster_turn(1,2) [OF kube api _ _ refl, of "?run n" creq] by simp
    qed
  qed (rule wf_lex_prod [OF wf_less_than wf_less_than])
  then show ?thesis by blast
qed

lemma cluster_turns_progress:
  assumes kube: "joint_kube k mreq stored boots owner cluster" and api: "joint_api api stored boots cluster"
    and inv: "joint_inv api (stored w) (cluster w)" and ready: "MachineStatus_Ready (lm_status (stored w))"
    and fair: "fair sched Cluster_Turn"
  shows "\<exists>n. \<forall>m \<ge> n. converged (stored (turns k api mreq creq sched w m)) (cluster (turns k api mreq creq sched w m))"
proof -
  let ?run = "turns k api mreq creq sched w"
  note I = turns_inv [OF kube api inv, of creq sched]
  have R: "MachineStatus_Ready (lm_status (stored (?run n)))" for n
  proof (induction n)
    case (Suc n)
    then show ?case using joint_turn_inv(2) [OF kube api I refl] by simp
  qed (simp add: ready)
  show ?thesis
  proof (rule fair_progress [OF fair, where run = ?run and P = "\<lambda>w. converged (stored w) (cluster w)"
        and meas = "\<lambda>w. cluster_phase k (cluster w)" and R = less_than])
    fix n
    show "converged (stored (?run (Suc n))) (cluster (?run (Suc n)))" if "converged (stored (?run n)) (cluster (?run n))"
      using joint_turn_inv(3) [OF kube api I refl that] by simp
    show "converged (stored (?run (Suc n))) (cluster (?run (Suc n))) \<or>
        (cluster_phase k (cluster (?run (Suc n))), cluster_phase k (cluster (?run n))) \<in> less_than"
      if "\<not> converged (stored (?run n)) (cluster (?run n))" "sched n = Cluster_Turn"
      using joint_cluster_progress [OF kube api I R refl that(1)] that(2) by simp
    show "converged (stored (?run (Suc n))) (cluster (?run (Suc n))) \<or>
        cluster_phase k (cluster (?run (Suc n))) = cluster_phase k (cluster (?run n))" if "sched n \<noteq> Cluster_Turn"
    proof -
      have "sched n = Machine_Turn" using that by (cases "sched n") simp_all
      moreover have "provisionable (stored (?run n))" using I [of n] by (simp add: joint_inv_def)
      ultimately show ?thesis using joint_machine_turn(1) [OF kube api _ refl, of "?run n" creq] by simp
    qed
  qed (rule wf_less_than)
qed

text \<open>
  C3: Convergence. The two controllers take turns in any order in which each one's turn always comes again,
  over a new machine with a complete spec and its new cluster, in an environment that cooperates. Then there
  is a point from which on the machine is ready, the cluster is ready, and the endpoint of the cluster is
  the address the machine publishes.
\<close>

theorem controllers_converge:
  assumes kube: "joint_kube k mreq stored boots owner cluster" and api: "joint_api api stored boots cluster"
    and machine: "provisionable (stored w)" "\<not> MachineStatus_Ready (lm_status (stored w))"
    and cluster: "ObjectMeta_DeletionTimestamp (lc_meta (cluster w)) = None" "endpoint_host (cluster w) = []"
    and fair: "fair sched Machine_Turn" "fair sched Cluster_Turn"
  shows "\<exists>n. \<forall>m \<ge> n. let w' = turns k api mreq creq sched w m in
    MachineStatus_Ready (lm_status (stored w')) \<and> ClusterStatus_Ready (lc_status (cluster w')) \<and>
    endpoint_host (cluster w') \<noteq> [] \<and>
    endpoint_host (cluster w') = endpoint_address (MachineStatus_Addresses (lm_status (stored w')))"
proof -
  let ?run = "turns k api mreq creq sched w"
  have inv: "joint_inv api (stored w) (cluster w)"
    using machine cluster by (simp add: joint_inv_def backed_def)
  obtain n where n: "MachineStatus_Ready (lm_status (stored (?run n)))"
    using machine_turns_progress [OF kube api inv fair(1)] by blast
  obtain m where m: "\<And>j. m \<le> j \<Longrightarrow> converged (stored (?run (n + j))) (cluster (?run (n + j)))"
    using cluster_turns_progress [OF kube api turns_inv [OF kube api inv] n fair_shift [OF fair(2), of n]]
    unfolding turns_add by blast
  have "converged (stored (?run j)) (cluster (?run j))" if "n + m \<le> j" for j
    using m [of "j - n"] that by simp
  then show ?thesis by (intro exI [of _ "n + m"]) (simp add: converged_def Let_def)
qed

text \<open>The bench with both objects; the spec of the cluster is fixed.\<close>

definition bench_cluster :: "bench \<Rightarrow> LatitudeCluster" where
  "bench_cluster w = (Bench_Cluster w)\<lparr>LatitudeCluster_Spec := lc_spec bench_lc\<rparr>"

definition joint_bench :: "(bench, unit) kube" where
  "joint_bench = cooperative_bench\<lparr>Get_LatitudeCluster := (\<lambda>key w. (Inr (bench_cluster w), w))\<rparr>"

lemma joint_bench_kube:
  "joint_kube joint_bench bench_key Bench_Machine (\<lambda>_. 0) bench_control_plane bench_cluster"
proof -
  have "cooperative_kube joint_bench bench_key Bench_Machine (\<lambda>_. 0) bench_control_plane bench_cluster"
    using cooperative_bench_kube
    by (auto simp: cooperative_kube_def joint_bench_def finalizer_laws_def complete_cluster_def bench_cluster_def)
  then show ?thesis
    by (simp add: joint_kube_def quiet_kube_def quiet_def joint_bench_def cooperative_bench_def bench_cluster_def
        bench_defs split: option.split)
qed

lemma bench_location_offered: "location_offered (mock_client zero_mock) w (bench_cluster w)"
  by (simp add: location_offered_def mock_client_def zero_mock_def or_else_def go_defs bench_cluster_def bench_lc_def
      NewLatitudeCluster_def Let_def)

lemma bench_servers_have_addresses:
  "answered (mock_client zero_mock) srv \<Longrightarrow> endpoint_address (server_addresses srv) \<noteq> []"
  by (auto simp: answered_def mock_client_def zero_mock_def or_else_def mock_server_def go_defs endpoint_address_def
      first_address_def server_addresses_def MachineInternalIP_def MachineExternalIP_def)

lemma bench_calls_quiet:
  "quiet v (CreateUserData (mock_client zero_mock) r)" "quiet v (DeleteUserData (mock_client zero_mock) i)"
  "quiet v (CreateServer (mock_client zero_mock) spec)" "quiet v (GetServer (mock_client zero_mock) i)"
  "quiet v (DeleteServer (mock_client zero_mock) i)" "quiet v (AttachServerToVLAN (mock_client zero_mock) i n)"
  "quiet v (GetAvailableRegions (mock_client zero_mock))" "quiet v (CreateVLAN (mock_client zero_mock) vr)"
  "quiet v (GetVLAN (mock_client zero_mock) i)"
  by (simp_all add: quiet_def mock_client_def zero_mock_def or_else_def mock_server_def go_defs)

lemma joint_bench_api: "joint_api (mock_client zero_mock) Bench_Machine (\<lambda>_. 0) bench_cluster"
  unfolding joint_api_def Let_def
  by (simp add: cooperative_bench_api bench_calls_quiet bench_location_offered bench_servers_have_addresses)
     (simp add: mock_client_def zero_mock_def or_else_def go_defs)

definition alternate :: "nat \<Rightarrow> turn" where
  "alternate n = (if even n then Machine_Turn else Cluster_Turn)"

lemma alternate_fair: "fair alternate t"
  unfolding fair_def
proof
  fix n
  show "\<exists>m \<ge> n. alternate m = t"
  proof (cases t)
    case Machine_Turn
    then show ?thesis by (intro exI [of _ "2 * n"]) (simp add: alternate_def)
  next
    case Cluster_Turn
    then show ?thesis by (intro exI [of _ "2 * n + 1"]) (simp add: alternate_def)
  qed
qed

theorem controllers_converge_witness:
  "\<exists>n. endpoint_host (bench_cluster (turns joint_bench (mock_client zero_mock) bench_key bench_key alternate
     ((bench_world (NewLatitudeMachine ''test-machine'' ''default'' ''c3-small-x86'' ''ubuntu_22_04''))
       \<lparr>Bench_Cluster := NewLatitudeCluster ''test-cluster'' ''default'' ''SAO'' ''proj-1''\<rparr>) n)) \<noteq> []"
proof -
  let ?w = "(bench_world (NewLatitudeMachine ''test-machine'' ''default'' ''c3-small-x86'' ''ubuntu_22_04''))
    \<lparr>Bench_Cluster := NewLatitudeCluster ''test-cluster'' ''default'' ''SAO'' ''proj-1''\<rparr>"
  have machine: "provisionable (Bench_Machine ?w)" "\<not> MachineStatus_Ready (lm_status (Bench_Machine ?w))"
    by (simp_all add: provisionable_def paused_def deleting_def bench_defs)
  have cluster: "ObjectMeta_DeletionTimestamp (lc_meta (bench_cluster ?w)) = None" "endpoint_host (bench_cluster ?w) = []"
    by (simp_all add: bench_cluster_def bench_defs)
  obtain n where "\<forall>m \<ge> n. let w' = turns joint_bench (mock_client zero_mock) bench_key bench_key alternate ?w m in
    MachineStatus_Ready (lm_status (Bench_Machine w')) \<and> ClusterStatus_Ready (lc_status (bench_cluster w')) \<and>
    endpoint_host (bench_cluster w') \<noteq> [] \<and>
    endpoint_host (bench_cluster w') = endpoint_address (MachineStatus_Addresses (lm_status (Bench_Machine w')))"
    using controllers_converge [where w = ?w and sched = alternate and creq = bench_key,
        OF joint_bench_kube joint_bench_api machine cluster alternate_fair alternate_fair]
    by (elim exE)
  then show ?thesis unfolding Let_def by blast
qed

end
