(* ===== verification/Fleet.thy ===== *)
theory Fleet
  imports Machine_Properties Views
begin

text \<open>
  The machine controller over a whole fleet: requests for any machines in any order, with edits, outages
  and objects that come and go in between. The outside world is seen through a ledger: the stored machines,
  the servers that run at Latitude.sh, and the server IDs that were ever given out.
\<close>

section \<open>The ledger\<close>

record ledger =
  Ledger_Machines :: "ObjectKey \<Rightarrow> LatitudeMachine"
  Ledger_Running :: "string set"
  Ledger_Used :: "string set"

abbreviation server_of :: "LatitudeMachine \<Rightarrow> string" where
  "server_of lm \<equiv> MachineStatus_ServerID (lm_status lm)"

definition machine_key :: "LatitudeMachine \<Rightarrow> ObjectKey" where
  "machine_key lm = \<lparr>ObjectKey_Namespace = ObjectMeta_Namespace (lm_meta lm),
     ObjectKey_Name = ObjectMeta_Name (lm_meta lm)\<rparr>"

definition store_machine :: "LatitudeMachine \<Rightarrow> ledger \<Rightarrow> ledger" where
  "store_machine lm v = v\<lparr>Ledger_Machines := (Ledger_Machines v)(machine_key lm := lm)\<rparr>"

definition start_server :: "string \<Rightarrow> ledger \<Rightarrow> ledger" where
  "start_server i v = v\<lparr>Ledger_Running := insert i (Ledger_Running v), Ledger_Used := insert i (Ledger_Used v)\<rparr>"

text \<open>
  The books over the recorded IDs and the finalizers: every running server is recorded at a machine that
  carries the finalizer, no two machines record the same server, and recorded IDs were given out. A key
  without an object is a machine without a server.
\<close>

definition books_ok :: "(ObjectKey \<Rightarrow> string) \<Rightarrow> (ObjectKey \<Rightarrow> bool) \<Rightarrow> string set \<Rightarrow> string set \<Rightarrow> bool" where
  "books_ok sid fin running used \<longleftrightarrow>
     (\<forall>i \<in> running. i \<noteq> [] \<and> (\<exists>key. sid key = i \<and> fin key)) \<and>
     inj_on sid {key. sid key \<noteq> []} \<and> (\<forall>key. sid key \<in> insert [] used)"

definition accounted :: "('w, 'h) kube \<Rightarrow> ledger \<Rightarrow> bool" where
  "accounted k v \<longleftrightarrow>
     books_ok (\<lambda>key. server_of (Ledger_Machines v key)) (\<lambda>key. has_finalizer k (Ledger_Machines v key))
       (Ledger_Running v) (Ledger_Used v) \<and>
     (\<forall>key. machine_key (Ledger_Machines v key) = key)"







section \<open>The object in hand\<close>

text \<open>What the books will say once the object in hand is stored, and what is known of it on the way.\<close>

definition booked :: "('w, 'h) kube \<Rightarrow> LatitudeMachine \<Rightarrow> ledger \<Rightarrow> bool" where
  "booked k x v \<longleftrightarrow> accounted k (store_machine x v)"



lemma machine_key_simps [simp]:
  "machine_key (set_server_id i lm) = machine_key lm" "machine_key (set_user_data_id i lm) = machine_key lm"
  "machine_key (upd_lm_status f lm) = machine_key lm" "machine_key (upd_lm_finalizers g lm) = machine_key lm"
  "machine_key (with_provider_id p lm) = machine_key lm" "machine_key (with_machine_failure msg lm) = machine_key lm"
  "machine_key (with_machine_condition k ty st re ms w lm) = machine_key lm"
  by (simp_all add: machine_key_def upd_lm_finalizers_def)

lemma has_finalizer_simps [simp]:
  "has_finalizer k (set_server_id i lm) = has_finalizer k lm"
  "has_finalizer k (set_user_data_id i lm) = has_finalizer k lm"
  "has_finalizer k (upd_lm_status f lm) = has_finalizer k lm"
  "has_finalizer k (with_provider_id p lm) = has_finalizer k lm"
  "has_finalizer k (with_machine_failure msg lm) = has_finalizer k lm"
  "has_finalizer k (with_machine_condition k' ty st re ms w lm) = has_finalizer k lm"
  by (simp_all add: has_finalizer_def)


lemma store_machine_again [simp]:
  "machine_key y = machine_key x \<Longrightarrow> store_machine y (store_machine x v) = store_machine y v"
  by (simp add: store_machine_def)




lemma booked_store [simp]: "booked k x (store_machine x v) = booked k x v"
  by (simp add: booked_def)






section \<open>The outside, as the ledger sees it\<close>


text \<open>
  Latitude.sh: a server that is created runs under an ID never given out before, and a creation that fails
  creates nothing; a lookup fails only for a server that does not run, and otherwise answers the server
  asked for; a deletion that succeeds ends the server, one that fails may or may not. Nothing else touches
  the ledger.
\<close>

definition honest_create :: "'w ClientInterface \<Rightarrow> ('w \<Rightarrow> ledger) \<Rightarrow> bool" where
  "honest_create api view \<longleftrightarrow>
     (\<forall>spec w. case fst (CreateServer api spec w) of
        Ok (Inr srv) \<Rightarrow> Server_ID srv \<noteq> [] \<and> Server_ID srv \<notin> Ledger_Used (view w) \<and>
          view (snd (CreateServer api spec w)) = start_server (Server_ID srv) (view w)
      | Ok (Inl err) \<Rightarrow> view (snd (CreateServer api spec w)) = view w
      | Panic \<Rightarrow> view (snd (CreateServer api spec w)) = view w)"

definition honest_lookup :: "'w ClientInterface \<Rightarrow> ('w \<Rightarrow> ledger) \<Rightarrow> bool" where
  "honest_lookup api view \<longleftrightarrow>
     (\<forall>i. quiet view (GetServer api i)) \<and>
     (\<forall>i w. case fst (GetServer api i w) of
        Ok (Inr srv) \<Rightarrow> Server_ID srv = i
      | Ok (Inl err) \<Rightarrow> i \<notin> Ledger_Running (view w)
      | Panic \<Rightarrow> True)"

definition honest_delete :: "'w ClientInterface \<Rightarrow> ('w \<Rightarrow> ledger) \<Rightarrow> bool" where
  "honest_delete api view \<longleftrightarrow>
     (\<forall>i w. \<exists>running. view (snd (DeleteServer api i w)) = (view w)\<lparr>Ledger_Running := running\<rparr> \<and>
        running \<subseteq> Ledger_Running (view w) \<and> (fst (DeleteServer api i w) = Ok None \<longrightarrow> i \<notin> running))"

definition fleet_api :: "'w ClientInterface \<Rightarrow> ('w \<Rightarrow> ledger) \<Rightarrow> bool" where
  "fleet_api api view \<longleftrightarrow> honest_create api view \<and> honest_lookup api view \<and> honest_delete api view \<and>
     (\<forall>r. quiet view (CreateUserData api r)) \<and> (\<forall>i. quiet view (DeleteUserData api i)) \<and>
     (\<forall>i v. quiet view (AttachServerToVLAN api i v))"

text \<open>What is true of the books survives writes elsewhere in the object, and storing it.\<close>

definition steady :: "('w, 'h) kube \<Rightarrow> (LatitudeMachine \<Rightarrow> ledger \<Rightarrow> bool) \<Rightarrow> bool" where
  "steady k Q \<longleftrightarrow>
     (\<forall>x y v. Q x v \<longrightarrow> machine_key y = machine_key x \<longrightarrow> server_of y = server_of x \<longrightarrow>
        has_finalizer k y = has_finalizer k x \<longrightarrow> Q y v) \<and>
     (\<forall>x v. Q x v \<longrightarrow> Q x (store_machine x v))"



lemma steady_write:
  "steady k Q \<Longrightarrow> Q x v \<Longrightarrow> machine_key y = machine_key x \<Longrightarrow> server_of y = server_of x \<Longrightarrow>
   has_finalizer k y = has_finalizer k x \<Longrightarrow> Q y v"
  unfolding steady_def by blast


lemma steady_set_object:
  "steady k Q \<Longrightarrow> (\<And>x. machine_key (f x) = machine_key x) \<Longrightarrow> (\<And>x. server_of (f x) = server_of x) \<Longrightarrow>
   (\<And>x. has_finalizer k (f x) = has_finalizer k x) \<Longrightarrow> keeps (on_view view Q) (set_object f)"
  by (auto simp: keeps_def go_defs on_view_def intro: steady_write)


section \<open>One request keeps the books\<close>

lemma fleet_api_quiet:
  assumes "fleet_api api view"
  shows "quiet view (GetServer api i)" "quiet view (CreateUserData api ureq)"
    "quiet view (DeleteUserData api i)" "quiet view (AttachServerToVLAN api i v)"
  using assms by (auto simp: fleet_api_def honest_lookup_def)




lemma steady_api [keep_rules]:
  assumes "fleet_api api view"
  shows "keeps (on_view view Q) (call_GetServer api i)" "keeps (on_view view Q) (call_CreateUserData api ureq)"
    "keeps (on_view view Q) (call_DeleteUserData api i)" "keeps (on_view view Q) (call_AttachServerToVLAN api i v)"
  unfolding call_defs by (rule view_call, rule fleet_api_quiet [OF assms])+
























section \<open>The fleet over time\<close>

text \<open>
  Steps of the outside world: a request for any machine; an edit of a machine that leaves its status and
  its finalizer (a deletion request, for one); an object that goes away once the finalizer is off, or one that comes;
  servers that end on their own; and whatever does not touch the ledger (the cluster controller, say).
\<close>

inductive fleet_step ::
  "('w, 'h) kube \<Rightarrow> 'w ClientInterface \<Rightarrow> ('w \<Rightarrow> ledger) \<Rightarrow> 'w \<Rightarrow> 'w \<Rightarrow> bool"
  for k :: "('w, 'h) kube" and api :: "'w ClientInterface" and view :: "'w \<Rightarrow> ledger" where
  fleet_request: "fleet_step k api view w (Report_World (machine_Reconcile k api req w))"
| fleet_edit: "\<lbrakk>lm = Ledger_Machines (view w) key; machine_key lm' = key; lm_status lm' = lm_status lm;
      has_finalizer k lm' = has_finalizer k lm; view w' = store_machine lm' (view w)\<rbrakk> \<Longrightarrow>
    fleet_step k api view w w'"
| fleet_replace: "\<lbrakk>\<not> has_finalizer k (Ledger_Machines (view w) key); machine_key lm' = key; server_of lm' = [];
      view w' = store_machine lm' (view w)\<rbrakk> \<Longrightarrow>
    fleet_step k api view w w'"
| fleet_outage: "\<lbrakk>running \<subseteq> Ledger_Running (view w); view w' = (view w)\<lparr>Ledger_Running := running\<rparr>\<rbrakk> \<Longrightarrow>
    fleet_step k api view w w'"
| fleet_other: "view w' = view w \<Longrightarrow> fleet_step k api view w w'"




















end
