(* ===== verification/Schema.thy ===== *)
theory Schema
  imports Publication Views Cluster_Properties
begin

text \<open>
  The types of the custom resource definitions (\<open>config/crd/bases\<close>) as predicates on the status of both
  resources, and that the two controllers hand the API server no status that its schema rejects.
\<close>

section \<open>The schema\<close>

definition is_letter :: "char \<Rightarrow> bool" where
  "is_letter c \<longleftrightarrow> byte_of c \<in> {65..90} \<or> byte_of c \<in> {97..122}"

definition is_word :: "char \<Rightarrow> bool" where
  "is_word c \<longleftrightarrow> is_letter c \<or> is_digit c \<or> c = CHR ''_''"

text \<open>\<open>^[A-Za-z]([A-Za-z0-9_,:]*[A-Za-z0-9_])?$\<close>, at most 1024 characters long.\<close>

definition reason_fits :: "string \<Rightarrow> bool" where
  "reason_fits r \<longleftrightarrow> r \<noteq> [] \<and> is_letter (hd r) \<and> is_word (last r) \<and>
     list_all (\<lambda>c. is_word c \<or> c = CHR '','' \<or> c = CHR '':'') r \<and> length r \<le> 1024"

text \<open>\<open>([A-Za-z0-9][-A-Za-z0-9_.]*)?[A-Za-z0-9]\<close>, the form of a type without a domain, at most 316 long.\<close>

definition type_fits :: "string \<Rightarrow> bool" where
  "type_fits t \<longleftrightarrow> t \<noteq> [] \<and> (is_letter (hd t) \<or> is_digit (hd t)) \<and> (is_letter (last t) \<or> is_digit (last t)) \<and>
     list_all (\<lambda>c. is_word c \<or> c = CHR ''-'' \<or> c = CHR ''.'') t \<and> length t \<le> 316"

definition condition_fits :: "Condition \<Rightarrow> bool" where
  "condition_fits c \<longleftrightarrow> type_fits (Condition_Type c) \<and> reason_fits (Condition_Reason c)"

definition address_types :: "string set" where
  "address_types = {''Hostname'', ''ExternalIP'', ''InternalIP'', ''ExternalDNS'', ''InternalDNS''}"

definition address_fits :: "MachineAddress \<Rightarrow> bool" where
  "address_fits a \<longleftrightarrow> MachineAddress_Type a \<in> address_types \<and>
     MachineAddress_Address a \<noteq> [] \<and> length (MachineAddress_Address a) \<le> 256"

definition machine_fits :: "LatitudeMachine \<Rightarrow> bool" where
  "machine_fits lm \<longleftrightarrow> list_all condition_fits (machine_GetConditions lm) \<and>
     list_all address_fits (MachineStatus_Addresses (lm_status lm))"

definition cluster_fits :: "LatitudeCluster \<Rightarrow> bool" where
  "cluster_fits lc \<longleftrightarrow> list_all condition_fits (cluster_GetConditions lc)"

text \<open>What a server that is up must look like for its addresses to be storable.\<close>

definition server_fits :: "Server \<Rightarrow> bool" where
  "server_fits srv \<longleftrightarrow> list_all (\<lambda>ip. ip \<noteq> [] \<and> length ip \<le> 256) (Server_IPAddress srv) \<and>
     length (Server_Hostname srv) \<le> 256"

lemma server_addresses_fit: "server_fits srv \<Longrightarrow> list_all address_fits (server_addresses srv)"
  by (auto simp: server_fits_def server_addresses_def address_fits_def address_types_def list_all_iff
      MachineExternalIP_def MachineHostName_def)

section \<open>The constants\<close>

lemma types_fit [simp]: "type_fits InstanceReadyCondition" "type_fits ClusterReadyCondition"
  by (simp_all add: type_fits_def InstanceReadyCondition_def ClusterReadyCondition_def is_word_def is_letter_def
      is_digit_def byte_of_def)

lemma reasons_fit [simp]:
  "reason_fits ''InstanceReady''" "reason_fits InstanceProvisionFailedReason" "reason_fits InstanceNotReadyReason"
  "reason_fits InstanceDeletionFailedReason" "reason_fits ''ClusterReady''" "reason_fits InvalidClusterConfigReason"
  "reason_fits ClusterProvisionFailedReason" "reason_fits ClusterDeletionFailedReason"
  "reason_fits ControlPlaneEndpointSetReason"
  by (simp_all add: reason_fits_def is_word_def is_letter_def is_digit_def byte_of_def InstanceProvisionFailedReason_def
      InstanceNotReadyReason_def InstanceDeletionFailedReason_def InvalidClusterConfigReason_def
      ClusterProvisionFailedReason_def ClusterDeletionFailedReason_def ControlPlaneEndpointSetReason_def)

section \<open>The writes\<close>

lemma machine_set_conditions_fit:
  "condition_fits c \<Longrightarrow> list_all condition_fits cs \<Longrightarrow> list_all condition_fits (machine_set_conditions c t cs)"
  by (induction c t cs rule: machine_set_conditions.induct) (auto simp: condition_fits_def Let_def)

lemma cluster_set_conditions_fit:
  "condition_fits c \<Longrightarrow> list_all condition_fits cs \<Longrightarrow> list_all condition_fits (cluster_set_conditions c t cs)"
  by (induction c t cs rule: cluster_set_conditions.induct) (auto simp: condition_fits_def)

lemma machine_condition_fits:
  "type_fits ty \<Longrightarrow> reason_fits re \<Longrightarrow> machine_fits lm \<Longrightarrow> machine_fits (with_machine_condition k ty st re ms w lm)"
  by (simp add: machine_fits_def with_machine_condition_def machine_set_conditions_fit condition_fits_def)

lemma cluster_condition_fits:
  "type_fits ty \<Longrightarrow> reason_fits re \<Longrightarrow> cluster_fits lc \<Longrightarrow> cluster_fits (with_cluster_condition k ty st re ms w lc)"
  by (simp add: cluster_fits_def with_cluster_condition_def cluster_set_conditions_fit condition_fits_def)

lemma machine_writes_fit:
  "machine_fits (set_server_id i lm) = machine_fits lm" "machine_fits (set_user_data_id i lm) = machine_fits lm"
  "machine_fits (upd_lm_finalizers f lm) = machine_fits lm" "machine_fits (with_machine_failure msg lm) = machine_fits lm"
  "machine_fits (with_provider_id i lm) = machine_fits lm"
  "machine_fits (upd_lm_status (\<lambda>st. st\<lparr>MachineStatus_Ready := b\<rparr>) lm) = machine_fits lm"
  "list_all address_fits as \<Longrightarrow> machine_fits lm \<Longrightarrow> machine_fits (upd_lm_status (\<lambda>st. st\<lparr>MachineStatus_Addresses := as\<rparr>) lm)"
  by (simp_all add: machine_fits_def set_server_id_def set_user_data_id_def upd_lm_finalizers_def
      with_machine_failure_def with_provider_id_def upd_lm_status_def machine_GetConditions_def)

lemma cluster_writes_fit:
  "cluster_fits (set_vlan_id i lc) = cluster_fits lc" "cluster_fits (set_vlan_vid v lc) = cluster_fits lc"
  "cluster_fits (upd_lc_finalizers f lc) = cluster_fits lc" "cluster_fits (set_endpoint h lc) = cluster_fits lc"
  "cluster_fits (mark_cluster_ready lc) = cluster_fits lc"
  by (simp_all add: cluster_fits_def set_vlan_id_def set_vlan_vid_def upd_lc_finalizers_def set_endpoint_def
      mark_cluster_ready_def upd_lc_status_def cluster_GetConditions_def)

section \<open>A machine request\<close>

text \<open>An operation whose result is known, before one that depends on it.\<close>

lemma keeps_bind_result:
  assumes "keeps P m" "\<And>s. wp m (\<lambda>r t. \<forall>x. r = Ok x \<longrightarrow> R x) s" "\<And>x. R x \<Longrightarrow> keeps P (f x)"
  shows "keeps P (go_bind m f)"
proof (rule keeps_by_wp)
  fix s
  assume "P s"
  show "wp (go_bind m f) (\<lambda>r t. P t) s"
    unfolding wp_bind
    by (rule wp_mono [OF wp_conj [OF keeps_wp [OF assms(1) \<open>P s\<close>] assms(2)]])
      (auto split: outcome.split intro: keeps_wp assms(3))
qed

lemma fits_ensure_user_data [keep_rules]: "keeps (good machine_fits) (ensure_user_data k api h u)"
  unfolding ensure_user_data_def by (intro keep_rules) (simp add: machine_writes_fit)

lemma fits_create [keep_rules]: "keeps (good machine_fits) (create_and_attach k api h u)"
  unfolding create_and_attach_def by (intro keep_rules) (simp add: machine_writes_fit)

lemma fits_flow [keep_rules]: "keeps (good machine_fits) (create_server_flow k api sc h)"
  unfolding create_server_flow_def by (intro keep_rules)

lemma fits_reconcileServer [keep_rules]: "keeps (good machine_fits) (reconcileServer k api sc h)"
  unfolding reconcileServer_def by (intro keep_rules) (simp add: machine_writes_fit)

lemma fits_failures [keep_rules]:
  "keeps (good machine_fits) (handle_server_error k err)" "keeps (good machine_fits) (fail_worker k)"
  unfolding handle_server_error_def fail_worker_def setMachineFailed_def
  by (intro keep_rules; simp add: machine_writes_fit machine_condition_fits)+

lemma fits_mark_ready: "server_fits srv \<Longrightarrow> keeps (good machine_fits) (mark_server_ready k srv)"
  unfolding mark_server_ready_def SetProviderID_def SetReady_def
  by (intro keep_rules) (simp_all add: machine_writes_fit machine_condition_fits server_addresses_fit)

text \<open>A server that \<open>reconcileServer\<close> returns is an answer of the API.\<close>

lemma reconcileServer_answered:
  "wp (reconcileServer k api sc h) (\<lambda>r t. \<forall>x. r = Ok x \<longrightarrow> (\<forall>srv. x = Inr (Some srv) \<longrightarrow> answered api srv)) s"
proof -
  have up: "answered api srv" if "fst (GetServer api i w) = Ok (Inr srv)" "server_is_ready srv" for i w srv
    using that unfolding answered_def by (metis prod.collapse)
  show ?thesis
    by (auto simp: reconcileServer_def wp_rules split: outcome.split sum.split
        intro!: wp_mono [OF create_server_flow_returns] up)
qed

text \<open>Every server the API answers as up has addresses that can be stored.\<close>

definition servers_fit :: "'w ClientInterface \<Rightarrow> bool" where
  "servers_fit api \<longleftrightarrow> (\<forall>srv. answered api srv \<longrightarrow> server_fits srv)"

lemma fits_valid [keep_rules]:
  assumes "servers_fit api"
  shows "keeps (good machine_fits) (reconcile_valid_machine k api sc h)"
  unfolding reconcile_valid_machine_def
proof (rule keeps_bind [OF good_lookups(5)], rule keeps_option, goal_cases)
  case 1
  show ?case
  proof (rule keeps_bind_result [OF fits_reconcileServer reconcileServer_answered])
    fix res :: "go_error + Server option"
    assume "\<forall>srv. res = Inr (Some srv) \<longrightarrow> answered api srv"
    with assms show "keeps (good machine_fits) (case res of
        Inl err \<Rightarrow> handle_server_error k err
      | Inr None \<Rightarrow> go_then (machine_setCondition k InstanceReadyCondition ConditionFalse InstanceNotReadyReason
          ''Server is being provisioned'') (go_return (requeue_after 30, None))
      | Inr (Some server) \<Rightarrow> mark_server_ready k server)"
      by (auto simp: servers_fit_def machine_condition_fits split: sum.split option.split
          intro!: keeps_then good_condition keeps_return fits_failures fits_mark_ready)
  qed
next
  case (2 err)
  show ?case by (intro keep_rules) (simp add: machine_condition_fits)
qed

lemma fits_normal [keep_rules]: "servers_fit api \<Longrightarrow> keeps (good machine_fits) (machine_reconcileNormal k api h)"
  unfolding machine_reconcileNormal_def by (intro keep_rules) (simp_all add: machine_writes_fit)

lemma fits_delete [keep_rules]: "keeps (good machine_fits) (machine_reconcileDelete k api)"
  unfolding machine_reconcileDelete_def release_machine_def Let_def
  by (intro keep_rules) (simp_all add: machine_writes_fit machine_condition_fits)

lemma fits_body:
  assumes "servers_fit api" "machine_fits lm"
  shows "good machine_fits (snd (machine_body k api h (start w lm)))"
proof -
  have "keeps (good machine_fits) (machine_body k api h)"
    unfolding machine_body_def by (intro keep_rules assms)
  with assms(2) show ?thesis by (simp add: keeps_def)
qed

lemma machine_step_fits:
  assumes "machine_step k api a b" and "servers_fit api" and "machine_fits a"
  shows "machine_fits b"
  using assms(1)
proof cases
  case (step_request req w w1)
  then show ?thesis
    using fits_body [OF assms(2,3), of k]
    by (auto simp: report_calls good_def Let_def split: sum.splits)
next
  case step_edit
  then show ?thesis using assms(3) by (simp add: machine_fits_def machine_GetConditions_def)
qed

section \<open>A cluster request\<close>

lemma good_cluster_condition [keep_rules]:
  assumes "\<And>x t. P x \<Longrightarrow> P (with_cluster_condition k ty st re ms t x)"
  shows "keeps (good P) (cluster_setCondition k ty st re ms)"
  unfolding keeps_def using assms wp_cluster_setCondition [of k ty st re ms "\<lambda>r t. good P t"]
  by (simp add: wp_def case_prod_beta good_def)

lemma fits_vlan [keep_rules]: "keeps (good cluster_fits) (reconcileVLAN api)"
  unfolding reconcileVLAN_def create_cluster_vlan_def by (intro keep_rules; simp add: cluster_writes_fit)

lemma fits_infrastructure [keep_rules]: "keeps (good cluster_fits) (reconcileInfrastructure api)"
  unfolding reconcileInfrastructure_def by (intro keep_rules)

lemma fits_endpoint [keep_rules]: "keeps (good cluster_fits) (discover_endpoint k cluster)"
  unfolding discover_endpoint_def setupControlPlaneEndpoint_def endpoint_from_machine_def Let_def
  by (intro keep_rules; simp add: cluster_writes_fit cluster_condition_fits)

lemma fits_cluster_normal [keep_rules]: "keeps (good cluster_fits) (cluster_reconcileNormal k api cluster)"
  unfolding cluster_reconcileNormal_def by (intro keep_rules; simp add: cluster_writes_fit cluster_condition_fits)

lemma fits_cluster_delete [keep_rules]: "keeps (good cluster_fits) (cluster_reconcileDelete k api)"
  unfolding cluster_reconcileDelete_def cleanupInfrastructure_def cleanupVLAN_def
  by (intro keep_rules; simp add: cluster_writes_fit cluster_condition_fits)

lemma fits_cluster_body:
  assumes "cluster_fits lc"
  shows "good cluster_fits (snd (cluster_body k api cluster (start w lc)))"
proof -
  have "keeps (good cluster_fits) (cluster_body k api cluster)"
    unfolding cluster_body_def by (intro keep_rules)
  with assms show ?thesis by (simp add: keeps_def)
qed

lemma cluster_step_fits:
  assumes "cluster_step k api a b" and "cluster_fits a"
  shows "cluster_fits b"
  using assms(1)
proof cases
  case (cluster_step_request req w w1)
  then show ?thesis
    using fits_cluster_body [OF assms(2), of k api]
    by (auto simp: cluster_report_calls good_def Let_def split: prod.splits sum.splits option.splits)
next
  case cluster_step_edit
  then show ?thesis using assms(2) by (simp add: cluster_fits_def cluster_GetConditions_def)
qed

interpretation machine_fits_run: invariant_steps "machine_step k api" "\<lambda>lm. servers_fit api \<longrightarrow> machine_fits lm"
  for k :: "('w, 'h) kube" and api :: "'w ClientInterface"
  by unfold_locales (blast intro: machine_step_fits)

interpretation cluster_fits_run: invariant_steps "cluster_step k api" cluster_fits
  for k :: "('w, 'h) kube" and api :: "'w ClientInterface"
  by unfold_locales (rule cluster_step_fits)

text \<open>
  C12: The statuses the controllers write are well typed. Take a machine and a cluster whose status fits
  the schema of its resource definition (a new one does, its status is empty), and any run of the two
  controllers with failing patches and edits of the spec in between. If every server the API reports as up has
  addresses of 1 to 256 characters, then in every status along the way each condition has a type and a reason
  of the form the schema asks for, and each machine address a type from the schema's enumeration and
  a length within its bounds. So no request is lost to a status the API server rejects for these fields.
\<close>

theorem statuses_fit_the_schema:
  assumes machine: "(machine_step km api)\<^sup>*\<^sup>* m m'" "machine_fits m" and servers: "servers_fit api"
    and cluster: "(cluster_step kc api')\<^sup>*\<^sup>* c c'" "cluster_fits c"
  shows "machine_fits m' \<and> cluster_fits c'"
  using machine_fits_run.reach_keeps [OF machine(1)] cluster_fits_run.reach_keeps [OF cluster] machine(2) servers by blast

lemma bench_servers_fit: "servers_fit (mock_client (zero_mock :: bench MockClient))"
  by (auto simp: servers_fit_def answered_def server_fits_def mock_client_def zero_mock_def or_else_def mock_server_def go_defs)

theorem statuses_fit_the_schema_witness:
  "machine_fits bench_ready \<and> cluster_fits (upd_lc_finalizers (\<lambda>_. [LatitudeClusterFinalizerName]) (NewLatitudeCluster ''c1'' ''default'' ''SAO'' ''proj-1''))"
proof (rule statuses_fit_the_schema [OF bench_reaches_ready(2) _ bench_servers_fit r_into_rtranclp [of "cluster_step _ _", OF bench_cluster_step]])
  show "machine_fits bench_lm" by (simp add: machine_fits_def machine_GetConditions_def bench_defs)
qed (simp add: cluster_fits_def NewLatitudeCluster_def cluster_GetConditions_def)

end
