(* ===== verification/Client_Properties.thy ===== *)
theory Client_Properties
  imports Test_Doubles
begin

text \<open>The properties of the Latitude.sh client, over any SDK.\<close>

section \<open>Creating a VLAN twice\<close>

text \<open>
  What the VLAN API promises: the list is the registry of the account, a creation appends an entry
  with the requested description, and every entry has an ID and attributes.
\<close>

definition vlan_registry :: "'w sdk \<Rightarrow> ('w \<Rightarrow> SDK_VLANData list) \<Rightarrow> bool" where
  "vlan_registry sdk reg \<longleftrightarrow>
     (\<forall>w. PrivateNetworks_List sdk w = (Inr (Some (reg w)), w)) \<and>
     (\<forall>w. \<forall>d \<in> set (reg w). SDKVLANData_ID d \<noteq> None \<and> SDKVLANData_Attributes d \<noteq> None) \<and>
     (\<forall>attrs w d w'. PrivateNetworks_Create sdk attrs w = (Inr (Some (Some d)), w') \<longrightarrow>
        reg w' = reg w @ [d] \<and>
        map_option SDKVLAN_Description (SDKVLANData_Attributes d) = Some (Some (SDKCreateVLAN_Description attrs)))"

definition vlan_of :: "string \<Rightarrow> SDK_VLANData \<Rightarrow> VLAN" where
  "vlan_of p d = \<lparr>VLAN_ID = the (SDKVLANData_ID d), VLAN_VID = vlan_vid (the (SDKVLANData_Attributes d)),
     VLAN_Subnet = vlan_description (the (SDKVLANData_Attributes d)), VLAN_Project = p\<rparr>"

lemma list_vlans_loop_complete:
  "\<forall>d \<in> set ds. SDKVLANData_ID d \<noteq> None \<and> SDKVLANData_Attributes d \<noteq> None \<Longrightarrow>
   list_vlans_loop p ds = Ok (map (vlan_of p) ds)"
  by (induction ds) (auto simp: vlan_of_def)

lemma registry_list:
  assumes "vlan_registry sdk reg"
  shows "client_ListVLANs sdk p w = (Ok (Inr (map (vlan_of p) (reg w))), w)"
proof -
  have "PrivateNetworks_List sdk w = (Inr (Some (reg w)), w)"
    and "\<forall>d \<in> set (reg w). SDKVLANData_ID d \<noteq> None \<and> SDKVLANData_Attributes d \<noteq> None"
    using assms by (simp_all add: vlan_registry_def)
  then show ?thesis by (simp add: client_ListVLANs_def go_defs list_vlans_loop_complete)
qed

text \<open>\<open>CreateVLAN\<close> over a registry: the first entry of that description, or a new one.\<close>

lemma registry_create:
  assumes "vlan_registry sdk reg"
    and "CreateVLANRequest_ProjectID req \<noteq> []" "CreateVLANRequest_Subnet req \<noteq> []" "CreateVLANRequest_Site req \<noteq> []"
  shows "client_CreateVLAN sdk req w =
    (case find (\<lambda>v. VLAN_Subnet v = CreateVLANRequest_Subnet req)
        (map (vlan_of (CreateVLANRequest_ProjectID req)) (reg w)) of
       Some v \<Rightarrow> (Ok (Inr v), w) | None \<Rightarrow> create_new_vlan sdk req w)"
  using assms by (simp add: client_CreateVLAN_def go_defs registry_list split: option.split)

lemma create_new_vlan_registry:
  assumes reg: "vlan_registry sdk reg" and new: "create_new_vlan sdk req w = (Ok (Inr v), w')"
  shows "\<exists>d. reg w' = reg w @ [d] \<and> v = vlan_of (CreateVLANRequest_ProjectID req) d \<and>
    VLAN_Subnet v = CreateVLANRequest_Subnet req"
proof -
  let ?attrs = "\<lparr>SDKCreateVLAN_Project = CreateVLANRequest_ProjectID req,
    SDKCreateVLAN_Site = to_lower (CreateVLANRequest_Site req),
    SDKCreateVLAN_Description = CreateVLANRequest_Subnet req\<rparr>"
  obtain d i where c: "PrivateNetworks_Create sdk ?attrs w = (Inr (Some (Some d)), w')"
    and i: "SDKVLANData_ID d = Some i"
    and v: "v = \<lparr>VLAN_ID = i,
      VLAN_VID = (case SDKVLANData_Attributes d of None \<Rightarrow> 0 | Some a \<Rightarrow> vlan_vid a),
      VLAN_Subnet = CreateVLANRequest_Subnet req, VLAN_Project = CreateVLANRequest_ProjectID req\<rparr>"
    using new by (auto simp: create_new_vlan_def go_defs split: prod.splits sum.splits option.splits)
  from reg c have "reg w' = reg w @ [d] \<and>
      map_option SDKVLAN_Description (SDKVLANData_Attributes d) = Some (Some (SDKCreateVLAN_Description ?attrs))"
    unfolding vlan_registry_def by blast
  then obtain a where r: "reg w' = reg w @ [d]" and a: "SDKVLANData_Attributes d = Some a"
    and desc: "SDKVLAN_Description a = Some (CreateVLANRequest_Subnet req)"
    by auto
  show ?thesis
    using r i a desc v by (intro exI [of _ d]) (simp add: vlan_of_def vlan_description_def)
qed

text \<open>
  C20: \<open>CreateVLAN\<close> is idempotent on its description: over a VLAN registry, a repetition of a successful
  request returns the same VLAN (ID, VID and description) and creates nothing. So a reconciliation
  that is retried after its status was lost finds the VLAN it made.
\<close>

theorem create_vlan_idempotent:
  assumes reg: "vlan_registry sdk reg"
    and first: "client_CreateVLAN sdk req w = (Ok (Inr v), w1)"
  shows "client_CreateVLAN sdk req w1 = (Ok (Inr v), w1)"
proof -
  let ?p = "CreateVLANRequest_ProjectID req"
  let ?is = "\<lambda>v. VLAN_Subnet v = CreateVLANRequest_Subnet req"
  have ne: "?p \<noteq> []" "CreateVLANRequest_Subnet req \<noteq> []" "CreateVLANRequest_Site req \<noteq> []"
    using first by (auto simp: client_CreateVLAN_def go_defs split: if_splits)
  note create = registry_create [OF reg ne]
  show ?thesis
  proof (cases "find ?is (map (vlan_of ?p) (reg w))")
    case (Some u)
    then show ?thesis using first by (simp add: create)
  next
    case None
    then have "create_new_vlan sdk req w = (Ok (Inr v), w1)" using first by (simp add: create)
    from create_new_vlan_registry [OF reg this] obtain d where d: "reg w1 = reg w @ [d]"
      "v = vlan_of ?p d" "VLAN_Subnet v = CreateVLANRequest_Subnet req" by blast
    have "find ?is (xs @ [v]) = Some v" if "find ?is xs = None" for xs
      using that d(3) by (induction xs) (auto split: if_splits)
    from this [OF None] have "find ?is (map (vlan_of ?p) (reg w1)) = Some v" using d(1,2) by simp
    then show ?thesis by (simp add: create)
  qed
qed

definition bench_vlan_request :: CreateVLANRequest where
  "bench_vlan_request = \<lparr>CreateVLANRequest_ProjectID = ''proj-1'', CreateVLANRequest_Site = ''SAO'',
     CreateVLANRequest_Subnet = ''capl-c1-10.8.0.0/24'', CreateVLANRequest_VID = None\<rparr>"

text \<open>The registry of the bench keeps the laws on its well-formed entries.\<close>

definition formed :: "SDK_VLANData list \<Rightarrow> SDK_VLANData list" where
  "formed w = filter (\<lambda>d. SDKVLANData_ID d \<noteq> None \<and> SDKVLANData_Attributes d \<noteq> None) w"

definition strict_registry_sdk :: "SDK_VLANData list sdk" where
  "strict_registry_sdk = registry_sdk\<lparr>PrivateNetworks_List := (\<lambda>w. (Inr (Some (formed w)), w))\<rparr>"

lemma strict_registry: "vlan_registry strict_registry_sdk formed"
  by (auto simp: vlan_registry_def strict_registry_sdk_def registry_sdk_def formed_def Let_def)

theorem create_vlan_idempotent_witness:
  "client_CreateVLAN strict_registry_sdk bench_vlan_request (snd (client_CreateVLAN strict_registry_sdk bench_vlan_request [])) =
   client_CreateVLAN strict_registry_sdk bench_vlan_request []
   \<and> length (snd (client_CreateVLAN strict_registry_sdk bench_vlan_request [])) = 1"
proof -
  obtain v w1 where first: "client_CreateVLAN strict_registry_sdk bench_vlan_request [] = (Ok (Inr v), w1)" "length w1 = 1"
    by (simp add: client_CreateVLAN_def client_ListVLANs_def create_new_vlan_def bench_vlan_request_def
        strict_registry_sdk_def registry_sdk_def formed_def Let_def go_defs)
  from create_vlan_idempotent [OF strict_registry first(1)] first show ?thesis by simp
qed

section \<open>What the client ignores and where it panics\<close>


text \<open>
  \<open>GetServer\<close> panics exactly on an answer that carries a server without attributes: the primary
  address is read outside the nil test. Every other answer is a server under the ID asked for, or
  an error.
\<close>

lemma get_server_panics:
  "(fst (client_GetServer sdk i w) = Panic \<longleftrightarrow>
     (\<exists>d. fst (Servers_Get sdk i w) = Inr (Some (Some d)) \<and> SDKServerData_Attributes d = None)) \<and>
   (case fst (client_GetServer sdk i w) of Ok (Inr srv) \<Rightarrow> Server_ID srv = i | _ \<Rightarrow> True)"
  by (auto simp: client_GetServer_def go_defs split: prod.splits sum.splits option.splits)

definition says :: "go_error \<Rightarrow> string \<Rightarrow> bool" where
  "says err text \<longleftrightarrow> str_contains (error_text err) text"

text \<open>
  Deleting is idempotent for VLANs and not for servers: \<open>DeleteVLAN\<close> succeeds on a VLAN that is gone (an
  error that says \<open>not found\<close> or \<open>404\<close>), \<open>DeleteServer\<close> succeeds only if the API reports no error at
  all. An attachment that already exists counts as attached.
\<close>

theorem which_deletions_are_idempotent:
  "(fst (client_DeleteVLAN sdk v w) = Ok None \<longleftrightarrow> v \<noteq> [] \<and>
      (case fst (VirtualNetworks_Delete sdk v w) of None \<Rightarrow> True
       | Some err \<Rightarrow> says err ''not found'' \<or> says err ''404'')) \<and>
   (fst (client_DeleteServer sdk i w) = Ok None \<longleftrightarrow> fst (Servers_Delete sdk i w) = None) \<and>
   (fst (client_AttachServerToVLAN sdk i v w) = Ok None \<longleftrightarrow> i \<noteq> [] \<and> v \<noteq> [] \<and>
      (case fst (PrivateNetworks_Assign sdk i v w) of None \<Rightarrow> True
       | Some err \<Rightarrow> says err ''already assigned'' \<or> says err ''already exists''))"
  by (auto simp: client_DeleteVLAN_def client_DeleteServer_def client_AttachServerToVLAN_def says_def go_defs
      split: prod.splits option.splits if_splits)

section \<open>Waiting for a server\<close>




end
