(* ===== verification/Manager.thy ===== *)
theory Manager
  imports Machine_Controller Cluster_Controller
begin

text \<open>
  \<open>cmd/main.go\<close>, the \<open>SetupWithManager\<close> methods and the template controller. The values of the command
  line flags and the environment are arguments; the manager of controller-runtime is a record of
  functions, and what is asked of it goes into the trace. \<open>os.Exit\<close> and the end of \<open>main\<close> are results.
\<close>

section \<open>The API group\<close>






section \<open>Options\<close>

record Flags =
  metricsAddr :: string
  probeAddr :: string
  enableLeaderElection :: bool
  watchNamespaceFlag :: string

definition default_flags :: Flags where
  "default_flags = \<lparr>metricsAddr = '':8443'', probeAddr = '':8081'', enableLeaderElection = True, watchNamespaceFlag = []\<rparr>"



record Options =
  Options_BindAddress :: string
  Options_HealthProbeBindAddress :: string
  Options_LeaderElection :: bool
  Options_LeaderElectionID :: string
  Options_DefaultNamespaces :: "string list"


section \<open>The manager\<close>

text \<open>
  The reconciler structs. \<open>'s\<close> is a scheme and \<open>'r\<close> an event recorder; the recorder is nil until a method
  sets it. The methods of the controllers take the client and the API client as arguments.
\<close>

record ('w, 'h, 's, 'r) LatitudeMachineReconciler =
  MachineReconciler_Client :: "('w, 'h) kube"
  MachineReconciler_Scheme :: 's
  MachineReconciler_recorder :: "'r option"
  MachineReconciler_LatitudeClient :: "'w ClientInterface"

record ('w, 'h, 's, 'r) LatitudeClusterReconciler =
  ClusterReconciler_Client :: "('w, 'h) kube"
  ClusterReconciler_Scheme :: 's
  ClusterReconciler_recorder :: "'r option"
  ClusterReconciler_LatitudeClient :: "'w ClientInterface"

record ('w, 'h) LatitudeMachineTemplateReconciler =
  TemplateReconciler_Client :: "('w, 'h) kube"

definition SetRecorder ::
  "'r \<Rightarrow> ('w, 'h, 's, 'r) LatitudeClusterReconciler \<Rightarrow> ('w, 'h, 's, 'r) LatitudeClusterReconciler" where
  "SetRecorder recorder r = r\<lparr>ClusterReconciler_recorder := Some recorder\<rparr>"

text \<open>A controller as it is handed to the manager: the kind it is for, its workers and its reconciler.\<close>

datatype ('w, 'h, 's, 'r) reconciler =
    Machine_Reconciler "('w, 'h, 's, 'r) LatitudeMachineReconciler"
  | Cluster_Reconciler "('w, 'h, 's, 'r) LatitudeClusterReconciler"
  | Template_Reconciler "('w, 'h) LatitudeMachineTemplateReconciler"

record ('w, 'h, 's, 'r) registration =
  For_Kind :: string
  MaxConcurrentReconciles :: "nat option"
  Reconciler :: "('w, 'h, 's, 'r) reconciler"

datatype ('w, 'h, 's, 'r) startup_call =
    CallRegister "string list"
  | CallAddToScheme string
  | CallNewManager Options
  | CallComplete "('w, 'h, 's, 'r) registration"
  | CallAddHealthzCheck string
  | CallAddReadyzCheck string
  | CallStart

record ('w, 'h, 's, 'r) manager_lib =
  Register_Kinds :: "string \<times> string \<Rightarrow> string list \<Rightarrow> 'w \<Rightarrow> 'w"
  AddToScheme :: "string \<Rightarrow> 'w \<Rightarrow> go_error option \<times> 'w"
  NewManager :: "Options \<Rightarrow> 'w \<Rightarrow> go_error option \<times> 'w"
  GetClient :: "('w, 'h) kube"
  GetScheme :: 's
  GetEventRecorderFor :: "string \<Rightarrow> 'r"
  Complete :: "('w, 'h, 's, 'r) registration \<Rightarrow> 'w \<Rightarrow> go_error option \<times> 'w"
  AddHealthzCheck :: "string \<Rightarrow> 'w \<Rightarrow> go_error option \<times> 'w"
  AddReadyzCheck :: "string \<Rightarrow> 'w \<Rightarrow> go_error option \<times> 'w"
  Start_Manager :: "'w \<Rightarrow> go_error option \<times> 'w"
  New_SDK :: "string \<Rightarrow> 'w sdk"

type_synonym ('w, 'h, 's, 'r, 'a) startup = "('w, unit, ('w, 'h, 's, 'r) startup_call, 'a) go"

definition ask ::
  "('w, 'h, 's, 'r) startup_call \<Rightarrow> ('w \<Rightarrow> go_error option \<times> 'w) \<Rightarrow> ('w, 'h, 's, 'r, go_error option) startup" where
  "ask c f = call c (\<lambda>w. case f w of (err, w') \<Rightarrow> (Ok err, w'))"

section \<open>The scheme\<close>







section \<open>Registration of the controllers\<close>





definition template_registration ::
  "('w, 'h) LatitudeMachineTemplateReconciler \<Rightarrow> ('w, 'h, 's, 'r) registration" where
  "template_registration r = \<lparr>For_Kind = ''LatitudeMachineTemplate'', MaxConcurrentReconciles = None,
     Reconciler = Template_Reconciler r\<rparr>"

definition template_SetupWithManager ::
  "('w, 'h, 's, 'r) manager_lib \<Rightarrow> ('w, 'h) LatitudeMachineTemplateReconciler \<Rightarrow>
   ('w, 'h, 's, 'r, go_error option) startup" where
  "template_SetupWithManager lib r =
     ask (CallComplete (template_registration r)) (Complete lib (template_registration r))"

text \<open>The template controller does nothing at all.\<close>

definition template_Reconcile :: "ObjectKey \<Rightarrow> 'w \<Rightarrow> ('w, LatitudeMachineTemplate) report" where
  "template_Reconcile req w = no_calls (done_result, None) w"

section \<open>main\<close>





section \<open>The order of the start-up\<close>
























end
