(* ===== verification/Go_Memory.thy ===== *)
theory Go_Memory
  imports Prelude
begin

text \<open>
  Go's memory, as far as copying needs it: a store of cells at addresses that are handed out one after
  the other, pointers (\<open>None\<close> is nil) and slices (an array cell, an offset and a length), and the
  contract of a deep copy as a locale, with the constructions it is closed under. The cells are a
  parameter here; \<open>Deep_Copy\<close> gives them.
\<close>

section \<open>The store\<close>

record 'c store =
  cells :: "nat \<rightharpoonup> 'c"
  lim :: nat

definition store_ok :: "'c store \<Rightarrow> bool" where
  "store_ok h \<longleftrightarrow> (\<forall>a \<in> dom (cells h). a < lim h)"

definition empty_store :: "'c store" where
  "empty_store = \<lparr>cells = (\<lambda>_. None), lim = 0\<rparr>"

text \<open>\<open>new\<close>, and the dereference and the assignment of a pointer to a cell of one type.\<close>

definition store_new :: "'c \<Rightarrow> ('c store, nat) run" where
  "store_new c = (\<lambda>h. (Ok (lim h), \<lparr>cells = (cells h)(lim h \<mapsto> c), lim = lim h + 1\<rparr>))"

definition store_load :: "('c \<Rightarrow> 'a option) \<Rightarrow> nat \<Rightarrow> ('c store, 'a) run" where
  "store_load proj a = (\<lambda>h.
     case Option.bind (cells h a) proj of None \<Rightarrow> (Panic, h) | Some x \<Rightarrow> (Ok x, h))"

definition store_set :: "nat \<Rightarrow> 'c \<Rightarrow> ('c store, unit) run" where
  "store_set a c = (\<lambda>h. (Ok (), h\<lparr>cells := (cells h)(a \<mapsto> c)\<rparr>))"

text \<open>Stores are ordered by extension: nothing that was in the smaller one has changed.\<close>

instantiation store_ext :: (type, type) preorder
begin

definition less_eq_store_ext :: "('a, 'b) store_scheme \<Rightarrow> ('a, 'b) store_scheme \<Rightarrow> bool" where
  "less_eq_store_ext h h' \<longleftrightarrow> (\<forall>a \<in> dom (cells h). cells h' a = cells h a)"

definition less_store_ext :: "('a, 'b) store_scheme \<Rightarrow> ('a, 'b) store_scheme \<Rightarrow> bool" where
  "less_store_ext h h' \<longleftrightarrow> h \<le> h' \<and> \<not> h' \<le> h"

instance
  by standard (fastforce simp: less_store_ext_def less_eq_store_ext_def dom_def)+

end

definition agree_on :: "nat set \<Rightarrow> 'c store \<Rightarrow> 'c store \<Rightarrow> bool" where
  "agree_on A h h' \<longleftrightarrow> (\<forall>a \<in> A. cells h' a = cells h a)"

lemma store_ok_empty: "store_ok empty_store"
  by (simp add: store_ok_def empty_store_def)

lemma extends_dom: "h \<le> h' \<Longrightarrow> dom (cells h) \<subseteq> dom (cells h')"
  by (fastforce simp: less_eq_store_ext_def dom_def)

lemma extends_agree: "h \<le> h' \<Longrightarrow> A \<subseteq> dom (cells h) \<Longrightarrow> agree_on A h h'"
  by (auto simp: less_eq_store_ext_def agree_on_def)

lemma agree_on_Un [simp]: "agree_on (A \<union> B) h h' \<longleftrightarrow> agree_on A h h' \<and> agree_on B h h'"
  by (auto simp: agree_on_def)

lemma agree_on_mono: "agree_on A h h' \<Longrightarrow> B \<subseteq> A \<Longrightarrow> agree_on B h h'"
  by (auto simp: agree_on_def)

section \<open>The contract of a deep copy\<close>

text \<open>
  \<open>val h s\<close> is the value of the struct \<open>s\<close> with every pointer followed (\<open>None\<close> if one dangles) and
  \<open>foot h s\<close> the cells it reaches. A deep copy returns, leaves every cell as it was, and its result has
  the same value and reaches new cells only.
\<close>

locale deep_copier =
  fixes copy :: "'s \<Rightarrow> ('c store, 's) run"
    and val :: "'c store \<Rightarrow> 's \<Rightarrow> 'v option"
    and foot :: "'c store \<Rightarrow> 's \<Rightarrow> nat set"
  assumes copies: "store_ok h \<Longrightarrow> val h s = Some v \<Longrightarrow>
      \<exists>t h'. copy s h = (Ok t, h') \<and> store_ok h' \<and> h \<le> h' \<and> val h' t = Some v \<and>
        foot h' t \<subseteq> dom (cells h') - dom (cells h)"
    and foot_dom: "val h s = Some v \<Longrightarrow> foot h s \<subseteq> dom (cells h)"
    and local: "val h s = Some v \<Longrightarrow> agree_on (foot h s) h h' \<Longrightarrow>
      val h' s = Some v \<and> foot h' s = foot h s"
begin

lemma copy_result:
  assumes "store_ok h" "val h s = Some v" "copy s h = (r, h')"
  obtains t where "r = Ok t" "store_ok h'" "h \<le> h'" "val h' t = Some v"
    "foot h' t \<subseteq> dom (cells h') - dom (cells h)"
  using copies [OF assms(1,2)] assms(3) by auto

lemma extended:
  assumes "val h s = Some v" "h \<le> h'"
  shows "val h' s = Some v" "foot h' s = foot h s"
  using local [OF assms(1) extends_agree [OF assms(2) foot_dom [OF assms(1)]]] by simp_all

text \<open>The original keeps its value, and shares no cell with its copy.\<close>

lemma original_kept:
  assumes "store_ok h" "val h s = Some v" "copy s h = (Ok t, h')"
  shows "val h' s = Some v" "foot h' t \<inter> foot h' s = {}"
proof -
  obtain ext: "h \<le> h'" and fresh: "foot h' t \<subseteq> dom (cells h') - dom (cells h)"
    using copies [OF assms(1,2)] assms(3) by auto
  show "val h' s = Some v" using extended [OF assms(2) ext] by simp
  show "foot h' t \<inter> foot h' s = {}"
    using extended [OF assms(2) ext] foot_dom [OF assms(2)] fresh by auto
qed

text \<open>Whatever is written later to the cells of one of the two, the other does not see it.\<close>

lemma copy_unaffected:
  assumes "store_ok h" "val h s = Some v" "copy s h = (Ok t, h')"
    and "agree_on (- foot h' s) h' h''"
  shows "val h'' t = Some v"
proof -
  have t: "val h' t = Some v" using copies [OF assms(1,2)] assms(3) by auto
  have "foot h' t \<subseteq> - foot h' s" using original_kept [OF assms(1-3)] by auto
  from local [OF t agree_on_mono [OF assms(4) this]] show ?thesis by simp
qed

lemma original_unaffected:
  assumes "store_ok h" "val h s = Some v" "copy s h = (Ok t, h')"
    and "agree_on (- foot h' t) h' h''"
  shows "val h'' s = Some v"
proof -
  have "foot h' s \<subseteq> - foot h' t" using original_kept [OF assms(1-3)] by auto
  from local [OF original_kept(1) [OF assms(1-3)] agree_on_mono [OF assms(4) this]]
  show ?thesis by simp
qed

end

text \<open>Plain data is copied by assignment.\<close>

interpretation plain_copy: deep_copier go_return "\<lambda>_. Some" "\<lambda>_ _. {}"
  by unfold_locales (auto simp: go_return_def)

section \<open>Pointers\<close>

text \<open>
  The generated code's way with a pointer, which is also the body of every \<open>DeepCopy\<close>: nil stays nil,
  else \<open>new\<close>, and the deep copy of what the old pointer refers to is written into the new cell.
\<close>

definition copy_ptr ::
  "('c \<Rightarrow> 's option) \<Rightarrow> ('s \<Rightarrow> 'c) \<Rightarrow> ('s \<Rightarrow> ('c store, 's) run) \<Rightarrow> nat option \<Rightarrow> ('c store, nat option) run" where
  "copy_ptr proj wrap into p =
     (case p of
        None \<Rightarrow> go_return None
      | Some a \<Rightarrow>
          go_bind (store_load proj a) (\<lambda>x.
          go_bind (store_new (wrap x)) (\<lambda>b.
          go_bind (into x) (\<lambda>y.
          go_then (store_set b (wrap y)) (go_return (Some b))))))"

definition val_ptr ::
  "('c \<Rightarrow> 's option) \<Rightarrow> ('c store \<Rightarrow> 's \<Rightarrow> 'v option) \<Rightarrow> 'c store \<Rightarrow> nat option \<Rightarrow> 'v option option" where
  "val_ptr proj val h p =
     (case p of
        None \<Rightarrow> Some None
      | Some a \<Rightarrow> (case Option.bind (cells h a) proj of None \<Rightarrow> None | Some x \<Rightarrow> map_option Some (val h x)))"

definition foot_ptr ::
  "('c \<Rightarrow> 's option) \<Rightarrow> ('c store \<Rightarrow> 's \<Rightarrow> nat set) \<Rightarrow> 'c store \<Rightarrow> nat option \<Rightarrow> nat set" where
  "foot_ptr proj foot h p =
     (case p of
        None \<Rightarrow> {}
      | Some a \<Rightarrow> insert a (case Option.bind (cells h a) proj of None \<Rightarrow> {} | Some x \<Rightarrow> foot h x))"

lemma val_ptr_Some_Some:
  "val_ptr proj val h p = Some (Some v) \<longleftrightarrow>
     (\<exists>a c x. p = Some a \<and> cells h a = Some c \<and> proj c = Some x \<and> val h x = Some v)"
  by (auto simp: val_ptr_def split: option.splits bind_splits)

lemma val_ptr_Some_None [simp]: "val_ptr proj val h p = Some None \<longleftrightarrow> p = None"
  by (auto simp: val_ptr_def split: option.splits)

lemma store_new_result:
  assumes "store_ok h" "store_new c h = (r, h')"
  shows "r = Ok (lim h)" "store_ok h'" "h \<le> h'" "lim h \<notin> dom (cells h)" "cells h' (lim h) = Some c"
    "dom (cells h') = insert (lim h) (dom (cells h))"
  using assms by (auto simp: store_new_def store_ok_def less_eq_store_ext_def less_Suc_eq)

lemma deep_copier_ptr:
  assumes copier: "deep_copier copy val foot" and wrap: "\<And>x. proj (wrap x) = Some x"
  shows "deep_copier (copy_ptr proj wrap copy) (val_ptr proj val) (foot_ptr proj foot)"
proof (unfold_locales, goal_cases)
  case (1 h p v)
  show ?case
  proof (cases v)
    case None
    with 1 show ?thesis
      by (intro exI [of _ "None :: nat option"] exI [of _ h])
        (auto simp: copy_ptr_def foot_ptr_def go_return_def)
  next
    case (Some u)
    with 1 obtain a c x where p: "p = Some a" "cells h a = Some c" "proj c = Some x" and x: "val h x = Some u"
      by (auto simp: val_ptr_Some_Some)
    obtain h1 where new: "store_new (wrap x) h = (Ok (lim h), h1)" by (simp add: store_new_def)
    note n = store_new_result [OF 1(1) new]
    have "val h1 x = Some u" using deep_copier.extended [OF copier x n(3)] by simp
    from deep_copier.copies [OF copier n(2) this] obtain y h2
      where y: "copy x h1 = (Ok y, h2)" "store_ok h2" "h1 \<le> h2" "val h2 y = Some u"
        "foot h2 y \<subseteq> dom (cells h2) - dom (cells h1)" by blast
    define h3 where "h3 = h2\<lparr>cells := (cells h2)(lim h \<mapsto> wrap y)\<rparr>"
    have d: "lim h \<in> dom (cells h2)" using extends_dom [OF y(3)] n(6) by auto
    then have dom: "dom (cells h3) = dom (cells h2)" by (auto simp: h3_def)
    have "agree_on (foot h2 y) h2 h3" using y(5) n(6) by (auto simp: agree_on_def h3_def)
    from deep_copier.local [OF copier y(4) this]
    have y3: "val h3 y = Some u" "foot h3 y = foot h2 y" by simp_all
    have "copy_ptr proj wrap copy p h = (Ok (Some (lim h)), h3)"
      using p new y(1) by (simp add: copy_ptr_def store_load_def store_set_def go_defs h3_def)
    moreover have "store_ok h3" using y(2) d dom by (simp add: store_ok_def h3_def)
    moreover have "h \<le> h3"
      using order_trans [OF n(3) y(3)] n(4) by (auto simp: less_eq_store_ext_def h3_def)
    moreover have "val_ptr proj val h3 (Some (lim h)) = Some v"
      using y3 Some wrap by (simp add: val_ptr_def h3_def)
    moreover have "foot_ptr proj foot h3 (Some (lim h)) \<subseteq> dom (cells h3) - dom (cells h)"
      using y3(2) y(5) n d dom wrap by (auto simp: foot_ptr_def h3_def)
    ultimately show ?thesis by blast
  qed
next
  case (2 h p v)
  then show ?case
    by (cases v) (auto simp: val_ptr_Some_Some foot_ptr_def dest!: deep_copier.foot_dom [OF copier])
next
  case (3 h p v h')
  show ?case
  proof (cases v)
    case None
    with 3 show ?thesis by (simp add: foot_ptr_def)
  next
    case (Some u)
    with 3 obtain a c x where p: "p = Some a" "cells h a = Some c" "proj c = Some x" and x: "val h x = Some u"
      by (auto simp: val_ptr_Some_Some)
    then have "agree_on (foot h x) h h'" "cells h' a = Some c"
      using 3(2) by (auto simp: foot_ptr_def agree_on_def)
    with deep_copier.local [OF copier x this(1)] show ?thesis
      using p Some x by (simp add: val_ptr_def foot_ptr_def)
  qed
qed

section \<open>Pairs and structs\<close>

lemma fresh_union:
  assumes "A \<subseteq> D1 - D" "B \<subseteq> D2 - D1" "D \<subseteq> D1" "D1 \<subseteq> D2"
  shows "A \<union> B \<subseteq> D2 - D"
  using assms by blast

text \<open>Two fields one after the other.\<close>

definition copy_pair ::
  "('s \<Rightarrow> ('c store, 's) run) \<Rightarrow> ('t \<Rightarrow> ('c store, 't) run) \<Rightarrow> 's \<times> 't \<Rightarrow> ('c store, 's \<times> 't) run" where
  "copy_pair c1 c2 st =
     go_bind (c1 (fst st)) (\<lambda>s. go_bind (c2 (snd st)) (\<lambda>t. go_return (s, t)))"

definition val_pair ::
  "('h \<Rightarrow> 's \<Rightarrow> 'u option) \<Rightarrow> ('h \<Rightarrow> 't \<Rightarrow> 'v option) \<Rightarrow> 'h \<Rightarrow> 's \<times> 't \<Rightarrow> ('u \<times> 'v) option" where
  "val_pair v1 v2 h st =
     (case (v1 h (fst st), v2 h (snd st)) of (Some u, Some v) \<Rightarrow> Some (u, v) | _ \<Rightarrow> None)"

definition foot_pair ::
  "('h \<Rightarrow> 's \<Rightarrow> nat set) \<Rightarrow> ('h \<Rightarrow> 't \<Rightarrow> nat set) \<Rightarrow> 'h \<Rightarrow> 's \<times> 't \<Rightarrow> nat set" where
  "foot_pair f1 f2 h st = f1 h (fst st) \<union> f2 h (snd st)"

lemma val_pair_Some:
  "val_pair v1 v2 h st = Some w \<longleftrightarrow> v1 h (fst st) = Some (fst w) \<and> v2 h (snd st) = Some (snd w)"
  by (cases w) (auto simp: val_pair_def split: option.splits)

lemma deep_copier_pair:
  assumes c1: "deep_copier c1 v1 f1" and c2: "deep_copier c2 v2 f2"
  shows "deep_copier (copy_pair c1 c2) (val_pair v1 v2) (foot_pair f1 f2)"
proof (unfold_locales, goal_cases)
  case (1 h st w)
  then have v: "v1 h (fst st) = Some (fst w)" "v2 h (snd st) = Some (snd w)"
    by (simp_all add: val_pair_Some)
  from deep_copier.copies [OF c1 1(1) v(1)] obtain s h1
    where s: "c1 (fst st) h = (Ok s, h1)" "store_ok h1" "h \<le> h1" "v1 h1 s = Some (fst w)"
      "f1 h1 s \<subseteq> dom (cells h1) - dom (cells h)" by blast
  from deep_copier.copies [OF c2 s(2) deep_copier.extended(1) [OF c2 v(2) s(3)]] obtain t h2
    where t: "c2 (snd st) h1 = (Ok t, h2)" "store_ok h2" "h1 \<le> h2" "v2 h2 t = Some (snd w)"
      "f2 h2 t \<subseteq> dom (cells h2) - dom (cells h1)" by blast
  note kept = deep_copier.extended [OF c1 s(4) t(3)]
  have "foot_pair f1 f2 h2 (s, t) \<subseteq> dom (cells h2) - dom (cells h)"
    unfolding foot_pair_def fst_conv snd_conv kept(2)
    by (rule fresh_union [OF s(5) t(5) extends_dom [OF s(3)] extends_dom [OF t(3)]])
  then show ?case
    using s t kept order_trans [OF s(3) t(3)]
    by (intro exI [of _ "(s, t)"] exI [of _ h2]) (simp add: copy_pair_def go_defs val_pair_Some)
next
  case (2 h st w)
  then show ?case
    using deep_copier.foot_dom [OF c1, of h "fst st"] deep_copier.foot_dom [OF c2, of h "snd st"]
    by (simp add: val_pair_Some foot_pair_def)
next
  case (3 h st w h')
  then show ?case
    using deep_copier.local [OF c1, of h "fst st" _ h'] deep_copier.local [OF c2, of h "snd st" _ h']
    by (simp add: val_pair_Some foot_pair_def)
qed

text \<open>
  A struct whose copy replaces the fields \<open>g s\<close> by their copies and keeps the others, read by putting
  the values of these fields together with the others.
\<close>

lemma deep_copier_struct:
  assumes copier: "deep_copier copy val foot"
    and copy': "\<And>s. copy' s = go_bind (copy (g s)) (\<lambda>t. go_return (upd s t))"
    and val': "\<And>h s. val' h s = map_option (mk s) (val h (g s))"
    and foot': "\<And>h s. foot' h s = foot h (g s)"
    and upd: "\<And>s t. g (upd s t) = t" and mk: "\<And>s t. mk (upd s t) = mk s"
  shows "deep_copier copy' val' foot'"
proof (unfold_locales, goal_cases)
  case (1 h s v)
  then obtain u where u: "val h (g s) = Some u" "v = mk s u" by (auto simp: val')
  from deep_copier.copies [OF copier 1(1) u(1)] obtain t h'
    where "copy (g s) h = (Ok t, h')" "store_ok h'" "h \<le> h'" "val h' t = Some u"
      "foot h' t \<subseteq> dom (cells h') - dom (cells h)" by blast
  then show ?case
    by (intro exI [of _ "upd s t"] exI [of _ h']) (simp add: copy' val' foot' upd mk u go_defs)
next
  case (2 h s v)
  then show ?case by (auto simp: val' foot' dest: deep_copier.foot_dom [OF copier])
next
  case (3 h s v h')
  then obtain u where u: "val h (g s) = Some u" "v = mk s u" by (auto simp: val')
  with deep_copier.local [OF copier u(1)] 3 show ?case by (simp add: val' foot')
qed

section \<open>Slices\<close>

record slice =
  slice_array :: nat
  slice_offset :: nat
  slice_len :: nat

definition slice_elems :: "slice \<Rightarrow> 's list \<Rightarrow> 's list option" where
  "slice_elems sl xs =
     (if slice_offset sl + slice_len sl \<le> length xs
      then Some (take (slice_len sl) (drop (slice_offset sl) xs)) else None)"

definition load_slice :: "('c \<Rightarrow> 's list option) \<Rightarrow> 'c store \<Rightarrow> slice \<Rightarrow> 's list option" where
  "load_slice proj h sl = Option.bind (Option.bind (cells h (slice_array sl)) proj) (slice_elems sl)"

text \<open>The elements of a slice are copied in order, each by its own deep copy.\<close>

primrec copy_list :: "('s \<Rightarrow> ('c store, 's) run) \<Rightarrow> 's list \<Rightarrow> ('c store, 's list) run" where
  "copy_list into [] = go_return []"
| "copy_list into (x # xs) =
     go_bind (into x) (\<lambda>y. go_bind (copy_list into xs) (\<lambda>ys. go_return (y # ys)))"

text \<open>
  Nil stays nil; any other slice, an empty one too, gets an array of its own of its length. The array
  appears in the store when its elements have been copied: no one can look at it before.
\<close>

definition copy_slice ::
  "('c \<Rightarrow> 's list option) \<Rightarrow> ('s list \<Rightarrow> 'c) \<Rightarrow> ('s \<Rightarrow> ('c store, 's) run) \<Rightarrow> slice option \<Rightarrow>
   ('c store, slice option) run" where
  "copy_slice proj wrap into p =
     (case p of
        None \<Rightarrow> go_return None
      | Some sl \<Rightarrow>
          go_bind (\<lambda>h. case load_slice proj h sl of None \<Rightarrow> (Panic, h) | Some xs \<Rightarrow> (Ok xs, h)) (\<lambda>xs.
          go_bind (copy_list into xs) (\<lambda>ys.
          go_bind (store_new (wrap ys)) (\<lambda>b.
          go_return (Some \<lparr>slice_array = b, slice_offset = 0, slice_len = length ys\<rparr>)))))"

text \<open>The value of a slice is the list of the values of its elements; nil reads as the empty list.\<close>

definition val_list :: "('h \<Rightarrow> 's \<Rightarrow> 'v option) \<Rightarrow> 'h \<Rightarrow> 's list \<Rightarrow> 'v list option" where
  "val_list val h xs = those (map (val h) xs)"

definition val_slice ::
  "('c \<Rightarrow> 's list option) \<Rightarrow> ('c store \<Rightarrow> 's \<Rightarrow> 'v option) \<Rightarrow> 'c store \<Rightarrow> slice option \<Rightarrow> 'v list option" where
  "val_slice proj val h p =
     (case p of
        None \<Rightarrow> Some []
      | Some sl \<Rightarrow> Option.bind (load_slice proj h sl) (val_list val h))"

definition foot_slice ::
  "('c \<Rightarrow> 's list option) \<Rightarrow> ('c store \<Rightarrow> 's \<Rightarrow> nat set) \<Rightarrow> 'c store \<Rightarrow> slice option \<Rightarrow> nat set" where
  "foot_slice proj foot h p =
     (case p of
        None \<Rightarrow> {}
      | Some sl \<Rightarrow> insert (slice_array sl)
          (case load_slice proj h sl of None \<Rightarrow> {} | Some xs \<Rightarrow> \<Union> (foot h ` set xs)))"

lemma val_list_simps [simp]:
  "val_list val h [] = Some []"
  "val_list val h (x # xs) =
     (case val h x of None \<Rightarrow> None | Some v \<Rightarrow> map_option ((#) v) (val_list val h xs))"
  by (simp_all add: val_list_def split: option.split)

lemma list_foot_dom:
  assumes "deep_copier copy val foot" "val_list val h xs = Some vs"
  shows "\<Union> (foot h ` set xs) \<subseteq> dom (cells h)"
  using assms(2)
  by (induction xs arbitrary: vs)
    (auto split: option.splits dest!: deep_copier.foot_dom [OF assms(1)])

lemma list_local:
  assumes "deep_copier copy val foot" "val_list val h xs = Some vs" "agree_on (\<Union> (foot h ` set xs)) h h'"
  shows "val_list val h' xs = Some vs \<and> \<Union> (foot h' ` set xs) = \<Union> (foot h ` set xs)"
  using assms(2,3)
  by (induction xs arbitrary: vs)
    (auto split: option.splits dest: deep_copier.local [OF assms(1)])

lemma deep_copier_list:
  assumes copier: "deep_copier copy val foot"
  shows "deep_copier (copy_list copy) (val_list val) (\<lambda>h xs. \<Union> (foot h ` set xs))"
proof (unfold_locales, goal_cases)
  case (1 h xs vs)
  then show ?case
  proof (induction xs arbitrary: h vs)
    case Nil
    then show ?case by (simp add: go_return_def)
  next
    case (Cons x xs)
    then obtain u us where u: "val h x = Some u" and us: "val_list val h xs = Some us" and vs: "vs = u # us"
      by (auto split: option.splits)
    from deep_copier.copies [OF copier Cons.prems(1) u] obtain y h1
      where y: "copy x h = (Ok y, h1)" "store_ok h1" "h \<le> h1" "val h1 y = Some u"
        "foot h1 y \<subseteq> dom (cells h1) - dom (cells h)" by blast
    have "val_list val h1 xs = Some us"
      using list_local [OF copier us extends_agree [OF y(3) list_foot_dom [OF copier us]]] by simp
    from Cons.IH [OF y(2) this] obtain ys h2
      where ys: "copy_list copy xs h1 = (Ok ys, h2)" "store_ok h2" "h1 \<le> h2" "val_list val h2 ys = Some us"
        "\<Union> (foot h2 ` set ys) \<subseteq> dom (cells h2) - dom (cells h1)" by blast
    note kept = deep_copier.extended [OF copier y(4) ys(3)]
    have "\<Union> (foot h2 ` set (y # ys)) = foot h1 y \<union> \<Union> (foot h2 ` set ys)" by (simp add: kept(2))
    also have "\<dots> \<subseteq> dom (cells h2) - dom (cells h)"
      by (rule fresh_union [OF y(5) ys(5) extends_dom [OF y(3)] extends_dom [OF ys(3)]])
    finally have "\<Union> (foot h2 ` set (y # ys)) \<subseteq> dom (cells h2) - dom (cells h)" .
    then show ?case
      using y ys kept order_trans [OF y(3) ys(3)] vs
      by (intro exI [of _ "y # ys"] exI [of _ h2]) (simp add: go_defs)
  qed
next
  case (2 h xs vs)
  then show ?case by (rule list_foot_dom [OF copier])
next
  case (3 h xs vs h')
  then show ?case by (rule list_local [OF copier])
qed

lemma copy_list_length: "copy_list into xs h = (Ok ys, h') \<Longrightarrow> length ys = length xs"
  by (induction xs arbitrary: ys h h') (auto simp: go_defs split: prod.splits outcome.splits)

lemma deep_copier_slice:
  assumes copier: "deep_copier copy val foot" and wrap: "\<And>xs. proj (wrap xs) = Some xs"
  shows "deep_copier (copy_slice proj wrap copy) (val_slice proj val) (foot_slice proj foot)"
proof (unfold_locales, goal_cases)
  case (1 h p vs)
  note list = deep_copier_list [OF copier]
  show ?case
  proof (cases p)
    case None
    with 1 show ?thesis
      by (auto simp: copy_slice_def foot_slice_def val_slice_def go_return_def)
  next
    case (Some sl)
    with 1 obtain xs where xs: "load_slice proj h sl = Some xs" "val_list val h xs = Some vs"
      by (auto simp: val_slice_def split: bind_splits)
    from deep_copier.copies [OF list 1(1) xs(2)] obtain ys h1
      where ys: "copy_list copy xs h = (Ok ys, h1)" "store_ok h1" "h \<le> h1" "val_list val h1 ys = Some vs"
        "\<Union> (foot h1 ` set ys) \<subseteq> dom (cells h1) - dom (cells h)" by blast
    obtain h2 where new: "store_new (wrap ys) h1 = (Ok (lim h1), h2)" by (simp add: store_new_def)
    note n = store_new_result [OF ys(2) new]
    note kept = deep_copier.extended [OF list ys(4) n(3)]
    define q where "q = \<lparr>slice_array = lim h1, slice_offset = 0, slice_len = length ys\<rparr>"
    have load: "load_slice proj h2 q = Some ys"
      using n(5) wrap by (simp add: load_slice_def slice_elems_def q_def)
    have "foot_slice proj foot h2 (Some q) = insert (lim h1) (\<Union> (foot h2 ` set ys))"
      using load by (simp add: foot_slice_def) (simp add: q_def)
    also have "\<dots> \<subseteq> dom (cells h2) - dom (cells h)"
      unfolding kept(2) n(6) using ys(5) n(4) extends_dom [OF ys(3)] by blast
    finally have "foot_slice proj foot h2 (Some q) \<subseteq> dom (cells h2) - dom (cells h)" .
    moreover have "val_slice proj val h2 (Some q) = Some vs" using load kept by (simp add: val_slice_def)
    ultimately show ?thesis
      using Some xs(1) ys(1) new n order_trans [OF ys(3) n(3)]
      by (intro exI [of _ "Some q"] exI [of _ h2]) (simp add: copy_slice_def go_defs q_def)
  qed
next
  case (2 h p vs)
  show ?case
  proof (cases p)
    case (Some sl)
    with 2 obtain xs where "load_slice proj h sl = Some xs" "val_list val h xs = Some vs"
      by (auto simp: val_slice_def split: bind_splits)
    moreover from this(1) have "slice_array sl \<in> dom (cells h)"
      by (auto simp: load_slice_def bind_eq_Some_conv)
    ultimately show ?thesis
      using Some list_foot_dom [OF copier, of h xs vs] by (simp add: foot_slice_def)
  qed (simp add: foot_slice_def)
next
  case (3 h p vs h')
  show ?case
  proof (cases p)
    case None
    with 3 show ?thesis by (simp add: val_slice_def foot_slice_def)
  next
    case (Some sl)
    with 3 obtain xs where xs: "load_slice proj h sl = Some xs" "val_list val h xs = Some vs"
      by (auto simp: val_slice_def split: bind_splits)
    with 3(2) Some have agree: "agree_on (\<Union> (foot h ` set xs)) h h'"
      and "cells h' (slice_array sl) = cells h (slice_array sl)"
      by (simp_all add: foot_slice_def agree_on_def)
    with xs have "load_slice proj h' sl = Some xs" by (simp add: load_slice_def)
    with list_local [OF copier xs(2) agree] show ?thesis
      using Some xs by (simp add: val_slice_def foot_slice_def)
  qed
qed

text \<open>Nil and empty are told apart.\<close>

lemma copy_slice_nil:
  "copy_slice proj wrap into p h = (Ok q, h') \<Longrightarrow> q = None \<longleftrightarrow> p = None"
  by (auto simp: copy_slice_def go_defs split: option.splits prod.splits outcome.splits)

lemma copy_ptr_nil:
  "copy_ptr proj wrap into p h = (Ok q, h') \<Longrightarrow> q = None \<longleftrightarrow> p = None"
  by (auto simp: copy_ptr_def go_defs split: option.splits prod.splits outcome.splits)

end
