(* ===== verification/Deep_Copy.thy ===== *)
theory Deep_Copy
  imports Api_Types Go_Memory
begin

text \<open>
  \<open>api/v1beta1/zz_generated.deepcopy.go\<close>: \<open>DeepCopyInto\<close>, \<open>DeepCopy\<close> and \<open>DeepCopyObject\<close> of every API
  type, over the store of \<open>Go_Memory\<close>. A struct in memory (a record ending in \<open>M\<close>) holds addresses where
  \<open>Api_Types\<close> holds the data; structs without pointers are the same in both. \<open>DeepCopyInto\<close> returns the
  struct that is written to \<open>*out\<close>; \<open>T_val\<close> reads a struct with every pointer followed, as the record of
  \<open>Api_Types\<close>, and \<open>T_foot\<close> collects the cells it reaches. Structs of the Kubernetes libraries are of an
  unknown type \<open>'x\<close> and are copied by functions that are parameters (\<open>copy_lib\<close>).
\<close>

section \<open>Structs in memory\<close>

record VLANConfigM =
  VLANConfigM_Subnet :: string
  VLANConfigM_VID :: "nat option"
  VLANConfigM_ExistingVLANID :: "nat option"
  VLANConfigM_NetworkInterface :: string

record ClusterSpecM =
  ClusterSpecM_Location :: string
  ClusterSpecM_ProjectRef :: "nat option"
  ClusterSpecM_ControlPlaneEndpoint :: APIEndpoint
  ClusterSpecM_VLANConfig :: "nat option"

record ClusterStatusM =
  ClusterStatusM_Ready :: bool
  ClusterStatusM_ControlPlaneEndpoint :: APIEndpoint
  ClusterStatusM_VLANID :: "nat option"
  ClusterStatusM_VLANVID :: "nat option"
  ClusterStatusM_Conditions :: "slice option"

record MachineSpecM =
  MachineSpecM_ProviderID :: "nat option"
  MachineSpecM_OperatingSystem :: string
  MachineSpecM_Plan :: string
  MachineSpecM_SSHKeySecretRef :: "nat option"

record MachineStatusM =
  MachineStatusM_Ready :: bool
  MachineStatusM_ProviderID :: string
  MachineStatusM_ServerID :: string
  MachineStatusM_UserDataID :: string
  MachineStatusM_Addresses :: "slice option"
  MachineStatusM_FailureReason :: "nat option"
  MachineStatusM_FailureMessage :: "nat option"
  MachineStatusM_Conditions :: "slice option"

record TemplateResourceM =
  TemplateResourceM_Spec :: MachineSpecM

record TemplateSpecM =
  TemplateSpecM_Template :: TemplateResourceM

record 'x ClusterM =
  ClusterM_TypeMeta :: TypeMeta
  ClusterM_ObjectMeta :: 'x
  ClusterM_Spec :: ClusterSpecM
  ClusterM_Status :: ClusterStatusM

record 'x MachineM =
  MachineM_TypeMeta :: TypeMeta
  MachineM_ObjectMeta :: 'x
  MachineM_Spec :: MachineSpecM
  MachineM_Status :: MachineStatusM

record 'x TemplateM =
  TemplateM_TypeMeta :: TypeMeta
  TemplateM_ObjectMeta :: 'x
  TemplateM_Spec :: TemplateSpecM

text \<open>The three list types have the same shape.\<close>

record 'x ListM =
  ListM_TypeMeta :: TypeMeta
  ListM_ListMeta :: 'x
  ListM_Items :: "slice option"

text \<open>A cell holds a value of one of the types pointers and slices refer to.\<close>

datatype 'x cell =
    StringCell string
  | IntCell int
  | SecretReferenceCell SecretReference
  | ConditionsCell "Condition list"
  | AddressesCell "MachineAddress list"
  | APIEndpointCell APIEndpoint
  | ProjectRefCell ProjectRef
  | VLANConfigCell VLANConfigM
  | ClusterSpecCell ClusterSpecM
  | ClusterStatusCell ClusterStatusM
  | ClusterCell "'x ClusterM"
  | ClustersCell "'x ClusterM list"
  | ClusterListCell "'x ListM"
  | MachineSpecCell MachineSpecM
  | MachineStatusCell MachineStatusM
  | MachineCell "'x MachineM"
  | MachinesCell "'x MachineM list"
  | MachineListCell "'x ListM"
  | TemplateResourceCell TemplateResourceM
  | TemplateSpecCell TemplateSpecM
  | TemplateCell "'x TemplateM"
  | TemplatesCell "'x TemplateM list"
  | TemplateListCell "'x ListM"
  | LibraryCell 'x

text \<open>Reading a cell at its type.\<close>

definition at_string :: "'x cell \<Rightarrow> string option" where
  "at_string c = (case c of StringCell v \<Rightarrow> Some v | _ \<Rightarrow> None)"

definition at_int :: "'x cell \<Rightarrow> int option" where
  "at_int c = (case c of IntCell v \<Rightarrow> Some v | _ \<Rightarrow> None)"

definition at_secret_ref :: "'x cell \<Rightarrow> SecretReference option" where
  "at_secret_ref c = (case c of SecretReferenceCell v \<Rightarrow> Some v | _ \<Rightarrow> None)"

definition at_conditions :: "'x cell \<Rightarrow> (Condition list) option" where
  "at_conditions c = (case c of ConditionsCell v \<Rightarrow> Some v | _ \<Rightarrow> None)"

definition at_addresses :: "'x cell \<Rightarrow> (MachineAddress list) option" where
  "at_addresses c = (case c of AddressesCell v \<Rightarrow> Some v | _ \<Rightarrow> None)"

definition at_endpoint :: "'x cell \<Rightarrow> APIEndpoint option" where
  "at_endpoint c = (case c of APIEndpointCell v \<Rightarrow> Some v | _ \<Rightarrow> None)"

definition at_project_ref :: "'x cell \<Rightarrow> ProjectRef option" where
  "at_project_ref c = (case c of ProjectRefCell v \<Rightarrow> Some v | _ \<Rightarrow> None)"

definition at_vlan_config :: "'x cell \<Rightarrow> VLANConfigM option" where
  "at_vlan_config c = (case c of VLANConfigCell v \<Rightarrow> Some v | _ \<Rightarrow> None)"

definition at_cluster_spec :: "'x cell \<Rightarrow> ClusterSpecM option" where
  "at_cluster_spec c = (case c of ClusterSpecCell v \<Rightarrow> Some v | _ \<Rightarrow> None)"

definition at_cluster_status :: "'x cell \<Rightarrow> ClusterStatusM option" where
  "at_cluster_status c = (case c of ClusterStatusCell v \<Rightarrow> Some v | _ \<Rightarrow> None)"

definition at_cluster :: "'x cell \<Rightarrow> ('x ClusterM) option" where
  "at_cluster c = (case c of ClusterCell v \<Rightarrow> Some v | _ \<Rightarrow> None)"

definition at_clusters :: "'x cell \<Rightarrow> ('x ClusterM list) option" where
  "at_clusters c = (case c of ClustersCell v \<Rightarrow> Some v | _ \<Rightarrow> None)"

definition at_cluster_list :: "'x cell \<Rightarrow> ('x ListM) option" where
  "at_cluster_list c = (case c of ClusterListCell v \<Rightarrow> Some v | _ \<Rightarrow> None)"

definition at_machine_spec :: "'x cell \<Rightarrow> MachineSpecM option" where
  "at_machine_spec c = (case c of MachineSpecCell v \<Rightarrow> Some v | _ \<Rightarrow> None)"

definition at_machine_status :: "'x cell \<Rightarrow> MachineStatusM option" where
  "at_machine_status c = (case c of MachineStatusCell v \<Rightarrow> Some v | _ \<Rightarrow> None)"

definition at_machine :: "'x cell \<Rightarrow> ('x MachineM) option" where
  "at_machine c = (case c of MachineCell v \<Rightarrow> Some v | _ \<Rightarrow> None)"

definition at_machines :: "'x cell \<Rightarrow> ('x MachineM list) option" where
  "at_machines c = (case c of MachinesCell v \<Rightarrow> Some v | _ \<Rightarrow> None)"

definition at_machine_list :: "'x cell \<Rightarrow> ('x ListM) option" where
  "at_machine_list c = (case c of MachineListCell v \<Rightarrow> Some v | _ \<Rightarrow> None)"

definition at_template_resource :: "'x cell \<Rightarrow> TemplateResourceM option" where
  "at_template_resource c = (case c of TemplateResourceCell v \<Rightarrow> Some v | _ \<Rightarrow> None)"

definition at_template_spec :: "'x cell \<Rightarrow> TemplateSpecM option" where
  "at_template_spec c = (case c of TemplateSpecCell v \<Rightarrow> Some v | _ \<Rightarrow> None)"

definition at_template :: "'x cell \<Rightarrow> ('x TemplateM) option" where
  "at_template c = (case c of TemplateCell v \<Rightarrow> Some v | _ \<Rightarrow> None)"

definition at_templates :: "'x cell \<Rightarrow> ('x TemplateM list) option" where
  "at_templates c = (case c of TemplatesCell v \<Rightarrow> Some v | _ \<Rightarrow> None)"

definition at_template_list :: "'x cell \<Rightarrow> ('x ListM) option" where
  "at_template_list c = (case c of TemplateListCell v \<Rightarrow> Some v | _ \<Rightarrow> None)"

lemmas at_defs =
  at_string_def at_int_def at_secret_ref_def at_conditions_def
  at_addresses_def at_endpoint_def at_project_ref_def at_vlan_config_def
  at_cluster_spec_def at_cluster_status_def at_cluster_def at_clusters_def
  at_cluster_list_def at_machine_spec_def at_machine_status_def at_machine_def
  at_machines_def at_machine_list_def at_template_resource_def at_template_spec_def
  at_template_def at_templates_def at_template_list_def

lemma at_simps [simp]:
  "at_string (StringCell v0) = Some v0"
  "at_int (IntCell v1) = Some v1"
  "at_secret_ref (SecretReferenceCell v2) = Some v2"
  "at_conditions (ConditionsCell v3) = Some v3"
  "at_addresses (AddressesCell v4) = Some v4"
  "at_endpoint (APIEndpointCell v5) = Some v5"
  "at_project_ref (ProjectRefCell v6) = Some v6"
  "at_vlan_config (VLANConfigCell v7) = Some v7"
  "at_cluster_spec (ClusterSpecCell v8) = Some v8"
  "at_cluster_status (ClusterStatusCell v9) = Some v9"
  "at_cluster (ClusterCell v10) = Some v10"
  "at_clusters (ClustersCell v11) = Some v11"
  "at_cluster_list (ClusterListCell v12) = Some v12"
  "at_machine_spec (MachineSpecCell v13) = Some v13"
  "at_machine_status (MachineStatusCell v14) = Some v14"
  "at_machine (MachineCell v15) = Some v15"
  "at_machines (MachinesCell v16) = Some v16"
  "at_machine_list (MachineListCell v17) = Some v17"
  "at_template_resource (TemplateResourceCell v18) = Some v18"
  "at_template_spec (TemplateSpecCell v19) = Some v19"
  "at_template (TemplateCell v20) = Some v20"
  "at_templates (TemplatesCell v21) = Some v21"
  "at_template_list (TemplateListCell v22) = Some v22"
  by (simp_all add: at_defs)

section \<open>The functions of the library\<close>

text \<open>
  Copies of library structs (\<open>metav1.ObjectMeta\<close>, \<open>metav1.ListMeta\<close>, \<open>metav1.Condition\<close>), and what their
  representation means and reaches. Their documented behaviour is that they are deep copies; a
  condition has no pointers.
\<close>

record 'x copy_lib =
  ObjectMeta_DeepCopyInto :: "'x \<Rightarrow> ('x cell store, 'x) run"
  ObjectMeta_val :: "'x cell store \<Rightarrow> 'x \<Rightarrow> ObjectMeta option"
  ObjectMeta_foot :: "'x cell store \<Rightarrow> 'x \<Rightarrow> nat set"
  ListMeta_DeepCopyInto :: "'x \<Rightarrow> ('x cell store, 'x) run"
  ListMeta_val :: "'x cell store \<Rightarrow> 'x \<Rightarrow> ListMeta option"
  ListMeta_foot :: "'x cell store \<Rightarrow> 'x \<Rightarrow> nat set"
  Condition_DeepCopyInto :: "Condition \<Rightarrow> ('x cell store, Condition) run"

definition copy_library :: "'x copy_lib \<Rightarrow> bool" where
  "copy_library lib \<longleftrightarrow>
     deep_copier (ObjectMeta_DeepCopyInto lib) (ObjectMeta_val lib) (ObjectMeta_foot lib) \<and>
     deep_copier (ListMeta_DeepCopyInto lib) (ListMeta_val lib) (ListMeta_foot lib) \<and>
     deep_copier (Condition_DeepCopyInto lib) (\<lambda>_. Some) (\<lambda>_ _. {})"

named_theorems copiers "deep copies of the API types"
named_theorems copy_defs "the copies, values and footprints of structs"

section \<open>Pointers and slices of plain data\<close>

text \<open>\<open>*out = new(T); **out = **in\<close> for a \<open>T\<close> without pointers, and \<open>copy\<close> on a slice of them.\<close>

definition copy_plain ::
  "('x cell \<Rightarrow> 's option) \<Rightarrow> ('s \<Rightarrow> 'x cell) \<Rightarrow> nat option \<Rightarrow> ('x cell store, nat option) run" where
  "copy_plain proj wrap = copy_ptr proj wrap go_return"

definition val_plain :: "('x cell \<Rightarrow> 's option) \<Rightarrow> 'x cell store \<Rightarrow> nat option \<Rightarrow> 's option option" where
  "val_plain proj = val_ptr proj (\<lambda>_. Some)"

definition foot_plain :: "('x cell \<Rightarrow> 's option) \<Rightarrow> 'x cell store \<Rightarrow> nat option \<Rightarrow> nat set" where
  "foot_plain proj = foot_ptr proj (\<lambda>_ _. {})"

lemma copier_plain [copiers]:
  "(\<And>x. proj (wrap x) = Some x) \<Longrightarrow> deep_copier (copy_plain proj wrap) (val_plain proj) (foot_plain proj)"
  unfolding copy_plain_def val_plain_def foot_plain_def
  by (rule deep_copier_ptr [OF plain_copy.deep_copier_axioms])

definition copy_addresses :: "slice option \<Rightarrow> ('x cell store, slice option) run" where
  "copy_addresses = copy_slice at_addresses AddressesCell go_return"

definition copy_conditions :: "'x copy_lib \<Rightarrow> slice option \<Rightarrow> ('x cell store, slice option) run" where
  "copy_conditions lib = copy_slice at_conditions ConditionsCell (Condition_DeepCopyInto lib)"

lemma copier_addresses [copiers]:
  "deep_copier copy_addresses (val_slice at_addresses (\<lambda>_. Some)) (foot_slice at_addresses (\<lambda>_ _. {}))"
  unfolding copy_addresses_def by (rule deep_copier_slice [OF plain_copy.deep_copier_axioms]) simp

lemma copier_conditions [copiers]:
  "copy_library lib \<Longrightarrow> deep_copier (copy_conditions lib) (val_slice at_conditions (\<lambda>_. Some))
     (foot_slice at_conditions (\<lambda>_ _. {}))"
  unfolding copy_conditions_def copy_library_def by (rule deep_copier_slice) simp_all

lemma copier_library [copiers]:
  assumes "copy_library lib"
  shows "deep_copier (ObjectMeta_DeepCopyInto lib) (ObjectMeta_val lib) (ObjectMeta_foot lib)"
    and "deep_copier (ListMeta_DeepCopyInto lib) (ListMeta_val lib) (ListMeta_foot lib)"
  using assms by (simp_all add: copy_library_def)

section \<open>\<open>VLANConfig\<close>\<close>

definition VLANConfig_DeepCopyInto :: "VLANConfigM \<Rightarrow> ('x cell store, VLANConfigM) run" where
  "VLANConfig_DeepCopyInto s =
     go_bind (copy_plain at_int IntCell (VLANConfigM_VID s)) (\<lambda>vid.
     go_bind (copy_plain at_string StringCell (VLANConfigM_ExistingVLANID s)) (\<lambda>existing.
     go_return (s\<lparr>VLANConfigM_VID := vid, VLANConfigM_ExistingVLANID := existing\<rparr>)))"

definition VLANConfig_val :: "'x cell store \<Rightarrow> VLANConfigM \<Rightarrow> VLANConfig option" where
  "VLANConfig_val h s =
     map_option (\<lambda>(vid, existing).
        \<lparr>VLANConfig_Subnet = VLANConfigM_Subnet s, VLANConfig_VID = vid, VLANConfig_ExistingVLANID = existing,
        VLANConfig_NetworkInterface = VLANConfigM_NetworkInterface s\<rparr>)
       (val_pair (val_plain at_int) (val_plain at_string) h
         (VLANConfigM_VID s, VLANConfigM_ExistingVLANID s))"

definition VLANConfig_foot :: "'x cell store \<Rightarrow> VLANConfigM \<Rightarrow> nat set" where
  "VLANConfig_foot h s =
     foot_pair (foot_plain at_int) (foot_plain at_string) h
       (VLANConfigM_VID s, VLANConfigM_ExistingVLANID s)"

lemma copier_VLANConfig [copiers]:
  "deep_copier VLANConfig_DeepCopyInto VLANConfig_val VLANConfig_foot"
  by (rule deep_copier_struct [where upd = "\<lambda>s (vid, existing). s\<lparr>VLANConfigM_VID := vid, VLANConfigM_ExistingVLANID := existing\<rparr>",
        OF deep_copier_pair [OF copier_plain [where proj = at_int and wrap = IntCell] copier_plain [where proj = at_string and wrap = StringCell]]
        _ VLANConfig_val_def VLANConfig_foot_def])
    (auto simp: VLANConfig_DeepCopyInto_def copy_pair_def go_bind_assoc go_bind_return)

section \<open>\<open>LatitudeClusterSpec\<close>\<close>

definition LatitudeClusterSpec_DeepCopyInto :: "ClusterSpecM \<Rightarrow> ('x cell store, ClusterSpecM) run" where
  "LatitudeClusterSpec_DeepCopyInto s =
     go_bind (copy_plain at_project_ref ProjectRefCell (ClusterSpecM_ProjectRef s)) (\<lambda>pr.
     go_bind (copy_ptr at_vlan_config VLANConfigCell VLANConfig_DeepCopyInto (ClusterSpecM_VLANConfig s)) (\<lambda>vlan.
     go_return (s\<lparr>ClusterSpecM_ProjectRef := pr, ClusterSpecM_VLANConfig := vlan\<rparr>)))"

definition LatitudeClusterSpec_val :: "'x cell store \<Rightarrow> ClusterSpecM \<Rightarrow> LatitudeClusterSpec option" where
  "LatitudeClusterSpec_val h s =
     map_option (\<lambda>(pr, vlan).
        \<lparr>ClusterSpec_Location = ClusterSpecM_Location s, ClusterSpec_ProjectRef = pr,
        ClusterSpec_ControlPlaneEndpoint = ClusterSpecM_ControlPlaneEndpoint s, ClusterSpec_VLANConfig = vlan\<rparr>)
       (val_pair (val_plain at_project_ref) (val_ptr at_vlan_config VLANConfig_val) h
         (ClusterSpecM_ProjectRef s, ClusterSpecM_VLANConfig s))"

definition LatitudeClusterSpec_foot :: "'x cell store \<Rightarrow> ClusterSpecM \<Rightarrow> nat set" where
  "LatitudeClusterSpec_foot h s =
     foot_pair (foot_plain at_project_ref) (foot_ptr at_vlan_config VLANConfig_foot) h
       (ClusterSpecM_ProjectRef s, ClusterSpecM_VLANConfig s)"

lemma copier_LatitudeClusterSpec [copiers]:
  "deep_copier LatitudeClusterSpec_DeepCopyInto LatitudeClusterSpec_val LatitudeClusterSpec_foot"
  by (rule deep_copier_struct [where upd = "\<lambda>s (pr, vlan). s\<lparr>ClusterSpecM_ProjectRef := pr, ClusterSpecM_VLANConfig := vlan\<rparr>",
        OF deep_copier_pair [OF copier_plain [where proj = at_project_ref and wrap = ProjectRefCell] deep_copier_ptr [OF copier_VLANConfig, of at_vlan_config VLANConfigCell]]
        _ LatitudeClusterSpec_val_def LatitudeClusterSpec_foot_def])
    (auto simp: LatitudeClusterSpec_DeepCopyInto_def copy_pair_def go_bind_assoc go_bind_return)

section \<open>\<open>LatitudeClusterStatus\<close>\<close>

definition LatitudeClusterStatus_DeepCopyInto :: "'x copy_lib \<Rightarrow> ClusterStatusM \<Rightarrow> ('x cell store, ClusterStatusM) run" where
  "LatitudeClusterStatus_DeepCopyInto lib s =
     go_bind (copy_plain at_string StringCell (ClusterStatusM_VLANID s)) (\<lambda>i.
     go_bind (copy_plain at_int IntCell (ClusterStatusM_VLANVID s)) (\<lambda>vid.
     go_bind (copy_conditions lib (ClusterStatusM_Conditions s)) (\<lambda>conds.
     go_return (s\<lparr>ClusterStatusM_VLANID := i, ClusterStatusM_VLANVID := vid, ClusterStatusM_Conditions := conds\<rparr>))))"

definition LatitudeClusterStatus_val :: "'x cell store \<Rightarrow> ClusterStatusM \<Rightarrow> LatitudeClusterStatus option" where
  "LatitudeClusterStatus_val h s =
     map_option (\<lambda>(i, (vid, conds)).
        \<lparr>ClusterStatus_Ready = ClusterStatusM_Ready s,
        ClusterStatus_ControlPlaneEndpoint = ClusterStatusM_ControlPlaneEndpoint s,
        ClusterStatus_VLANID = i, ClusterStatus_VLANVID = vid, ClusterStatus_Conditions = conds\<rparr>)
       (val_pair (val_plain at_string) (val_pair (val_plain at_int) (val_slice at_conditions (\<lambda>_. Some))) h
         (ClusterStatusM_VLANID s, ClusterStatusM_VLANVID s, ClusterStatusM_Conditions s))"

definition LatitudeClusterStatus_foot :: "'x cell store \<Rightarrow> ClusterStatusM \<Rightarrow> nat set" where
  "LatitudeClusterStatus_foot h s =
     foot_pair (foot_plain at_string) (foot_pair (foot_plain at_int) (foot_slice at_conditions (\<lambda>_ _. {}))) h
       (ClusterStatusM_VLANID s, ClusterStatusM_VLANVID s, ClusterStatusM_Conditions s)"

lemma copier_LatitudeClusterStatus [copiers]:
  assumes lib: "copy_library lib"
  shows "deep_copier (LatitudeClusterStatus_DeepCopyInto lib) LatitudeClusterStatus_val LatitudeClusterStatus_foot"
  by (rule deep_copier_struct [where upd = "\<lambda>s (i, (vid, conds)). s\<lparr>ClusterStatusM_VLANID := i, ClusterStatusM_VLANVID := vid, ClusterStatusM_Conditions := conds\<rparr>",
        OF deep_copier_pair [OF copier_plain [where proj = at_string and wrap = StringCell] deep_copier_pair [OF copier_plain [where proj = at_int and wrap = IntCell] copier_conditions [OF lib]]]
        _ LatitudeClusterStatus_val_def LatitudeClusterStatus_foot_def])
    (auto simp: LatitudeClusterStatus_DeepCopyInto_def copy_pair_def go_bind_assoc go_bind_return)

section \<open>\<open>LatitudeCluster\<close>\<close>

definition LatitudeCluster_DeepCopyInto :: "'x copy_lib \<Rightarrow> 'x ClusterM \<Rightarrow> ('x cell store, 'x ClusterM) run" where
  "LatitudeCluster_DeepCopyInto lib s =
     go_bind (ObjectMeta_DeepCopyInto lib (ClusterM_ObjectMeta s)) (\<lambda>meta.
     go_bind (LatitudeClusterSpec_DeepCopyInto (ClusterM_Spec s)) (\<lambda>spec.
     go_bind (LatitudeClusterStatus_DeepCopyInto lib (ClusterM_Status s)) (\<lambda>status.
     go_return (s\<lparr>ClusterM_ObjectMeta := meta, ClusterM_Spec := spec, ClusterM_Status := status\<rparr>))))"

definition LatitudeCluster_val :: "'x copy_lib \<Rightarrow> 'x cell store \<Rightarrow> 'x ClusterM \<Rightarrow> (TypeMeta \<times> LatitudeCluster) option" where
  "LatitudeCluster_val lib h s =
     map_option (\<lambda>(meta, (spec, status)).
        (ClusterM_TypeMeta s, \<lparr>LatitudeCluster_ObjectMeta = meta, LatitudeCluster_Spec = spec,
        LatitudeCluster_Status = status\<rparr>))
       (val_pair (ObjectMeta_val lib) (val_pair LatitudeClusterSpec_val LatitudeClusterStatus_val) h
         (ClusterM_ObjectMeta s, ClusterM_Spec s, ClusterM_Status s))"

definition LatitudeCluster_foot :: "'x copy_lib \<Rightarrow> 'x cell store \<Rightarrow> 'x ClusterM \<Rightarrow> nat set" where
  "LatitudeCluster_foot lib h s =
     foot_pair (ObjectMeta_foot lib) (foot_pair LatitudeClusterSpec_foot LatitudeClusterStatus_foot) h
       (ClusterM_ObjectMeta s, ClusterM_Spec s, ClusterM_Status s)"

lemma copier_LatitudeCluster [copiers]:
  assumes lib: "copy_library lib"
  shows "deep_copier (LatitudeCluster_DeepCopyInto lib) (LatitudeCluster_val lib) (LatitudeCluster_foot lib)"
  by (rule deep_copier_struct [where upd = "\<lambda>s (meta, (spec, status)). s\<lparr>ClusterM_ObjectMeta := meta, ClusterM_Spec := spec, ClusterM_Status := status\<rparr>",
        OF deep_copier_pair [OF copier_library(1) [OF lib] deep_copier_pair [OF copier_LatitudeClusterSpec copier_LatitudeClusterStatus [OF lib]]]
        _ LatitudeCluster_val_def LatitudeCluster_foot_def])
    (auto simp: LatitudeCluster_DeepCopyInto_def copy_pair_def go_bind_assoc go_bind_return)

section \<open>\<open>LatitudeClusterList\<close>\<close>

definition LatitudeClusterList_DeepCopyInto :: "'x copy_lib \<Rightarrow> 'x ListM \<Rightarrow> ('x cell store, 'x ListM) run" where
  "LatitudeClusterList_DeepCopyInto lib s =
     go_bind (ListMeta_DeepCopyInto lib (ListM_ListMeta s)) (\<lambda>meta.
     go_bind (copy_slice at_clusters ClustersCell (LatitudeCluster_DeepCopyInto lib) (ListM_Items s)) (\<lambda>items.
     go_return (s\<lparr>ListM_ListMeta := meta, ListM_Items := items\<rparr>)))"

definition LatitudeClusterList_val :: "'x copy_lib \<Rightarrow> 'x cell store \<Rightarrow> 'x ListM \<Rightarrow> (TypeMeta \<times> LatitudeClusterList) option" where
  "LatitudeClusterList_val lib h s =
     map_option (\<lambda>(meta, items).
        (ListM_TypeMeta s, \<lparr>LatitudeClusterList_ListMeta = meta, LatitudeClusterList_Items = items\<rparr>))
       (val_pair (ListMeta_val lib) (val_slice at_clusters (LatitudeCluster_val lib)) h
         (ListM_ListMeta s, ListM_Items s))"

definition LatitudeClusterList_foot :: "'x copy_lib \<Rightarrow> 'x cell store \<Rightarrow> 'x ListM \<Rightarrow> nat set" where
  "LatitudeClusterList_foot lib h s =
     foot_pair (ListMeta_foot lib) (foot_slice at_clusters (LatitudeCluster_foot lib)) h
       (ListM_ListMeta s, ListM_Items s)"

lemma copier_LatitudeClusterList [copiers]:
  assumes lib: "copy_library lib"
  shows "deep_copier (LatitudeClusterList_DeepCopyInto lib) (LatitudeClusterList_val lib) (LatitudeClusterList_foot lib)"
  by (rule deep_copier_struct [where upd = "\<lambda>s (meta, items). s\<lparr>ListM_ListMeta := meta, ListM_Items := items\<rparr>",
        OF deep_copier_pair [OF copier_library(2) [OF lib] deep_copier_slice [OF copier_LatitudeCluster [OF lib], of at_clusters ClustersCell]]
        _ LatitudeClusterList_val_def LatitudeClusterList_foot_def])
    (auto simp: LatitudeClusterList_DeepCopyInto_def copy_pair_def go_bind_assoc go_bind_return)

section \<open>\<open>LatitudeMachineSpec\<close>\<close>

definition LatitudeMachineSpec_DeepCopyInto :: "MachineSpecM \<Rightarrow> ('x cell store, MachineSpecM) run" where
  "LatitudeMachineSpec_DeepCopyInto s =
     go_bind (copy_plain at_string StringCell (MachineSpecM_ProviderID s)) (\<lambda>pid.
     go_bind (copy_plain at_secret_ref SecretReferenceCell (MachineSpecM_SSHKeySecretRef s)) (\<lambda>ref.
     go_return (s\<lparr>MachineSpecM_ProviderID := pid, MachineSpecM_SSHKeySecretRef := ref\<rparr>)))"

definition LatitudeMachineSpec_val :: "'x cell store \<Rightarrow> MachineSpecM \<Rightarrow> LatitudeMachineSpec option" where
  "LatitudeMachineSpec_val h s =
     map_option (\<lambda>(pid, ref).
        \<lparr>MachineSpec_ProviderID = pid, MachineSpec_OperatingSystem = MachineSpecM_OperatingSystem s,
        MachineSpec_Plan = MachineSpecM_Plan s, MachineSpec_SSHKeySecretRef = ref\<rparr>)
       (val_pair (val_plain at_string) (val_plain at_secret_ref) h
         (MachineSpecM_ProviderID s, MachineSpecM_SSHKeySecretRef s))"

definition LatitudeMachineSpec_foot :: "'x cell store \<Rightarrow> MachineSpecM \<Rightarrow> nat set" where
  "LatitudeMachineSpec_foot h s =
     foot_pair (foot_plain at_string) (foot_plain at_secret_ref) h
       (MachineSpecM_ProviderID s, MachineSpecM_SSHKeySecretRef s)"

lemma copier_LatitudeMachineSpec [copiers]:
  "deep_copier LatitudeMachineSpec_DeepCopyInto LatitudeMachineSpec_val LatitudeMachineSpec_foot"
  by (rule deep_copier_struct [where upd = "\<lambda>s (pid, ref). s\<lparr>MachineSpecM_ProviderID := pid, MachineSpecM_SSHKeySecretRef := ref\<rparr>",
        OF deep_copier_pair [OF copier_plain [where proj = at_string and wrap = StringCell] copier_plain [where proj = at_secret_ref and wrap = SecretReferenceCell]]
        _ LatitudeMachineSpec_val_def LatitudeMachineSpec_foot_def])
    (auto simp: LatitudeMachineSpec_DeepCopyInto_def copy_pair_def go_bind_assoc go_bind_return)

section \<open>\<open>LatitudeMachineStatus\<close>\<close>

definition LatitudeMachineStatus_DeepCopyInto :: "'x copy_lib \<Rightarrow> MachineStatusM \<Rightarrow> ('x cell store, MachineStatusM) run" where
  "LatitudeMachineStatus_DeepCopyInto lib s =
     go_bind (copy_addresses (MachineStatusM_Addresses s)) (\<lambda>addrs.
     go_bind (copy_plain at_string StringCell (MachineStatusM_FailureReason s)) (\<lambda>reason.
     go_bind (copy_plain at_string StringCell (MachineStatusM_FailureMessage s)) (\<lambda>msg.
     go_bind (copy_conditions lib (MachineStatusM_Conditions s)) (\<lambda>conds.
     go_return (s\<lparr>MachineStatusM_Addresses := addrs, MachineStatusM_FailureReason := reason, MachineStatusM_FailureMessage := msg, MachineStatusM_Conditions := conds\<rparr>)))))"

definition LatitudeMachineStatus_val :: "'x cell store \<Rightarrow> MachineStatusM \<Rightarrow> LatitudeMachineStatus option" where
  "LatitudeMachineStatus_val h s =
     map_option (\<lambda>(addrs, (reason, (msg, conds))).
        \<lparr>MachineStatus_Ready = MachineStatusM_Ready s, MachineStatus_ProviderID = MachineStatusM_ProviderID s,
        MachineStatus_ServerID = MachineStatusM_ServerID s, MachineStatus_UserDataID = MachineStatusM_UserDataID s,
        MachineStatus_Addresses = addrs, MachineStatus_FailureReason = reason,
        MachineStatus_FailureMessage = msg, MachineStatus_Conditions = conds\<rparr>)
       (val_pair (val_slice at_addresses (\<lambda>_. Some)) (val_pair (val_plain at_string) (val_pair (val_plain at_string) (val_slice at_conditions (\<lambda>_. Some)))) h
         (MachineStatusM_Addresses s, MachineStatusM_FailureReason s, MachineStatusM_FailureMessage s, MachineStatusM_Conditions s))"

definition LatitudeMachineStatus_foot :: "'x cell store \<Rightarrow> MachineStatusM \<Rightarrow> nat set" where
  "LatitudeMachineStatus_foot h s =
     foot_pair (foot_slice at_addresses (\<lambda>_ _. {})) (foot_pair (foot_plain at_string) (foot_pair (foot_plain at_string) (foot_slice at_conditions (\<lambda>_ _. {})))) h
       (MachineStatusM_Addresses s, MachineStatusM_FailureReason s, MachineStatusM_FailureMessage s, MachineStatusM_Conditions s)"

lemma copier_LatitudeMachineStatus [copiers]:
  assumes lib: "copy_library lib"
  shows "deep_copier (LatitudeMachineStatus_DeepCopyInto lib) LatitudeMachineStatus_val LatitudeMachineStatus_foot"
  by (rule deep_copier_struct [where upd = "\<lambda>s (addrs, (reason, (msg, conds))). s\<lparr>MachineStatusM_Addresses := addrs, MachineStatusM_FailureReason := reason, MachineStatusM_FailureMessage := msg, MachineStatusM_Conditions := conds\<rparr>",
        OF deep_copier_pair [OF copier_addresses deep_copier_pair [OF copier_plain [where proj = at_string and wrap = StringCell] deep_copier_pair [OF copier_plain [where proj = at_string and wrap = StringCell] copier_conditions [OF lib]]]]
        _ LatitudeMachineStatus_val_def LatitudeMachineStatus_foot_def])
    (auto simp: LatitudeMachineStatus_DeepCopyInto_def copy_pair_def go_bind_assoc go_bind_return)

section \<open>\<open>LatitudeMachine\<close>\<close>

definition LatitudeMachine_DeepCopyInto :: "'x copy_lib \<Rightarrow> 'x MachineM \<Rightarrow> ('x cell store, 'x MachineM) run" where
  "LatitudeMachine_DeepCopyInto lib s =
     go_bind (ObjectMeta_DeepCopyInto lib (MachineM_ObjectMeta s)) (\<lambda>meta.
     go_bind (LatitudeMachineSpec_DeepCopyInto (MachineM_Spec s)) (\<lambda>spec.
     go_bind (LatitudeMachineStatus_DeepCopyInto lib (MachineM_Status s)) (\<lambda>status.
     go_return (s\<lparr>MachineM_ObjectMeta := meta, MachineM_Spec := spec, MachineM_Status := status\<rparr>))))"

definition LatitudeMachine_val :: "'x copy_lib \<Rightarrow> 'x cell store \<Rightarrow> 'x MachineM \<Rightarrow> (TypeMeta \<times> LatitudeMachine) option" where
  "LatitudeMachine_val lib h s =
     map_option (\<lambda>(meta, (spec, status)).
        (MachineM_TypeMeta s, \<lparr>LatitudeMachine_ObjectMeta = meta, LatitudeMachine_Spec = spec,
        LatitudeMachine_Status = status\<rparr>))
       (val_pair (ObjectMeta_val lib) (val_pair LatitudeMachineSpec_val LatitudeMachineStatus_val) h
         (MachineM_ObjectMeta s, MachineM_Spec s, MachineM_Status s))"

definition LatitudeMachine_foot :: "'x copy_lib \<Rightarrow> 'x cell store \<Rightarrow> 'x MachineM \<Rightarrow> nat set" where
  "LatitudeMachine_foot lib h s =
     foot_pair (ObjectMeta_foot lib) (foot_pair LatitudeMachineSpec_foot LatitudeMachineStatus_foot) h
       (MachineM_ObjectMeta s, MachineM_Spec s, MachineM_Status s)"

lemma copier_LatitudeMachine [copiers]:
  assumes lib: "copy_library lib"
  shows "deep_copier (LatitudeMachine_DeepCopyInto lib) (LatitudeMachine_val lib) (LatitudeMachine_foot lib)"
  by (rule deep_copier_struct [where upd = "\<lambda>s (meta, (spec, status)). s\<lparr>MachineM_ObjectMeta := meta, MachineM_Spec := spec, MachineM_Status := status\<rparr>",
        OF deep_copier_pair [OF copier_library(1) [OF lib] deep_copier_pair [OF copier_LatitudeMachineSpec copier_LatitudeMachineStatus [OF lib]]]
        _ LatitudeMachine_val_def LatitudeMachine_foot_def])
    (auto simp: LatitudeMachine_DeepCopyInto_def copy_pair_def go_bind_assoc go_bind_return)

section \<open>\<open>LatitudeMachineList\<close>\<close>

definition LatitudeMachineList_DeepCopyInto :: "'x copy_lib \<Rightarrow> 'x ListM \<Rightarrow> ('x cell store, 'x ListM) run" where
  "LatitudeMachineList_DeepCopyInto lib s =
     go_bind (ListMeta_DeepCopyInto lib (ListM_ListMeta s)) (\<lambda>meta.
     go_bind (copy_slice at_machines MachinesCell (LatitudeMachine_DeepCopyInto lib) (ListM_Items s)) (\<lambda>items.
     go_return (s\<lparr>ListM_ListMeta := meta, ListM_Items := items\<rparr>)))"

definition LatitudeMachineList_val :: "'x copy_lib \<Rightarrow> 'x cell store \<Rightarrow> 'x ListM \<Rightarrow> (TypeMeta \<times> LatitudeMachineList) option" where
  "LatitudeMachineList_val lib h s =
     map_option (\<lambda>(meta, items).
        (ListM_TypeMeta s, \<lparr>LatitudeMachineList_ListMeta = meta, LatitudeMachineList_Items = items\<rparr>))
       (val_pair (ListMeta_val lib) (val_slice at_machines (LatitudeMachine_val lib)) h
         (ListM_ListMeta s, ListM_Items s))"

definition LatitudeMachineList_foot :: "'x copy_lib \<Rightarrow> 'x cell store \<Rightarrow> 'x ListM \<Rightarrow> nat set" where
  "LatitudeMachineList_foot lib h s =
     foot_pair (ListMeta_foot lib) (foot_slice at_machines (LatitudeMachine_foot lib)) h
       (ListM_ListMeta s, ListM_Items s)"

lemma copier_LatitudeMachineList [copiers]:
  assumes lib: "copy_library lib"
  shows "deep_copier (LatitudeMachineList_DeepCopyInto lib) (LatitudeMachineList_val lib) (LatitudeMachineList_foot lib)"
  by (rule deep_copier_struct [where upd = "\<lambda>s (meta, items). s\<lparr>ListM_ListMeta := meta, ListM_Items := items\<rparr>",
        OF deep_copier_pair [OF copier_library(2) [OF lib] deep_copier_slice [OF copier_LatitudeMachine [OF lib], of at_machines MachinesCell]]
        _ LatitudeMachineList_val_def LatitudeMachineList_foot_def])
    (auto simp: LatitudeMachineList_DeepCopyInto_def copy_pair_def go_bind_assoc go_bind_return)

section \<open>\<open>LatitudeMachineTemplateResource\<close>\<close>

definition LatitudeMachineTemplateResource_DeepCopyInto :: "TemplateResourceM \<Rightarrow> ('x cell store, TemplateResourceM) run" where
  "LatitudeMachineTemplateResource_DeepCopyInto s =
     go_bind (LatitudeMachineSpec_DeepCopyInto (TemplateResourceM_Spec s)) (\<lambda>spec.
     go_return (s\<lparr>TemplateResourceM_Spec := spec\<rparr>))"

definition LatitudeMachineTemplateResource_val :: "'x cell store \<Rightarrow> TemplateResourceM \<Rightarrow> LatitudeMachineTemplateResource option" where
  "LatitudeMachineTemplateResource_val h s =
     map_option (\<lambda>spec.
        \<lparr>TemplateResource_Spec = spec\<rparr>)
       (LatitudeMachineSpec_val h
         (TemplateResourceM_Spec s))"

definition LatitudeMachineTemplateResource_foot :: "'x cell store \<Rightarrow> TemplateResourceM \<Rightarrow> nat set" where
  "LatitudeMachineTemplateResource_foot h s =
     LatitudeMachineSpec_foot h
       (TemplateResourceM_Spec s)"

lemma copier_LatitudeMachineTemplateResource [copiers]:
  "deep_copier LatitudeMachineTemplateResource_DeepCopyInto LatitudeMachineTemplateResource_val LatitudeMachineTemplateResource_foot"
  by (rule deep_copier_struct [where upd = "\<lambda>s spec. s\<lparr>TemplateResourceM_Spec := spec\<rparr>",
        OF copier_LatitudeMachineSpec
        _ LatitudeMachineTemplateResource_val_def LatitudeMachineTemplateResource_foot_def])
    (auto simp: LatitudeMachineTemplateResource_DeepCopyInto_def copy_pair_def go_bind_assoc go_bind_return)

section \<open>\<open>LatitudeMachineTemplateSpec\<close>\<close>

definition LatitudeMachineTemplateSpec_DeepCopyInto :: "TemplateSpecM \<Rightarrow> ('x cell store, TemplateSpecM) run" where
  "LatitudeMachineTemplateSpec_DeepCopyInto s =
     go_bind (LatitudeMachineTemplateResource_DeepCopyInto (TemplateSpecM_Template s)) (\<lambda>res.
     go_return (s\<lparr>TemplateSpecM_Template := res\<rparr>))"

definition LatitudeMachineTemplateSpec_val :: "'x cell store \<Rightarrow> TemplateSpecM \<Rightarrow> LatitudeMachineTemplateSpec option" where
  "LatitudeMachineTemplateSpec_val h s =
     map_option (\<lambda>res.
        \<lparr>TemplateSpec_Template = res\<rparr>)
       (LatitudeMachineTemplateResource_val h
         (TemplateSpecM_Template s))"

definition LatitudeMachineTemplateSpec_foot :: "'x cell store \<Rightarrow> TemplateSpecM \<Rightarrow> nat set" where
  "LatitudeMachineTemplateSpec_foot h s =
     LatitudeMachineTemplateResource_foot h
       (TemplateSpecM_Template s)"

lemma copier_LatitudeMachineTemplateSpec [copiers]:
  "deep_copier LatitudeMachineTemplateSpec_DeepCopyInto LatitudeMachineTemplateSpec_val LatitudeMachineTemplateSpec_foot"
  by (rule deep_copier_struct [where upd = "\<lambda>s res. s\<lparr>TemplateSpecM_Template := res\<rparr>",
        OF copier_LatitudeMachineTemplateResource
        _ LatitudeMachineTemplateSpec_val_def LatitudeMachineTemplateSpec_foot_def])
    (auto simp: LatitudeMachineTemplateSpec_DeepCopyInto_def copy_pair_def go_bind_assoc go_bind_return)

section \<open>\<open>LatitudeMachineTemplate\<close>\<close>

definition LatitudeMachineTemplate_DeepCopyInto :: "'x copy_lib \<Rightarrow> 'x TemplateM \<Rightarrow> ('x cell store, 'x TemplateM) run" where
  "LatitudeMachineTemplate_DeepCopyInto lib s =
     go_bind (ObjectMeta_DeepCopyInto lib (TemplateM_ObjectMeta s)) (\<lambda>meta.
     go_bind (LatitudeMachineTemplateSpec_DeepCopyInto (TemplateM_Spec s)) (\<lambda>spec.
     go_return (s\<lparr>TemplateM_ObjectMeta := meta, TemplateM_Spec := spec\<rparr>)))"

definition LatitudeMachineTemplate_val :: "'x copy_lib \<Rightarrow> 'x cell store \<Rightarrow> 'x TemplateM \<Rightarrow> (TypeMeta \<times> LatitudeMachineTemplate) option" where
  "LatitudeMachineTemplate_val lib h s =
     map_option (\<lambda>(meta, spec).
        (TemplateM_TypeMeta s, \<lparr>LatitudeMachineTemplate_ObjectMeta = meta, LatitudeMachineTemplate_Spec = spec\<rparr>))
       (val_pair (ObjectMeta_val lib) LatitudeMachineTemplateSpec_val h
         (TemplateM_ObjectMeta s, TemplateM_Spec s))"

definition LatitudeMachineTemplate_foot :: "'x copy_lib \<Rightarrow> 'x cell store \<Rightarrow> 'x TemplateM \<Rightarrow> nat set" where
  "LatitudeMachineTemplate_foot lib h s =
     foot_pair (ObjectMeta_foot lib) LatitudeMachineTemplateSpec_foot h
       (TemplateM_ObjectMeta s, TemplateM_Spec s)"

lemma copier_LatitudeMachineTemplate [copiers]:
  assumes lib: "copy_library lib"
  shows "deep_copier (LatitudeMachineTemplate_DeepCopyInto lib) (LatitudeMachineTemplate_val lib) (LatitudeMachineTemplate_foot lib)"
  by (rule deep_copier_struct [where upd = "\<lambda>s (meta, spec). s\<lparr>TemplateM_ObjectMeta := meta, TemplateM_Spec := spec\<rparr>",
        OF deep_copier_pair [OF copier_library(1) [OF lib] copier_LatitudeMachineTemplateSpec]
        _ LatitudeMachineTemplate_val_def LatitudeMachineTemplate_foot_def])
    (auto simp: LatitudeMachineTemplate_DeepCopyInto_def copy_pair_def go_bind_assoc go_bind_return)

section \<open>\<open>LatitudeMachineTemplateList\<close>\<close>

definition LatitudeMachineTemplateList_DeepCopyInto :: "'x copy_lib \<Rightarrow> 'x ListM \<Rightarrow> ('x cell store, 'x ListM) run" where
  "LatitudeMachineTemplateList_DeepCopyInto lib s =
     go_bind (ListMeta_DeepCopyInto lib (ListM_ListMeta s)) (\<lambda>meta.
     go_bind (copy_slice at_templates TemplatesCell (LatitudeMachineTemplate_DeepCopyInto lib) (ListM_Items s)) (\<lambda>items.
     go_return (s\<lparr>ListM_ListMeta := meta, ListM_Items := items\<rparr>)))"

definition LatitudeMachineTemplateList_val :: "'x copy_lib \<Rightarrow> 'x cell store \<Rightarrow> 'x ListM \<Rightarrow> (TypeMeta \<times> LatitudeMachineTemplateList) option" where
  "LatitudeMachineTemplateList_val lib h s =
     map_option (\<lambda>(meta, items).
        (ListM_TypeMeta s, \<lparr>LatitudeMachineTemplateList_ListMeta = meta, LatitudeMachineTemplateList_Items = items\<rparr>))
       (val_pair (ListMeta_val lib) (val_slice at_templates (LatitudeMachineTemplate_val lib)) h
         (ListM_ListMeta s, ListM_Items s))"

definition LatitudeMachineTemplateList_foot :: "'x copy_lib \<Rightarrow> 'x cell store \<Rightarrow> 'x ListM \<Rightarrow> nat set" where
  "LatitudeMachineTemplateList_foot lib h s =
     foot_pair (ListMeta_foot lib) (foot_slice at_templates (LatitudeMachineTemplate_foot lib)) h
       (ListM_ListMeta s, ListM_Items s)"

lemma copier_LatitudeMachineTemplateList [copiers]:
  assumes lib: "copy_library lib"
  shows "deep_copier (LatitudeMachineTemplateList_DeepCopyInto lib) (LatitudeMachineTemplateList_val lib) (LatitudeMachineTemplateList_foot lib)"
  by (rule deep_copier_struct [where upd = "\<lambda>s (meta, items). s\<lparr>ListM_ListMeta := meta, ListM_Items := items\<rparr>",
        OF deep_copier_pair [OF copier_library(2) [OF lib] deep_copier_slice [OF copier_LatitudeMachineTemplate [OF lib], of at_templates TemplatesCell]]
        _ LatitudeMachineTemplateList_val_def LatitudeMachineTemplateList_foot_def])
    (auto simp: LatitudeMachineTemplateList_DeepCopyInto_def copy_pair_def go_bind_assoc go_bind_return)

section \<open>\<open>APIEndpoint\<close> and \<open>ProjectRef\<close>\<close>

definition APIEndpoint_DeepCopyInto :: "APIEndpoint \<Rightarrow> ('x cell store, APIEndpoint) run" where
  "APIEndpoint_DeepCopyInto s = go_return s"

definition ProjectRef_DeepCopyInto :: "ProjectRef \<Rightarrow> ('x cell store, ProjectRef) run" where
  "ProjectRef_DeepCopyInto s = go_return s"

lemma copier_flat [copiers]:
  "deep_copier APIEndpoint_DeepCopyInto (\<lambda>_. Some) (\<lambda>_ _. {})"
  "deep_copier ProjectRef_DeepCopyInto (\<lambda>_. Some) (\<lambda>_ _. {})"
  using plain_copy.deep_copier_axioms
  by (simp_all add: APIEndpoint_DeepCopyInto_def [abs_def] ProjectRef_DeepCopyInto_def [abs_def])

section \<open>\<open>DeepCopy\<close>\<close>

text \<open>\<open>DeepCopy\<close> of a type: nil for nil, else a new cell that \<open>DeepCopyInto\<close> fills.\<close>

definition APIEndpoint_DeepCopy :: "nat option \<Rightarrow> ('x cell store, nat option) run" where
  "APIEndpoint_DeepCopy = copy_ptr at_endpoint APIEndpointCell APIEndpoint_DeepCopyInto"

definition ProjectRef_DeepCopy :: "nat option \<Rightarrow> ('x cell store, nat option) run" where
  "ProjectRef_DeepCopy = copy_ptr at_project_ref ProjectRefCell ProjectRef_DeepCopyInto"

definition VLANConfig_DeepCopy :: "nat option \<Rightarrow> ('x cell store, nat option) run" where
  "VLANConfig_DeepCopy = copy_ptr at_vlan_config VLANConfigCell VLANConfig_DeepCopyInto"

definition LatitudeClusterSpec_DeepCopy :: "nat option \<Rightarrow> ('x cell store, nat option) run" where
  "LatitudeClusterSpec_DeepCopy = copy_ptr at_cluster_spec ClusterSpecCell LatitudeClusterSpec_DeepCopyInto"

definition LatitudeClusterStatus_DeepCopy :: "'x copy_lib \<Rightarrow> nat option \<Rightarrow> ('x cell store, nat option) run" where
  "LatitudeClusterStatus_DeepCopy lib = copy_ptr at_cluster_status ClusterStatusCell (LatitudeClusterStatus_DeepCopyInto lib)"

definition LatitudeCluster_DeepCopy :: "'x copy_lib \<Rightarrow> nat option \<Rightarrow> ('x cell store, nat option) run" where
  "LatitudeCluster_DeepCopy lib = copy_ptr at_cluster ClusterCell (LatitudeCluster_DeepCopyInto lib)"

definition LatitudeClusterList_DeepCopy :: "'x copy_lib \<Rightarrow> nat option \<Rightarrow> ('x cell store, nat option) run" where
  "LatitudeClusterList_DeepCopy lib = copy_ptr at_cluster_list ClusterListCell (LatitudeClusterList_DeepCopyInto lib)"

definition LatitudeMachineSpec_DeepCopy :: "nat option \<Rightarrow> ('x cell store, nat option) run" where
  "LatitudeMachineSpec_DeepCopy = copy_ptr at_machine_spec MachineSpecCell LatitudeMachineSpec_DeepCopyInto"

definition LatitudeMachineStatus_DeepCopy :: "'x copy_lib \<Rightarrow> nat option \<Rightarrow> ('x cell store, nat option) run" where
  "LatitudeMachineStatus_DeepCopy lib = copy_ptr at_machine_status MachineStatusCell (LatitudeMachineStatus_DeepCopyInto lib)"

definition LatitudeMachine_DeepCopy :: "'x copy_lib \<Rightarrow> nat option \<Rightarrow> ('x cell store, nat option) run" where
  "LatitudeMachine_DeepCopy lib = copy_ptr at_machine MachineCell (LatitudeMachine_DeepCopyInto lib)"

definition LatitudeMachineList_DeepCopy :: "'x copy_lib \<Rightarrow> nat option \<Rightarrow> ('x cell store, nat option) run" where
  "LatitudeMachineList_DeepCopy lib = copy_ptr at_machine_list MachineListCell (LatitudeMachineList_DeepCopyInto lib)"

definition LatitudeMachineTemplateResource_DeepCopy :: "nat option \<Rightarrow> ('x cell store, nat option) run" where
  "LatitudeMachineTemplateResource_DeepCopy = copy_ptr at_template_resource TemplateResourceCell LatitudeMachineTemplateResource_DeepCopyInto"

definition LatitudeMachineTemplateSpec_DeepCopy :: "nat option \<Rightarrow> ('x cell store, nat option) run" where
  "LatitudeMachineTemplateSpec_DeepCopy = copy_ptr at_template_spec TemplateSpecCell LatitudeMachineTemplateSpec_DeepCopyInto"

definition LatitudeMachineTemplate_DeepCopy :: "'x copy_lib \<Rightarrow> nat option \<Rightarrow> ('x cell store, nat option) run" where
  "LatitudeMachineTemplate_DeepCopy lib = copy_ptr at_template TemplateCell (LatitudeMachineTemplate_DeepCopyInto lib)"

definition LatitudeMachineTemplateList_DeepCopy :: "'x copy_lib \<Rightarrow> nat option \<Rightarrow> ('x cell store, nat option) run" where
  "LatitudeMachineTemplateList_DeepCopy lib = copy_ptr at_template_list TemplateListCell (LatitudeMachineTemplateList_DeepCopyInto lib)"

text \<open>The types without library structs keep the contract outright, the others over a library that does.\<close>

interpretation endpoint_copy: deep_copier APIEndpoint_DeepCopy "val_plain at_endpoint" "foot_plain at_endpoint"
  using copier_plain [where proj = at_endpoint and wrap = APIEndpointCell]
  by (simp add: APIEndpoint_DeepCopy_def [abs_def] APIEndpoint_DeepCopyInto_def [abs_def] copy_plain_def)

interpretation project_ref_copy: deep_copier ProjectRef_DeepCopy "val_plain at_project_ref" "foot_plain at_project_ref"
  using copier_plain [where proj = at_project_ref and wrap = ProjectRefCell]
  by (simp add: ProjectRef_DeepCopy_def [abs_def] ProjectRef_DeepCopyInto_def [abs_def] copy_plain_def)

interpretation vlan_config_copy: deep_copier VLANConfig_DeepCopy
  "val_ptr at_vlan_config VLANConfig_val" "foot_ptr at_vlan_config VLANConfig_foot"
  unfolding VLANConfig_DeepCopy_def by (rule deep_copier_ptr [OF copier_VLANConfig]) simp

interpretation cluster_spec_copy: deep_copier LatitudeClusterSpec_DeepCopy
  "val_ptr at_cluster_spec LatitudeClusterSpec_val" "foot_ptr at_cluster_spec LatitudeClusterSpec_foot"
  unfolding LatitudeClusterSpec_DeepCopy_def by (rule deep_copier_ptr [OF copier_LatitudeClusterSpec]) simp

interpretation machine_spec_copy: deep_copier LatitudeMachineSpec_DeepCopy
  "val_ptr at_machine_spec LatitudeMachineSpec_val" "foot_ptr at_machine_spec LatitudeMachineSpec_foot"
  unfolding LatitudeMachineSpec_DeepCopy_def by (rule deep_copier_ptr [OF copier_LatitudeMachineSpec]) simp

interpretation template_resource_copy: deep_copier LatitudeMachineTemplateResource_DeepCopy
  "val_ptr at_template_resource LatitudeMachineTemplateResource_val" "foot_ptr at_template_resource LatitudeMachineTemplateResource_foot"
  unfolding LatitudeMachineTemplateResource_DeepCopy_def by (rule deep_copier_ptr [OF copier_LatitudeMachineTemplateResource]) simp

interpretation template_spec_copy: deep_copier LatitudeMachineTemplateSpec_DeepCopy
  "val_ptr at_template_spec LatitudeMachineTemplateSpec_val" "foot_ptr at_template_spec LatitudeMachineTemplateSpec_foot"
  unfolding LatitudeMachineTemplateSpec_DeepCopy_def by (rule deep_copier_ptr [OF copier_LatitudeMachineTemplateSpec]) simp

lemma copier_ptr_LatitudeClusterStatus:
  assumes "copy_library lib"
  shows "deep_copier (LatitudeClusterStatus_DeepCopy lib)
    (val_ptr at_cluster_status LatitudeClusterStatus_val) (foot_ptr at_cluster_status LatitudeClusterStatus_foot)"
  unfolding LatitudeClusterStatus_DeepCopy_def by (rule deep_copier_ptr [OF copier_LatitudeClusterStatus [OF assms]]) simp

lemma copier_ptr_LatitudeCluster:
  assumes "copy_library lib"
  shows "deep_copier (LatitudeCluster_DeepCopy lib)
    (val_ptr at_cluster (LatitudeCluster_val lib)) (foot_ptr at_cluster (LatitudeCluster_foot lib))"
  unfolding LatitudeCluster_DeepCopy_def by (rule deep_copier_ptr [OF copier_LatitudeCluster [OF assms]]) simp

lemma copier_ptr_LatitudeClusterList:
  assumes "copy_library lib"
  shows "deep_copier (LatitudeClusterList_DeepCopy lib)
    (val_ptr at_cluster_list (LatitudeClusterList_val lib)) (foot_ptr at_cluster_list (LatitudeClusterList_foot lib))"
  unfolding LatitudeClusterList_DeepCopy_def by (rule deep_copier_ptr [OF copier_LatitudeClusterList [OF assms]]) simp

lemma copier_ptr_LatitudeMachineStatus:
  assumes "copy_library lib"
  shows "deep_copier (LatitudeMachineStatus_DeepCopy lib)
    (val_ptr at_machine_status LatitudeMachineStatus_val) (foot_ptr at_machine_status LatitudeMachineStatus_foot)"
  unfolding LatitudeMachineStatus_DeepCopy_def by (rule deep_copier_ptr [OF copier_LatitudeMachineStatus [OF assms]]) simp

lemma copier_ptr_LatitudeMachine:
  assumes "copy_library lib"
  shows "deep_copier (LatitudeMachine_DeepCopy lib)
    (val_ptr at_machine (LatitudeMachine_val lib)) (foot_ptr at_machine (LatitudeMachine_foot lib))"
  unfolding LatitudeMachine_DeepCopy_def by (rule deep_copier_ptr [OF copier_LatitudeMachine [OF assms]]) simp

lemma copier_ptr_LatitudeMachineList:
  assumes "copy_library lib"
  shows "deep_copier (LatitudeMachineList_DeepCopy lib)
    (val_ptr at_machine_list (LatitudeMachineList_val lib)) (foot_ptr at_machine_list (LatitudeMachineList_foot lib))"
  unfolding LatitudeMachineList_DeepCopy_def by (rule deep_copier_ptr [OF copier_LatitudeMachineList [OF assms]]) simp

lemma copier_ptr_LatitudeMachineTemplate:
  assumes "copy_library lib"
  shows "deep_copier (LatitudeMachineTemplate_DeepCopy lib)
    (val_ptr at_template (LatitudeMachineTemplate_val lib)) (foot_ptr at_template (LatitudeMachineTemplate_foot lib))"
  unfolding LatitudeMachineTemplate_DeepCopy_def by (rule deep_copier_ptr [OF copier_LatitudeMachineTemplate [OF assms]]) simp

lemma copier_ptr_LatitudeMachineTemplateList:
  assumes "copy_library lib"
  shows "deep_copier (LatitudeMachineTemplateList_DeepCopy lib)
    (val_ptr at_template_list (LatitudeMachineTemplateList_val lib)) (foot_ptr at_template_list (LatitudeMachineTemplateList_foot lib))"
  unfolding LatitudeMachineTemplateList_DeepCopy_def by (rule deep_copier_ptr [OF copier_LatitudeMachineTemplateList [OF assms]]) simp

section \<open>\<open>DeepCopyObject\<close>\<close>

text \<open>
  The \<open>runtime.Object\<close> interface as far as these types implement it: a pointer with its type. The nil
  interface is \<open>None\<close>; an interface that holds a nil pointer is not nil.
\<close>

datatype runtime_object =
    ClusterObject "nat option"
  | ClusterListObject "nat option"
  | MachineObject "nat option"
  | MachineListObject "nat option"
  | TemplateObject "nat option"
  | TemplateListObject "nat option"

text \<open>\<open>if c := in.DeepCopy(); c != nil { return c }; return nil\<close>\<close>

definition as_object ::
  "(nat option \<Rightarrow> runtime_object) \<Rightarrow> nat option \<Rightarrow> ('x cell store, runtime_object option) run" where
  "as_object kind c = (case c of None \<Rightarrow> go_return None | Some a \<Rightarrow> go_return (Some (kind (Some a))))"

definition LatitudeCluster_DeepCopyObject ::
  "'x copy_lib \<Rightarrow> nat option \<Rightarrow> ('x cell store, runtime_object option) run" where
  "LatitudeCluster_DeepCopyObject lib p = go_bind (LatitudeCluster_DeepCopy lib p) (as_object ClusterObject)"

definition LatitudeClusterList_DeepCopyObject ::
  "'x copy_lib \<Rightarrow> nat option \<Rightarrow> ('x cell store, runtime_object option) run" where
  "LatitudeClusterList_DeepCopyObject lib p = go_bind (LatitudeClusterList_DeepCopy lib p) (as_object ClusterListObject)"

definition LatitudeMachine_DeepCopyObject ::
  "'x copy_lib \<Rightarrow> nat option \<Rightarrow> ('x cell store, runtime_object option) run" where
  "LatitudeMachine_DeepCopyObject lib p = go_bind (LatitudeMachine_DeepCopy lib p) (as_object MachineObject)"

definition LatitudeMachineList_DeepCopyObject ::
  "'x copy_lib \<Rightarrow> nat option \<Rightarrow> ('x cell store, runtime_object option) run" where
  "LatitudeMachineList_DeepCopyObject lib p = go_bind (LatitudeMachineList_DeepCopy lib p) (as_object MachineListObject)"

definition LatitudeMachineTemplate_DeepCopyObject ::
  "'x copy_lib \<Rightarrow> nat option \<Rightarrow> ('x cell store, runtime_object option) run" where
  "LatitudeMachineTemplate_DeepCopyObject lib p = go_bind (LatitudeMachineTemplate_DeepCopy lib p) (as_object TemplateObject)"

definition LatitudeMachineTemplateList_DeepCopyObject ::
  "'x copy_lib \<Rightarrow> nat option \<Rightarrow> ('x cell store, runtime_object option) run" where
  "LatitudeMachineTemplateList_DeepCopyObject lib p = go_bind (LatitudeMachineTemplateList_DeepCopy lib p) (as_object TemplateListObject)"

end
