(* ===== verification/Deep_Copy_Properties.thy ===== *)
theory Deep_Copy_Properties
  imports Deep_Copy
begin

text \<open>The property of the generated deep copies, for every API object, and an instance of the library's part.\<close>

section \<open>Objects\<close>

text \<open>The method the interface dispatches to, and what an object in memory means and reaches.\<close>

definition DeepCopyObject :: "'x copy_lib \<Rightarrow> runtime_object \<Rightarrow> ('x cell store, runtime_object option) run" where
  "DeepCopyObject lib obj =
     (case obj of
        ClusterObject p \<Rightarrow> LatitudeCluster_DeepCopyObject lib p
      | ClusterListObject p \<Rightarrow> LatitudeClusterList_DeepCopyObject lib p
      | MachineObject p \<Rightarrow> LatitudeMachine_DeepCopyObject lib p
      | MachineListObject p \<Rightarrow> LatitudeMachineList_DeepCopyObject lib p
      | TemplateObject p \<Rightarrow> LatitudeMachineTemplate_DeepCopyObject lib p
      | TemplateListObject p \<Rightarrow> LatitudeMachineTemplateList_DeepCopyObject lib p)"

datatype object_value =
    ClusterValue "(TypeMeta \<times> LatitudeCluster) option"
  | ClusterListValue "(TypeMeta \<times> LatitudeClusterList) option"
  | MachineValue "(TypeMeta \<times> LatitudeMachine) option"
  | MachineListValue "(TypeMeta \<times> LatitudeMachineList) option"
  | TemplateValue "(TypeMeta \<times> LatitudeMachineTemplate) option"
  | TemplateListValue "(TypeMeta \<times> LatitudeMachineTemplateList) option"

definition object_val :: "'x copy_lib \<Rightarrow> 'x cell store \<Rightarrow> runtime_object \<Rightarrow> object_value option" where
  "object_val lib h obj =
     (case obj of
        ClusterObject p \<Rightarrow> map_option ClusterValue (val_ptr at_cluster (LatitudeCluster_val lib) h p)
      | ClusterListObject p \<Rightarrow> map_option ClusterListValue (val_ptr at_cluster_list (LatitudeClusterList_val lib) h p)
      | MachineObject p \<Rightarrow> map_option MachineValue (val_ptr at_machine (LatitudeMachine_val lib) h p)
      | MachineListObject p \<Rightarrow> map_option MachineListValue (val_ptr at_machine_list (LatitudeMachineList_val lib) h p)
      | TemplateObject p \<Rightarrow> map_option TemplateValue (val_ptr at_template (LatitudeMachineTemplate_val lib) h p)
      | TemplateListObject p \<Rightarrow>
          map_option TemplateListValue (val_ptr at_template_list (LatitudeMachineTemplateList_val lib) h p))"

definition object_foot :: "'x copy_lib \<Rightarrow> 'x cell store \<Rightarrow> runtime_object \<Rightarrow> nat set" where
  "object_foot lib h obj =
     (case obj of
        ClusterObject p \<Rightarrow> foot_ptr at_cluster (LatitudeCluster_foot lib) h p
      | ClusterListObject p \<Rightarrow> foot_ptr at_cluster_list (LatitudeClusterList_foot lib) h p
      | MachineObject p \<Rightarrow> foot_ptr at_machine (LatitudeMachine_foot lib) h p
      | MachineListObject p \<Rightarrow> foot_ptr at_machine_list (LatitudeMachineList_foot lib) h p
      | TemplateObject p \<Rightarrow> foot_ptr at_template (LatitudeMachineTemplate_foot lib) h p
      | TemplateListObject p \<Rightarrow> foot_ptr at_template_list (LatitudeMachineTemplateList_foot lib) h p)"

definition nil_object :: "runtime_object \<Rightarrow> bool" where
  "nil_object obj \<longleftrightarrow>
     (case obj of
        ClusterObject p \<Rightarrow> p = None | ClusterListObject p \<Rightarrow> p = None
      | MachineObject p \<Rightarrow> p = None | MachineListObject p \<Rightarrow> p = None
      | TemplateObject p \<Rightarrow> p = None | TemplateListObject p \<Rightarrow> p = None)"

text \<open>
  Two objects with the same value that share no cell: whatever is written to the cells of one, the
  other keeps the value.
\<close>

definition independent ::
  "'x copy_lib \<Rightarrow> 'x cell store \<Rightarrow> object_value \<Rightarrow> runtime_object \<Rightarrow> runtime_object \<Rightarrow> bool" where
  "independent lib h v a b \<longleftrightarrow>
     object_val lib h a = Some v \<and> object_val lib h b = Some v \<and>
     object_foot lib h a \<inter> object_foot lib h b = {} \<and>
     (\<forall>h'. agree_on (- object_foot lib h a) h h' \<longrightarrow> object_val lib h' b = Some v) \<and>
     (\<forall>h'. agree_on (- object_foot lib h b) h h' \<longrightarrow> object_val lib h' a = Some v)"

section \<open>One kind of object\<close>

lemma copy_ptr_independent:
  assumes copier: "deep_copier (copy_ptr proj wrap into) V F" and ok: "store_ok h" and v: "V h p = Some v"
  shows "\<exists>q h'. copy_ptr proj wrap into p h = (Ok q, h') \<and> store_ok h' \<and> (q = None \<longleftrightarrow> p = None) \<and>
    V h' p = Some v \<and> V h' q = Some v \<and> F h' p \<inter> F h' q = {} \<and>
    (\<forall>h''. agree_on (- F h' p) h' h'' \<longrightarrow> V h'' q = Some v) \<and>
    (\<forall>h''. agree_on (- F h' q) h' h'' \<longrightarrow> V h'' p = Some v)"
proof -
  from deep_copier.copies [OF copier ok v] obtain q h'
    where q: "copy_ptr proj wrap into p h = (Ok q, h')" "store_ok h'" "V h' q = Some v" by blast
  note facts = deep_copier.original_kept [OF copier ok v q(1)]
    deep_copier.copy_unaffected [OF copier ok v q(1)] deep_copier.original_unaffected [OF copier ok v q(1)]
  show ?thesis using q copy_ptr_nil [OF q(1)] facts by (auto intro!: exI [of _ q] exI [of _ h'])
qed

lemma as_object_run:
  "m h = (Ok q, h') \<Longrightarrow> go_bind m (as_object kind) h =
     (Ok (case q of None \<Rightarrow> None | Some a \<Rightarrow> Some (kind (Some a))), h')"
  by (simp add: go_defs as_object_def split: option.split)

lemmas copy_object_defs =
  LatitudeCluster_DeepCopyObject_def LatitudeCluster_DeepCopy_def
  LatitudeClusterList_DeepCopyObject_def LatitudeClusterList_DeepCopy_def
  LatitudeMachine_DeepCopyObject_def LatitudeMachine_DeepCopy_def
  LatitudeMachineList_DeepCopyObject_def LatitudeMachineList_DeepCopy_def
  LatitudeMachineTemplate_DeepCopyObject_def LatitudeMachineTemplate_DeepCopy_def
  LatitudeMachineTemplateList_DeepCopyObject_def LatitudeMachineTemplateList_DeepCopy_def

lemmas object_defs = object_val_def object_foot_def nil_object_def independent_def DeepCopyObject_def

lemma object_copied:
  assumes copier: "deep_copier (copy_ptr proj wrap into) V F"
    and run: "DeepCopyObject lib (kind p) = go_bind (copy_ptr proj wrap into p) (as_object kind)"
    and val: "\<And>h p. object_val lib h (kind p) = map_option mk (V h p)"
    and foot: "\<And>h p. object_foot lib h (kind p) = F h p"
    and nil: "\<And>p. nil_object (kind p) \<longleftrightarrow> p = None"
    and ok: "store_ok h" and v: "object_val lib h (kind p) = Some v"
  shows "\<exists>r h'. DeepCopyObject lib (kind p) h = (Ok r, h') \<and> store_ok h' \<and> object_val lib h' (kind p) = Some v \<and>
    (case r of None \<Rightarrow> nil_object (kind p)
     | Some obj' \<Rightarrow> \<not> nil_object (kind p) \<and> independent lib h' v (kind p) obj')"
proof -
  from v obtain u where u: "V h p = Some u" "v = mk u" by (auto simp: val)
  from copy_ptr_independent [OF copier ok u(1)] obtain q h'
    where q: "copy_ptr proj wrap into p h = (Ok q, h')" "store_ok h'" "q = None \<longleftrightarrow> p = None"
      "V h' p = Some u" "V h' q = Some u" "F h' p \<inter> F h' q = {}"
      "\<forall>h''. agree_on (- F h' p) h' h'' \<longrightarrow> V h'' q = Some u"
      "\<forall>h''. agree_on (- F h' q) h' h'' \<longrightarrow> V h'' p = Some u" by blast
  have r: "DeepCopyObject lib (kind p) h =
      (Ok (case q of None \<Rightarrow> None | Some a \<Rightarrow> Some (kind (Some a))), h')"
    unfolding run by (rule as_object_run [of "copy_ptr proj wrap into p", OF q(1)])
  show ?thesis
    unfolding r using q u by (cases q) (simp_all add: independent_def val foot nil)
qed

text \<open>
  C22: Deep copies of the API objects (machines, clusters, templates and their lists). Over a library whose
  own copies are deep, and for an object without dangling pointers, \<open>DeepCopyObject\<close> returns without a
  panic and leaves the original as it was. Of a nil pointer it makes the nil interface; of any other it
  makes an object of equal value that shares no memory with the original, so that whatever is written to
  the cells of one of the two later, the other keeps its value.
\<close>

theorem deep_copies_are_independent:
  assumes lib: "copy_library lib" and ok: "store_ok h" and v: "object_val lib h obj = Some v"
  shows "\<exists>r h'. DeepCopyObject lib obj h = (Ok r, h') \<and> store_ok h' \<and> object_val lib h' obj = Some v \<and>
    (case r of None \<Rightarrow> nil_object obj
     | Some obj' \<Rightarrow> \<not> nil_object obj \<and> independent lib h' v obj obj')"
proof (cases obj)
  case (ClusterObject p)
  show ?thesis unfolding ClusterObject
    by (rule object_copied [where kind = ClusterObject and mk = ClusterValue,
          OF copier_ptr_LatitudeCluster [OF lib, unfolded copy_object_defs] _ _ _ _ ok v [unfolded ClusterObject]])
      (simp_all add: object_defs copy_object_defs)
next
  case (ClusterListObject p)
  show ?thesis unfolding ClusterListObject
    by (rule object_copied [where kind = ClusterListObject and mk = ClusterListValue,
          OF copier_ptr_LatitudeClusterList [OF lib, unfolded copy_object_defs] _ _ _ _ ok v [unfolded ClusterListObject]])
      (simp_all add: object_defs copy_object_defs)
next
  case (MachineObject p)
  show ?thesis unfolding MachineObject
    by (rule object_copied [where kind = MachineObject and mk = MachineValue,
          OF copier_ptr_LatitudeMachine [OF lib, unfolded copy_object_defs] _ _ _ _ ok v [unfolded MachineObject]])
      (simp_all add: object_defs copy_object_defs)
next
  case (MachineListObject p)
  show ?thesis unfolding MachineListObject
    by (rule object_copied [where kind = MachineListObject and mk = MachineListValue,
          OF copier_ptr_LatitudeMachineList [OF lib, unfolded copy_object_defs] _ _ _ _ ok v [unfolded MachineListObject]])
      (simp_all add: object_defs copy_object_defs)
next
  case (TemplateObject p)
  show ?thesis unfolding TemplateObject
    by (rule object_copied [where kind = TemplateObject and mk = TemplateValue,
          OF copier_ptr_LatitudeMachineTemplate [OF lib, unfolded copy_object_defs] _ _ _ _ ok v [unfolded TemplateObject]])
      (simp_all add: object_defs copy_object_defs)
next
  case (TemplateListObject p)
  show ?thesis unfolding TemplateListObject
    by (rule object_copied [where kind = TemplateListObject and mk = TemplateListValue,
          OF copier_ptr_LatitudeMachineTemplateList [OF lib, unfolded copy_object_defs] _ _ _ _ ok v [unfolded TemplateListObject]])
      (simp_all add: object_defs copy_object_defs)
qed

section \<open>An instance of the library\<close>

text \<open>Metadata whose annotations are behind a pointer.\<close>

record sample =
  sample_meta :: ObjectMeta
  sample_list :: ListMeta
  sample_annotations :: "nat option"

definition at_library :: "'x cell \<Rightarrow> 'x option" where
  "at_library c = (case c of LibraryCell v \<Rightarrow> Some v | _ \<Rightarrow> None)"

definition sample_copy :: "sample \<Rightarrow> (sample cell store, sample) run" where
  "sample_copy s = go_bind (copy_plain at_library LibraryCell (sample_annotations s)) (\<lambda>p.
     go_return (s\<lparr>sample_annotations := p\<rparr>))"

definition sample_meta_val :: "sample cell store \<Rightarrow> sample \<Rightarrow> ObjectMeta option" where
  "sample_meta_val h s =
     map_option (\<lambda>a. case a of None \<Rightarrow> sample_meta s
         | Some m \<Rightarrow> (sample_meta s)\<lparr>ObjectMeta_Annotations := ObjectMeta_Annotations (sample_meta m)\<rparr>)
       (val_plain at_library h (sample_annotations s))"

definition sample_foot :: "sample cell store \<Rightarrow> sample \<Rightarrow> nat set" where
  "sample_foot h s = foot_plain at_library h (sample_annotations s)"

definition sample_lib :: "sample copy_lib" where
  "sample_lib =
     \<lparr>ObjectMeta_DeepCopyInto = sample_copy, ObjectMeta_val = sample_meta_val, ObjectMeta_foot = sample_foot,
      ListMeta_DeepCopyInto = go_return, ListMeta_val = (\<lambda>_ s. Some (sample_list s)), ListMeta_foot = (\<lambda>_ _. {}),
      Condition_DeepCopyInto = go_return\<rparr>"

lemma sample_library: "copy_library sample_lib"
proof -
  have "deep_copier sample_copy sample_meta_val sample_foot"
    by (rule deep_copier_struct [where upd = "\<lambda>s p. s\<lparr>sample_annotations := p\<rparr>",
          OF copier_plain [where proj = at_library and wrap = LibraryCell] _ sample_meta_val_def sample_foot_def])
      (auto simp: sample_copy_def at_library_def fun_eq_iff split: option.split)
  moreover have "deep_copier go_return (\<lambda>_ s. Some (sample_list s)) (\<lambda>(_ :: sample cell store) _. {})"
    by unfold_locales (auto simp: go_return_def)
  ultimately show ?thesis
    using plain_copy.deep_copier_axioms by (simp add: copy_library_def sample_lib_def)
qed

text \<open>
  A machine whose annotations, provider ID, addresses and conditions are all in cells of their own.
\<close>

definition sample_object_meta :: "(string \<rightharpoonup> string) \<Rightarrow> ObjectMeta" where
  "sample_object_meta annotations =
     \<lparr>ObjectMeta_Name = ''m1'', ObjectMeta_Namespace = ''default'', ObjectMeta_UID = ''u1'', ObjectMeta_Generation = 1,
      ObjectMeta_Annotations = annotations, ObjectMeta_Labels = Map.empty, ObjectMeta_Finalizers = [],
      ObjectMeta_DeletionTimestamp = None, ObjectMeta_OwnerReferences = []\<rparr>"

definition sample_of :: "(string \<rightharpoonup> string) \<Rightarrow> nat option \<Rightarrow> sample" where
  "sample_of annotations p =
     \<lparr>sample_meta = sample_object_meta annotations,
      sample_list = \<lparr>ListMeta_ResourceVersion = [], ListMeta_Continue = [], ListMeta_RemainingItemCount = None\<rparr>,
      sample_annotations = p\<rparr>"

definition sample_machine :: "sample MachineM" where
  "sample_machine =
     \<lparr>MachineM_TypeMeta = \<lparr>TypeMeta_Kind = ''LatitudeMachine'', TypeMeta_APIVersion = ''v1beta1''\<rparr>,
      MachineM_ObjectMeta = sample_of Map.empty (Some 1),
      MachineM_Spec = \<lparr>MachineSpecM_ProviderID = Some 2, MachineSpecM_OperatingSystem = ''ubuntu'',
        MachineSpecM_Plan = ''c2-small-x86'', MachineSpecM_SSHKeySecretRef = None\<rparr>,
      MachineM_Status = \<lparr>MachineStatusM_Ready = True, MachineStatusM_ProviderID = ''latitude://sv_1'',
        MachineStatusM_ServerID = ''sv_1'', MachineStatusM_UserDataID = [],
        MachineStatusM_Addresses = Some \<lparr>slice_array = 3, slice_offset = 1, slice_len = 1\<rparr>,
        MachineStatusM_FailureReason = None, MachineStatusM_FailureMessage = None,
        MachineStatusM_Conditions = None\<rparr>\<rparr>"

definition sample_store :: "sample cell store" where
  "sample_store =
     \<lparr>cells = [0 \<mapsto> MachineCell sample_machine,
               1 \<mapsto> LibraryCell (sample_of [''a'' \<mapsto> ''b''] None),
               2 \<mapsto> StringCell ''latitude://sv_1'',
               3 \<mapsto> AddressesCell [\<lparr>MachineAddress_Type = MachineHostName, MachineAddress_Address = ''m1''\<rparr>,
                                 \<lparr>MachineAddress_Type = MachineExternalIP, MachineAddress_Address = ''1.2.3.4''\<rparr>]],
      lim = 4\<rparr>"

definition sample_value :: object_value where
  "sample_value = MachineValue (Some (MachineM_TypeMeta sample_machine,
     \<lparr>LatitudeMachine_ObjectMeta = sample_object_meta [''a'' \<mapsto> ''b''],
      LatitudeMachine_Spec = \<lparr>MachineSpec_ProviderID = Some ''latitude://sv_1'',
        MachineSpec_OperatingSystem = ''ubuntu'', MachineSpec_Plan = ''c2-small-x86'', MachineSpec_SSHKeySecretRef = None\<rparr>,
      LatitudeMachine_Status = \<lparr>MachineStatus_Ready = True, MachineStatus_ProviderID = ''latitude://sv_1'',
        MachineStatus_ServerID = ''sv_1'', MachineStatus_UserDataID = [],
        MachineStatus_Addresses = [\<lparr>MachineAddress_Type = MachineExternalIP, MachineAddress_Address = ''1.2.3.4''\<rparr>],
        MachineStatus_FailureReason = None, MachineStatus_FailureMessage = None, MachineStatus_Conditions = []\<rparr>\<rparr>))"

lemma sample_store_ok: "store_ok sample_store"
  by (auto simp: store_ok_def sample_store_def split: if_splits)

lemmas sample_defs = sample_store_def sample_machine_def sample_of_def sample_object_meta_def sample_lib_def
  sample_meta_val_def at_library_def sample_value_def

lemma sample_object: "object_val sample_lib sample_store (MachineObject (Some 0)) = Some sample_value"
  by (simp add: object_val_def val_ptr_def val_plain_def val_pair_def val_slice_def load_slice_def slice_elems_def
      LatitudeMachine_val_def LatitudeMachineSpec_val_def LatitudeMachineStatus_val_def sample_defs)

theorem deep_copies_are_independent_witness:
  "\<exists>obj' h'. DeepCopyObject sample_lib (MachineObject (Some 0)) sample_store = (Ok (Some obj'), h') \<and>
     independent sample_lib h' sample_value (MachineObject (Some 0)) obj'"
  using deep_copies_are_independent [OF sample_library sample_store_ok sample_object]
  by (auto simp: nil_object_def split: option.splits)

text \<open>An assignment is no such copy: written through it, the annotations of the original change too.\<close>

lemma shallow_copy_shares:
  "agree_on (- {1}) sample_store (sample_store\<lparr>cells := (cells sample_store)(1 \<mapsto> LibraryCell (sample_of Map.empty None))\<rparr>) \<and>
   object_val sample_lib (sample_store\<lparr>cells := (cells sample_store)(1 \<mapsto> LibraryCell (sample_of Map.empty None))\<rparr>)
     (MachineObject (Some 0)) \<noteq> Some sample_value"
  by (auto simp: agree_on_def object_val_def val_ptr_def val_plain_def val_pair_def val_slice_def load_slice_def
      slice_elems_def LatitudeMachine_val_def LatitudeMachineSpec_val_def LatitudeMachineStatus_val_def sample_defs
      fun_eq_iff)

end
