(* ===== verification/Spec2Isabelle.thy ===== *)
theory Spec2Isabelle
  imports Convergence Fleet Schema Client_Properties Manager Deep_Copy_Properties
begin

text \<open>
  A model of the Cluster API provider for Latitude.sh (\<open>cluster-api-provider-latitudesh\<close>), translated
  from its Go sources, and what it guarantees.

  The program. A Kubernetes manager (\<open>cmd/main.go\<close>) runs one controller per custom resource. Each
  request of a controller fetches one object, changes it in memory while it calls the Latitude.sh API
  and reads other objects, and at the end, whatever happened, patches the object back. The machine
  controller turns a \<open>LatitudeMachine\<close> into a server: user data from the bootstrap secret, the server,
  its VLAN, its addresses, and the way back on deletion. The cluster controller validates a
  \<open>LatitudeCluster\<close>, owns or borrows its VLAN and publishes the control plane endpoint, which it takes
  from the addresses a machine controller published.

  The model. A handler is a state transformer (\<open>Prelude\<close>): the state of one request holds the outside
  world, the object behind the reconciler's pointer, the events and the trace of the calls that reach
  the API or write an object; a result is \<open>Ok\<close> or \<open>Panic\<close> (a nil dereference). Go errors are values
  (\<open>go_error\<close>), fallible results sums, pointers options, \<open>int\<close> a 64-bit word where it can wrap, byte
  strings character lists. The theories and what they model:

  \<^item> \<open>Go_Strings\<close>, \<open>Go_Encoding\<close>, \<open>Go_Net\<close>: what the code uses of Go's library (UTF-8, \<open>strings\<close>,
    \<open>strconv\<close>, base64, errors, \<open>net.ParseCIDR\<close>).
  \<^item> \<open>Api_Types\<close>: \<open>api/v1beta1/*_types.go\<close> and the Kubernetes objects they are read with.
  \<^item> \<open>Deep_Copy\<close>, \<open>Deep_Copy_Properties\<close>: \<open>api/v1beta1/zz_generated.deepcopy.go\<close> over an explicit store of
    cells, ordered by extension (an instance of \<open>preorder\<close>), where pointers and slices are addresses.
    The contract of a deep copy is the locale \<open>deep_copier\<close>; it is closed under pointers, slices, pairs and structs, so each struct is one step.
  \<^item> \<open>Latitude_Client\<close>: \<open>internal/latitude/client.go\<close> over a record of SDK functions; its interface is the
    locale \<open>latitude_api\<close>, which the client and the repository's mock both provide.
  \<^item> \<open>Kube_Env\<close>, \<open>Calls\<close>: the Kubernetes side as a record of functions, the traced calls, the deferred patch.
  \<^item> \<open>Machine_Scope\<close>: \<open>internal/scope/machine.go\<close>; \<open>Vlan_Config\<close>: \<open>internal/controller/vlan_config.go\<close>;
    \<open>Conditions\<close>: the two \<open>setCondition\<close> methods, with the locale \<open>condition_setter\<close> for what they share.
  \<^item> \<open>Machine_Controller\<close>, \<open>Cluster_Controller\<close>: the two controllers, one definition per method, long
    methods cut where the source has a comment; \<open>Manager\<close>: \<open>cmd/main.go\<close> with every \<open>init\<close> function,
    the reconciler structs, the registration of the controllers and the template controller.
  \<^item> \<open>Lifecycle\<close>: the locales for runs of a controller (simulation, invariants of steps), which
    \<open>Machine_Correctness\<close> and \<open>Cluster_Correctness\<close> interpret on the two controllers: \<open>machine_step\<close> and
    \<open>cluster_step\<close> are a request, a lost patch or a user's edit, \<open>machine_life\<close> and \<open>cluster_life\<close> the
    abstract life cycles they are simulated by.
  \<^item> \<open>Test_Doubles\<close>: the repository's fixtures and mock client and a small Kubernetes side, the inputs of
    the witnesses.
  \<^item> \<open>Views\<close>, \<open>Fleet\<close>: parts of the outside world that calls leave alone, and the books of a whole
    namespace: many machines, one account of servers, one step per request, lost patch, edit or new machine.
    \<open>Publication\<close>: the addresses of a ready machine are those of a server the API answered as up.
    \<open>Fairness\<close>, \<open>Convergence\<close>: the two controllers take turns over one world, in any fair order.
    \<open>Schema\<close>: the types of the custom resource definitions and what the controllers write to them.
  \<^item> \<open>Machine_Properties\<close>, \<open>Provisioning\<close>, \<open>Cluster_Properties\<close>, \<open>Client_Properties\<close>, the theories above and
    this one: the properties C1 to C40, each with its statement in words; those with hypotheses have a witness.

  What is shown. For machines: which requests create and delete servers, how many, and in what order
  state is persisted; the life cycle over any sequence of requests, failing patches and edits; what a
  ready, failed and deleted machine looks like; that a machine in a cooperative environment becomes
  ready; what every error does. For a fleet: no server is lost, every server in the account is recorded by a
  machine until it is deleted, as long as the patches that record it arrive. For both controllers: in a fair order and a
  cooperative environment machine and cluster become ready and the endpoint is the machine's address;
  their statuses fit the schema; the endpoint is the address the SDK reported. For clusters: when one becomes ready, that ready and endpoint are
  stable, which VLANs are created, read and deleted. For the client: idempotence, listings, waiting. For
  VLAN addresses and the cloud-init injection: bounds, collisions, that only the entry is added and that
  YAML reads it back. For deep copies: equal value, fresh cells, no interference either way. For the
  start-up: which step runs when, what a failure does, and that each controller is of a registered kind. Some properties record where the code does
  less than its comments say; they are stated the way the code behaves.

  Bounds. Nothing here runs on fuel but \<open>wait_loop\<close>, whose bound is the number of ticks of the 30-second
  ticker within the timeout (a function of the SDK record, since the clock is outside), and
  \<open>ipv6_groups\<close>, whose groups are counted; every other recursion is structural or has its measure.

  Assumptions. Code outside \<open>src/\<close> is a parameter: the SDK, the Kubernetes client, the Cluster API
  utilities, the patch helper, the finalizer helpers, the clock, the manager, the deep copies of library
  structs, the scheme. Nothing is assumed of it except by the named hypotheses \<open>finalizer_laws\<close>,
  \<open>vlan_registry\<close>, \<open>copy_library\<close>, \<open>cooperative_kube\<close> and \<open>cooperative_api\<close>, \<open>fleet_kube\<close> and \<open>fleet_api\<close>
  (what a call does to the books), \<open>joint_kube\<close> and \<open>joint_api\<close>, \<open>servers_fit\<close>, each met by a concrete
  instance in a witness.

  Not modelled. Log lines and the duration metric; TLS, HTTP and JSON inside the SDK; two requests for the
  same object at once (the machine controller runs one worker and the work queue of controller-runtime
  never hands out an object twice); the flag syntax of \<open>cmd/main.go\<close> (its values are parameters); the
  length of condition messages, which the schema bounds and the code does not; the helpers of the end-to-end
  tests, which run \<open>kubectl\<close> and \<open>kind\<close>.
\<close>

section \<open>The two controllers together\<close>

text \<open>The endpoint address of published addresses: the first IP address, never the host name.\<close>

lemma endpoint_address_server:
  "endpoint_address (server_addresses srv) = (case Server_IPAddress srv of [] \<Rightarrow> [] | ip # _ \<Rightarrow> ip)"
proof (cases "Server_IPAddress srv")
  case Nil
  then show ?thesis
    by (simp add: endpoint_address_def first_address_def server_addresses_def
        MachineHostName_def MachineInternalIP_def)
next
  case (Cons ip ips)
  have none: "find (\<lambda>a. MachineAddress_Type a = MachineInternalIP)
      (map (\<lambda>ip. \<lparr>MachineAddress_Type = MachineExternalIP, MachineAddress_Address = ip\<rparr>) ips @ hs) = None"
    if "\<forall>h \<in> set hs. MachineAddress_Type h = MachineHostName" for ips hs
    using that by (auto simp: find_None_iff MachineExternalIP_def MachineHostName_def MachineInternalIP_def)
  show ?thesis
    using Cons none [of "if Server_Hostname srv \<noteq> []
        then [\<lparr>MachineAddress_Type = MachineHostName, MachineAddress_Address = Server_Hostname srv\<rparr>] else []" ips]
    by (auto simp: endpoint_address_def first_address_def server_addresses_def Let_def MachineInternalIP_def
        MachineExternalIP_def split: option.splits)
qed

text \<open>What the real client answers is what the SDK said about that server.\<close>

lemma answered_client:
  assumes "answered (Client sdk) srv"
  obtains w d attrs w' where "Servers_Get sdk (Server_ID srv) w = (Inr (Some (Some d)), w')"
    "SDKServerData_Attributes d = Some attrs"
    "Server_IPAddress srv = (case SDKServer_PrimaryIpv4 attrs of None \<Rightarrow> [] | Some ip \<Rightarrow> [ip])"
proof -
  from assms obtain i w w' where "client_GetServer sdk i w = (Ok (Inr srv), w')"
    by (auto simp: answered_def Client_def)
  then have "\<exists>d attrs. Servers_Get sdk (Server_ID srv) w = (Inr (Some (Some d)), w') \<and>
      SDKServerData_Attributes d = Some attrs \<and>
      Server_IPAddress srv = (case SDKServer_PrimaryIpv4 attrs of None \<Rightarrow> [] | Some ip \<Rightarrow> [ip])"
    by (auto simp: client_GetServer_def go_defs split: prod.splits sum.splits option.splits) (metis option.inject)+
  with that show thesis by blast
qed

text \<open>A machine that the real client over \<open>bench_sdk\<close> has made ready.\<close>

definition bench_up :: LatitudeMachine where
  "bench_up = Bench_Machine (Report_World (machine_Reconcile (bench_kube bench_control_plane) (Client bench_sdk) bench_key
     (bench_world bench_created)))"

lemma bench_up_run:
  "MachineStatus_Ready (lm_status bench_up)" "MachineStatus_ServerID (lm_status bench_up) = ''mock-server-id''"
  "endpoint_address (MachineStatus_Addresses (lm_status bench_up)) = ''203.0.113.5''"
  "CallPatch bench_up \<in> set (Report_Calls (machine_Reconcile (bench_kube bench_control_plane) (Client bench_sdk) bench_key
     (bench_world bench_created)))"
  by (simp_all add: bench_up_def machine_run_defs go_defs bench_defs bench_created_def Client_def client_GetServer_def
      bench_sdk_def mark_server_ready_def SetProviderID_def SetReady_def with_provider_id_def machine_SetConditions_def
      server_is_ready_def server_addresses_def endpoint_address_def first_address_def MachineInternalIP_def
      MachineExternalIP_def MachineHostName_def)

text \<open>
  C4: What the machine controller publishes is what the cluster controller needs, with the real client between them
  and the SDK. Take a machine that was not ready, run the machine controller over it any number of times,
  with failing patches and edits in between, until it is ready, and let the cluster controller find it as
  the infrastructure machine of the first control plane machine: if the machine publishes an address for it
  at all, the endpoint becomes an address the SDK answered as the primary IPv4 of the very server the
  machine records, with port 6443, and never a host name.
\<close>

theorem endpoint_of_reconciled_machine:
  assumes run: "(machine_step km (Client sdk))\<^sup>*\<^sup>* fresh lm"
    and fresh: "\<not> MachineStatus_Ready (lm_status fresh)" and ready: "MachineStatus_Ready (lm_status lm)"
    and unset: "endpoint_host (object s) = []"
    and machines: "List_Machines k (ObjectMeta_Namespace (Cluster_ObjectMeta cluster))
        (ObjectMeta_Name (Cluster_ObjectMeta cluster)) (world s) = (Inr items, w1)"
    and first: "find (IsControlPlaneMachine k) items = Some m"
    and ref: "ObjectReference_Name (Machine_InfrastructureRef m) \<noteq> []"
    and infra: "Get_LatitudeMachine k
        \<lparr>ObjectKey_Namespace = ObjectReference_Namespace (Machine_InfrastructureRef m),
         ObjectKey_Name = ObjectReference_Name (Machine_InfrastructureRef m)\<rparr> w1 = (Inr lm, w2)"
    and address: "endpoint_address (MachineStatus_Addresses (lm_status lm)) \<noteq> []"
    and cluster: "discover_endpoint k cluster s = (r, t)"
  shows "\<exists>w d attrs w'. Servers_Get sdk (MachineStatus_ServerID (lm_status lm)) w = (Inr (Some (Some d)), w') \<and>
    SDKServerData_Attributes d = Some attrs \<and>
    SDKServer_PrimaryIpv4 attrs = Some (endpoint_host (object t)) \<and>
    APIEndpoint_Port (ClusterStatus_ControlPlaneEndpoint (lc_status (object t))) = 6443 \<and>
    r = Ok (done_result, None)"
proof -
  have "backed (Client sdk) fresh" using fresh by (simp add: backed_def)
  from backed_run.reach_keeps [OF run this] ready obtain srv where srv: "answered (Client sdk) srv"
    "Server_ID srv = MachineStatus_ServerID (lm_status lm)" "MachineStatus_Addresses (lm_status lm) = server_addresses srv"
    by (auto simp: backed_def)
  note found = discovered_endpoint [OF unset machines first ref infra ready address cluster]
  from srv(1) obtain w d attrs w' where sdk: "Servers_Get sdk (Server_ID srv) w = (Inr (Some (Some d)), w')"
    "SDKServerData_Attributes d = Some attrs"
    "Server_IPAddress srv = (case SDKServer_PrimaryIpv4 attrs of None \<Rightarrow> [] | Some ip \<Rightarrow> [ip])"
    by (rule answered_client)
  from address obtain ip where "SDKServer_PrimaryIpv4 attrs = Some ip" "Server_IPAddress srv = [ip]"
    using sdk(3) by (cases "SDKServer_PrimaryIpv4 attrs") (simp_all add: srv(3) endpoint_address_server)
  then show ?thesis
    using found srv sdk(1,2) by (intro exI [of _ w] exI [of _ d] exI [of _ attrs] exI [of _ w'])
      (simp add: endpoint_address_server)
qed

theorem endpoint_of_reconciled_machine_witness:
  "\<exists>w d attrs w'. Servers_Get bench_sdk ''mock-server-id'' (w :: bench) = (Inr (Some (Some d)), w') \<and>
     SDKServerData_Attributes d = Some attrs \<and>
     SDKServer_PrimaryIpv4 attrs = Some (endpoint_host (object (snd (discover_endpoint (bench_kube bench_control_plane)
       (NewCluster ''test-cluster'' ''default'') (start (bench_world bench_up) (mark_cluster_ready bench_lc))))))"
proof -
  let ?k = "bench_kube bench_control_plane"
  let ?c = "NewCluster ''test-cluster'' ''default''"
  let ?s = "start (bench_world bench_up) (mark_cluster_ready bench_lc)"
  obtain r t where cluster: "discover_endpoint ?k ?c ?s = (r, t)" by fastforce
  have get: "Get_LatitudeMachine ?k key (bench_world lm) = (Inr lm, bench_world lm)" for key lm
    by (simp add: bench_world_def)
  have run: "(machine_step ?k (Client bench_sdk))\<^sup>*\<^sup>* bench_created bench_up"
    by (rule r_into_rtranclp) (rule step_request [OF get bench_up_run(4)])
  have fresh: "\<not> MachineStatus_Ready (lm_status bench_created)" by (simp add: bench_defs bench_created_def)
  have unset: "endpoint_host (object ?s) = []" by (simp add: bench_defs)
  have machines: "List_Machines ?k ns name (world ?s) = (Inr [bench_control_plane], bench_world bench_up)" for ns name
    by simp
  have infra: "Get_LatitudeMachine ?k key (bench_world bench_up) = (Inr bench_up, bench_world bench_up)" for key
    by (rule get)
  have address: "endpoint_address (MachineStatus_Addresses (lm_status bench_up)) \<noteq> []"
    by (simp add: bench_up_run(3))
  from endpoint_of_reconciled_machine [OF run fresh bench_up_run(1) unset machines bench_endpoint(3,4) infra address cluster]
  show ?thesis using cluster bench_up_run(2) by auto
qed

end
